(* ===== verification/Prelude.thy ===== *)
theory Prelude
  imports Main
begin

text \<open>
  What every component shares: the JavaScript values \<open>undefined\<close> and \<open>null\<close>
  beside a proper value, truthiness and the operators \<open>||\<close> and \<open>??\<close>, template
  literals, the string methods the code calls, and the result of an async function as a
  state transformer that either returns or throws.

  Strings are Isabelle strings (lists of 8-bit characters), so a JavaScript string is
  modelled for code units up to U+00FF.
\<close>

named_theorems js_simps "evaluation of JavaScript operators"
named_theorems io_simps "evaluation of async code on a known result"
named_theorems handler_defs "definitions of handlers, middleware and services"

section \<open>Undefined, null and values\<close>

datatype 'a js = Undef | Null | Val 'a

abbreviation nullish :: "'a js \<Rightarrow> bool" where
  "nullish v \<equiv> v = Undef \<or> v = Null"

text \<open>The operator \<open>??\<close>: the right operand only for \<open>undefined\<close> and \<open>null\<close>.\<close>

fun coalesce :: "'a js \<Rightarrow> 'a js \<Rightarrow> 'a js" where
  "coalesce (Val x) d = Val x"
| "coalesce Undef d = d"
| "coalesce Null d = d"

text \<open>Truthiness of a string: neither \<open>undefined\<close>, \<open>null\<close> nor the empty string.\<close>

fun truthy :: "string js \<Rightarrow> bool" where
  "truthy (Val s) = (s \<noteq> [])"
| "truthy Undef = False"
| "truthy Null = False"

text \<open>The operator \<open>||\<close> between a string and a default string.\<close>

fun or_else :: "string js \<Rightarrow> string \<Rightarrow> string" where
  "or_else (Val s) d = (if s = [] then d else s)"
| "or_else Undef d = d"
| "or_else Null d = d"

text \<open>What a template literal prints for \<open>${v}\<close>.\<close>

fun interp :: "string js \<Rightarrow> string" where
  "interp (Val s) = s"
| "interp Undef = ''undefined''"
| "interp Null = ''null''"

fun js_map :: "('a \<Rightarrow> 'b) \<Rightarrow> 'a js \<Rightarrow> 'b js" where
  "js_map f (Val x) = Val (f x)"
| "js_map f Undef = Undef"
| "js_map f Null = Null"

text \<open>An omitted argument is \<open>undefined\<close>, which is what a default parameter replaces.\<close>

fun js_of_option :: "'a option \<Rightarrow> 'a js" where
  "js_of_option None = Undef"
| "js_of_option (Some x) = Val x"

fun with_default :: "'a js \<Rightarrow> 'a \<Rightarrow> 'a js" where
  "with_default Undef d = Val d"
| "with_default Null d = Null"
| "with_default (Val x) d = Val x"

lemma truthy_iff: "truthy v \<longleftrightarrow> (\<exists>c s. v = Val (c # s))"
proof (cases v)
  case (Val x)
  then show ?thesis by (cases x) auto
qed auto

lemma or_else_truthy [js_simps]: "truthy v \<Longrightarrow> or_else v d = interp v"
  by (cases v) auto

lemma or_else_falsy [js_simps]: "\<not> truthy v \<Longrightarrow> or_else v d = d"
  by (cases v) auto

lemma coalesce_not_nullish [js_simps]: "\<not> nullish v \<Longrightarrow> coalesce v d = v"
  by (cases v) auto

section \<open>String methods\<close>

text \<open>\<open>s.split(c)\<close> for a separator of one character.\<close>

fun js_split :: "char \<Rightarrow> string \<Rightarrow> string list" where
  "js_split c [] = [[]]"
| "js_split c (x # xs) =
     (if x = c then [] # js_split c xs
      else (case js_split c xs of [] \<Rightarrow> [[x]] | p # ps \<Rightarrow> (x # p) # ps))"

text \<open>\<open>xs.join(sep)\<close>.\<close>

fun js_join :: "string \<Rightarrow> string list \<Rightarrow> string" where
  "js_join sep [] = []"
| "js_join sep [x] = x"
| "js_join sep (x # y # ys) = x @ sep @ js_join sep (y # ys)"

text \<open>An element of an array by index; reading past the end is \<open>undefined\<close>.\<close>

fun js_nth :: "'a list \<Rightarrow> nat \<Rightarrow> 'a js" where
  "js_nth [] n = Undef"
| "js_nth (x # xs) 0 = Val x"
| "js_nth (x # xs) (Suc n) = js_nth xs n"

fun is_prefix :: "string \<Rightarrow> string \<Rightarrow> bool" where
  "is_prefix [] ys = True"
| "is_prefix (x # xs) [] = False"
| "is_prefix (x # xs) (y # ys) = (x = y \<and> is_prefix xs ys)"

text \<open>\<open>s.includes(p)\<close>.\<close>

fun js_includes :: "string \<Rightarrow> string \<Rightarrow> bool" where
  "js_includes p [] = (p = [])"
| "js_includes p (x # xs) = (is_prefix p (x # xs) \<or> js_includes p xs)"

lemma js_split_not_Nil [simp]: "js_split c s \<noteq> []"
  by (induction s) (auto split: list.splits)

lemma js_split_no_sep: "c \<notin> set s \<Longrightarrow> js_split c s = [s]"
  by (induction s) auto

lemma js_split_append: "c \<notin> set s \<Longrightarrow> js_split c (s @ c # t) = s # js_split c t"
  by (induction s) auto

lemma js_split_sep: "js_split c (s @ c # t) = js_split c s @ js_split c t"
proof (induction s)
  case (Cons x s)
  then show ?case by (cases "js_split c s") auto
qed simp

lemma js_split_pieces: "p \<in> set (js_split c s) \<Longrightarrow> c \<notin> set p"
proof (induction s arbitrary: p)
  case (Cons x xs)
  then show ?case by (cases "js_split c xs") (auto split: if_splits)
qed auto

lemma js_join_Cons: "xs \<noteq> [] \<Longrightarrow> js_join sep (x # xs) = x @ sep @ js_join sep xs"
  by (cases xs) auto

lemma js_join_split: "js_join [c] (js_split c s) = s"
proof (induction s)
  case (Cons x xs)
  show ?case
  proof (cases "js_split c xs")
    case Nil
    then show ?thesis by simp
  next
    case (Cons p ps)
    with Cons.IH show ?thesis by (cases ps) auto
  qed
qed simp

lemma js_split_join:
  "xs \<noteq> [] \<Longrightarrow> (\<And>x. x \<in> set xs \<Longrightarrow> c \<notin> set x) \<Longrightarrow> js_split c (js_join [c] xs) = xs"
proof (induction xs)
  case (Cons x xs)
  then show ?case
    by (cases xs) (simp_all add: js_split_no_sep js_split_append)
qed simp

lemma is_prefix_iff: "is_prefix p s \<longleftrightarrow> (\<exists>t. s = p @ t)"
proof (induction p s rule: is_prefix.induct)
  case (2 x xs)
  then show ?case by simp
qed auto

lemma js_includes_iff: "js_includes p s \<longleftrightarrow> (\<exists>a b. s = a @ p @ b)"
proof (induction s)
  case (Cons x xs)
  have "(\<exists>a b. x # xs = a @ p @ b) \<longleftrightarrow> (\<exists>b. x # xs = p @ b) \<or> (\<exists>a b. xs = a @ p @ b)"
    by (metis append_Cons append_Nil neq_Nil_conv list.inject)
  with Cons show ?case by (simp add: is_prefix_iff)
qed auto

section \<open>Decimal numbers\<close>

text \<open>\<open>String(n)\<close> for an integer, and the number a string of digits denotes.\<close>

definition digit :: "nat \<Rightarrow> char" where
  "digit n = char_of (48 + n)"

definition is_digit :: "char \<Rightarrow> bool" where
  "is_digit c \<longleftrightarrow> 48 \<le> (of_char c :: nat) \<and> (of_char c :: nat) \<le> 57"

fun show_nat :: "nat \<Rightarrow> string" where
  "show_nat n = (if n < 10 then [digit n] else show_nat (n div 10) @ [digit (n mod 10)])"

declare show_nat.simps [simp del]

definition show_int :: "int \<Rightarrow> string" where
  "show_int i = (if i < 0 then CHR ''-'' # show_nat (nat (- i)) else show_nat (nat i))"

definition read_nat :: "string \<Rightarrow> nat" where
  "read_nat s = foldl (\<lambda>n c. 10 * n + (of_char c - 48)) 0 s"

lemma of_char_digit [simp]: "n < 10 \<Longrightarrow> of_char (digit n) = 48 + n"
  by (simp add: digit_def)

lemma is_digit_digit [simp]: "n < 10 \<Longrightarrow> is_digit (digit n)"
  by (simp add: is_digit_def)

lemma show_nat_digits: "\<forall>c \<in> set (show_nat n). is_digit c"
proof (induction n rule: show_nat.induct)
  case (1 n)
  then show ?case by (subst show_nat.simps) auto
qed

lemma show_nat_not_Nil [simp]: "show_nat n \<noteq> []"
  by (subst show_nat.simps) simp

lemma read_show_nat: "read_nat (show_nat n) = n"
proof (induction n rule: show_nat.induct)
  case (1 n)
  then show ?case
    by (subst show_nat.simps) (simp add: read_nat_def)
qed

lemma show_nat_inj: "show_nat m = show_nat n \<longleftrightarrow> m = n"
  by (metis read_show_nat)

lemma digit_not_in: "\<not> is_digit c \<Longrightarrow> c \<notin> set (show_nat n)"
  using show_nat_digits by blast

section \<open>Async functions\<close>

text \<open>
  An async function of the code reads and changes a state and then resolves with a value
  (\<open>Inr\<close>) or rejects with an exception (\<open>Inl\<close>). State changes made before a throw
  stay, as they do in the code.
\<close>

type_synonym ('s, 'e, 'a) io = "'s \<Rightarrow> ('e + 'a) \<times> 's"

definition ret :: "'a \<Rightarrow> ('s, 'e, 'a) io" where
  "ret x s = (Inr x, s)"

definition throw :: "'e \<Rightarrow> ('s, 'e, 'a) io" where
  "throw e s = (Inl e, s)"

definition andThen :: "('s, 'e, 'a) io \<Rightarrow> ('a \<Rightarrow> ('s, 'e, 'b) io) \<Rightarrow> ('s, 'e, 'b) io" where
  "andThen m f s = (case m s of (Inl e, t) \<Rightarrow> (Inl e, t) | (Inr x, t) \<Rightarrow> f x t)"

definition catch :: "('s, 'e, 'a) io \<Rightarrow> ('e \<Rightarrow> ('s, 'e, 'a) io) \<Rightarrow> ('s, 'e, 'a) io" where
  "catch m h s = (case m s of (Inl e, t) \<Rightarrow> h e t | (Inr x, t) \<Rightarrow> (Inr x, t))"

definition of_sum :: "'e + 'a \<Rightarrow> ('s, 'e, 'a) io" where
  "of_sum r s = (r, s)"

lemma ret_apply [simp]: "ret x s = (Inr x, s)"
  by (simp add: ret_def)

lemma throw_apply [simp]: "throw e s = (Inl e, s)"
  by (simp add: throw_def)

lemma of_sum_apply [simp]: "of_sum r s = (r, s)"
  by (simp add: of_sum_def)

lemma andThen_Inr [io_simps]: "m s = (Inr x, t) \<Longrightarrow> andThen m f s = f x t"
  by (simp add: andThen_def)

lemma andThen_Inl [io_simps]: "m s = (Inl e, t) \<Longrightarrow> andThen m f s = (Inl e, t)"
  by (simp add: andThen_def)

lemma catch_Inr [io_simps]: "m s = (Inr x, t) \<Longrightarrow> catch m h s = (Inr x, t)"
  by (simp add: catch_def)

lemma catch_Inl [io_simps]: "m s = (Inl e, t) \<Longrightarrow> catch m h s = h e t"
  by (simp add: catch_def)

lemma andThen_ret [simp]: "andThen (ret x) f = f x"
  by (rule ext) (simp add: andThen_def)

lemma andThen_throw [simp]: "andThen (throw e) f = throw e"
  by (rule ext) (simp add: andThen_def)

lemma andThen_assoc: "andThen (andThen m f) g = andThen m (\<lambda>x. andThen (f x) g)"
  by (rule ext) (simp add: andThen_def split: prod.splits sum.splits)

lemma andThen_cases:
  assumes "andThen m f s = (r, s')"
  obtains (throws) e where "m s = (Inl e, s')" and "r = Inl e"
  | (returns) x t where "m s = (Inr x, t)" and "f x t = (r, s')"
  using assms by (auto simp: andThen_def split: prod.splits sum.splits)

lemma andThen_InrE:
  assumes "andThen m f s = (Inr y, s')"
  obtains x t where "m s = (Inr x, t)" and "f x t = (Inr y, s')"
  using assms by (auto simp: andThen_def split: prod.splits sum.splits)

lemma andThen_eq_Inr:
  "andThen m f s = (Inr y, s') \<longleftrightarrow> (\<exists>x t. m s = (Inr x, t) \<and> f x t = (Inr y, s'))"
  by (auto simp: andThen_def split: prod.splits sum.splits)

lemma andThen_eq_Inl:
  "andThen m f s = (Inl e, s') \<longleftrightarrow>
     m s = (Inl e, s') \<or> (\<exists>x t. m s = (Inr x, t) \<and> f x t = (Inl e, s'))"
  by (auto simp: andThen_def split: prod.splits sum.splits)

text \<open>A property of the state that a piece of async code keeps whatever it returns.\<close>

definition keeps :: "('s \<Rightarrow> 's \<Rightarrow> bool) \<Rightarrow> ('s, 'e, 'a) io \<Rightarrow> bool" where
  "keeps R m \<longleftrightarrow> (\<forall>s. R s (snd (m s)))"

lemma keepsD: "keeps R m \<Longrightarrow> m s = (r, t) \<Longrightarrow> R s t"
  unfolding keeps_def by (metis snd_conv)

lemma keeps_andThen:
  assumes "keeps R m" and "\<And>x. keeps R (f x)" and "transp R"
  shows "keeps R (andThen m f)"
  using assms unfolding keeps_def andThen_def transp_def
  by (auto split: prod.splits sum.splits) (metis snd_conv)+

end
