(* ===== verification/Errors.thy ===== *)
theory Errors
  imports Prelude
begin

text \<open>
  The error classes of src/error/index.ts, the exceptions the rest of the code can see, and
  the error handler at the end of src/app.ts that turns an exception into a response.
\<close>

section \<open>The classes of src/error/index.ts\<close>

datatype error_class =
    AppErrorClass
  | BadRequestClass
  | UnauthorizedClass
  | ForbiddenClass
  | NotFoundClass
  | EntityNotFoundClass
  | RequestTimeoutClass
  | ConflictClass
  | TooManyRequestClass
  | InternalServerErrorClass

record app_error =
  err_class :: error_class
  err_message :: string
  err_status :: nat
  err_code :: string

text \<open>
  Constructors. An argument that is not passed takes the default parameter's value. A subclass
  calls \<open>super()\<close> and then sets its own fields, so its \<open>statusCode\<close> initialiser wins.
\<close>

fun arg :: "'a option \<Rightarrow> 'a \<Rightarrow> 'a" where
  "arg None d = d"
| "arg (Some x) d = x"

definition AppError :: "string option \<Rightarrow> nat option \<Rightarrow> string option \<Rightarrow> app_error" where
  "AppError message statusCode code =
     \<lparr>err_class = AppErrorClass,
      err_message = arg message ''Internal server error'',
      err_status = arg statusCode 500,
      err_code = arg code ''INTERNAL_SERVER_ERROR''\<rparr>"

definition BadRequestError :: "string option \<Rightarrow> string option \<Rightarrow> app_error" where
  "BadRequestError message code =
     (AppError None None None)
       \<lparr>err_class := BadRequestClass, err_message := arg message ''Bad Request'',
        err_code := arg code ''BAD_REQUEST'', err_status := 400\<rparr>"

definition UnauthorizedError :: "string option \<Rightarrow> string option \<Rightarrow> app_error" where
  "UnauthorizedError message code =
     (AppError None None None)
       \<lparr>err_class := UnauthorizedClass, err_message := arg message ''Unauthorized'',
        err_code := arg code ''UNAUTHORIZED'', err_status := 401\<rparr>"

definition ForbiddenError :: "string option \<Rightarrow> string option \<Rightarrow> app_error" where
  "ForbiddenError message code =
     (AppError None None None)
       \<lparr>err_class := ForbiddenClass, err_message := arg message ''Forbidden'',
        err_code := arg code ''FORBIDDEN'', err_status := 403\<rparr>"

definition NotFoundError :: "string option \<Rightarrow> string option \<Rightarrow> app_error" where
  "NotFoundError message code =
     (AppError None None None)
       \<lparr>err_class := NotFoundClass, err_message := arg message ''Not found'',
        err_code := arg code ''NOT_FOUND'', err_status := 404\<rparr>"

text \<open>\<open>toUpperCase\<close> on the letters a to z, which is what entity names are made of.\<close>

definition upper_char :: "char \<Rightarrow> char" where
  "upper_char c = (if 97 \<le> (of_char c :: nat) \<and> (of_char c :: nat) \<le> 122
                   then char_of ((of_char c :: nat) - 32) else c)"

definition EntityNotFoundError :: "string \<Rightarrow> string \<Rightarrow> app_error" where
  "EntityNotFoundError id_text entity =
     (NotFoundError
        (Some (''Could not find any matching record: '' @ id_text @ '' for entity of type '' @ entity))
        (Some (map upper_char entity @ ''_NOT_FOUND'')))
       \<lparr>err_class := EntityNotFoundClass\<rparr>"

definition RequestTimeoutError :: "string option \<Rightarrow> string option \<Rightarrow> app_error" where
  "RequestTimeoutError message code =
     (AppError None None None)
       \<lparr>err_class := RequestTimeoutClass, err_message := arg message ''Request timeout'',
        err_code := arg code ''REQUEST_TIMEOUT'', err_status := 408\<rparr>"

definition ConflictError :: "string option \<Rightarrow> string option \<Rightarrow> app_error" where
  "ConflictError message code =
     (AppError None None None)
       \<lparr>err_class := ConflictClass, err_message := arg message ''Conflict'',
        err_code := arg code ''CONFLICT'', err_status := 409\<rparr>"

definition TooManyRequest :: "string option \<Rightarrow> string option \<Rightarrow> app_error" where
  "TooManyRequest message code =
     (AppError None None None)
       \<lparr>err_class := TooManyRequestClass,
        err_message := arg message ''Too many requests, please try again later.'',
        err_code := arg code ''TOO_MANY_REQUEST'', err_status := 429\<rparr>"

text \<open>This class keeps the constructor of \<open>AppError\<close> and then resets the status.\<close>

definition InternalServerError :: "string option \<Rightarrow> nat option \<Rightarrow> string option \<Rightarrow> app_error" where
  "InternalServerError message statusCode code =
     (AppError message statusCode code)
       \<lparr>err_class := InternalServerErrorClass, err_status := 500\<rparr>"

lemmas error_class_defs =
  AppError_def BadRequestError_def UnauthorizedError_def ForbiddenError_def NotFoundError_def
  EntityNotFoundError_def RequestTimeoutError_def ConflictError_def TooManyRequest_def
  InternalServerError_def

section \<open>JSON values and exceptions\<close>

datatype json =
    JUndef
  | JNull
  | JBool bool
  | JNum int
  | JStr string
  | JDate int
  | JArr "json list"
  | JObj "(string \<times> json) list"

text \<open>A \<open>Date\<close> (in milliseconds) is kept apart from a number: it prints as an ISO string.\<close>

fun json_of :: "string js \<Rightarrow> json" where
  "json_of Undef = JUndef"
| "json_of Null = JNull"
| "json_of (Val s) = JStr s"

text \<open>
  What a handler can throw: an error of the classes above, express-validation's
  \<open>ValidationError\<close> (with the status it carries and the JSON it prints as), and any other
  \<open>Error\<close> with its \<open>name\<close> and \<open>message\<close>, which is what the libraries throw. A promise
  can also be rejected with \<open>null\<close> (the callbacks in src/service/token.ts do so when there is
  neither an error nor a value).
\<close>

datatype exn =
    AppExn app_error
  | ValidationExn nat json
  | OtherExn string "string js"
  | NullExn

text \<open>
  \<open>error?.name\<close>: no class of src/error/index.ts sets it, so it is that of \<open>Error\<close>.
\<close>

fun error_name :: "exn \<Rightarrow> string js" where
  "error_name (AppExn e) = Val ''Error''"
| "error_name (ValidationExn n m) = Val ''ValidationError''"
| "error_name (OtherExn n m) = Val n"
| "error_name NullExn = Undef"

abbreviation bad_request :: "string \<Rightarrow> string \<Rightarrow> exn" where
  "bad_request m c \<equiv> AppExn (BadRequestError (Some m) (Some c))"

abbreviation unauthorized :: "string \<Rightarrow> string \<Rightarrow> exn" where
  "unauthorized m c \<equiv> AppExn (UnauthorizedError (Some m) (Some c))"

section \<open>Responses\<close>

record cookie =
  ck_name :: string
  ck_value :: string
  ck_maxAge :: int
  ck_secure :: bool
  ck_httpOnly :: bool
  ck_sameSite :: string

text \<open>\<open>sendStatus\<close> sends a status with its reason phrase, \<open>json\<close> sends a value.\<close>

datatype payload = StatusText | JsonBody json

record response =
  resp_status :: nat
  resp_body :: payload
  resp_cookies :: "cookie list"

definition json_response :: "nat \<Rightarrow> json \<Rightarrow> response" where
  "json_response n j = \<lparr>resp_status = n, resp_body = JsonBody j, resp_cookies = []\<rparr>"

definition sendStatus :: "nat \<Rightarrow> response" where
  "sendStatus n = \<lparr>resp_status = n, resp_body = StatusText, resp_cookies = []\<rparr>"

section \<open>The error handler of src/app.ts\<close>

text \<open>
  \<open>stack\<close> stands for the stack trace text; the field is spread into the body only when
  \<open>config.isDev\<close>. \<open>err?.statusCode || 500\<close> replaces a status of 0.
\<close>

definition dev_stack :: "bool \<Rightarrow> string \<Rightarrow> (string \<times> json) list" where
  "dev_stack isDev stack = (if isDev then [(''stack'', JStr stack)] else [])"

fun error_handler :: "bool \<Rightarrow> string \<Rightarrow> exn \<Rightarrow> response" where
  "error_handler isDev stack (AppExn e) =
     json_response (if err_status e = 0 then 500 else err_status e)
       (JObj ([(''message'', JStr (err_message e)), (''code'', JStr (err_code e))]
              @ dev_stack isDev stack))"
| "error_handler isDev stack (ValidationExn n j) = json_response n j"
| "error_handler isDev stack (OtherExn n m) =
     json_response 500
       (JObj ([(''message'', JStr (case m of Val t \<Rightarrow> t | _ \<Rightarrow> ''Internal Server Error'')),
               (''code'', JStr ''INTERNAL_SERVER_ERROR'')]
              @ dev_stack isDev stack))"
| "error_handler isDev stack NullExn =
     json_response 500 (JObj ([(''message'', JStr ''Internal Server Error''),
                               (''code'', JStr ''INTERNAL_SERVER_ERROR'')]
                              @ dev_stack isDev stack))"

text \<open>The last middleware before it: no route matched.\<close>

definition not_found_exn :: "string \<Rightarrow> string \<Rightarrow> exn" where
  "not_found_exn method originalUrl =
     AppExn (NotFoundError
       (Some (''We are unable to locate requested API resource: ['' @ method @ ''] '' @ originalUrl))
       (Some ''API_ENDPOINT_NOT_FOUND''))"

text \<open>
  What the client receives for the outcome of a route. \<open>next(null)\<close> is \<open>next()\<close> to
  Express: a null rejection falls through to the middleware for unmatched requests.
\<close>

fun final_response ::
    "bool \<Rightarrow> string \<Rightarrow> string \<Rightarrow> string \<Rightarrow> exn + response \<Rightarrow> response" where
  "final_response isDev stack method url (Inr r) = r"
| "final_response isDev stack method url (Inl NullExn) =
     error_handler isDev stack (not_found_exn method url)"
| "final_response isDev stack method url (Inl e) = error_handler isDev stack e"

lemma error_class_status [simp]:
  "err_status (BadRequestError m c) = 400"
  "err_status (UnauthorizedError m c) = 401"
  "err_status (ForbiddenError m c) = 403"
  "err_status (NotFoundError m c) = 404"
  "err_status (EntityNotFoundError i n) = 404"
  "err_status (RequestTimeoutError m c) = 408"
  "err_status (ConflictError m c) = 409"
  "err_status (TooManyRequest m c) = 429"
  "err_status (InternalServerError m s c) = 500"
  by (simp_all add: error_class_defs)

lemma error_handler_status [simp]:
  "resp_status (error_handler d st (AppExn e)) = (if err_status e = 0 then 500 else err_status e)"
  "resp_status (error_handler d st (OtherExn n m)) = 500"
  "resp_status (error_handler d st (ValidationExn n' j)) = n'"
  "resp_status (error_handler d st NullExn) = 500"
  by (simp_all add: json_response_def)

end
