(* ===== verification/Constants.thy ===== *)
theory Constants
  imports Prelude
begin

text \<open>
  The enums and tables of src/constants.ts and the messages of src/api-message-constants.ts.
  A string enum is a datatype with the function that gives each member's string, because the
  code compares and stores the strings.
\<close>

section \<open>Enums\<close>

datatype token_kind = FORGETPASSWORD | ACCESS | REFRESH

fun Token :: "token_kind \<Rightarrow> string" where
  "Token FORGETPASSWORD = ''forget_password_token''"
| "Token ACCESS = ''access_token''"
| "Token REFRESH = ''refresh_token''"

datatype media = MEDIA_USER | MEDIA_COMPANY | MEDIA_APK | MEDIA_FACTORY

fun Media :: "media \<Rightarrow> string" where
  "Media MEDIA_USER = ''user''"
| "Media MEDIA_COMPANY = ''company''"
| "Media MEDIA_APK = ''APK''"
| "Media MEDIA_FACTORY = ''factory''"

datatype propane_user_type = SUPER_ADMIN | ADMIN | VENDOR | DRIVER | USER | SUB_ADMIN

fun PropaneUserType :: "propane_user_type \<Rightarrow> string" where
  "PropaneUserType SUPER_ADMIN = ''super_admin''"
| "PropaneUserType ADMIN = ''admin''"
| "PropaneUserType VENDOR = ''vendor''"
| "PropaneUserType DRIVER = ''driver''"
| "PropaneUserType USER = ''user''"
| "PropaneUserType SUB_ADMIN = ''sub_admin''"

text \<open>\<open>Object.values(PropaneUserType)\<close>.\<close>

definition PropaneUserType_values :: "string list" where
  "PropaneUserType_values =
     map PropaneUserType [SUPER_ADMIN, ADMIN, VENDOR, DRIVER, USER, SUB_ADMIN]"

datatype api_method = GET | PUT | POST | PATCH | DELETE

fun ApiMethods :: "api_method \<Rightarrow> string" where
  "ApiMethods GET = ''GET''"
| "ApiMethods PUT = ''PUT''"
| "ApiMethods POST = ''POST''"
| "ApiMethods PATCH = ''PATCH''"
| "ApiMethods DELETE = ''DELETE''"

text \<open>The operator \<open>||\<close> between two enum members: the left one unless it is empty.\<close>

definition or_str :: "string \<Rightarrow> string \<Rightarrow> string" where
  "or_str a b = (if a = [] then b else a)"

lemma Token_inj [simp]: "Token k = Token k' \<longleftrightarrow> k = k'"
  by (cases k; cases k') simp_all

lemma PropaneUserType_inj [simp]: "PropaneUserType a = PropaneUserType b \<longleftrightarrow> a = b"
  by (cases a; cases b) simp_all

lemma PropaneUserType_not_Nil [simp]: "PropaneUserType a \<noteq> []"
  by (cases a) simp_all

lemma ApiMethods_inj [simp]: "ApiMethods a = ApiMethods b \<longleftrightarrow> a = b"
  by (cases a; cases b) simp_all

lemma Media_inj [simp]: "Media a = Media b \<longleftrightarrow> a = b"
  by (cases a; cases b) simp_all

lemma or_str_enum [simp]: "or_str (PropaneUserType a) b = PropaneUserType a"
  by (simp add: or_str_def)

lemma PropaneUserType_values_iff:
  "s \<in> set PropaneUserType_values \<longleftrightarrow> (\<exists>t. s = PropaneUserType t)"
proof
  assume "\<exists>t. s = PropaneUserType t"
  then obtain t where "s = PropaneUserType t" ..
  then show "s \<in> set PropaneUserType_values"
    by (cases t) (simp_all add: PropaneUserType_values_def)
qed (auto simp: PropaneUserType_values_def simp del: PropaneUserType.simps)

text \<open>
  From here on the members are told apart by these facts, not by their strings.
\<close>

declare Token.simps [simp del] PropaneUserType.simps [simp del] ApiMethods.simps [simp del]
  Media.simps [simp del]

lemmas enum_strings = Token.simps PropaneUserType.simps ApiMethods.simps Media.simps

section \<open>Route tables\<close>

definition PropaneBaseRoutes :: "string list" where
  "PropaneBaseRoutes = [
     ''/dashboard'', ''/governmentHolidays'', ''/deliverylocations'', ''/membershipPlans'',
     ''/emailtemplates'', ''/vendorProducts'', ''/notifications'', ''/cylinderSize'',
     ''/appsettings'', ''/accessories'', ''/testPayment'', ''/driverOrder'', ''/manageStock'',
     ''/promocodes'', ''/categories'', ''/timeslots'', ''/customers'', ''/subAdmins'',
     ''/usercards'', ''/cmspages'', ''/products'', ''/earnings'', ''/reports'', ''/zipcodes'',
     ''/counties'', ''/vendors'', ''/ratings'', ''/modules'', ''/drivers'', ''/states'',
     ''/orders'', ''/users'', ''/mocky'', ''/roles'', ''/cart'', ''/auth'', ''/faqs'', ''/faq'',
     ''/map'']"

text \<open>
  The object from module ids to base routes, as the list of its entries in the order
  \<open>Object.keys\<close> visits them (integer keys ascend).
\<close>

definition MapPropaneBaseRoutes :: "(int \<times> string list) list" where
  "MapPropaneBaseRoutes = [
     (1, [''/dashboard'']),
     (3, [''/orders'']),
     (4, [''/orders'']),
     (5, [''/orders'']),
     (6, [''/map'']),
     (7, [''customers'']),
     (8, [''/vendors'']),
     (10, [''/drivers'']),
     (11, [''/drivers'']),
     (12, [''/drivers'']),
     (14, [''/products'']),
     (15, [''/accessories'']),
     (16, [''/cylinderSize'']),
     (17, [''/states'', ''/counties'', ''/zipcodes'']),
     (18, [''/deliverylocations'']),
     (19, [''/promocodes'']),
     (20, [''/reports'']),
     (21, [''/earnings'']),
     (22, [''/users'']),
     (23, [''/timeslots'']),
     (24, [''/governmentHolidays'']),
     (25, [''/transactions'']),
     (26, [''/customers'']),
     (27, [''/membershipPlans'']),
     (28, [''/emailtemplates'']),
     (29, [''/roles'']),
     (30, [''/subAdmins'']),
     (31, [''/notifications'']),
     (32, [''/appsettings'']),
     (33, [''/cmspages''])]"

section \<open>Messages of src/api-message-constants.ts\<close>

datatype api_message =
    phone_exist_already | email_exist_already | success | invalid_login_2
  | account_deactivate | account_deleted_message | incorrect_old_password
  | password_change | account_deactivated

fun ApiMessages :: "api_message \<Rightarrow> string" where
  "ApiMessages phone_exist_already = ''Mobile number already registered''"
| "ApiMessages email_exist_already = ''Email address already registered''"
| "ApiMessages success = ''Success''"
| "ApiMessages invalid_login_2 = ''Incorrect credentials''"
| "ApiMessages account_deactivate =
     ''Your account has been deactivated. Please contact admin for help''"
| "ApiMessages account_deleted_message = ''Your account has been deleted, please contact admin''"
| "ApiMessages incorrect_old_password = ''Your old password is incorrect''"
| "ApiMessages password_change =
     ''Your password changed successfully, Kindly sign in using new password''"
| "ApiMessages account_deactivated = ''Your account is deactivated, Kindly inform to Admin''"

end
