(* ===== verification/Model.thy ===== *)
theory Model
  imports Errors Constants
begin

text \<open>
  The entities of src/model, the interface of TypeORM and of the other packages the code
  calls (bcryptjs, jsonwebtoken, cookie, rand-token) as a record of parameters, the state an
  async function works on, and the repositories of src/repository.

  A column that was not selected, or a property that was never set on an entity, is
  \<open>Undef\<close>; SQL's NULL is \<open>Null\<close>. Dates are milliseconds.
\<close>

section \<open>Entities\<close>

text \<open>
  src/model/Tokens.ts. The relation \<open>user\<close> is the foreign key: the id of the user the
  row belongs to.
\<close>

record tokens =
  t_id :: "string js"
  t_deviceId :: "string js"
  t_deviceType :: "string js"
  t_accessToken :: "string js"
  t_refreshToken :: "string js"
  t_lastLogin :: "int js"
  t_loginCount :: "int js"
  t_createdAt :: "int js"
  t_updatedAt :: "int js"
  t_deletedAt :: "int js"
  t_user :: "string js"

text \<open>src/model/ContactUs.ts, with \<open>user\<close> as the foreign key again.\<close>

record contact_us =
  c_id :: "string js"
  c_subject :: "string js"
  c_message :: "string js"
  c_userType :: "string js"
  c_createdAt :: "int js"
  c_updatedAt :: "int js"
  c_deletedAt :: "int js"
  c_createdBy :: "string js"
  c_updatedBy :: "string js"
  c_user :: "string js"

text \<open>src/model/EmailTemplates.ts.\<close>

record email_templates =
  e_id :: "string js"
  e_subject :: "string js"
  e_template :: "string js"
  e_key :: "string js"
  e_status :: "int js"
  e_createdAt :: "int js"
  e_updatedAt :: "int js"
  e_createdBy :: "string js"
  e_updatedBy :: "string js"
  e_deletedAt :: "int js"

text \<open>src/model/Users.ts. The relations \<open>token\<close> and \<open>contactUs\<close> are set only when loaded.\<close>

record users =
  u_id :: "string js"
  u_fullName :: "string js"
  u_email :: "string js"
  u_password :: "string js"
  u_countryCode :: "string js"
  u_mobileNumber :: "string js"
  u_otp :: "string js"
  u_userType :: "string js"
  u_profileImage :: "string js"
  u_stripeCustomerId :: "string js"
  u_stripeAccountId :: "string js"
  u_userSubscriptionCount :: "int js"
  u_createdAt :: "int js"
  u_updatedAt :: "int js"
  u_deletedAt :: "int js"
  u_createdBy :: "string js"
  u_updatedBy :: "string js"
  u_adminAddress :: "string js"
  u_isActive :: "bool js"
  u_token :: "tokens js"
  u_contactUs :: "contact_us list js"

text \<open>The relations the entity class declares (\<open>OneToOne\<close> and \<open>OneToMany\<close>).\<close>

definition users_relations :: "string list" where
  "users_relations = [''token'', ''contactUs'']"

text \<open>What \<open>repository.create({...})\<close> starts from: an entity with no property set.\<close>

definition blank_user :: users where
  "blank_user =
     \<lparr>u_id = Undef, u_fullName = Undef, u_email = Undef, u_password = Undef,
      u_countryCode = Undef, u_mobileNumber = Undef, u_otp = Undef, u_userType = Undef,
      u_profileImage = Undef, u_stripeCustomerId = Undef, u_stripeAccountId = Undef,
      u_userSubscriptionCount = Undef, u_createdAt = Undef, u_updatedAt = Undef,
      u_deletedAt = Undef, u_createdBy = Undef, u_updatedBy = Undef, u_adminAddress = Undef,
      u_isActive = Undef, u_token = Undef, u_contactUs = Undef\<rparr>"

definition blank_token :: tokens where
  "blank_token =
     \<lparr>t_id = Undef, t_deviceId = Undef, t_deviceType = Undef, t_accessToken = Undef,
      t_refreshToken = Undef, t_lastLogin = Undef, t_loginCount = Undef, t_createdAt = Undef,
      t_updatedAt = Undef, t_deletedAt = Undef, t_user = Undef\<rparr>"

definition blank_contact :: contact_us where
  "blank_contact =
     \<lparr>c_id = Undef, c_subject = Undef, c_message = Undef, c_userType = Undef,
      c_createdAt = Undef, c_updatedAt = Undef, c_deletedAt = Undef, c_createdBy = Undef,
      c_updatedBy = Undef, c_user = Undef\<rparr>"

section \<open>Entities as JSON\<close>

text \<open>\<open>res.json\<close> drops the properties that are \<open>undefined\<close>.\<close>

fun json_num :: "int js \<Rightarrow> json" where
  "json_num Undef = JUndef"
| "json_num Null = JNull"
| "json_num (Val n) = JNum n"

fun json_date :: "int js \<Rightarrow> json" where
  "json_date Undef = JUndef"
| "json_date Null = JNull"
| "json_date (Val n) = JDate n"

fun json_bool :: "bool js \<Rightarrow> json" where
  "json_bool Undef = JUndef"
| "json_bool Null = JNull"
| "json_bool (Val b) = JBool b"

definition json_object :: "(string \<times> json) list \<Rightarrow> json" where
  "json_object o' = JObj (filter (\<lambda>(k, v). v \<noteq> JUndef) o')"

definition token_json :: "tokens \<Rightarrow> json" where
  "token_json t = json_object
     [(''id'', json_of (t_id t)), (''deviceId'', json_of (t_deviceId t)),
      (''deviceType'', json_of (t_deviceType t)), (''accessToken'', json_of (t_accessToken t)),
      (''refreshToken'', json_of (t_refreshToken t)), (''lastLogin'', json_date (t_lastLogin t)),
      (''loginCount'', json_num (t_loginCount t)), (''createdAt'', json_date (t_createdAt t)),
      (''updatedAt'', json_date (t_updatedAt t)), (''deletedAt'', json_date (t_deletedAt t))]"

definition contact_json :: "contact_us \<Rightarrow> json" where
  "contact_json c = json_object
     [(''id'', json_of (c_id c)), (''subject'', json_of (c_subject c)),
      (''message'', json_of (c_message c)), (''userType'', json_of (c_userType c)),
      (''createdAt'', json_date (c_createdAt c)), (''updatedAt'', json_date (c_updatedAt c)),
      (''deletedAt'', json_date (c_deletedAt c)), (''createdBy'', json_of (c_createdBy c)),
      (''updatedBy'', json_of (c_updatedBy c))]"

definition user_fields :: "users \<Rightarrow> (string \<times> json) list" where
  "user_fields u =
     [(''id'', json_of (u_id u)), (''fullName'', json_of (u_fullName u)),
      (''email'', json_of (u_email u)), (''password'', json_of (u_password u)),
      (''countryCode'', json_of (u_countryCode u)), (''mobileNumber'', json_of (u_mobileNumber u)),
      (''otp'', json_of (u_otp u)), (''userType'', json_of (u_userType u)),
      (''profileImage'', json_of (u_profileImage u)),
      (''stripeCustomerId'', json_of (u_stripeCustomerId u)),
      (''stripeAccountId'', json_of (u_stripeAccountId u)),
      (''userSubscriptionCount'', json_num (u_userSubscriptionCount u)),
      (''createdAt'', json_date (u_createdAt u)), (''updatedAt'', json_date (u_updatedAt u)),
      (''deletedAt'', json_date (u_deletedAt u)), (''createdBy'', json_of (u_createdBy u)),
      (''updatedBy'', json_of (u_updatedBy u)), (''adminAddress'', json_of (u_adminAddress u)),
      (''isActive'', json_bool (u_isActive u)),
      (''token'', case u_token u of Val t \<Rightarrow> token_json t | Null \<Rightarrow> JNull | Undef \<Rightarrow> JUndef),
      (''contactUs'', case u_contactUs u of Val cs \<Rightarrow> JArr (map contact_json cs)
                      | Null \<Rightarrow> JNull | Undef \<Rightarrow> JUndef)]"

definition user_json :: "users \<Rightarrow> json" where
  "user_json u = json_object (user_fields u)"

section \<open>Queries\<close>

text \<open>
  The objects the code passes to TypeORM: conditions on columns (a plain value, \<open>In\<close>,
  \<open>ILike\<close>, or an entity for a relation), and the find options.
\<close>

datatype cond =
    Is "string js"
  | InList "string list"
  | ILike string
  | IsUser "users option"

type_synonym conditions = "(string \<times> cond) list"

datatype criteria = ById "string js" | Where conditions

record find_opts =
  f_relations :: "string list"
  f_select :: "string list"
  f_order :: "(string js \<times> string js) list"
  f_take :: "int option"
  f_skip :: "int option"
  f_withDeleted :: "bool option"

definition no_opts :: find_opts where
  "no_opts = \<lparr>f_relations = [], f_select = [], f_order = [], f_take = None, f_skip = None,
              f_withDeleted = None\<rparr>"

text \<open>The object spread \<open>{...o, k: v}\<close>: a key that is present keeps its place.\<close>

fun obj_put :: "'k \<Rightarrow> 'v \<Rightarrow> ('k \<times> 'v) list \<Rightarrow> ('k \<times> 'v) list" where
  "obj_put k v [] = [(k, v)]"
| "obj_put k v ((k', v') # o') = (if k' = k then (k, v) # o' else (k', v') # obj_put k v o')"

lemma map_of_obj_put: "map_of (obj_put k v o') = (map_of o')(k \<mapsto> v)"
  by (induction o') auto

section \<open>The packages as parameters\<close>

text \<open>
  A row of a role's permissions, as src/middleware/handle-permissions.ts reads it. No entity of
  src/model declares it; it comes from the relations that middleware asks for.
\<close>

record permission =
  p_moduleId :: int
  p_all :: bool
  p_view :: bool
  p_index :: bool
  p_add :: bool
  p_edit :: bool
  p_delete :: bool

text \<open>
  TypeORM's repositories. \<open>users_permissions\<close> is \<open>findOneOrFail\<close> followed by lodash's
  \<open>get\<close> of the path \<open>subAdmin.role.permissions\<close> in the object it returns. Every operation may reject; a reading operation leaves the
  database as it is, a writing one returns the new database.
\<close>

record 'db orm =
  users_findOne :: "criteria \<Rightarrow> find_opts \<Rightarrow> 'db \<Rightarrow> exn + users option"
  users_findOneOrFail :: "criteria \<Rightarrow> find_opts \<Rightarrow> 'db \<Rightarrow> exn + users"
  users_find :: "criteria \<Rightarrow> find_opts \<Rightarrow> 'db \<Rightarrow> exn + users list"
  users_findAndCount :: "criteria \<Rightarrow> find_opts \<Rightarrow> 'db \<Rightarrow> exn + users list \<times> nat"
  users_save :: "users \<Rightarrow> ('db, exn, users) io"
  users_update :: "string js \<Rightarrow> (string \<times> string js) list \<Rightarrow> ('db, exn, unit) io"
  tokens_findOneOrFail :: "criteria \<Rightarrow> find_opts \<Rightarrow> 'db \<Rightarrow> exn + tokens"
  tokens_save :: "tokens \<Rightarrow> ('db, exn, tokens) io"
  tokens_update :: "string js \<Rightarrow> tokens \<Rightarrow> ('db, exn, unit) io"
  contacts_findOneOrFail :: "criteria \<Rightarrow> find_opts \<Rightarrow> 'db \<Rightarrow> exn + contact_us"
  contacts_save :: "contact_us \<Rightarrow> ('db, exn, contact_us) io"
  contacts_update :: "string js \<Rightarrow> (string \<times> string js) list \<Rightarrow> ('db, exn, unit) io"
  contacts_softDelete :: "string js \<Rightarrow> ('db, exn, unit) io"
  contacts_query ::
    "string list \<Rightarrow> int \<Rightarrow> int \<Rightarrow> (string \<times> string) list \<Rightarrow> 'db \<Rightarrow> exn + json list"
  contacts_author :: "string js \<Rightarrow> 'db \<Rightarrow> exn + string js"
  templates_findOne :: "criteria \<Rightarrow> 'db \<Rightarrow> exn + email_templates option"
  users_permissions :: "criteria \<Rightarrow> find_opts \<Rightarrow> 'db \<Rightarrow> exn + permission list js"

text \<open>
  A rule of a Joi schema, with the calls the schemas of the controllers chain. Joi itself, which
  checks and converts values by them, is a parameter below.
\<close>

datatype joi_kind = JoiString | JoiNumber | JoiInteger | JoiBoolean | JoiNumberArray

record joi_rule =
  j_kind :: joi_kind
  j_required :: bool
  j_min :: "int option"
  j_max :: "int option"
  j_email :: bool
  j_lowercase :: bool
  j_regex :: "string option"
  j_valid :: "string list"
  j_default :: "json option"
  j_uuid :: "string option"

type_synonym schema = "(string \<times> joi_rule) list"

text \<open>
  The claims of a token, src/service/token.ts: \<open>ITokenBase\<close>.
\<close>

record token_base =
  tk_jti :: "string js"
  tk_aud :: "string js"
  tk_sub :: "string js"
  tk_iat :: int
  tk_exp :: int

text \<open>The part of the environment (src/config.ts) that the handlers read.\<close>

record config =
  isDev :: bool
  isProd :: bool
  isTest :: bool
  SECRET_HEX :: string
  ACCESS_TOKEN_LIFETIME_MIN :: int
  REFRESH_TOKEN_LIFETIME_MIN :: int
  FRONTEND_BASE_URL :: string
  FRONTEND_CHANGE_PASSWORD_URL :: string
  FRONTEND_VERIFY_EMAIL_URL :: string
  ADMIN_CONTACT_EMAIL :: string
  GMAIL_USER :: string
  OPEN_API_MAX_REQUEST :: int
  OPEN_API_WINDOW_IN_MS :: int
  CLOSED_API_MAX_REQUEST :: int
  CLOSED_API_WINDOW_IN_MS :: int

text \<open>
  The other packages: bcryptjs (\<open>hash\<close> draws its salt from the entropy passed to it),
  jsonwebtoken (both functions read the clock; the callback gets either an error or a value),
  cookie, rand-token, Joi (either the details of the errors or the converted object) and
  express-rate-limit (whether a hit now, after hits on the same key at the given times, exceeds
  the maximum in the window).
\<close>

record 'db env =
  cfg :: config
  orm :: "'db orm"
  bcrypt_hash :: "string js \<Rightarrow> nat \<Rightarrow> nat \<Rightarrow> exn + string"
  bcrypt_compare :: "string js \<Rightarrow> string js \<Rightarrow> exn + bool"
  jwt_sign :: "string \<Rightarrow> string \<Rightarrow> string js \<Rightarrow> int \<Rightarrow> int \<Rightarrow> exn + string"
  jwt_verify :: "string \<Rightarrow> string js \<Rightarrow> string \<Rightarrow> int \<Rightarrow> exn + token_base option"
  cookie_parse :: "string \<Rightarrow> (string \<times> string) list"
  randtoken_uid :: "nat \<Rightarrow> nat \<Rightarrow> string"
  joi :: "schema \<Rightarrow> (string \<times> json) list \<Rightarrow> json + (string \<times> json) list"
  rate_limit :: "int \<Rightarrow> int \<Rightarrow> int list \<Rightarrow> int \<Rightarrow> bool"

section \<open>The state of a running server\<close>

text \<open>
  The database, the clock (milliseconds), how much entropy has been drawn, the mails whose
  sending was started, the calls of \<open>logger.error\<close> (the message and its further arguments) and
  the hits the rate limiters have counted.
\<close>

type_synonym mail_body = "(string \<times> string js) list"

record 'db world =
  w_db :: 'db
  w_now :: int
  w_entropy :: nat
  w_outbox :: "mail_body list"
  w_log :: "(string \<times> json list) list"
  w_hits :: "(string \<times> int) list"

type_synonym ('db, 'a) async = "('db world, exn, 'a) io"

definition read_db :: "('db \<Rightarrow> exn + 'a) \<Rightarrow> ('db, 'a) async" where
  "read_db q w = (q (w_db w), w)"

definition write_db :: "('db, exn, 'a) io \<Rightarrow> ('db, 'a) async" where
  "write_db q w = (case q (w_db w) of (r, d) \<Rightarrow> (r, w\<lparr>w_db := d\<rparr>))"

definition get_now :: "('db, int) async" where
  "get_now w = (Inr (w_now w), w)"

definition draw :: "('db, nat) async" where
  "draw w = (Inr (w_entropy w), w\<lparr>w_entropy := Suc (w_entropy w)\<rparr>)"

definition log_error :: "string \<Rightarrow> json list \<Rightarrow> ('db, unit) async" where
  "log_error line args w = (Inr (), w\<lparr>w_log := w_log w @ [(line, args)]\<rparr>)"

definition start_mail :: "mail_body \<Rightarrow> ('db, unit) async" where
  "start_mail b w = (Inr (), w\<lparr>w_outbox := w_outbox w @ [b]\<rparr>)"

lemma read_db_apply [simp]: "read_db q w = (q (w_db w), w)"
  by (simp add: read_db_def)

lemma write_db_apply [io_simps]: "q (w_db w) = (r, d) \<Longrightarrow> write_db q w = (r, w\<lparr>w_db := d\<rparr>)"
  by (simp add: write_db_def)

lemma get_now_apply [simp]: "get_now w = (Inr (w_now w), w)"
  by (simp add: get_now_def)

lemma draw_apply [simp]: "draw w = (Inr (w_entropy w), w\<lparr>w_entropy := Suc (w_entropy w)\<rparr>)"
  by (simp add: draw_def)

lemma log_error_apply [simp]: "log_error l a w = (Inr (), w\<lparr>w_log := w_log w @ [(l, a)]\<rparr>)"
  by (simp add: log_error_def)

lemma start_mail_apply [simp]: "start_mail b w = (Inr (), w\<lparr>w_outbox := w_outbox w @ [b]\<rparr>)"
  by (simp add: start_mail_def)

section \<open>Requests\<close>

text \<open>
  What the handlers read of an Express request. Body, query and parameters are the objects
  that express-validation leaves (\<open>context: true\<close> writes the validated values back), with
  their fields in order. \<open>rq_file\<close> is what multer-s3 makes of the file in the request: an error
  or its location. \<open>rq_user\<close> and \<open>rq_token\<close> are set by \<open>authenticate\<close>.
\<close>

record request =
  rq_method :: string
  rq_baseUrl :: string
  rq_originalUrl :: string
  rq_authorization :: "string js"
  rq_cookie :: "string js"
  rq_secure :: bool
  rq_ip :: string
  rq_file :: "exn + string js"
  rq_body :: "(string \<times> json) list"
  rq_query :: "(string \<times> json) list"
  rq_params :: "(string \<times> json) list"
  rq_user :: "users option"
  rq_token :: "string js"

definition field :: "(string \<times> json) list \<Rightarrow> string \<Rightarrow> json" where
  "field o' k = (case map_of o' k of None \<Rightarrow> JUndef | Some v \<Rightarrow> v)"

text \<open>A field the validation schema declares as a string.\<close>

definition str_field :: "(string \<times> json) list \<Rightarrow> string \<Rightarrow> string js" where
  "str_field o' k = (case field o' k of JStr s \<Rightarrow> Val s | JNull \<Rightarrow> Null | _ \<Rightarrow> Undef)"

definition bool_field :: "(string \<times> json) list \<Rightarrow> string \<Rightarrow> bool js" where
  "bool_field o' k = (case field o' k of JBool b \<Rightarrow> Val b | JNull \<Rightarrow> Null | _ \<Rightarrow> Undef)"

definition num_field :: "(string \<times> json) list \<Rightarrow> string \<Rightarrow> int js" where
  "num_field o' k = (case field o' k of JNum n \<Rightarrow> Val n | JNull \<Rightarrow> Null | _ \<Rightarrow> Undef)"

section \<open>Repositories\<close>

text \<open>src/repository/BaseRepository.ts, over the entity's own \<open>findOne\<close> and metadata name.\<close>

definition findByIdOrFail ::
    "(criteria \<Rightarrow> find_opts \<Rightarrow> 'db \<Rightarrow> exn + 'e option) \<Rightarrow> string \<Rightarrow> string js \<Rightarrow> find_opts
     \<Rightarrow> ('db, 'e) async" where
  "findByIdOrFail findOne metadata_name i options =
     andThen (read_db (findOne (ById i) options)) (\<lambda>value.
       case value of
         None \<Rightarrow> throw (AppExn (EntityNotFoundError (interp i) metadata_name))
       | Some v \<Rightarrow> ret v)"

definition reload ::
    "(criteria \<Rightarrow> find_opts \<Rightarrow> 'db \<Rightarrow> exn + 'e) \<Rightarrow> ('e \<Rightarrow> string js) \<Rightarrow> 'e \<Rightarrow> ('db, 'e) async" where
  "reload findOneOrFail entity_id entity = read_db (findOneOrFail (ById (entity_id entity)) no_opts)"

text \<open>src/repository/Tokens.ts.\<close>

definition updateLastLogin :: "'db env \<Rightarrow> string js \<Rightarrow> ('db, unit) async" where
  "updateLastLogin E i =
     andThen get_now (\<lambda>now. write_db (tokens_update (orm E) i (blank_token\<lparr>t_lastLogin := Val now\<rparr>)))"

definition getByUserId :: "'db env \<Rightarrow> string js \<Rightarrow> ('db, tokens) async" where
  "getByUserId E i =
     andThen (read_db (users_findOne (orm E) (ById i) no_opts)) (\<lambda>user.
       read_db (tokens_findOneOrFail (orm E) (Where [(''user'', IsUser user)]) no_opts))"

text \<open>src/repository/Users.ts.\<close>

definition updateAvatar :: "'db env \<Rightarrow> users option \<Rightarrow> string js \<Rightarrow> ('db, unit) async" where
  "updateAvatar E user profileImage =
     write_db (users_update (orm E) (case user of None \<Rightarrow> Undef | Some u \<Rightarrow> u_id u)
                 [(''profileImage'', profileImage)])"

definition getByRelatioins :: "'db env \<Rightarrow> users option \<Rightarrow> string list \<Rightarrow> ('db, users option) async" where
  "getByRelatioins E user relations =
     read_db (users_findOne (orm E)
       (Where [(''id'', Is (case user of None \<Rightarrow> Undef | Some u \<Rightarrow> u_id u))])
       (no_opts\<lparr>f_relations := relations\<rparr>))"

end
