(* ===== verification/TokenService.thy ===== *)
theory TokenService
  imports Model
begin

text \<open>
  src/service/token.ts (JWTs of three kinds, told apart by their audience) and
  src/service/password.ts (bcrypt). What the code relies on in jsonwebtoken and bcryptjs is
  stated as two locales over the environment that holds the packages.
\<close>

section \<open>src/service/token.ts\<close>

definition signToken :: "'db env \<Rightarrow> token_kind \<Rightarrow> string js \<Rightarrow> int \<Rightarrow> ('db, string) async" where
  "signToken E audience subject expiresIn =
     andThen get_now (\<lambda>now.
       case jwt_sign E (SECRET_HEX (cfg E)) (Token audience) subject expiresIn now of
         Inl err \<Rightarrow> throw err
       | Inr encoded \<Rightarrow> if encoded = [] then throw NullExn else ret encoded)"

definition signAccessToken :: "'db env \<Rightarrow> string js \<Rightarrow> ('db, string) async" where
  "signAccessToken E i = signToken E ACCESS i (ACCESS_TOKEN_LIFETIME_MIN (cfg E) * 60)"

definition signRefreshToken :: "'db env \<Rightarrow> string js \<Rightarrow> ('db, string) async" where
  "signRefreshToken E i = signToken E REFRESH i (REFRESH_TOKEN_LIFETIME_MIN (cfg E) * 60)"

definition signForgetPasswordToken :: "'db env \<Rightarrow> string js \<Rightarrow> ('db, string) async" where
  "signForgetPasswordToken E i =
     signToken E FORGETPASSWORD i (ACCESS_TOKEN_LIFETIME_MIN (cfg E) * 60)"

definition verifyToken :: "'db env \<Rightarrow> string js \<Rightarrow> token_kind \<Rightarrow> ('db, token_base) async" where
  "verifyToken E token audience =
     andThen get_now (\<lambda>now.
       case jwt_verify E (SECRET_HEX (cfg E)) token (Token audience) now of
         Inl err \<Rightarrow> throw err
       | Inr None \<Rightarrow> throw NullExn
       | Inr (Some decoded) \<Rightarrow> ret decoded)"

definition isAccessToken :: "token_base \<Rightarrow> bool" where
  "isAccessToken payload \<longleftrightarrow> tk_aud payload = Val (Token ACCESS)"

definition isRefreshToken :: "token_base \<Rightarrow> bool" where
  "isRefreshToken payload \<longleftrightarrow> tk_aud payload = Val (Token REFRESH)"

definition isForgetPasswordToken :: "token_base \<Rightarrow> bool" where
  "isForgetPasswordToken payload \<longleftrightarrow> tk_aud payload = Val (Token FORGETPASSWORD)"

section \<open>src/service/password.ts\<close>

definition hashPassword :: "'db env \<Rightarrow> string js \<Rightarrow> ('db, string) async" where
  "hashPassword E password = andThen draw (\<lambda>salt. of_sum (bcrypt_hash E password 10 salt))"

definition comparePassword :: "'db env \<Rightarrow> string js \<Rightarrow> string js \<Rightarrow> ('db, bool) async" where
  "comparePassword E password hashedPassword = of_sum (bcrypt_compare E password hashedPassword)"

text \<open>These functions read the clock or draw a salt and change nothing else.\<close>

lemma signToken_state: "signToken E k i n w = (r, w') \<Longrightarrow> w' = w"
  by (auto simp: signToken_def andThen_def split: sum.splits if_splits)

lemma verifyToken_state: "verifyToken E t k w = (r, w') \<Longrightarrow> w' = w"
  by (auto simp: verifyToken_def andThen_def split: sum.splits option.splits)

lemma signToken_result:
  "signToken E k i n w = (Inr t, w') \<longleftrightarrow>
     jwt_sign E (SECRET_HEX (cfg E)) (Token k) i n (w_now w) = Inr t \<and> t \<noteq> [] \<and> w' = w"
  by (auto simp: signToken_def andThen_def split: sum.splits if_splits)

lemma verifyToken_result:
  "verifyToken E t k w = (Inr p, w') \<longleftrightarrow>
     jwt_verify E (SECRET_HEX (cfg E)) t (Token k) (w_now w) = Inr (Some p) \<and> w' = w"
  by (auto simp: verifyToken_def andThen_def split: sum.splits option.splits)

lemma hashPassword_result:
  "hashPassword E p w = (r, w') \<longleftrightarrow>
     bcrypt_hash E p 10 (w_entropy w) = r \<and> w' = w\<lparr>w_entropy := Suc (w_entropy w)\<rparr>"
  by (auto simp: hashPassword_def andThen_def)

lemma comparePassword_result:
  "comparePassword E p h w = (r, w') \<longleftrightarrow> bcrypt_compare E p h = r \<and> w' = w"
  by (auto simp: comparePassword_def)

lemma token_guards [simp]:
  "tk_aud p = Val (Token k) \<Longrightarrow> isAccessToken p \<longleftrightarrow> k = ACCESS"
  "tk_aud p = Val (Token k) \<Longrightarrow> isRefreshToken p \<longleftrightarrow> k = REFRESH"
  "tk_aud p = Val (Token k) \<Longrightarrow> isForgetPasswordToken p \<longleftrightarrow> k = FORGETPASSWORD"
  by (simp_all add: isAccessToken_def isRefreshToken_def isForgetPasswordToken_def)

section \<open>What the code relies on in jsonwebtoken\<close>

text \<open>The claims \<open>sign({}, secret, {audience, subject, expiresIn})\<close> puts into a token.\<close>

definition claims :: "token_kind \<Rightarrow> string \<Rightarrow> int \<Rightarrow> int \<Rightarrow> token_base" where
  "claims k sub expiresIn now =
     \<lparr>tk_jti = Undef, tk_aud = Val (Token k), tk_sub = Val sub, tk_iat = now div 1000,
      tk_exp = now div 1000 + expiresIn\<rparr>"

text \<open>
  The documented behaviour: a string subject is signed into a non-empty token of the compact
  form, which has no space; a token made
  with the server's secret verifies to its claims, unless the clock has reached \<open>exp\<close>
  (\<open>TokenExpiredError\<close>, checked first) or the audience differs (\<open>JsonWebTokenError\<close>).
\<close>

locale jsonwebtoken =
  fixes E :: "'db env"
  assumes sign_total:
      "\<exists>t. t \<noteq> [] \<and> jwt_sign E (SECRET_HEX (cfg E)) (Token k) (Val sub) n now = Inr t"
    and sign_compact:
      "jwt_sign E (SECRET_HEX (cfg E)) (Token k) (Val sub) n now = Inr t \<Longrightarrow> CHR '' '' \<notin> set t"
    and verify_expired:
      "jwt_sign E (SECRET_HEX (cfg E)) (Token k) (Val sub) n now = Inr t \<Longrightarrow>
       now div 1000 + n \<le> later div 1000 \<Longrightarrow>
       \<exists>m. jwt_verify E (SECRET_HEX (cfg E)) (Val t) (Token k') later
             = Inl (OtherExn ''TokenExpiredError'' m)"
    and verify_audience:
      "jwt_sign E (SECRET_HEX (cfg E)) (Token k) (Val sub) n now = Inr t \<Longrightarrow>
       later div 1000 < now div 1000 + n \<Longrightarrow> k' \<noteq> k \<Longrightarrow>
       \<exists>m. jwt_verify E (SECRET_HEX (cfg E)) (Val t) (Token k') later
             = Inl (OtherExn ''JsonWebTokenError'' m)"
    and verify_valid:
      "jwt_sign E (SECRET_HEX (cfg E)) (Token k) (Val sub) n now = Inr t \<Longrightarrow>
       later div 1000 < now div 1000 + n \<Longrightarrow>
       jwt_verify E (SECRET_HEX (cfg E)) (Val t) (Token k) later = Inr (Some (claims k sub n now))"
begin

lemma sign_succeeds: "\<exists>t. t \<noteq> [] \<and> signToken E k (Val sub) n w = (Inr t, w)"
  using sign_total [of k sub n "w_now w"] by (auto simp: signToken_result)

lemma verify_fresh:
  assumes "signToken E k (Val sub) n w = (Inr t, w0)"
    and "w_now w' div 1000 < w_now w div 1000 + n"
  shows "verifyToken E (Val t) k w' = (Inr (claims k sub n (w_now w)), w')"
  using assms verify_valid by (auto simp: signToken_result verifyToken_result)

lemma verify_late:
  assumes "signToken E k (Val sub) n w = (Inr t, w0)"
    and "w_now w div 1000 + n \<le> w_now w' div 1000"
  shows "\<exists>m. verifyToken E (Val t) k' w' = (Inl (OtherExn ''TokenExpiredError'' m), w')"
  using assms verify_expired [of k sub n "w_now w" t "w_now w'" k']
  by (auto simp: signToken_result verifyToken_def andThen_def)

lemma verify_other_kind:
  assumes "signToken E k (Val sub) n w = (Inr t, w0)" and "k' \<noteq> k"
  shows "\<exists>nm m. verifyToken E (Val t) k' w' = (Inl (OtherExn nm m), w')"
proof (cases "w_now w' div 1000 < w_now w div 1000 + n")
  case True
  with assms verify_audience [of k sub n "w_now w" t "w_now w'" k'] show ?thesis
    by (auto simp: signToken_result verifyToken_def andThen_def)
next
  case False
  with assms(1) verify_late [of k sub n w t w0 w' k'] show ?thesis by auto
qed

end

section \<open>What the code relies on in bcryptjs\<close>

text \<open>
  Hashing a string succeeds, gives a non-empty string, and \<open>compare\<close> recognises the
  password a hash was made from.
\<close>

locale bcryptjs =
  fixes E :: "'db env"
  assumes hash_total: "\<exists>h. h \<noteq> [] \<and> bcrypt_hash E (Val p) rounds salt = Inr h"
    and compare_hash:
      "bcrypt_hash E (Val p) rounds salt = Inr h \<Longrightarrow> bcrypt_compare E (Val p) (Val h) = Inr True"
begin

lemma hash_compare:
  assumes "hashPassword E (Val p) w = (Inr h, w1)"
  shows "comparePassword E (Val p) (Val h) w2 = (Inr True, w2)"
  using assms compare_hash by (auto simp: hashPassword_result comparePassword_result)

end

end
