(* ===== verification/AuthController.thy ===== *)
theory AuthController
  imports TokenService
begin

text \<open>
  src/controller/auth.ts: signing up, logging in and refreshing a token pair.
\<close>

section \<open>What the three handlers share\<close>

text \<open>
  The type whose token pair is kept in the database: \<open>USER || VENDOR || DRIVER\<close> is an
  expression over non-empty strings.
\<close>

definition stored_token_type :: string where
  "stored_token_type =
     or_str (or_str (PropaneUserType USER) (PropaneUserType VENDOR)) (PropaneUserType DRIVER)"

definition expiresIn :: "'db env \<Rightarrow> int" where
  "expiresIn E = ACCESS_TOKEN_LIFETIME_MIN (cfg E) * 60"

definition token_cookie :: "'db env \<Rightarrow> request \<Rightarrow> string \<Rightarrow> cookie" where
  "token_cookie E req accessToken =
     \<lparr>ck_name = ''token'', ck_value = ''Bearer '' @ accessToken,
      ck_maxAge = expiresIn E * 1000, ck_secure = rq_secure req, ck_httpOnly = True,
      ck_sameSite = ''strict''\<rparr>"

definition token_response ::
    "'db env \<Rightarrow> request \<Rightarrow> string \<Rightarrow> string \<Rightarrow> (string \<times> json) list \<Rightarrow> response" where
  "token_response E req accessToken refreshToken extra =
     \<lparr>resp_status = 200,
      resp_body = JsonBody (JObj
        ([(''token_type'', JStr ''bearer''),
          (''access_token'', JStr accessToken),
          (''expires_in'', JNum (expiresIn E)),
          (''refresh_token'', JStr refreshToken)] @ extra)),
      resp_cookies = [token_cookie E req accessToken]\<rparr>"

section \<open>signUp\<close>

definition verify_email_mail :: "users \<Rightarrow> string \<Rightarrow> mail_body" where
  "verify_email_mail user link =
     [(''link'', Val link),
      (''text'', Val ''email_verify''),
      (''to'', u_email user),
      (''fullname'', u_fullName user),
      (''mobileNo'', Val (interp (u_countryCode user) @ interp (u_mobileNumber user))),
      (''actor'', u_userType user),
      (''email'', u_email user)]"

definition signup_entity :: "(string \<times> json) list \<Rightarrow> string \<Rightarrow> users" where
  "signup_entity body hashedPassword =
     blank_user\<lparr>u_fullName := str_field body ''fullName'', u_email := str_field body ''email'',
                u_password := Val hashedPassword, u_userType := str_field body ''userType'',
                u_countryCode := str_field body ''countryCode'',
                u_mobileNumber := str_field body ''mobileNumber''\<rparr>"

text \<open>The entity both \<open>signUp\<close> and the first \<open>login\<close> save.\<close>

definition first_token ::
    "(string \<times> json) list \<Rightarrow> users \<Rightarrow> string \<Rightarrow> string \<Rightarrow> int \<Rightarrow> tokens" where
  "first_token body user accessToken refreshToken now =
     blank_token\<lparr>t_user := u_id user, t_deviceId := str_field body ''deviceId'',
                 t_deviceType := str_field body ''deviceType'', t_accessToken := Val accessToken,
                 t_refreshToken := Val refreshToken, t_loginCount := Val 1,
                 t_lastLogin := Val now\<rparr>"

text \<open>\<open>if (user && user.password) user.password = ''\<close>.\<close>

definition clear_password :: "users \<Rightarrow> users" where
  "clear_password user = (if truthy (u_password user) then user\<lparr>u_password := Val []\<rparr> else user)"

text \<open>The second half of \<open>signUp\<close>: the token pair, its row, and the response.\<close>

definition signup_session :: "'db env \<Rightarrow> request \<Rightarrow> users \<Rightarrow> ('db, response) async" where
  "signup_session E req user =
     (let body = rq_body req in
      andThen (signAccessToken E (u_id user)) (\<lambda>accessToken.
      andThen (signRefreshToken E (u_id user)) (\<lambda>refreshToken.
      andThen
        (if accessToken \<noteq> [] \<and> refreshToken \<noteq> []
            \<and> str_field body ''userType'' = Val stored_token_type
         then andThen get_now (\<lambda>now.
                andThen (write_db (tokens_save (orm E)
                  (first_token body user accessToken refreshToken now))) (\<lambda>_. ret ()))
         else ret ()) (\<lambda>_.
      ret (token_response E req accessToken refreshToken [(''user'', user_json user)])))))"

text \<open>
  The handler up to the second query, and from the hashing on. Between two \<open>await\<close>s other
  requests run, so these are also the two halves that may be interleaved with other requests.
\<close>

definition signup_check :: "'db env \<Rightarrow> request \<Rightarrow> ('db, string) async" where
  "signup_check E req =
     (let body = rq_body req;
          userType = str_field body ''userType'';
          email = str_field body ''email'';
          countryCode = str_field body ''countryCode'';
          mobileNumber = str_field body ''mobileNumber''
      in
      andThen draw (\<lambda>seed.
      let emailToken = randtoken_uid E 32 seed in
      andThen (read_db (users_findOne (orm E)
          (Where [(''countryCode'', Is countryCode), (''mobileNumber'', Is mobileNumber),
                  (''userType'', Is userType)]) no_opts)) (\<lambda>existingUserPhone.
      if existingUserPhone \<noteq> None
      then throw (bad_request (ApiMessages phone_exist_already) ''PHONE_ALREADY_EXIST'')
      else
      andThen (read_db (users_findOne (orm E)
          (Where [(''email'', Is email), (''userType'', Is userType)]) no_opts)) (\<lambda>existingUserEmail.
      if existingUserEmail \<noteq> None
      then throw (bad_request (ApiMessages email_exist_already) ''Email_ALREADY_EXIST'')
      else ret emailToken))))"

definition signup_commit :: "'db env \<Rightarrow> request \<Rightarrow> string \<Rightarrow> ('db, response) async" where
  "signup_commit E req emailToken =
     (let body = rq_body req in
      andThen (hashPassword E (str_field body ''password'')) (\<lambda>hashedPassword.
      andThen (write_db (users_save (orm E)
          (signup_entity body hashedPassword))) (\<lambda>saved.
      let link = FRONTEND_BASE_URL (cfg E) @ FRONTEND_VERIFY_EMAIL_URL (cfg E) @ ''?token='' @ emailToken
      in
      andThen (start_mail (verify_email_mail saved link)) (\<lambda>_.
      signup_session E req (clear_password saved)))))"

definition signUp :: "'db env \<Rightarrow> request \<Rightarrow> ('db, response) async" where
  "signUp E req = andThen (signup_check E req) (signup_commit E req)"

section \<open>login\<close>

text \<open>The relations the code assembles; the last branch is never reached.\<close>

definition login_isSms :: "string js \<Rightarrow> bool" where
  "login_isSms userType \<longleftrightarrow>
     userType = Val (PropaneUserType VENDOR) \<or> userType = Val (PropaneUserType DRIVER)
     \<or> userType = Val (PropaneUserType USER)"

definition login_relations :: "string js \<Rightarrow> string list" where
  "login_relations userType =
     (if login_isSms userType then
        [''address''] @ [''token''] @
        (if userType = Val (PropaneUserType VENDOR) then [''vendor'']
         else if userType = Val (PropaneUserType DRIVER) then [''driver'']
         else if userType = Val (PropaneUserType SUB_ADMIN) then [''subAdmin'']
         else [])
      else [''address''])"

definition login_where :: "(string \<times> json) list \<Rightarrow> conditions" where
  "login_where body =
     (if login_isSms (str_field body ''userType'') then
        [(''countryCode'', Is (str_field body ''countryCode'')),
         (''mobileNumber'', Is (str_field body ''mobileNumber'')),
         (''userType'', Is (str_field body ''userType''))]
      else
        [(''email'', Is (str_field body ''email'')),
         (''userType'', InList [PropaneUserType ADMIN, PropaneUserType SUB_ADMIN])])"

definition login_opts :: "string js \<Rightarrow> find_opts" where
  "login_opts userType =
     no_opts\<lparr>f_relations := login_relations userType,
             f_select := [''id'', ''password'', ''isActive'', ''deletedAt'', ''stripeCustomerId'']\<rparr>"

text \<open>\<open>(loginCount || 0) + 1\<close>.\<close>

fun next_count :: "int js \<Rightarrow> int" where
  "next_count (Val n) = n + 1"
| "next_count Undef = 1"
| "next_count Null = 1"

definition next_token ::
    "(string \<times> json) list \<Rightarrow> tokens \<Rightarrow> string \<Rightarrow> string \<Rightarrow> int \<Rightarrow> tokens" where
  "next_token body tk accessToken refreshToken now =
     blank_token\<lparr>t_deviceId := str_field body ''deviceId'',
                 t_deviceType := str_field body ''deviceType'', t_accessToken := Val accessToken,
                 t_refreshToken := Val refreshToken, t_lastLogin := Val now,
                 t_loginCount := Val (next_count (t_loginCount tk))\<rparr>"

definition login_store ::
    "'db env \<Rightarrow> (string \<times> json) list \<Rightarrow> users \<Rightarrow> string \<Rightarrow> string \<Rightarrow> ('db, unit) async" where
  "login_store E body user accessToken refreshToken =
     andThen get_now (\<lambda>now.
       case u_token user of
         Val tk \<Rightarrow>
           if truthy (t_id tk)
           then write_db (tokens_update (orm E) (t_id tk)
                  (next_token body tk accessToken refreshToken now))
           else andThen (write_db (tokens_save (orm E)
                  (first_token body user accessToken refreshToken now))) (\<lambda>_. ret ())
       | _ \<Rightarrow> andThen (write_db (tokens_save (orm E)
                  (first_token body user accessToken refreshToken now))) (\<lambda>_. ret ()))"

text \<open>The second half of \<open>login\<close>: the token pair, its row, and the response.\<close>

definition login_session :: "'db env \<Rightarrow> request \<Rightarrow> users \<Rightarrow> ('db, response) async" where
  "login_session E req user =
     (let body = rq_body req in
      andThen (signAccessToken E (u_id user)) (\<lambda>accessToken.
      andThen (signRefreshToken E (u_id user)) (\<lambda>refreshToken.
      andThen
        (if accessToken \<noteq> [] \<and> refreshToken \<noteq> []
            \<and> str_field body ''userType'' = Val stored_token_type
         then login_store E body user accessToken refreshToken
         else ret ()) (\<lambda>_.
      ret (token_response E req accessToken refreshToken [])))))"

definition login :: "'db env \<Rightarrow> request \<Rightarrow> ('db, response) async" where
  "login E req =
     (let body = rq_body req;
          userType = str_field body ''userType'';
          password = str_field body ''password''
      in
      andThen (read_db (users_findOne (orm E) (Where (login_where body)) (login_opts userType)))
      (\<lambda>found. case found of
        None \<Rightarrow> throw (bad_request (ApiMessages invalid_login_2) ''USER_NOT_FOUND'')
      | Some user \<Rightarrow>
          if u_isActive user \<noteq> Val True
          then throw (bad_request (ApiMessages account_deactivated) ''INACTIVE_USER'')
          else if u_isActive user = Val False
          then throw (bad_request (ApiMessages account_deactivate) ''ACCOUNT_DEACTIVATED'')
          else if \<not> nullish (u_deletedAt user)
          then throw (bad_request (ApiMessages account_deleted_message) ''ACCOUNT_IS_DELETED'')
          else
          andThen (comparePassword E password (u_password user)) (\<lambda>passwordMatched.
          if \<not> passwordMatched
          then throw (bad_request (ApiMessages invalid_login_2) ''PASSWORD_MISSMATCH'')
          else login_session E req user)))"

section \<open>refreshToken\<close>

text \<open>
  \<open>findOneOrFail\<close> rejects when there is no user, so the check of \<open>!user\<close> after it and that of
  \<open>!token\<close> after \<open>getByUserId\<close> have no case of their own.
\<close>

text \<open>The \<open>try\<close> block around the verification and its \<open>catch\<close>.\<close>

definition invalid_refresh :: exn where
  "invalid_refresh = bad_request ''Provided token is not valid refresh token'' ''INVALID_REFRESH_TOKEN''"

definition decode_refresh :: "'db env \<Rightarrow> string js \<Rightarrow> ('db, token_base) async" where
  "decode_refresh E refreshToken =
     catch
       (andThen (verifyToken E refreshToken REFRESH) (\<lambda>decoded.
          if \<not> isRefreshToken decoded then throw invalid_refresh else ret decoded))
       (\<lambda>error.
          if error_name error = Val ''TokenExpiredError''
          then throw (bad_request ''Refresh token expired.'' ''REFRESH_TOKEN_EXPIRED'')
          else throw invalid_refresh)"

definition rotate ::
    "'db env \<Rightarrow> users \<Rightarrow> string js \<Rightarrow> string \<Rightarrow> string \<Rightarrow> ('db, unit) async" where
  "rotate E user refreshToken accessToken newRefreshToken =
     andThen (getByUserId E (u_id user)) (\<lambda>token.
     if t_refreshToken token \<noteq> refreshToken
     then throw (AppExn (BadRequestError (Some ''Invalid token'') None))
     else andThen (write_db (tokens_save (orm E)
            (token\<lparr>t_accessToken := Val accessToken, t_refreshToken := Val newRefreshToken\<rparr>)))
          (\<lambda>_. ret ()))"

definition refreshToken :: "'db env \<Rightarrow> request \<Rightarrow> ('db, response) async" where
  "refreshToken E req =
     (let refreshToken = str_field (rq_body req) ''refreshToken'' in
      andThen (decode_refresh E refreshToken) (\<lambda>decoded.
      andThen (read_db (users_findOneOrFail (orm E) (ById (tk_sub decoded)) no_opts)) (\<lambda>user.
      andThen (signAccessToken E (u_id user)) (\<lambda>accessToken.
      andThen (signRefreshToken E (u_id user)) (\<lambda>newRefreshToken.
      andThen
        (if accessToken \<noteq> [] \<and> truthy refreshToken \<and> newRefreshToken \<noteq> []
            \<and> u_userType user = Val stored_token_type
         then rotate E user refreshToken accessToken newRefreshToken
         else ret ()) (\<lambda>_.
      ret (token_response E req accessToken newRefreshToken [])))))))"

lemma stored_token_type_eq [simp]: "stored_token_type = PropaneUserType USER"
  by (simp add: stored_token_type_def)

end
