(* ===== verification/Middleware.thy ===== *)
theory Middleware
  imports TokenService
begin

text \<open>
  The middleware of src/middleware that decides whether a request reaches its handler
  (authenticate, handle-permissions, check-permission, check-user-type), the wrapper
  handle-error, and src/utils/cookie.ts.
\<close>

section \<open>src/utils/cookie.ts\<close>

definition parseCookie :: "'db env \<Rightarrow> string \<Rightarrow> (string \<times> string) list" where
  "parseCookie E rawCookie = cookie_parse E rawCookie"

definition getCookie :: "'db env \<Rightarrow> string js \<Rightarrow> (string \<times> string) list js" where
  "getCookie E rawCookie =
     (if \<not> truthy rawCookie then Null else Val (parseCookie E (interp rawCookie)))"

definition getAuthCookie :: "'db env \<Rightarrow> string js \<Rightarrow> string js" where
  "getAuthCookie E rawCookie =
     (case getCookie E rawCookie of
        Val cookie \<Rightarrow> js_of_option (map_of cookie ''token'')
      | _ \<Rightarrow> Null)"

section \<open>What a middleware tells Express\<close>

text \<open>\<open>next()\<close> with the request as the middleware left it, or \<open>next(err)\<close>.\<close>

datatype next_call = Next request | NextErr exn

section \<open>src/middleware/handle-permissions.ts\<close>

definition forbidden_permission :: next_call where
  "forbidden_permission =
     NextErr (AppExn (ForbiddenError (Some ''User does not have a permission'') None))"

text \<open>The \<open>for ... of Object.keys\<close> loop: the first module whose routes include the base URL.\<close>

fun module_of :: "(int \<times> string list) list \<Rightarrow> string \<Rightarrow> int" where
  "module_of [] baseUrl = 0"
| "module_of ((k, rs) # ms) baseUrl = (if baseUrl \<in> set rs then k else module_of ms baseUrl)"

text \<open>The \<open>switch\<close> on the method, for a permission that is not \<open>all\<close>.\<close>

definition method_allowed :: "permission \<Rightarrow> string \<Rightarrow> (string \<times> json) list \<Rightarrow> bool" where
  "method_allowed p method query =
     (if method = ApiMethods GET then
        (if query \<noteq> [] \<and> \<not> p_view p then False
         else if query = [] \<and> \<not> p_index p then False else True)
      else if method = ApiMethods POST then p_add p
      else if method = ApiMethods PUT then p_edit p
      else if method = ApiMethods PATCH then p_edit p
      else if method = ApiMethods DELETE then p_delete p
      else True)"

definition known_method :: "string \<Rightarrow> bool" where
  "known_method m \<longleftrightarrow> m \<in> ApiMethods ` {GET, PUT, POST, PATCH, DELETE}"

definition handelPermission :: "'db env \<Rightarrow> request \<Rightarrow> ('db, next_call) async" where
  "handelPermission E request =
     andThen (read_db (users_permissions (orm E)
         (Where [(''id'', Is (case rq_user request of None \<Rightarrow> Undef | Some u \<Rightarrow> u_id u))])
         (no_opts\<lparr>f_relations := [''subAdmin'', ''subAdmin.role'', ''subAdmin.role.permissions'']\<rparr>)))
      (\<lambda>permissions.
        if rq_baseUrl request \<notin> set PropaneBaseRoutes then ret forbidden_permission
        else (case permissions of
          Undef \<Rightarrow> ret forbidden_permission
        | Null \<Rightarrow> ret forbidden_permission
        | Val ps \<Rightarrow>
            if ps = [] then ret forbidden_permission
            else
              let moduleId = module_of MapPropaneBaseRoutes (rq_baseUrl request) in
              if moduleId = 0 then ret (Next request)
              else (case find (\<lambda>prod. p_moduleId prod = moduleId) ps of
                None \<Rightarrow> ret forbidden_permission
              | Some permission \<Rightarrow>
                  if p_all permission then ret (Next request)
                  else andThen
                    (if known_method (rq_method request) then ret ()
                     else log_error ''No method found'' [])
                    (\<lambda>_. if method_allowed permission (rq_method request) (rq_query request)
                         then ret (Next request) else ret forbidden_permission))))"

section \<open>src/middleware/check-permission.ts and check-user-type.ts\<close>

definition checkPermission :: "'db env \<Rightarrow> request \<Rightarrow> ('db, next_call) async" where
  "checkPermission E req =
     (case rq_user req of
        None \<Rightarrow> andThen (log_error ''User does not exist'' [])
                  (\<lambda>_. ret (NextErr (AppExn (ForbiddenError (Some ''User does not exist'') None))))
      | Some user \<Rightarrow> ret (Next req))"

definition checkUserType :: "propane_user_type list \<Rightarrow> 'db env \<Rightarrow> request \<Rightarrow> ('db, next_call) async" where
  "checkUserType userTypes E req =
     (case rq_user req of
        None \<Rightarrow>
          andThen (log_error (''Unable to find user while checking API: ['' @ rq_originalUrl req @ '']'') [])
            (\<lambda>_. ret (NextErr (AppExn (ForbiddenError (Some ''Unable to find user'') (Some ''MISSING_USER'')))))
      | Some user \<Rightarrow>
          if u_userType user \<notin> (Val \<circ> PropaneUserType) ` set userTypes then
            andThen (log_error (''User does not have access to API : ['' @ rq_originalUrl req @ '']'') [])
              (\<lambda>_. ret (NextErr (AppExn (ForbiddenError (Some ''User does not have access'') None))))
          else ret (Next req))"

section \<open>src/middleware/authenticate.ts\<close>

text \<open>
  The call of \<open>handelPermission\<close> is returned without \<open>await\<close>, so its rejection is not
  seen by the surrounding \<open>try\<close>: the block ends with what is left to do.
\<close>

datatype auth_step = Done next_call | Delegate request

definition persisted_type :: string where
  "persisted_type =
     or_str (or_str (PropaneUserType USER) (PropaneUserType DRIVER)) (PropaneUserType VENDOR)"

definition authenticate_try :: "'db env \<Rightarrow> request \<Rightarrow> string js \<Rightarrow> ('db, auth_step) async" where
  "authenticate_try E request token =
     andThen (verifyToken E token ACCESS) (\<lambda>decoded.
       if \<not> isAccessToken decoded
       then throw (bad_request ''Provided token is not valid access token'' ''INVALID_ACCESS_TOKEN'')
       else
         andThen (read_db (users_findOne (orm E) (Where [(''id'', Is (tk_sub decoded))])
                    (no_opts\<lparr>f_relations := [''token'']\<rparr>))) (\<lambda>user.
           case user of
             None \<Rightarrow>
               ret (Done (NextErr (AppExn (UnauthorizedError (Some ''User do not exist'') None))))
           | Some u \<Rightarrow>
               if u_userType u = Val persisted_type
                  \<and> \<not> (case u_token u of Val tk \<Rightarrow> t_accessToken tk = token | _ \<Rightarrow> False)
               then ret (Done (NextErr
                      (unauthorized ''Provided token is not valid access token'' ''INVALID_ACCESS_TOKEN'')))
               else
                 let request' = request\<lparr>rq_user := Some u, rq_token := token\<rparr> in
                 if u_userType u = Val (PropaneUserType SUB_ADMIN) then ret (Delegate request')
                 else ret (Done (Next request'))))"

definition auth_token_of :: "'db env \<Rightarrow> request \<Rightarrow> string js" where
  "auth_token_of E request =
     js_nth (js_split CHR '' ''
       (interp (coalesce (coalesce (getAuthCookie E (rq_cookie request)) (rq_authorization request))
                         (Val [])))) 1"

definition authenticate :: "'db env \<Rightarrow> request \<Rightarrow> ('db, next_call) async" where
  "authenticate E request =
     (let authHeader = rq_authorization request;
          authCookie = getAuthCookie E (rq_cookie request)
      in if \<not> truthy authHeader \<and> \<not> truthy authCookie
         then ret (NextErr (unauthorized ''JWT token is missing'' ''TOKEN_MISSING''))
         else
           andThen
             (catch (authenticate_try E request (auth_token_of E request))
               (\<lambda>err. ret (Done (NextErr (unauthorized ''Invalid JWT token'' ''INVALID_TOKEN'')))))
             (\<lambda>step. case step of
                 Done n \<Rightarrow> ret n
               | Delegate request' \<Rightarrow> handelPermission E request'))"

section \<open>src/middleware/handle-error.ts\<close>

definition slientAPIs :: "string list" where
  "slientAPIs = [''/auth/signin'']"

text \<open>\<open>${err}\<close>: \<open>Error.prototype.toString\<close>.\<close>

fun error_text :: "exn \<Rightarrow> string" where
  "error_text (AppExn e) =
     (if err_message e = [] then ''Error'' else ''Error: '' @ err_message e)"
| "error_text (ValidationExn n j) = ''ValidationError''"
| "error_text (OtherExn n m) =
     (if truthy m then n @ '': '' @ interp m else n)"
| "error_text NullExn = ''null''"

definition user_to_log :: "users option \<Rightarrow> json" where
  "user_to_log user =
     (case user of None \<Rightarrow> JObj []
      | Some u \<Rightarrow> JObj [(''id'', json_of (u_id u)), (''email'', json_of (u_email u))])"

definition handleError ::
    "(request \<Rightarrow> ('db, response) async) \<Rightarrow> request \<Rightarrow> ('db, response) async" where
  "handleError handler req =
     catch (handler req) (\<lambda>err.
       andThen
         (if rq_originalUrl req \<notin> set slientAPIs then
            log_error
              (rq_method req @ '' '' @ rq_originalUrl req @
               '' '' @ [CHR 0x0A] @ ''User: %o'' @ [CHR 0x0A] @ ''Params: %o'' @ [CHR 0x0A] @
               ''Query: %o'' @ [CHR 0x0A] @ ''Body: %o'' @ [CHR 0x0A] @ error_text err)
              [user_to_log (rq_user req), JObj (rq_params req), JObj (rq_query req),
               JObj (rq_body req)]
          else ret ())
         (\<lambda>_. throw err))"

section \<open>What an accepted request has proved\<close>

text \<open>
  The conditions under which \<open>authenticate_try\<close> lets a token through: the token verifies as
  an access token, its subject is a user, and for the persisted user type the row of
  \<open>tokens\<close> that the user owns holds this very token.
\<close>

definition token_accepted :: "'db env \<Rightarrow> string js \<Rightarrow> 'db world \<Rightarrow> users \<Rightarrow> bool" where
  "token_accepted E token w u \<longleftrightarrow>
     (\<exists>p. jwt_verify E (SECRET_HEX (cfg E)) token (Token ACCESS) (w_now w) = Inr (Some p)
          \<and> isAccessToken p
          \<and> users_findOne (orm E) (Where [(''id'', Is (tk_sub p))])
               (no_opts\<lparr>f_relations := [''token'']\<rparr>) (w_db w) = Inr (Some u))
     \<and> (u_userType u = Val persisted_type \<longrightarrow>
          (\<exists>tk. u_token u = Val tk \<and> t_accessToken tk = token))"

text \<open>The block as one case distinction on what the two packages answer.\<close>

lemma authenticate_try_unfold:
  "authenticate_try E req token w =
     (case jwt_verify E (SECRET_HEX (cfg E)) token (Token ACCESS) (w_now w) of
        Inl e \<Rightarrow> (Inl e, w)
      | Inr None \<Rightarrow> (Inl NullExn, w)
      | Inr (Some p) \<Rightarrow>
          if \<not> isAccessToken p
          then (Inl (bad_request ''Provided token is not valid access token'' ''INVALID_ACCESS_TOKEN''), w)
          else (case users_findOne (orm E) (Where [(''id'', Is (tk_sub p))])
                       (no_opts\<lparr>f_relations := [''token'']\<rparr>) (w_db w) of
            Inl e \<Rightarrow> (Inl e, w)
          | Inr None \<Rightarrow>
              (Inr (Done (NextErr (AppExn (UnauthorizedError (Some ''User do not exist'') None)))), w)
          | Inr (Some u) \<Rightarrow>
              (Inr (if u_userType u = Val persisted_type
                       \<and> \<not> (case u_token u of Val tk \<Rightarrow> t_accessToken tk = token | _ \<Rightarrow> False)
                    then Done (NextErr (unauthorized ''Provided token is not valid access token''
                                          ''INVALID_ACCESS_TOKEN''))
                    else if u_userType u = Val (PropaneUserType SUB_ADMIN)
                    then Delegate (req\<lparr>rq_user := Some u, rq_token := token\<rparr>)
                    else Done (Next (req\<lparr>rq_user := Some u, rq_token := token\<rparr>))), w)))"
  unfolding authenticate_try_def verifyToken_def andThen_def
  by (simp add: Let_def split: sum.split option.split)

lemma authenticate_try_state: "authenticate_try E req token w = (r, w') \<Longrightarrow> w' = w"
  unfolding authenticate_try_unfold by (simp split: sum.splits option.splits if_split_asm)

lemma authenticate_try_Next:
  assumes "authenticate_try E req token w = (Inr (Done (Next req')), w')"
  shows "\<exists>u. token_accepted E token w u \<and> u_userType u \<noteq> Val (PropaneUserType SUB_ADMIN)
             \<and> req' = req\<lparr>rq_user := Some u, rq_token := token\<rparr>"
  using assms unfolding authenticate_try_unfold token_accepted_def
  by (simp split: sum.splits option.splits if_split_asm js.splits)

lemma authenticate_try_Delegate:
  assumes "authenticate_try E req token w = (Inr (Delegate req'), w')"
  shows "\<exists>u. token_accepted E token w u \<and> u_userType u = Val (PropaneUserType SUB_ADMIN)
             \<and> req' = req\<lparr>rq_user := Some u, rq_token := token\<rparr>"
  using assms unfolding authenticate_try_unfold token_accepted_def
  by (simp split: sum.splits option.splits if_split_asm js.splits)

end
