(* ===== verification/Access.thy ===== *)
theory Access
  imports Middleware
begin

text \<open>
  The contract that the four deciding middlewares share, as a locale with its interpretations,
  the way routes chain them, and the facts about who gets through.
\<close>

section \<open>How a route chains middleware\<close>

text \<open>
  A request ends with a response, with \<open>next(err)\<close> (which the error handler answers), or with
  a promise that rejects inside a middleware that nothing wraps: Express does not see it, and
  the request is not answered (\<open>serve\<close> in Routes says what follows).
\<close>

datatype route_error = NextWith exn | Unhandled exn

type_synonym 'db route_io = "('db world, route_error, response) io"

definition pass :: "('db, next_call) async \<Rightarrow> (request \<Rightarrow> 'db route_io) \<Rightarrow> 'db route_io" where
  "pass m k w =
     (case m w of
        (Inl e, t) \<Rightarrow> (Inl (Unhandled e), t)
      | (Inr (NextErr e), t) \<Rightarrow> (Inl (NextWith e), t)
      | (Inr (Next r), t) \<Rightarrow> k r t)"

definition finish :: "('db, response) async \<Rightarrow> 'db route_io" where
  "finish m w = (case m w of (Inl e, t) \<Rightarrow> (Inl (NextWith e), t) | (Inr r, t) \<Rightarrow> (Inr r, t))"

section \<open>The contract of a guard\<close>

text \<open>A step in front of a handler reads the database without changing it and starts no mail.\<close>

locale quiet_step =
  fixes mw :: "'db env \<Rightarrow> request \<Rightarrow> ('db, next_call) async"
  assumes keeps_state:
      "mw E req w = (r, w') \<Longrightarrow>
         w_db w' = w_db w \<and> w_outbox w' = w_outbox w \<and> w_now w' = w_now w"
begin

text \<open>
  A route behind the step either ends there, with nothing written or mailed, or goes on with
  what the step passes on.
\<close>

lemma pass_cases:
  assumes "pass (mw E req) k w = (r, w')"
  obtains (stops) e where "r = Inl e" "w_db w' = w_db w" "w_outbox w' = w_outbox w"
  | (goes_on) req' t where "mw E req w = (Inr (Next req'), t)" "k req' t = (r, w')"
      "w_db t = w_db w" "w_outbox t = w_outbox w" "w_now t = w_now w"
proof (cases "mw E req w")
  case (Pair x t)
  note keep = keeps_state [OF Pair]
  show thesis
  proof (cases x)
    case (Inl e)
    with assms Pair keep show thesis by (intro stops [of "Unhandled e"]) (simp_all add: pass_def)
  next
    case (Inr n)
    with assms Pair keep stops goes_on show thesis by (cases n) (auto simp: pass_def)
  qed
qed

end

text \<open>
  A guard moreover changes nothing of the request but the user and the token it attaches, and
  refuses with status 401 or 403.
\<close>

locale guard = quiet_step mw for mw :: "'db env \<Rightarrow> request \<Rightarrow> ('db, next_call) async" +
  assumes same_request:
      "mw E req w = (Inr (Next req'), w') \<Longrightarrow> \<exists>u t. req' = req\<lparr>rq_user := u, rq_token := t\<rparr>"
    and refusal:
      "mw E req w = (Inr (NextErr e), w') \<Longrightarrow> \<exists>a. e = AppExn a \<and> err_status a \<in> {401, 403}"
begin

lemma same_body:
  "mw E req w = (Inr (Next req'), w') \<Longrightarrow>
     rq_body req' = rq_body req \<and> rq_params req' = rq_params req \<and> rq_query req' = rq_query req"
  by (drule same_request) auto

end

section \<open>The four middlewares keep the contract\<close>

lemma handelPermission_unfold:
  "handelPermission E req w =
     (case users_permissions (orm E)
         (Where [(''id'', Is (case rq_user req of None \<Rightarrow> Undef | Some u \<Rightarrow> u_id u))])
         (no_opts\<lparr>f_relations := [''subAdmin'', ''subAdmin.role'', ''subAdmin.role.permissions'']\<rparr>)
         (w_db w) of
        Inl e \<Rightarrow> (Inl e, w)
      | Inr permissions \<Rightarrow>
          if rq_baseUrl req \<notin> set PropaneBaseRoutes then (Inr forbidden_permission, w)
          else (case permissions of
            Undef \<Rightarrow> (Inr forbidden_permission, w)
          | Null \<Rightarrow> (Inr forbidden_permission, w)
          | Val ps \<Rightarrow>
              if ps = [] then (Inr forbidden_permission, w)
              else if module_of MapPropaneBaseRoutes (rq_baseUrl req) = 0 then (Inr (Next req), w)
              else (case find (\<lambda>prod. p_moduleId prod
                                 = module_of MapPropaneBaseRoutes (rq_baseUrl req)) ps of
                None \<Rightarrow> (Inr forbidden_permission, w)
              | Some p \<Rightarrow>
                  if p_all p then (Inr (Next req), w)
                  else (Inr (if method_allowed p (rq_method req) (rq_query req) then Next req
                             else forbidden_permission),
                        if known_method (rq_method req) then w
                        else w\<lparr>w_log := w_log w @ [(''No method found'', [])]\<rparr>))))"
  unfolding handelPermission_def andThen_def read_db_apply
  by (simp add: Let_def split: sum.split js.split option.split)

lemma handelPermission_request:
  "handelPermission E req w = (Inr (Next req'), w') \<Longrightarrow> req' = req"
  unfolding handelPermission_unfold forbidden_permission_def
  by (simp split: sum.splits js.splits option.splits if_split_asm)

lemma handelPermission_refusal:
  "handelPermission E req w = (Inr (NextErr e), w') \<Longrightarrow>
     e = AppExn (ForbiddenError (Some ''User does not have a permission'') None)"
  unfolding handelPermission_unfold forbidden_permission_def
  by (simp split: sum.splits js.splits option.splits if_split_asm)

lemma handelPermission_keeps:
  "handelPermission E req w = (r, w') \<Longrightarrow>
     w_db w' = w_db w \<and> w_outbox w' = w_outbox w \<and> w_now w' = w_now w"
  unfolding handelPermission_unfold
  by (auto split: sum.splits js.splits option.splits if_split_asm)

interpretation permission_guard: guard handelPermission
proof unfold_locales
  fix E :: "'a env" and req w r w'
  assume "handelPermission E req w = (r, w')"
  then show "w_db w' = w_db w \<and> w_outbox w' = w_outbox w \<and> w_now w' = w_now w"
    by (rule handelPermission_keeps)
next
  fix E :: "'a env" and req w req' w'
  assume "handelPermission E req w = (Inr (Next req'), w')"
  then have "req' = req" by (rule handelPermission_request)
  then have "req' = req\<lparr>rq_user := rq_user req, rq_token := rq_token req\<rparr>" by simp
  then show "\<exists>u t. req' = req\<lparr>rq_user := u, rq_token := t\<rparr>" by blast
next
  fix E :: "'a env" and req w e w'
  assume "handelPermission E req w = (Inr (NextErr e), w')"
  then have "e = AppExn (ForbiddenError (Some ''User does not have a permission'') None)"
    by (rule handelPermission_refusal)
  then show "\<exists>a. e = AppExn a \<and> err_status a \<in> {401, 403}" by simp
qed

lemma request_self: "\<exists>u t. req = req\<lparr>rq_user := u, rq_token := t\<rparr>"
  by (rule exI [of _ "rq_user req"], rule exI [of _ "rq_token req"]) simp

interpretation presence_guard: guard checkPermission
  by unfold_locales
     (auto simp: checkPermission_def andThen_def intro: request_self split: option.splits)

interpretation type_guard: guard "checkUserType ts" for ts
  by unfold_locales
     (auto simp: checkUserType_def andThen_def intro: request_self
           split: option.splits if_split_asm)

text \<open>\<open>authenticate\<close> as one case distinction on its \<open>try\<close> block.\<close>

lemma authenticate_unfold:
  "authenticate E req w =
     (if \<not> truthy (rq_authorization req) \<and> \<not> truthy (getAuthCookie E (rq_cookie req))
      then (Inr (NextErr (unauthorized ''JWT token is missing'' ''TOKEN_MISSING'')), w)
      else (case authenticate_try E req (auth_token_of E req) w of
         (Inl e, t) \<Rightarrow> (Inr (NextErr (unauthorized ''Invalid JWT token'' ''INVALID_TOKEN'')), t)
       | (Inr (Done n), t) \<Rightarrow> (Inr n, t)
       | (Inr (Delegate req'), t) \<Rightarrow> handelPermission E req' t))"
  unfolding authenticate_def Let_def catch_def andThen_def
  by (simp split: prod.split sum.split auth_step.split)

lemma authenticate_try_NextErr:
  assumes "authenticate_try E req token w = (Inr (Done (NextErr e)), w')"
  shows "\<exists>a. e = AppExn a \<and> err_status a = 401"
  using assms unfolding authenticate_try_unfold
  by (auto split: sum.splits option.splits if_split_asm js.splits)

interpretation auth_guard: guard authenticate
proof unfold_locales
  fix E :: "'a env" and req w r w'
  assume "authenticate E req w = (r, w')"
  then show "w_db w' = w_db w \<and> w_outbox w' = w_outbox w \<and> w_now w' = w_now w"
    unfolding authenticate_unfold
    by (auto dest: authenticate_try_state handelPermission_keeps
             split: prod.splits sum.splits auth_step.splits if_split_asm)
next
  fix E :: "'a env" and req w req' w'
  assume "authenticate E req w = (Inr (Next req'), w')"
  then show "\<exists>u t. req' = req\<lparr>rq_user := u, rq_token := t\<rparr>"
    unfolding authenticate_unfold
    by (auto dest!: authenticate_try_Next authenticate_try_Delegate handelPermission_request
             split: prod.splits sum.splits auth_step.splits if_split_asm)
next
  fix E :: "'a env" and req w e w'
  assume "authenticate E req w = (Inr (NextErr e), w')"
  then show "\<exists>a. e = AppExn a \<and> err_status a \<in> {401, 403}"
    unfolding authenticate_unfold
    by (auto dest!: authenticate_try_NextErr handelPermission_refusal
             split: prod.splits sum.splits auth_step.splits if_split_asm)
qed

section \<open>Exactly who gets through\<close>

text \<open>The permissions that let a sub-admin's request through.\<close>

definition permission_granted :: "'db env \<Rightarrow> request \<Rightarrow> 'db \<Rightarrow> bool" where
  "permission_granted E req d \<longleftrightarrow>
     rq_baseUrl req \<in> set PropaneBaseRoutes \<and>
     (case users_permissions (orm E)
         (Where [(''id'', Is (case rq_user req of None \<Rightarrow> Undef | Some u \<Rightarrow> u_id u))])
         (no_opts\<lparr>f_relations := [''subAdmin'', ''subAdmin.role'', ''subAdmin.role.permissions'']\<rparr>) d of
        Inr (Val ps) \<Rightarrow>
          ps \<noteq> [] \<and>
          (let m = module_of MapPropaneBaseRoutes (rq_baseUrl req) in
           m = 0 \<or> (case find (\<lambda>p. p_moduleId p = m) ps of
                      Some p \<Rightarrow> p_all p \<or> method_allowed p (rq_method req) (rq_query req)
                    | None \<Rightarrow> False))
      | _ \<Rightarrow> False)"

lemma handelPermission_granted:
  "(\<exists>w'. handelPermission E req w = (Inr (Next req'), w'))
     \<longleftrightarrow> req' = req \<and> permission_granted E req (w_db w)"
  unfolding handelPermission_unfold permission_granted_def forbidden_permission_def Let_def
  by (auto split: sum.splits js.splits option.splits if_split_asm)

lemma authenticate_Next_iff:
  "(\<exists>w'. authenticate E req w = (Inr (Next req'), w')) \<longleftrightarrow>
     (truthy (rq_authorization req) \<or> truthy (getAuthCookie E (rq_cookie req)))
     \<and> (\<exists>u. token_accepted E (auth_token_of E req) w u
          \<and> req' = req\<lparr>rq_user := Some u, rq_token := auth_token_of E req\<rparr>
          \<and> (if u_userType u = Val (PropaneUserType SUB_ADMIN)
             then permission_granted E req' (w_db w) else True))"
proof -
  let ?t = "auth_token_of E req"
  have tried: "authenticate_try E req ?t w = (Inr (Done (Next r)), w) \<longleftrightarrow>
      (\<exists>u. token_accepted E ?t w u \<and> u_userType u \<noteq> Val (PropaneUserType SUB_ADMIN)
           \<and> r = req\<lparr>rq_user := Some u, rq_token := ?t\<rparr>)" for r
    unfolding authenticate_try_unfold token_accepted_def
    by (auto split: sum.splits option.splits if_split_asm js.splits)
  have delegate: "authenticate_try E req ?t w = (Inr (Delegate r), w) \<longleftrightarrow>
      (\<exists>u. token_accepted E ?t w u \<and> u_userType u = Val (PropaneUserType SUB_ADMIN)
           \<and> r = req\<lparr>rq_user := Some u, rq_token := ?t\<rparr>)" for r
    unfolding authenticate_try_unfold token_accepted_def
    by (auto split: sum.splits option.splits if_split_asm js.splits)
  have "(\<exists>w'. authenticate E req w = (Inr (Next req'), w')) \<longleftrightarrow>
      (truthy (rq_authorization req) \<or> truthy (getAuthCookie E (rq_cookie req)))
      \<and> (authenticate_try E req ?t w = (Inr (Done (Next req')), w)
         \<or> (\<exists>r. authenticate_try E req ?t w = (Inr (Delegate r), w)
                \<and> (\<exists>w'. handelPermission E r w = (Inr (Next req'), w'))))"
    unfolding authenticate_unfold
    by (auto dest: authenticate_try_state split: prod.splits sum.splits auth_step.splits if_split_asm)
  then show ?thesis unfolding tried delegate handelPermission_granted by (auto split: if_split_asm)
qed

lemma authenticate_accepts:
  assumes "authenticate E req w = (Inr (Next req'), w')"
  shows "\<exists>u. token_accepted E (auth_token_of E req) w u
     \<and> req' = req\<lparr>rq_user := Some u, rq_token := auth_token_of E req\<rparr>
     \<and> (if u_userType u = Val (PropaneUserType SUB_ADMIN)
        then rq_baseUrl req \<in> set PropaneBaseRoutes else True)"
proof -
  have "\<exists>w'. authenticate E req w = (Inr (Next req'), w')" using assms by blast
  then obtain u where "token_accepted E (auth_token_of E req) w u"
    "req' = req\<lparr>rq_user := Some u, rq_token := auth_token_of E req\<rparr>"
    "if u_userType u = Val (PropaneUserType SUB_ADMIN) then permission_granted E req' (w_db w) else True"
    unfolding authenticate_Next_iff by blast
  then show ?thesis by (intro exI [of _ u]) (simp add: permission_granted_def split: if_split_asm)
qed

end
