(* ===== verification/Store.thy ===== *)
theory Store
  imports TokenService
begin

text \<open>
  What the code relies on in TypeORM, stated over the rows of the tables: which rows a
  condition selects, what a found entity holds, and what a save changes. The laws are a
  locale over the environment; they leave open which matching row is found, how strings
  collate in the database, whether an operation fails, and what a condition on
  \<open>undefined\<close> selects.
\<close>

section \<open>Rows and conditions\<close>

definition column :: "string \<Rightarrow> users \<Rightarrow> string js" where
  "column k u =
     (if k = ''id'' then u_id u
      else if k = ''email'' then u_email u
      else if k = ''fullName'' then u_fullName u
      else if k = ''countryCode'' then u_countryCode u
      else if k = ''mobileNumber'' then u_mobileNumber u
      else if k = ''userType'' then u_userType u
      else if k = ''otp'' then u_otp u
      else Undef)"

definition columns :: "string list" where
  "columns = [''id'', ''email'', ''fullName'', ''countryCode'', ''mobileNumber'', ''userType'', ''otp'']"

fun cond_ok :: "(string \<Rightarrow> string \<Rightarrow> bool) \<Rightarrow> cond \<Rightarrow> string js \<Rightarrow> bool" where
  "cond_ok eq (Is (Val s)) (Val x) = eq s x"
| "cond_ok eq (Is Null) v = (v = Null)"
| "cond_ok eq (InList ss) (Val x) = list_ex (\<lambda>s. eq s x) ss"
| "cond_ok eq c v = False"

fun plain_cond :: "cond \<Rightarrow> bool" where
  "plain_cond (Is (Val s)) = True"
| "plain_cond (Is Null) = True"
| "plain_cond (InList ss) = True"
| "plain_cond c = False"

fun conditions_of :: "criteria \<Rightarrow> conditions" where
  "conditions_of (ById v) = [(''id'', Is v)]"
| "conditions_of (Where q) = q"

definition plain :: "criteria \<Rightarrow> bool" where
  "plain q \<longleftrightarrow> list_all (\<lambda>(k, c). k \<in> set columns \<and> plain_cond c) (conditions_of q)"

definition matches :: "(string \<Rightarrow> string \<Rightarrow> bool) \<Rightarrow> criteria \<Rightarrow> users \<Rightarrow> bool" where
  "matches eq q u \<longleftrightarrow> list_all (\<lambda>(k, c). cond_ok eq c (column k u)) (conditions_of q)"

text \<open>Soft-deleted rows are found only with \<open>withDeleted\<close>.\<close>

definition live :: "find_opts \<Rightarrow> users \<Rightarrow> bool" where
  "live o' u \<longleftrightarrow> f_withDeleted o' = Some True \<or> u_deletedAt u = Null"

definition live_token :: "tokens \<Rightarrow> bool" where
  "live_token t \<longleftrightarrow> t_deletedAt t = Null"

text \<open>The columns of a row that a \<open>select\<close> keeps; an empty one keeps all.\<close>

definition project :: "string list \<Rightarrow> users \<Rightarrow> users" where
  "project sel u =
     (if sel = [] then u
      else blank_user
        \<lparr>u_id := if ''id'' \<in> set sel then u_id u else Undef,
         u_fullName := if ''fullName'' \<in> set sel then u_fullName u else Undef,
         u_password := if ''password'' \<in> set sel then u_password u else Undef,
         u_stripeCustomerId := if ''stripeCustomerId'' \<in> set sel then u_stripeCustomerId u else Undef,
         u_deletedAt := if ''deletedAt'' \<in> set sel then u_deletedAt u else Undef,
         u_isActive := if ''isActive'' \<in> set sel then u_isActive u else Undef\<rparr>)"

section \<open>Saving\<close>

definition pick :: "'a js \<Rightarrow> 'a js \<Rightarrow> 'a js" where
  "pick new old = (if new = Undef then old else new)"

text \<open>The row an entity is inserted as: its own values, the column defaults, the generated ones.\<close>

definition new_row :: "users \<Rightarrow> string \<Rightarrow> int \<Rightarrow> users" where
  "new_row u i now =
     \<lparr>u_id = Val i, u_fullName = pick (u_fullName u) Null, u_email = pick (u_email u) Null,
      u_password = pick (u_password u) Null, u_countryCode = pick (u_countryCode u) Null,
      u_mobileNumber = pick (u_mobileNumber u) Null, u_otp = pick (u_otp u) Null,
      u_userType = pick (u_userType u) Null, u_profileImage = pick (u_profileImage u) Null,
      u_stripeCustomerId = pick (u_stripeCustomerId u) Null,
      u_stripeAccountId = pick (u_stripeAccountId u) Null,
      u_userSubscriptionCount = pick (u_userSubscriptionCount u) (Val 0),
      u_createdAt = Val now, u_updatedAt = Val now, u_deletedAt = pick (u_deletedAt u) Null,
      u_createdBy = pick (u_createdBy u) Null, u_updatedBy = pick (u_updatedBy u) Null,
      u_adminAddress = pick (u_adminAddress u) Null, u_isActive = pick (u_isActive u) (Val True),
      u_token = Undef, u_contactUs = Undef\<rparr>"

text \<open>A row after the entity with its id was saved: the entity's defined values win.\<close>

definition overwrite :: "users \<Rightarrow> users \<Rightarrow> int \<Rightarrow> users" where
  "overwrite u r now =
     \<lparr>u_id = u_id r, u_fullName = pick (u_fullName u) (u_fullName r),
      u_email = pick (u_email u) (u_email r), u_password = pick (u_password u) (u_password r),
      u_countryCode = pick (u_countryCode u) (u_countryCode r),
      u_mobileNumber = pick (u_mobileNumber u) (u_mobileNumber r),
      u_otp = pick (u_otp u) (u_otp r), u_userType = pick (u_userType u) (u_userType r),
      u_profileImage = pick (u_profileImage u) (u_profileImage r),
      u_stripeCustomerId = pick (u_stripeCustomerId u) (u_stripeCustomerId r),
      u_stripeAccountId = pick (u_stripeAccountId u) (u_stripeAccountId r),
      u_userSubscriptionCount = pick (u_userSubscriptionCount u) (u_userSubscriptionCount r),
      u_createdAt = pick (u_createdAt u) (u_createdAt r), u_updatedAt = Val now,
      u_deletedAt = pick (u_deletedAt u) (u_deletedAt r),
      u_createdBy = pick (u_createdBy u) (u_createdBy r),
      u_updatedBy = pick (u_updatedBy u) (u_updatedBy r),
      u_adminAddress = pick (u_adminAddress u) (u_adminAddress r),
      u_isActive = pick (u_isActive u) (u_isActive r), u_token = Undef, u_contactUs = Undef\<rparr>"

definition new_token_row :: "tokens \<Rightarrow> string \<Rightarrow> int \<Rightarrow> tokens" where
  "new_token_row t i now =
     \<lparr>t_id = Val i, t_deviceId = pick (t_deviceId t) Null, t_deviceType = pick (t_deviceType t) Null,
      t_accessToken = pick (t_accessToken t) Null, t_refreshToken = pick (t_refreshToken t) Null,
      t_lastLogin = pick (t_lastLogin t) Null, t_loginCount = pick (t_loginCount t) (Val 0),
      t_createdAt = Val now, t_updatedAt = Val now, t_deletedAt = pick (t_deletedAt t) Null,
      t_user = pick (t_user t) Null\<rparr>"

definition overwrite_token :: "tokens \<Rightarrow> tokens \<Rightarrow> int \<Rightarrow> tokens" where
  "overwrite_token t r now =
     \<lparr>t_id = t_id r, t_deviceId = pick (t_deviceId t) (t_deviceId r),
      t_deviceType = pick (t_deviceType t) (t_deviceType r),
      t_accessToken = pick (t_accessToken t) (t_accessToken r),
      t_refreshToken = pick (t_refreshToken t) (t_refreshToken r),
      t_lastLogin = pick (t_lastLogin t) (t_lastLogin r),
      t_loginCount = pick (t_loginCount t) (t_loginCount r),
      t_createdAt = pick (t_createdAt t) (t_createdAt r), t_updatedAt = Val now,
      t_deletedAt = pick (t_deletedAt t) (t_deletedAt r), t_user = pick (t_user t) (t_user r)\<rparr>"

section \<open>The laws\<close>

locale user_store =
  fixes E :: "'db env"
    and db_eq :: "string \<Rightarrow> string \<Rightarrow> bool"
    and declared :: "string list"
    and rows :: "'db \<Rightarrow> users set"
    and token_rows :: "'db \<Rightarrow> tokens set"
  assumes collation: "equivp db_eq"
    and primary_key: "r \<in> rows d \<Longrightarrow> r' \<in> rows d \<Longrightarrow> u_id r = u_id r' \<Longrightarrow> r = r'"
    and ids: "r \<in> rows d \<Longrightarrow> \<exists>i. u_id r = Val i"
    and id_collation: "r \<in> rows d \<Longrightarrow> u_id r = Val i \<Longrightarrow> db_eq j i \<longleftrightarrow> j = i"
    and type_collation:
      "r \<in> rows d \<Longrightarrow> u_userType r = Val s \<Longrightarrow> db_eq (PropaneUserType ty) s \<Longrightarrow> s = PropaneUserType ty"
    and token_key: "t \<in> token_rows d \<Longrightarrow> t' \<in> token_rows d \<Longrightarrow> t_id t = t_id t' \<Longrightarrow> t = t'"
    and token_ids: "t \<in> token_rows d \<Longrightarrow> \<exists>c i. t_id t = Val (c # i)"
    and unknown_relation:
      "\<not> set (f_relations o') \<subseteq> set declared \<Longrightarrow> \<exists>e. users_findOne (orm E) q o' d = Inl e"
    and finds_none:
      "plain q \<Longrightarrow> users_findOne (orm E) q o' d = Inr None \<Longrightarrow> r \<in> rows d \<Longrightarrow>
         live o' r \<Longrightarrow> \<not> matches db_eq q r"
    and found_row:
      "users_findOne (orm E) q o' d = Inr (Some u) \<Longrightarrow>
         \<exists>r \<in> rows d. live o' r \<and> (plain q \<longrightarrow> matches db_eq q r) \<and>
           u = (project (f_select o') r)\<lparr>u_token := u_token u, u_contactUs := u_contactUs u\<rparr> \<and>
           (if ''token'' \<in> set (f_relations o')
            then (case u_token u of
                    Val t \<Rightarrow> t \<in> token_rows d \<and> live_token t \<and> t_user t = u_id r
                  | Null \<Rightarrow> (\<forall>t \<in> token_rows d. live_token t \<longrightarrow> t_user t \<noteq> u_id r)
                  | Undef \<Rightarrow> False)
            else u_token u = Undef)"
    and findOneOrFail:
      "users_findOneOrFail (orm E) q o' d = Inr u \<longleftrightarrow> users_findOne (orm E) q o' d = Inr (Some u)"
    and save_new:
      "u_id u = Undef \<Longrightarrow> users_save (orm E) u d = (Inr v, d') \<Longrightarrow>
         \<exists>i now. (\<forall>r \<in> rows d. u_id r \<noteq> Val i) \<and> rows d' = insert (new_row u i now) (rows d)
           \<and> token_rows d' = token_rows d \<and> u_id v = Val i \<and> u_password v = u_password u
           \<and> u_email v = u_email u \<and> u_userType v = u_userType u"
    and save_existing:
      "r \<in> rows d \<Longrightarrow> u_id u = u_id r \<Longrightarrow> users_save (orm E) u d = (Inr v, d') \<Longrightarrow>
         \<exists>now. rows d' = insert (overwrite u r now) (rows d - {r}) \<and> token_rows d' = token_rows d"
    and save_error:
      "users_save (orm E) u d = (Inl e, d') \<Longrightarrow> rows d' = rows d \<and> token_rows d' = token_rows d"
    and tokens_save_new:
      "t_id t = Undef \<Longrightarrow> tokens_save (orm E) t d = (Inr tv, d') \<Longrightarrow>
         \<exists>i now. (\<forall>t' \<in> token_rows d. t_id t' \<noteq> Val i)
           \<and> token_rows d' = insert (new_token_row t i now) (token_rows d) \<and> rows d' = rows d"
    and tokens_save_existing:
      "tr \<in> token_rows d \<Longrightarrow> t_id t = t_id tr \<Longrightarrow> tokens_save (orm E) t d = (Inr tv, d') \<Longrightarrow>
         \<exists>now. token_rows d' = insert (overwrite_token t tr now) (token_rows d - {tr})
           \<and> rows d' = rows d"
    and tokens_save_error:
      "tokens_save (orm E) t d = (Inl e, d') \<Longrightarrow> rows d' = rows d \<and> token_rows d' = token_rows d"
    and tokens_update_existing:
      "tr \<in> token_rows d \<Longrightarrow> tokens_update (orm E) (t_id tr) t d = (Inr (), d') \<Longrightarrow>
         \<exists>now. token_rows d' = insert (overwrite_token t tr now) (token_rows d - {tr})
           \<and> rows d' = rows d"
    and tokens_update_error:
      "tokens_update (orm E) ti t d = (Inl e, d') \<Longrightarrow> rows d' = rows d \<and> token_rows d' = token_rows d"
    and tokens_find:
      "tokens_findOneOrFail (orm E) (Where [(''user'', IsUser (Some u))]) o' d = Inr t \<Longrightarrow>
         t \<in> token_rows d \<and> live_token t \<and> t_user t = u_id u"
    and tokens_find_none:
      "\<exists>e. tokens_findOneOrFail (orm E) (Where [(''user'', IsUser None)]) o' d = Inl e"
    and unknown_relation_find:
      "\<not> set (f_relations o') \<subseteq> set declared \<Longrightarrow> \<exists>e. users_find (orm E) q o' d = Inl e"
    and unknown_relation_permissions:
      "\<not> set (f_relations o') \<subseteq> set declared \<Longrightarrow> \<exists>e. users_permissions (orm E) q o' d = Inl e"
    and users_update_image:
      "users_update (orm E) ii [(''profileImage'', img)] d = (ures, d') \<Longrightarrow>
         token_rows d' = token_rows d \<and>
         (\<exists>now. rows d' = (\<lambda>r. if ures = Inr () \<and> u_id r = ii
                             then overwrite (blank_user\<lparr>u_profileImage := img\<rparr>) r now else r) ` rows d)"
    and contacts_frame:
      "contacts_save (orm E) ct d = (cres, d') \<Longrightarrow> rows d' = rows d \<and> token_rows d' = token_rows d"
      "contacts_update (orm E) ii ccols d = (cures, d') \<Longrightarrow> rows d' = rows d \<and> token_rows d' = token_rows d"
      "contacts_softDelete (orm E) ii d = (cdres, d') \<Longrightarrow> rows d' = rows d \<and> token_rows d' = token_rows d"
begin

lemma db_eq_refl [simp]: "db_eq s s"
  using collation by (rule equivp_reflp)

lemma db_eq_sym: "db_eq s t \<Longrightarrow> db_eq t s"
  using collation by (rule equivp_symp)

lemma db_eq_trans: "db_eq s t \<Longrightarrow> db_eq t u \<Longrightarrow> db_eq s u"
  using collation by (rule equivp_transp)

lemma finds_some:
  assumes "plain q" and "users_findOne (orm E) q o' d = Inr (Some u)"
  shows "\<exists>r \<in> rows d. live o' r \<and> matches db_eq q r \<and>
           u = (project (f_select o') r)\<lparr>u_token := u_token u, u_contactUs := u_contactUs u\<rparr> \<and>
           (if ''token'' \<in> set (f_relations o')
            then (case u_token u of
                    Val t \<Rightarrow> t \<in> token_rows d \<and> live_token t \<and> t_user t = u_id r
                  | Null \<Rightarrow> (\<forall>t \<in> token_rows d. live_token t \<longrightarrow> t_user t \<noteq> u_id r)
                  | Undef \<Rightarrow> False)
            else u_token u = Undef)"
proof -
  from found_row [OF assms(2)] obtain r where r: "r \<in> rows d" "live o' r" "plain q \<longrightarrow> matches db_eq q r"
    "u = (project (f_select o') r)\<lparr>u_token := u_token u, u_contactUs := u_contactUs u\<rparr>"
    "if ''token'' \<in> set (f_relations o')
            then (case u_token u of
                    Val t \<Rightarrow> t \<in> token_rows d \<and> live_token t \<and> t_user t = u_id r
                  | Null \<Rightarrow> (\<forall>t \<in> token_rows d. live_token t \<longrightarrow> t_user t \<noteq> u_id r)
                  | Undef \<Rightarrow> False)
            else u_token u = Undef" by blast
  from r(3) assms(1) have m: "matches db_eq q r" by simp
  show ?thesis by (rule bexI [OF _ r(1)]) (intro conjI r(2) m r(4,5))
qed

lemma found_entity:
  assumes "users_findOne (orm E) q o' d = Inr (Some u)" and "f_select o' = []"
  shows "\<exists>r \<in> rows d. live o' r \<and> u_id u = u_id r \<and> u_userType u = u_userType r
           \<and> u = r\<lparr>u_token := u_token u, u_contactUs := u_contactUs u\<rparr>"
proof -
  from found_row [OF assms(1)] assms(2) obtain r where r: "r \<in> rows d" "live o' r"
    "u = r\<lparr>u_token := u_token u, u_contactUs := u_contactUs u\<rparr>" by (auto simp: project_def)
  have "u_id u = u_id r" "u_userType u = u_userType r" by (subst r(3); simp)+
  with r show ?thesis by blast
qed

lemma find_id_row:
  assumes "users_findOne (orm E) q o' d = Inr (Some u)"
    and "q = ById (Val i) \<or> q = Where [(''id'', Is (Val i))]" and "f_select o' = []"
  shows "\<exists>r \<in> rows d. u_id r = Val i \<and> live o' r
           \<and> u = r\<lparr>u_token := u_token u, u_contactUs := u_contactUs u\<rparr>"
proof -
  have p: "plain q" using assms(2) by (auto simp: plain_def columns_def)
  from finds_some [OF p assms(1)] obtain r where r: "r \<in> rows d" "live o' r" "matches db_eq q r"
    "u = r\<lparr>u_token := u_token u, u_contactUs := u_contactUs u\<rparr>"
    using assms(3) by (auto simp: project_def)
  from ids [OF r(1)] obtain j where j: "u_id r = Val j" by blast
  from r(3) assms(2) j have "db_eq i j" by (auto simp: matches_def column_def)
  with id_collation [OF r(1) j] have "i = j" by simp
  with r j show ?thesis by blast
qed

end

section \<open>The packages together\<close>

text \<open>
  The store, jsonwebtoken and bcryptjs in one environment, with a database that answers: a
  query of declared relations does not fail, and \<open>token\<close> is one of them.
\<close>

locale auth_server = user_store E db_eq declared rows token_rows + jsonwebtoken E + bcryptjs E
  for E :: "'db env" and db_eq and declared and rows and token_rows +
  assumes reads_answer:
      "set (f_relations o') \<subseteq> set declared \<Longrightarrow> \<exists>v. users_findOne (orm E) q o' d = Inr v"
    and token_declared: "''token'' \<in> set declared"
begin

text \<open>Looking a user up by id, as \<open>authenticate\<close> does, finds the row and its session.\<close>

lemma finds_by_id:
  assumes "r \<in> rows d" and "u_id r = Val i" and "u_deletedAt r = Null"
  shows "\<exists>u. users_findOne (orm E) (Where [(''id'', Is (Val i))]) (no_opts\<lparr>f_relations := [''token'']\<rparr>) d
        = Inr (Some u)
     \<and> u_id u = Val i \<and> u_userType u = u_userType r \<and> u_email u = u_email r
     \<and> (case u_token u of
          Val t \<Rightarrow> t \<in> token_rows d \<and> live_token t \<and> t_user t = Val i
        | Null \<Rightarrow> (\<forall>t \<in> token_rows d. live_token t \<longrightarrow> t_user t \<noteq> Val i)
        | Undef \<Rightarrow> False)"
proof -
  let ?q = "Where [(''id'', Is (Val i))]" and ?o = "no_opts\<lparr>f_relations := [''token'']\<rparr>"
  have p: "plain ?q" by (simp add: plain_def columns_def)
  have "set (f_relations ?o) \<subseteq> set declared" using token_declared by simp
  from reads_answer [OF this] obtain v where v: "users_findOne (orm E) ?q ?o d = Inr v" by blast
  have "matches db_eq ?q r" using assms(2) by (simp add: matches_def column_def)
  with finds_none [OF p, of ?o d r] v assms(1,3) obtain u where u: "v = Some u"
    by (cases v) (auto simp: live_def)
  from finds_some [OF p v [unfolded u]] obtain r' where r': "r' \<in> rows d" "matches db_eq ?q r'"
    "u = (project (f_select ?o) r')\<lparr>u_token := u_token u, u_contactUs := u_contactUs u\<rparr>"
    and tok: "case u_token u of
                    Val t \<Rightarrow> t \<in> token_rows d \<and> live_token t \<and> t_user t = u_id r'
                  | Null \<Rightarrow> (\<forall>t \<in> token_rows d. live_token t \<longrightarrow> t_user t \<noteq> u_id r')
                  | Undef \<Rightarrow> False" by auto
  from ids [OF r'(1)] obtain j where j: "u_id r' = Val j" by blast
  with r'(2) id_collation [OF r'(1) j] have "j = i" by (auto simp: matches_def column_def)
  with j assms primary_key [OF r'(1) assms(1)] have same: "r' = r" by simp
  have cols: "u_id u = u_id r" "u_userType u = u_userType r" "u_email u = u_email r"
    by (subst r'(3); simp add: same project_def no_opts_def)+
  from tok same assms(2) have "case u_token u of
          Val t \<Rightarrow> t \<in> token_rows d \<and> live_token t \<and> t_user t = Val i
        | Null \<Rightarrow> (\<forall>t \<in> token_rows d. live_token t \<longrightarrow> t_user t \<noteq> Val i)
        | Undef \<Rightarrow> False" by (simp split: js.splits)
  with v u cols assms(2) show ?thesis by simp
qed

end

end
