(* ===== verification/AuthFacts.thy ===== *)
theory AuthFacts
  imports AuthController Access Store
begin

text \<open>
  What the three handlers of src/controller/auth.ts have done when they answer, and what they
  have left untouched when they throw.
\<close>

lemma write_db_eq: "write_db q w = (r, w') \<longleftrightarrow> (\<exists>d. q (w_db w) = (r, d) \<and> w' = w\<lparr>w_db := d\<rparr>)"
  by (cases "q (w_db w)") (auto simp: write_db_def)

lemmas run_simps =
  andThen_eq_Inr write_db_eq hashPassword_result comparePassword_result
  signAccessToken_def signRefreshToken_def signToken_result

section \<open>signUp\<close>

definition phone_conditions :: "(string \<times> json) list \<Rightarrow> criteria" where
  "phone_conditions body = Where [(''countryCode'', Is (str_field body ''countryCode'')),
     (''mobileNumber'', Is (str_field body ''mobileNumber'')),
     (''userType'', Is (str_field body ''userType''))]"

definition email_conditions :: "(string \<times> json) list \<Rightarrow> criteria" where
  "email_conditions body = Where [(''email'', Is (str_field body ''email'')),
     (''userType'', Is (str_field body ''userType''))]"

text \<open>A token pair the server has signed for a user at a moment.\<close>

definition signed_pair :: "'db env \<Rightarrow> 'db world \<Rightarrow> string js \<Rightarrow> string \<Rightarrow> string \<Rightarrow> bool" where
  "signed_pair E w i at rt \<longleftrightarrow>
     signAccessToken E i w = (Inr at, w) \<and> signRefreshToken E i w = (Inr rt, w)"

lemma signed_pair_now: "w_now w = w_now w' \<Longrightarrow> signed_pair E w i a r = signed_pair E w' i a r"
  by (simp add: signed_pair_def signAccessToken_def signRefreshToken_def signToken_result)

lemma signed_pair_not_Nil: "signed_pair E w i a r \<Longrightarrow> a \<noteq> [] \<and> r \<noteq> []"
  by (simp add: signed_pair_def signAccessToken_def signRefreshToken_def signToken_result)

lemma signup_session_answer:
  assumes "signup_session E req user w = (Inr resp, w')"
  shows "\<exists>at rt. signed_pair E w (u_id user) at rt
     \<and> (if str_field (rq_body req) ''userType'' = Val stored_token_type
        then \<exists>tk d. tokens_save (orm E) (first_token (rq_body req) user at rt (w_now w)) (w_db w)
                      = (Inr tk, d) \<and> w' = w\<lparr>w_db := d\<rparr>
        else w' = w)
     \<and> resp = token_response E req at rt [(''user'', user_json user)]"
  using assms unfolding signup_session_def Let_def signed_pair_def
  by (auto simp: run_simps split: if_split_asm)

lemma signup_check_result:
  "signup_check E req w = (Inr tok, w1) \<longleftrightarrow>
     users_findOne (orm E) (phone_conditions (rq_body req)) no_opts (w_db w) = Inr None
     \<and> users_findOne (orm E) (email_conditions (rq_body req)) no_opts (w_db w) = Inr None
     \<and> tok = randtoken_uid E 32 (w_entropy w) \<and> w1 = w\<lparr>w_entropy := Suc (w_entropy w)\<rparr>"
  unfolding signup_check_def Let_def phone_conditions_def email_conditions_def
  by (auto simp: run_simps split: if_split_asm)

lemma signup_commit_answer:
  assumes "signup_commit E req tok w = (Inr resp, w')"
  shows "\<exists>h saved d1 w1.
     bcrypt_hash E (str_field (rq_body req) ''password'') 10 (w_entropy w) = Inr h
     \<and> users_save (orm E) (signup_entity (rq_body req) h) (w_db w) = (Inr saved, d1)
     \<and> signup_session E req (clear_password saved) w1 = (Inr resp, w')
     \<and> w_db w1 = d1 \<and> w_now w1 = w_now w"
  using assms unfolding signup_commit_def Let_def
  by (auto simp: run_simps split: if_split_asm) ((intro exI conjI, assumption+); simp)

lemma signUp_answer:
  assumes "signUp E req w = (Inr resp, w')"
  shows "\<exists>h saved d1 w1.
     users_findOne (orm E) (phone_conditions (rq_body req)) no_opts (w_db w) = Inr None
     \<and> users_findOne (orm E) (email_conditions (rq_body req)) no_opts (w_db w) = Inr None
     \<and> bcrypt_hash E (str_field (rq_body req) ''password'') 10 (Suc (w_entropy w)) = Inr h
     \<and> users_save (orm E) (signup_entity (rq_body req) h) (w_db w) = (Inr saved, d1)
     \<and> signup_session E req (clear_password saved) w1 = (Inr resp, w')
     \<and> w_db w1 = d1 \<and> w_now w1 = w_now w"
proof -
  from assms obtain tok w0 where c: "signup_check E req w = (Inr tok, w0)"
    "signup_commit E req tok w0 = (Inr resp, w')" unfolding signUp_def andThen_eq_Inr by blast
  from c(1) have w0: "w0 = w\<lparr>w_entropy := Suc (w_entropy w)\<rparr>"
    "users_findOne (orm E) (phone_conditions (rq_body req)) no_opts (w_db w) = Inr None"
    "users_findOne (orm E) (email_conditions (rq_body req)) no_opts (w_db w) = Inr None"
    unfolding signup_check_result by simp_all
  from signup_commit_answer [OF c(2)] w0 show ?thesis by simp
qed

text \<open>The fields a validated body has as strings.\<close>

definition has_strings :: "(string \<times> json) list \<Rightarrow> string list \<Rightarrow> bool" where
  "has_strings body ks \<longleftrightarrow> list_all (\<lambda>k. truthy (str_field body k)) ks"

lemma has_stringsD: "has_strings body ks \<Longrightarrow> k \<in> set ks \<Longrightarrow> \<exists>s. str_field body k = Val s"
  unfolding has_strings_def list_all_iff truthy_iff by blast

text \<open>Two rows that a sign-up must not both create.\<close>

definition same_account :: "(string \<Rightarrow> string \<Rightarrow> bool) \<Rightarrow> users \<Rightarrow> (string \<times> json) list \<Rightarrow> bool" where
  "same_account eq r body \<longleftrightarrow>
     matches eq (phone_conditions body) r \<or> matches eq (email_conditions body) r"

definition session_token ::
    "(string \<times> json) list \<Rightarrow> string \<Rightarrow> string \<Rightarrow> string \<Rightarrow> int \<Rightarrow> tokens" where
  "session_token body i at rt now = first_token body (blank_user\<lparr>u_id := Val i\<rparr>) at rt now"

lemma first_token_session: "u_id u = Val i \<Longrightarrow> first_token body u at rt now = session_token body i at rt now"
  by (simp add: session_token_def first_token_def)

lemma plain_signup:
  assumes "has_strings body [''email'', ''userType'', ''countryCode'', ''mobileNumber'']"
  shows "plain (phone_conditions body)" "plain (email_conditions body)"
  using has_stringsD [OF assms, of "''email''"] has_stringsD [OF assms, of "''userType''"]
    has_stringsD [OF assms, of "''countryCode''"] has_stringsD [OF assms, of "''mobileNumber''"]
  by (auto simp: plain_def phone_conditions_def email_conditions_def columns_def)

lemma clear_password_id [simp]: "u_id (clear_password u) = u_id u"
  by (simp add: clear_password_def)

context user_store
begin

lemma signup_creates:
  assumes "signUp E req w = (Inr resp, w')"
  shows "\<exists>i h now at rt user.
     (\<forall>r \<in> rows (w_db w). u_id r \<noteq> Val i)
     \<and> bcrypt_hash E (str_field (rq_body req) ''password'') 10 (Suc (w_entropy w)) = Inr h
     \<and> rows (w_db w') = insert (new_row (signup_entity (rq_body req) h) i now) (rows (w_db w))
     \<and> signed_pair E w (Val i) at rt
     \<and> resp = token_response E req at rt [(''user'', user_json user)]
     \<and> u_id user = Val i \<and> \<not> truthy (u_password user)
     \<and> (if str_field (rq_body req) ''userType'' = Val stored_token_type
        then \<exists>j n. token_rows (w_db w') = insert (new_token_row
               (session_token (rq_body req) i at rt (w_now w)) j n) (token_rows (w_db w))
        else token_rows (w_db w') = token_rows (w_db w))"
proof -
  from signUp_answer [OF assms] obtain h saved d1 w1 where
    hash: "bcrypt_hash E (str_field (rq_body req) ''password'') 10 (Suc (w_entropy w)) = Inr h" and
    save: "users_save (orm E) (signup_entity (rq_body req) h) (w_db w) = (Inr saved, d1)" and
    sess: "signup_session E req (clear_password saved) w1 = (Inr resp, w')" and
    w1: "w_db w1 = d1" "w_now w1 = w_now w" by blast
  have "u_id (signup_entity (rq_body req) h) = Undef" by (simp add: signup_entity_def blank_user_def)
  from save_new [OF this save] obtain i now where
    fresh: "\<forall>r \<in> rows (w_db w). u_id r \<noteq> Val i" and
    rows1: "rows d1 = insert (new_row (signup_entity (rq_body req) h) i now) (rows (w_db w))" and
    toks1: "token_rows d1 = token_rows (w_db w)" and sid: "u_id saved = Val i" by blast
  from signup_session_answer [OF sess] sid obtain at rt where
    pair1: "signed_pair E w1 (Val i) at rt" and
    tok: "if str_field (rq_body req) ''userType'' = Val stored_token_type
        then \<exists>tk d. tokens_save (orm E) (first_token (rq_body req) (clear_password saved) at rt (w_now w1))
                     (w_db w1) = (Inr tk, d) \<and> w' = w1\<lparr>w_db := d\<rparr>
        else w' = w1" and
    resp: "resp = token_response E req at rt [(''user'', user_json (clear_password saved))]"
    by auto
  have pair: "signed_pair E w (Val i) at rt" using pair1 w1(2) signed_pair_now by metis
  have hidden: "\<not> truthy (u_password (clear_password saved))" by (simp add: clear_password_def)
  show ?thesis
  proof (cases "str_field (rq_body req) ''userType'' = Val stored_token_type")
    case True
    with tok obtain tk d where
      ts: "tokens_save (orm E) (session_token (rq_body req) i at rt (w_now w)) d1 = (Inr tk, d)" and
      w': "w' = w1\<lparr>w_db := d\<rparr>"
      using w1 sid first_token_session [of "clear_password saved" i] by auto
    have "t_id (session_token (rq_body req) i at rt (w_now w)) = Undef"
      by (simp add: session_token_def first_token_def blank_token_def)
    from tokens_save_new [OF this ts] obtain j n where
      "token_rows d = insert (new_token_row (session_token (rq_body req) i at rt (w_now w)) j n)
         (token_rows d1)" "rows d = rows d1" by blast
    with True w' fresh hash rows1 toks1 pair resp hidden sid show ?thesis
      by (intro exI [of _ i] exI [of _ h] exI [of _ now] exI [of _ at] exI [of _ rt]
            exI [of _ "clear_password saved"]) auto
  next
    case False
    with tok have "w' = w1" by simp
    with False w1 fresh hash rows1 toks1 pair resp hidden sid show ?thesis
      by (intro exI [of _ i] exI [of _ h] exI [of _ now] exI [of _ at] exI [of _ rt]
            exI [of _ "clear_password saved"]) auto
  qed
qed

lemma signup_no_rival:
  assumes "signUp E req w = (Inr resp, w')"
    and "has_strings (rq_body req) [''email'', ''userType'', ''countryCode'', ''mobileNumber'']"
    and "r \<in> rows (w_db w)" and "u_deletedAt r = Null"
  shows "\<not> same_account db_eq r (rq_body req)"
proof -
  note a = signUp_answer [OF assms(1)]
  have "live no_opts r" using assms(4) by (simp add: live_def)
  then show ?thesis
    using a finds_none [OF plain_signup(1) [OF assms(2)] _ assms(3)]
      finds_none [OF plain_signup(2) [OF assms(2)] _ assms(3)]
    unfolding same_account_def by blast
qed

end

section \<open>Accounts that no sign-up may share\<close>

definition js_eq :: "(string \<Rightarrow> string \<Rightarrow> bool) \<Rightarrow> string js \<Rightarrow> string js \<Rightarrow> bool" where
  "js_eq eq a b = (case (a, b) of (Val s, Val t) \<Rightarrow> eq s t | _ \<Rightarrow> False)"

text \<open>
  Two accounts of one type with the same e-mail address or the same phone number.
\<close>

definition rivals :: "(string \<Rightarrow> string \<Rightarrow> bool) \<Rightarrow> users \<Rightarrow> users \<Rightarrow> bool" where
  "rivals eq r r' \<longleftrightarrow>
     js_eq eq (u_userType r) (u_userType r')
     \<and> (js_eq eq (u_email r) (u_email r')
        \<or> js_eq eq (u_countryCode r) (u_countryCode r')
          \<and> js_eq eq (u_mobileNumber r) (u_mobileNumber r'))"

definition accounts_unique :: "(string \<Rightarrow> string \<Rightarrow> bool) \<Rightarrow> users set \<Rightarrow> bool" where
  "accounts_unique eq R \<longleftrightarrow>
     (\<forall>r \<in> R. \<forall>r' \<in> R. u_deletedAt r = Null \<longrightarrow> u_deletedAt r' = Null \<longrightarrow> rivals eq r r' \<longrightarrow> r = r')"

lemma cond_ok_Is: "cond_ok eq (Is (Val s)) v = js_eq eq (Val s) v"
  by (cases v) (simp_all add: js_eq_def)

lemma same_account_rivals:
  assumes "has_strings body [''email'', ''userType'', ''countryCode'', ''mobileNumber'']"
  shows "same_account eq r body = rivals eq (new_row (signup_entity body h) i now) r"
  using has_stringsD [OF assms, of "''email''"] has_stringsD [OF assms, of "''userType''"]
    has_stringsD [OF assms, of "''countryCode''"] has_stringsD [OF assms, of "''mobileNumber''"]
  by (auto simp: same_account_def rivals_def matches_def phone_conditions_def email_conditions_def
      column_def new_row_def signup_entity_def blank_user_def pick_def cond_ok_Is)

lemma rivals_sym:
  assumes "\<And>s t. eq s t \<Longrightarrow> eq t s" and "rivals eq r r'"
  shows "rivals eq r' r"
  using assms unfolding rivals_def js_eq_def by (auto split: js.splits)

lemma accounts_unique_insert:
  assumes "accounts_unique eq R" and sym: "\<And>s t. eq s t \<Longrightarrow> eq t s"
    and new: "\<And>r. r \<in> R \<Longrightarrow> u_deletedAt r = Null \<Longrightarrow> \<not> rivals eq n r"
  shows "accounts_unique eq (insert n R)"
proof -
  have "\<not> rivals eq r n" if "r \<in> R" "u_deletedAt r = Null" for r
    using new [OF that] rivals_sym [of eq r n, OF sym] by blast
  with assms(1) new show ?thesis unfolding accounts_unique_def by blast
qed

text \<open>A row whose identifying columns stay what they were.\<close>

definition same_identity :: "users \<Rightarrow> users \<Rightarrow> bool" where
  "same_identity r r' \<longleftrightarrow>
     u_email r' = u_email r \<and> u_countryCode r' = u_countryCode r
     \<and> u_mobileNumber r' = u_mobileNumber r \<and> u_userType r' = u_userType r
     \<and> u_deletedAt r' = u_deletedAt r"

lemma accounts_unique_replace:
  assumes "accounts_unique eq R" and "r \<in> R" and "same_identity r r'"
  shows "accounts_unique eq (insert r' (R - {r}))"
proof -
  have "rivals eq r' x = rivals eq r x" "rivals eq x r' = rivals eq x r" for x
    using assms(3) by (simp_all add: same_identity_def rivals_def)
  with assms show ?thesis unfolding accounts_unique_def same_identity_def by auto
qed

context user_store
begin

lemma signup_keeps_unique:
  assumes "signUp E req w = (Inr resp, w')" and "accounts_unique db_eq (rows (w_db w))"
    and "has_strings (rq_body req) [''email'', ''userType'', ''countryCode'', ''mobileNumber'']"
  shows "accounts_unique db_eq (rows (w_db w'))"
proof -
  from signup_creates [OF assms(1)] obtain i h now where
    "rows (w_db w') = insert (new_row (signup_entity (rq_body req) h) i now) (rows (w_db w))" by blast
  with assms(2) db_eq_sym signup_no_rival [OF assms(1,3)] same_account_rivals [OF assms(3)]
  show ?thesis by (simp add: accounts_unique_insert)
qed

end

section \<open>login\<close>

lemma login_unfold:
  "login E req w =
     (case users_findOne (orm E) (Where (login_where (rq_body req)))
             (login_opts (str_field (rq_body req) ''userType'')) (w_db w) of
        Inl e \<Rightarrow> (Inl e, w)
      | Inr None \<Rightarrow> (Inl (bad_request (ApiMessages invalid_login_2) ''USER_NOT_FOUND''), w)
      | Inr (Some u) \<Rightarrow>
          if u_isActive u \<noteq> Val True
          then (Inl (bad_request (ApiMessages account_deactivated) ''INACTIVE_USER''), w)
          else if \<not> nullish (u_deletedAt u)
          then (Inl (bad_request (ApiMessages account_deleted_message) ''ACCOUNT_IS_DELETED''), w)
          else (case bcrypt_compare E (str_field (rq_body req) ''password'') (u_password u) of
            Inl e \<Rightarrow> (Inl e, w)
          | Inr matched \<Rightarrow>
              if matched then login_session E req u w
              else (Inl (bad_request (ApiMessages invalid_login_2) ''PASSWORD_MISSMATCH''), w)))"
  unfolding login_def Let_def andThen_def comparePassword_def
  by (simp split: sum.split option.split)

lemma login_session_answer:
  assumes "login_session E req u w = (Inr resp, w')"
  shows "\<exists>at rt. signed_pair E w (u_id u) at rt
     \<and> resp = token_response E req at rt []
     \<and> (if str_field (rq_body req) ''userType'' = Val stored_token_type
        then login_store E (rq_body req) u at rt w = (Inr (), w') else w' = w)"
  using assms unfolding login_session_def Let_def signed_pair_def
  by (auto simp: run_simps split: if_split_asm)

lemma login_answer:
  assumes "login E req w = (Inr resp, w')"
  shows "\<exists>u. users_findOne (orm E) (Where (login_where (rq_body req)))
       (login_opts (str_field (rq_body req) ''userType'')) (w_db w) = Inr (Some u)
     \<and> u_isActive u = Val True \<and> nullish (u_deletedAt u)
     \<and> bcrypt_compare E (str_field (rq_body req) ''password'') (u_password u) = Inr True
     \<and> login_session E req u w = (Inr resp, w')"
  using assms unfolding login_unfold
  by (auto split: sum.splits option.splits if_split_asm)

lemma login_store_cases:
  assumes "login_store E body u at rt w = (r, w')"
  obtains (updates) tk d where "u_token u = Val tk" "truthy (t_id tk)"
      "tokens_update (orm E) (t_id tk) (next_token body tk at rt (w_now w)) (w_db w) = (r, d)"
      "w' = w\<lparr>w_db := d\<rparr>"
  | (inserts) tv d where "\<forall>tk. u_token u = Val tk \<longrightarrow> \<not> truthy (t_id tk)"
      "tokens_save (orm E) (first_token body u at rt (w_now w)) (w_db w) = (tv, d)"
      "r = map_sum id (\<lambda>_. ()) tv" "w' = w\<lparr>w_db := d\<rparr>"
proof (cases "\<exists>tk. u_token u = Val tk \<and> truthy (t_id tk)")
  case True
  then obtain tk where tk: "u_token u = Val tk" "truthy (t_id tk)" by blast
  obtain r1 d where d: "tokens_update (orm E) (t_id tk) (next_token body tk at rt (w_now w)) (w_db w)
      = (r1, d)" by fastforce
  from assms tk d have "r1 = r" "w' = w\<lparr>w_db := d\<rparr>"
    by (auto simp: login_store_def write_db_def andThen_def)
  with updates tk d show ?thesis by blast
next
  case False
  obtain tv d where d: "tokens_save (orm E) (first_token body u at rt (w_now w)) (w_db w) = (tv, d)"
    by fastforce
  from assms False d have "r = map_sum id (\<lambda>_. ()) tv" "w' = w\<lparr>w_db := d\<rparr>"
    by (auto simp: login_store_def write_db_def andThen_def split: js.splits sum.splits)
  with inserts False d show ?thesis by blast
qed

section \<open>Sessions\<close>

text \<open>The live rows of \<open>tokens\<close> that belong to a user.\<close>

definition tokens_of :: "tokens set \<Rightarrow> string js \<Rightarrow> tokens set" where
  "tokens_of T i = {t \<in> T. live_token t \<and> t_user t = i}"

text \<open>Every user has at most one, which is what \<open>OneToOne\<close> promises.\<close>

definition one_session :: "tokens set \<Rightarrow> bool" where
  "one_session T \<longleftrightarrow> (\<forall>t \<in> T. \<forall>t' \<in> T. live_token t \<longrightarrow> live_token t' \<longrightarrow> t_user t = t_user t' \<longrightarrow> t = t')"

text \<open>The user's session is this token pair, and no other user's session changed.\<close>

definition session_now :: "tokens set \<Rightarrow> tokens set \<Rightarrow> string js \<Rightarrow> string \<Rightarrow> string \<Rightarrow> bool" where
  "session_now T T' i at rt \<longleftrightarrow>
     (\<exists>tk. tokens_of T' i = {tk} \<and> t_accessToken tk = Val at \<and> t_refreshToken tk = Val rt)
     \<and> (\<forall>j. j \<noteq> i \<longrightarrow> tokens_of T' j = tokens_of T j)"

lemma one_session_tokens_of: "one_session T \<longleftrightarrow> (\<forall>i. \<forall>t \<in> tokens_of T i. tokens_of T i = {t})"
  unfolding one_session_def tokens_of_def by blast

lemma session_now_one_session:
  assumes "one_session T" and "session_now T T' i at rt"
  shows "one_session T'"
  unfolding one_session_tokens_of
proof (intro allI ballI)
  fix j t assume t: "t \<in> tokens_of T' j"
  show "tokens_of T' j = {t}"
  proof (cases "j = i")
    case True
    with assms(2) t show ?thesis by (auto simp: session_now_def)
  next
    case False
    with assms(2) have "tokens_of T' j = tokens_of T j" by (simp add: session_now_def)
    with assms(1) t show ?thesis unfolding one_session_tokens_of by metis
  qed
qed

lemma session_now_insert:
  assumes "tokens_of T i = {}" and "live_token n" and "t_user n = i"
    and "t_accessToken n = Val at" and "t_refreshToken n = Val rt"
  shows "session_now T (insert n T) i at rt"
  using assms by (auto simp: session_now_def tokens_of_def intro!: exI [of _ n])

lemma session_now_replace:
  assumes "one_session T" and "tk \<in> tokens_of T i" and "live_token n" and "t_user n = i"
    and "t_accessToken n = Val at" and "t_refreshToken n = Val rt"
  shows "session_now T (insert n (T - {tk})) i at rt"
  using assms by (auto simp: session_now_def tokens_of_def one_session_def intro!: exI [of _ n])

lemma next_token_overwrite:
  assumes "live_token tk"
  shows "live_token (overwrite_token (next_token body tk at rt now) tk n)"
    "t_user (overwrite_token (next_token body tk at rt now) tk n) = t_user tk"
    "t_accessToken (overwrite_token (next_token body tk at rt now) tk n) = Val at"
    "t_refreshToken (overwrite_token (next_token body tk at rt now) tk n) = Val rt"
  using assms
  by (simp_all add: overwrite_token_def next_token_def blank_token_def live_token_def pick_def)

lemma session_token_row:
  assumes "u_id u \<noteq> Undef"
  shows "live_token (new_token_row (first_token body u at rt now) j n)"
    "t_user (new_token_row (first_token body u at rt now) j n) = u_id u"
    "t_accessToken (new_token_row (first_token body u at rt now) j n) = Val at"
    "t_refreshToken (new_token_row (first_token body u at rt now) j n) = Val rt"
  using assms
  by (simp_all add: new_token_row_def first_token_def blank_token_def live_token_def pick_def)

lemma login_where_phone:
  "str_field body ''userType'' = Val stored_token_type \<Longrightarrow> login_where body =
     [(''countryCode'', Is (str_field body ''countryCode'')),
      (''mobileNumber'', Is (str_field body ''mobileNumber'')),
      (''userType'', Is (Val stored_token_type))]"
  by (simp add: login_where_def login_isSms_def)

context user_store
begin

lemma login_finds:
  assumes "users_findOne (orm E) (Where (login_where body)) (login_opts ut) d = Inr (Some u)"
  shows "\<exists>r \<in> rows d. u_deletedAt r = Null
     \<and> (plain (Where (login_where body)) \<longrightarrow> matches db_eq (Where (login_where body)) r)
     \<and> u_id u = u_id r \<and> u_password u = u_password r \<and> u_isActive u = u_isActive r
     \<and> (ut = Val stored_token_type \<longrightarrow>
          (case u_token u of Val t \<Rightarrow> t \<in> tokens_of (token_rows d) (u_id r)
           | _ \<Rightarrow> tokens_of (token_rows d) (u_id r) = {}))"
proof -
  from found_row [OF assms] obtain r where r: "r \<in> rows d" "live (login_opts ut) r"
    "plain (Where (login_where body)) \<longrightarrow> matches db_eq (Where (login_where body)) r"
    "u = (project (f_select (login_opts ut)) r)\<lparr>u_token := u_token u, u_contactUs := u_contactUs u\<rparr>"
    and tok: "if ''token'' \<in> set (f_relations (login_opts ut))
            then (case u_token u of
                    Val t \<Rightarrow> t \<in> token_rows d \<and> live_token t \<and> t_user t = u_id r
                  | Null \<Rightarrow> (\<forall>t \<in> token_rows d. live_token t \<longrightarrow> t_user t \<noteq> u_id r)
                  | Undef \<Rightarrow> False)
            else u_token u = Undef" by blast
  have cols: "u_id u = u_id r" "u_password u = u_password r" "u_isActive u = u_isActive r"
    by (subst r(4); simp add: project_def login_opts_def)+
  have del: "u_deletedAt r = Null" using r(2) by (simp add: live_def login_opts_def no_opts_def)
  have sess: "case u_token u of Val t \<Rightarrow> t \<in> tokens_of (token_rows d) (u_id r)
           | _ \<Rightarrow> tokens_of (token_rows d) (u_id r) = {}" if "ut = Val stored_token_type"
    using tok that
    by (auto simp: login_opts_def login_relations_def login_isSms_def tokens_of_def split: js.splits)
  from r(1,3) cols del sess show ?thesis by blast
qed

lemma login_session_user:
  assumes "login_store E body u at rt w = (Inr (), w')"
    and "one_session (token_rows (w_db w))" and "u_id u \<noteq> Undef"
    and "case u_token u of Val t \<Rightarrow> t \<in> tokens_of (token_rows (w_db w)) (u_id u)
           | _ \<Rightarrow> tokens_of (token_rows (w_db w)) (u_id u) = {}"
  shows "rows (w_db w') = rows (w_db w)
     \<and> session_now (token_rows (w_db w)) (token_rows (w_db w')) (u_id u) at rt"
  using assms(1)
proof (cases rule: login_store_cases)
  case (updates tk d)
  with assms(4) have tk: "tk \<in> tokens_of (token_rows (w_db w)) (u_id u)" by simp
  then have mem: "tk \<in> token_rows (w_db w)" "live_token tk" "t_user tk = u_id u"
    by (simp_all add: tokens_of_def)
  from tokens_update_existing [OF mem(1) updates(3)] obtain n where
    n: "token_rows d = insert (overwrite_token (next_token body tk at rt (w_now w)) tk n)
          (token_rows (w_db w) - {tk})" "rows d = rows (w_db w)" by blast
  from session_now_replace [OF assms(2) tk] next_token_overwrite [OF mem(2)] mem(3) n updates(4)
  show ?thesis by simp
next
  case (inserts tv d)
  have none: "tokens_of (token_rows (w_db w)) (u_id u) = {}"
  proof (cases "u_token u")
    case (Val tk)
    with assms(4) have "tk \<in> token_rows (w_db w)" by (simp add: tokens_of_def)
    from token_ids [OF this] Val inserts(1) show ?thesis by auto
  qed (use assms(4) in auto)
  from inserts(3) obtain t where t: "tv = Inr t" by (cases tv) auto
  have "t_id (first_token body u at rt (w_now w)) = Undef"
    by (simp add: first_token_def blank_token_def)
  from tokens_save_new [OF this inserts(2) [unfolded t]] obtain j n where
    n: "token_rows d = insert (new_token_row (first_token body u at rt (w_now w)) j n)
          (token_rows (w_db w))" "rows d = rows (w_db w)" by blast
  from session_now_insert [OF none] session_token_row [OF assms(3)] n inserts(4)
  show ?thesis by simp
qed

lemma login_effect:
  assumes "login E req w = (Inr resp, w')"
    and "one_session (token_rows (w_db w))"
  shows "\<exists>r at rt. r \<in> rows (w_db w) \<and> u_deletedAt r = Null \<and> u_isActive r = Val True
     \<and> (plain (Where (login_where (rq_body req))) \<longrightarrow> matches db_eq (Where (login_where (rq_body req))) r)
     \<and> bcrypt_compare E (str_field (rq_body req) ''password'') (u_password r) = Inr True
     \<and> signed_pair E w (u_id r) at rt
     \<and> resp = token_response E req at rt []
     \<and> rows (w_db w') = rows (w_db w)
     \<and> (if str_field (rq_body req) ''userType'' = Val stored_token_type
        then session_now (token_rows (w_db w)) (token_rows (w_db w')) (u_id r) at rt else w' = w)"
proof -
  from login_answer [OF assms(1)] obtain u where u:
    "users_findOne (orm E) (Where (login_where (rq_body req)))
       (login_opts (str_field (rq_body req) ''userType'')) (w_db w) = Inr (Some u)"
    "u_isActive u = Val True"
    "bcrypt_compare E (str_field (rq_body req) ''password'') (u_password u) = Inr True"
    "login_session E req u w = (Inr resp, w')" by blast
  from login_finds [OF u(1)] obtain r where r: "r \<in> rows (w_db w)" "u_deletedAt r = Null"
    "plain (Where (login_where (rq_body req))) \<longrightarrow> matches db_eq (Where (login_where (rq_body req))) r"
    "u_id u = u_id r"
    "u_password u = u_password r" "u_isActive u = u_isActive r"
    "str_field (rq_body req) ''userType'' = Val stored_token_type \<longrightarrow>
          (case u_token u of Val t \<Rightarrow> t \<in> tokens_of (token_rows (w_db w)) (u_id r)
           | _ \<Rightarrow> tokens_of (token_rows (w_db w)) (u_id r) = {})" by blast
  from login_session_answer [OF u(4)] obtain at rt where s: "signed_pair E w (u_id u) at rt"
    "resp = token_response E req at rt []"
    "if str_field (rq_body req) ''userType'' = Val stored_token_type
        then login_store E (rq_body req) u at rt w = (Inr (), w') else w' = w" by blast
  from ids [OF r(1)] r(4) have uid: "u_id u \<noteq> Undef" by auto
  have "rows (w_db w') = rows (w_db w)
     \<and> (if str_field (rq_body req) ''userType'' = Val stored_token_type
        then session_now (token_rows (w_db w)) (token_rows (w_db w')) (u_id r) at rt else w' = w)"
  proof (cases "str_field (rq_body req) ''userType'' = Val stored_token_type")
    case True
    with s(3) have ls: "login_store E (rq_body req) u at rt w = (Inr (), w')" by simp
    have "case u_token u of Val t \<Rightarrow> t \<in> tokens_of (token_rows (w_db w)) (u_id u)
           | _ \<Rightarrow> tokens_of (token_rows (w_db w)) (u_id u) = {}"
      unfolding r(4) using r(7) True by (rule mp)
    from login_session_user [OF ls assms(2) uid this] True r(4) show ?thesis by simp
  qed (use s(3) in simp)
  moreover have "u_isActive r = Val True"
    "bcrypt_compare E (str_field (rq_body req) ''password'') (u_password r) = Inr True"
    "signed_pair E w (u_id r) at rt" using u(2,3) r(4-6) s(1) by simp_all
  ultimately show ?thesis using r(1-3) s(2) by blast
qed

text \<open>A login asks for the relation \<open>address\<close>; unless it is declared, every login fails.\<close>

lemma login_needs_address:
  assumes "''address'' \<notin> set declared"
  shows "\<exists>e. login E req w = (Inl e, w)"
proof -
  have "\<not> set (f_relations (login_opts (str_field (rq_body req) ''userType''))) \<subseteq> set declared"
    using assms by (auto simp: login_opts_def login_relations_def)
  from unknown_relation [OF this] obtain e where
    "users_findOne (orm E) (Where (login_where (rq_body req)))
       (login_opts (str_field (rq_body req) ''userType'')) (w_db w) = Inl e" by blast
  then show ?thesis by (simp add: login_unfold)
qed

end

section \<open>refreshToken\<close>

lemma decode_refresh_unfold:
  "decode_refresh E rt w =
     (case jwt_verify E (SECRET_HEX (cfg E)) rt (Token REFRESH) (w_now w) of
        Inl e \<Rightarrow>
          (Inl (if error_name e = Val ''TokenExpiredError''
                then bad_request ''Refresh token expired.'' ''REFRESH_TOKEN_EXPIRED''
                else invalid_refresh), w)
      | Inr None \<Rightarrow> (Inl invalid_refresh, w)
      | Inr (Some p) \<Rightarrow> (if isRefreshToken p then Inr p else Inl invalid_refresh, w))"
  unfolding decode_refresh_def verifyToken_def catch_def andThen_def
  by (simp add: invalid_refresh_def split: sum.split option.split)

definition refresh_user :: "'db env \<Rightarrow> string js \<Rightarrow> 'db world \<Rightarrow> users \<Rightarrow> bool" where
  "refresh_user E rt w u \<longleftrightarrow>
     (\<exists>p. jwt_verify E (SECRET_HEX (cfg E)) rt (Token REFRESH) (w_now w) = Inr (Some p)
          \<and> isRefreshToken p
          \<and> users_findOneOrFail (orm E) (ById (tk_sub p)) no_opts (w_db w) = Inr u)"

lemma refresh_answer:
  assumes "refreshToken E req w = (Inr resp, w')"
  shows "\<exists>u at nrt. refresh_user E (str_field (rq_body req) ''refreshToken'') w u
     \<and> signed_pair E w (u_id u) at nrt
     \<and> resp = token_response E req at nrt []
     \<and> (if truthy (str_field (rq_body req) ''refreshToken'') \<and> u_userType u = Val stored_token_type
        then rotate E u (str_field (rq_body req) ''refreshToken'') at nrt w = (Inr (), w')
        else w' = w)"
  using assms unfolding refreshToken_def Let_def signed_pair_def refresh_user_def
  by (auto simp: run_simps decode_refresh_unfold split: if_split_asm sum.splits option.splits)

lemma rotate_answer:
  assumes "rotate E u rt at nrt w = (Inr (), w')"
  shows "\<exists>v t s d. users_findOne (orm E) (ById (u_id u)) no_opts (w_db w) = Inr v
     \<and> tokens_findOneOrFail (orm E) (Where [(''user'', IsUser v)]) no_opts (w_db w) = Inr t
     \<and> t_refreshToken t = rt
     \<and> tokens_save (orm E) (t\<lparr>t_accessToken := Val at, t_refreshToken := Val nrt\<rparr>) (w_db w) = (Inr s, d)
     \<and> w' = w\<lparr>w_db := d\<rparr>"
  using assms unfolding rotate_def getByUserId_def
  by (auto simp: run_simps split: if_split_asm)

text \<open>What stops a stale refresh token of a persisted user.\<close>

lemma rotate_stale:
  assumes "users_findOne (orm E) (ById (u_id u)) no_opts (w_db w) = Inr v"
    and "tokens_findOneOrFail (orm E) (Where [(''user'', IsUser v)]) no_opts (w_db w) = Inr t"
    and "t_refreshToken t \<noteq> rt"
  shows "rotate E u rt at nrt w = (Inl (AppExn (BadRequestError (Some ''Invalid token'') None)), w)"
  using assms unfolding rotate_def getByUserId_def andThen_def by simp

lemma overwrite_token_pair:
  assumes "live_token t"
  shows "live_token (overwrite_token (t\<lparr>t_accessToken := Val at, t_refreshToken := Val nrt\<rparr>) t n)"
    "t_user (overwrite_token (t\<lparr>t_accessToken := Val at, t_refreshToken := Val nrt\<rparr>) t n) = t_user t"
    "t_accessToken (overwrite_token (t\<lparr>t_accessToken := Val at, t_refreshToken := Val nrt\<rparr>) t n) = Val at"
    "t_refreshToken (overwrite_token (t\<lparr>t_accessToken := Val at, t_refreshToken := Val nrt\<rparr>) t n) = Val nrt"
  using assms by (simp_all add: overwrite_token_def live_token_def pick_def)

context user_store
begin

lemma refresh_rotates:
  assumes "rotate E u rt at nrt w = (Inr (), w')" and "u_id u = Val i"
    and "one_session (token_rows (w_db w))"
  shows "rows (w_db w') = rows (w_db w)
     \<and> (\<exists>t. tokens_of (token_rows (w_db w)) (Val i) = {t} \<and> t_refreshToken t = rt)
     \<and> session_now (token_rows (w_db w)) (token_rows (w_db w')) (Val i) at nrt"
proof -
  from rotate_answer [OF assms(1)] assms(2) obtain v t s d where
    v: "users_findOne (orm E) (ById (Val i)) no_opts (w_db w) = Inr v" and
    t: "tokens_findOneOrFail (orm E) (Where [(''user'', IsUser v)]) no_opts (w_db w) = Inr t" and
    rt: "t_refreshToken t = rt" and
    s: "tokens_save (orm E) (t\<lparr>t_accessToken := Val at, t_refreshToken := Val nrt\<rparr>) (w_db w) = (Inr s, d)" and
    w': "w' = w\<lparr>w_db := d\<rparr>" by auto
  show ?thesis
  proof (cases v)
    case None
    with t tokens_find_none [of no_opts "w_db w"] show ?thesis by auto
  next
    case (Some u')
    have "f_select no_opts = []" by (simp add: no_opts_def)
    with find_id_row [OF v [unfolded Some]] obtain r where r: "u_id r = Val i"
      "u' = r\<lparr>u_token := u_token u', u_contactUs := u_contactUs u'\<rparr>" by blast
    have "u_id u' = Val i" by (subst r(2)) (simp add: r(1))
    with tokens_find [OF t [unfolded Some]] have mem: "t \<in> token_rows (w_db w)" "live_token t"
      "t_user t = Val i" by simp_all
    then have tk: "t \<in> tokens_of (token_rows (w_db w)) (Val i)" by (simp add: tokens_of_def)
    with assms(3) have only: "tokens_of (token_rows (w_db w)) (Val i) = {t}"
      unfolding one_session_tokens_of by metis
    have "t_id t = t_id (t\<lparr>t_accessToken := Val at, t_refreshToken := Val nrt\<rparr>)" by simp
    from tokens_save_existing [OF mem(1) this [symmetric] s] obtain n where
      "token_rows d = insert (overwrite_token (t\<lparr>t_accessToken := Val at, t_refreshToken := Val nrt\<rparr>) t n)
          (token_rows (w_db w) - {t})" "rows d = rows (w_db w)" by blast
    with session_now_replace [OF assms(3) tk] overwrite_token_pair [OF mem(2)] mem(3) w' only rt
    show ?thesis by simp
  qed
qed

end

section \<open>authenticate, against the session that is stored\<close>

text \<open>A request that carries a token in its Authorization header and no cookie.\<close>

definition bearer :: "string \<Rightarrow> request \<Rightarrow> bool" where
  "bearer t req \<longleftrightarrow> rq_authorization req = Val (''Bearer '' @ t) \<and> rq_cookie req = Undef"

lemma bearer_token:
  assumes "bearer t req" and "CHR '' '' \<notin> set t"
  shows "truthy (rq_authorization req)" "auth_token_of E req = Val t"
proof -
  have "js_split CHR '' '' (''Bearer '' @ t) = [''Bearer'', t]"
    using assms(2) by (simp add: js_split_no_sep)
  with assms(1) show "auth_token_of E req = Val t"
    by (simp add: bearer_def auth_token_of_def getAuthCookie_def getCookie_def)
  show "truthy (rq_authorization req)" using assms(1) by (simp add: bearer_def)
qed

context auth_server
begin

text \<open>
  A server-signed access token of a user of the persisted type is accepted exactly when it
  has not expired and is the one in the user's session.
\<close>

lemma session_decides:
  assumes r: "r \<in> rows (w_db w)" "u_id r = Val i" "u_deletedAt r = Null"
      "u_userType r = Val persisted_type"
    and t: "signAccessToken E (Val i) w0 = (Inr t, w0)" and b: "bearer t req"
    and s: "tokens_of (token_rows (w_db w)) (Val i) = {tk}"
  shows "\<exists>u. u_id u = Val i \<and> u_email u = u_email r \<and> authenticate E req w =
     (if w_now w0 div 1000 + ACCESS_TOKEN_LIFETIME_MIN (cfg E) * 60 \<le> w_now w div 1000
      then (Inr (NextErr (unauthorized ''Invalid JWT token'' ''INVALID_TOKEN'')), w)
      else if t_accessToken tk = Val t
      then (Inr (Next (req\<lparr>rq_user := Some u, rq_token := Val t\<rparr>)), w)
      else (Inr (NextErr (unauthorized ''Provided token is not valid access token''
                             ''INVALID_ACCESS_TOKEN'')), w))"
proof -
  let ?n = "ACCESS_TOKEN_LIFETIME_MIN (cfg E) * 60"
  from t have sg: "jwt_sign E (SECRET_HEX (cfg E)) (Token ACCESS) (Val i) ?n (w_now w0) = Inr t"
    by (simp add: signAccessToken_def signToken_result)
  note hd = bearer_token(1) [OF b sign_compact [OF sg]]
    bearer_token(2) [OF b sign_compact [OF sg], where E = E]
  from finds_by_id [OF r(1-3)] obtain u where u:
    "users_findOne (orm E) (Where [(''id'', Is (Val i))]) (no_opts\<lparr>f_relations := [''token'']\<rparr>) (w_db w)
        = Inr (Some u)" "u_id u = Val i" "u_userType u = u_userType r" "u_email u = u_email r"
    and tok: "case u_token u of
          Val t \<Rightarrow> t \<in> token_rows (w_db w) \<and> live_token t \<and> t_user t = Val i
        | Null \<Rightarrow> (\<forall>t \<in> token_rows (w_db w). live_token t \<longrightarrow> t_user t \<noteq> Val i)
        | Undef \<Rightarrow> False" by blast
  have utk: "u_token u = Val tk"
    using tok s by (auto simp: tokens_of_def split: js.splits)
  show ?thesis
  proof (cases "w_now w0 div 1000 + ?n \<le> w_now w div 1000")
    case True
    from verify_expired [OF sg this] obtain m where
      "jwt_verify E (SECRET_HEX (cfg E)) (Val t) (Token ACCESS) (w_now w)
         = Inl (OtherExn ''TokenExpiredError'' m)" by blast
    with True u(2,4) hd show ?thesis
      by (intro exI [of _ u]) (simp add: authenticate_unfold authenticate_try_unfold)
  next
    case False
    then have "w_now w div 1000 < w_now w0 div 1000 + ?n" by simp
    from verify_valid [OF sg this] False u hd utk r(4) show ?thesis
      by (intro exI [of _ u])
         (simp add: authenticate_unfold authenticate_try_unfold claims_def persisted_type_def)
  qed
qed

end

context user_store
begin

lemma login_row_type:
  assumes "r \<in> rows d" and "matches db_eq (Where (login_where body)) r"
    and "str_field body ''userType'' = Val stored_token_type"
  shows "u_userType r = Val persisted_type"
proof -
  have "cond_ok db_eq (Is (Val (PropaneUserType USER))) (u_userType r)"
    using assms(2,3) by (simp add: login_where_phone matches_def column_def)
  with type_collation [OF assms(1)] show ?thesis
    by (cases "u_userType r") (auto simp: persisted_type_def)
qed

end

text \<open>A duplicate stops a sign-up before anything is written.\<close>

lemma signUp_duplicate:
  assumes "users_findOne (orm E) (phone_conditions (rq_body req)) no_opts (w_db w) = Inr v1"
    and "users_findOne (orm E) (email_conditions (rq_body req)) no_opts (w_db w) = Inr v2"
    and "v1 \<noteq> None \<or> v2 \<noteq> None"
  shows "signUp E req w =
     (Inl (if v1 \<noteq> None then bad_request (ApiMessages phone_exist_already) ''PHONE_ALREADY_EXIST''
           else bad_request (ApiMessages email_exist_already) ''Email_ALREADY_EXIST''),
      w\<lparr>w_entropy := Suc (w_entropy w)\<rparr>)"
  using assms unfolding signUp_def signup_check_def Let_def phone_conditions_def email_conditions_def andThen_def
  by (cases v1; cases v2; simp)

context auth_server
begin

lemma signup_duplicate:
  assumes "has_strings (rq_body req) [''email'', ''userType'', ''countryCode'', ''mobileNumber'']"
    and "r \<in> rows (w_db w)" and "u_deletedAt r = Null" and "same_account db_eq r (rq_body req)"
  shows "\<exists>e. e \<in> {bad_request (ApiMessages phone_exist_already) ''PHONE_ALREADY_EXIST'',
                  bad_request (ApiMessages email_exist_already) ''Email_ALREADY_EXIST''}
     \<and> signUp E req w = (Inl e, w\<lparr>w_entropy := Suc (w_entropy w)\<rparr>)"
proof -
  have rel: "set (f_relations no_opts) \<subseteq> set declared" by (simp add: no_opts_def)
  obtain v1 where v1: "users_findOne (orm E) (phone_conditions (rq_body req)) no_opts (w_db w) = Inr v1"
    using reads_answer [OF rel] by blast
  obtain v2 where v2: "users_findOne (orm E) (email_conditions (rq_body req)) no_opts (w_db w) = Inr v2"
    using reads_answer [OF rel] by blast
  have "live no_opts r" using assms(3) by (simp add: live_def)
  then have "v1 \<noteq> None \<or> v2 \<noteq> None"
    using assms(4) finds_none [OF plain_signup(1) [OF assms(1)] _ assms(2)]
      finds_none [OF plain_signup(2) [OF assms(1)] _ assms(2)] v1 v2
    unfolding same_account_def by (cases v1; cases v2; auto)
  from signUp_duplicate [OF v1 v2 this] show ?thesis by simp
qed

end

context user_store
begin

lemma refresh_effect:
  assumes "refreshToken E req w = (Inr resp, w')"
    and "str_field (rq_body req) ''refreshToken'' = Val (c # rt)"
    and "one_session (token_rows (w_db w))"
  shows "\<exists>u at nrt. refresh_user E (Val (c # rt)) w u
     \<and> signed_pair E w (u_id u) at nrt
     \<and> resp = token_response E req at nrt []
     \<and> rows (w_db w') = rows (w_db w)
     \<and> (if u_userType u = Val stored_token_type
        then \<exists>t i. u_id u = Val i \<and> tokens_of (token_rows (w_db w)) (Val i) = {t}
             \<and> t_refreshToken t = Val (c # rt)
             \<and> session_now (token_rows (w_db w)) (token_rows (w_db w')) (Val i) at nrt
        else w' = w)"
proof -
  from refresh_answer [OF assms(1), unfolded assms(2)] obtain u at nrt where
    u: "refresh_user E (Val (c # rt)) w u" "signed_pair E w (u_id u) at nrt"
      "resp = token_response E req at nrt []" and
    rot: "if u_userType u = Val stored_token_type
      then rotate E u (Val (c # rt)) at nrt w = (Inr (), w') else w' = w" by auto
  show ?thesis
  proof (cases "u_userType u = Val stored_token_type")
    case True
    with rot have ro: "rotate E u (Val (c # rt)) at nrt w = (Inr (), w')" by simp
    from u(1) obtain p :: token_base where
      "users_findOneOrFail (orm E) (ById (tk_sub p)) no_opts (w_db w) = Inr u"
      by (auto simp: refresh_user_def)
    then have "users_findOne (orm E) (ById (tk_sub p)) no_opts (w_db w) = Inr (Some u)"
      by (simp add: findOneOrFail)
    from found_entity [OF this] obtain r where "r \<in> rows (w_db w)" "u_id u = u_id r"
      by (auto simp: no_opts_def)
    with ids obtain i where "u_id u = Val i" by metis
    from refresh_rotates [OF ro this assms(3)] this True u show ?thesis
      by (intro exI [of _ u] exI [of _ at] exI [of _ nrt]) auto
  next
    case False
    with rot u show ?thesis by (intro exI [of _ u] exI [of _ at] exI [of _ nrt]) simp
  qed
qed

end

context auth_server
begin

lemma latest_login:
  assumes "login E req w = (Inr resp, w')"
    and "plain (Where (login_where (rq_body req)))"
    and "one_session (token_rows (w_db w))"
    and "str_field (rq_body req) ''userType'' = Val stored_token_type"
  shows "\<exists>i at rt. signed_pair E w (Val i) at rt \<and> resp = token_response E req at rt [] \<and>
     (\<forall>t w0 req2 w2. signAccessToken E (Val i) w0 = (Inr t, w0) \<longrightarrow> bearer t req2 \<longrightarrow>
        w_db w2 = w_db w' \<longrightarrow>
        ((\<exists>req3. authenticate E req2 w2 = (Inr (Next req3), w2)) \<longleftrightarrow>
           t = at \<and> w_now w2 div 1000 < w_now w0 div 1000 + ACCESS_TOKEN_LIFETIME_MIN (cfg E) * 60))"
proof -
  from login_effect [OF assms(1,3)] assms(2,4) obtain r at rt where r: "r \<in> rows (w_db w)"
    "u_deletedAt r = Null" "matches db_eq (Where (login_where (rq_body req))) r"
    "signed_pair E w (u_id r) at rt" "resp = token_response E req at rt []"
    "rows (w_db w') = rows (w_db w)"
    "session_now (token_rows (w_db w)) (token_rows (w_db w')) (u_id r) at rt" by auto
  from ids [OF r(1)] obtain i where i: "u_id r = Val i" by blast
  from r(7) i obtain tk where tk: "tokens_of (token_rows (w_db w')) (Val i) = {tk}"
    "t_accessToken tk = Val at" by (auto simp: session_now_def)
  note ty = login_row_type [OF r(1,3) assms(4)]
  have "(\<exists>req3. authenticate E req2 w2 = (Inr (Next req3), w2)) \<longleftrightarrow>
           t = at \<and> w_now w2 div 1000 < w_now w0 div 1000 + ACCESS_TOKEN_LIFETIME_MIN (cfg E) * 60"
    if t: "signAccessToken E (Val i) w0 = (Inr t, w0)" and b: "bearer t req2"
      and db: "w_db w2 = w_db w'" for t w0 req2 w2
  proof -
    have "r \<in> rows (w_db w2)" using r(1,6) db by simp
    from session_decides [OF this i r(2) ty t b] tk(1) db obtain u where
      run: "authenticate E req2 w2 =
     (if w_now w0 div 1000 + ACCESS_TOKEN_LIFETIME_MIN (cfg E) * 60 \<le> w_now w2 div 1000
      then (Inr (NextErr (unauthorized ''Invalid JWT token'' ''INVALID_TOKEN'')), w2)
      else if t_accessToken tk = Val t
      then (Inr (Next (req2\<lparr>rq_user := Some u, rq_token := Val t\<rparr>)), w2)
      else (Inr (NextErr (unauthorized ''Provided token is not valid access token''
                             ''INVALID_ACCESS_TOKEN'')), w2))" by auto
    show ?thesis unfolding run using tk(2) by auto
  qed
  with r(4,5) i show ?thesis
    by (intro exI [of _ i] exI [of _ at] exI [of _ rt]) simp
qed

end

end
