(* ===== verification/Validation.thy ===== *)
theory Validation
  imports Model
begin

text \<open>
  The validation schemas of the controllers and the middleware of express-validation that
  applies them. What the code relies on in Joi is a locale: a validated object satisfies every
  rule of its schema and has no other field.
\<close>

section \<open>Rules\<close>

definition joi_any :: "joi_kind \<Rightarrow> joi_rule" where
  "joi_any k = \<lparr>j_kind = k, j_required = False, j_min = None, j_max = None, j_email = False,
                j_lowercase = False, j_regex = None, j_valid = [], j_default = None, j_uuid = None\<rparr>"

abbreviation "joi_string \<equiv> joi_any JoiString"
abbreviation "joi_number \<equiv> joi_any JoiNumber"
abbreviation "joi_integer \<equiv> joi_any JoiInteger"

definition required :: "joi_rule \<Rightarrow> joi_rule" where
  "required r = r\<lparr>j_required := True\<rparr>"

definition email_rule :: joi_rule where
  "email_rule = joi_string\<lparr>j_lowercase := True, j_max := Some 255, j_email := True\<rparr>"

definition password_rule :: joi_rule where
  "password_rule = joi_string\<lparr>j_min := Some 6, j_max := Some 128, j_required := True\<rparr>"

definition user_type_rule :: joi_rule where
  "user_type_rule = joi_string\<lparr>j_valid := PropaneUserType_values\<rparr>"

definition uuid_rule :: joi_rule where
  "uuid_rule = joi_string\<lparr>j_uuid := Some ''uuidv4'', j_required := True\<rparr>"

definition namePattern :: string where
  "namePattern = ''^[A-za-z]''"

definition full_name_rule :: joi_rule where
  "full_name_rule = joi_string\<lparr>j_max := Some 255, j_regex := Some namePattern\<rparr>"

section \<open>The schemas\<close>

text \<open>A schema for each part of the request that is validated.\<close>

record validation =
  v_body :: "schema option"
  v_query :: "schema option"
  v_params :: "schema option"

definition body_schema :: "schema \<Rightarrow> validation" where
  "body_schema s = \<lparr>v_body = Some s, v_query = None, v_params = None\<rparr>"

definition query_schema :: "schema \<Rightarrow> validation" where
  "query_schema s = \<lparr>v_body = None, v_query = Some s, v_params = None\<rparr>"

definition params_schema :: "schema \<Rightarrow> validation" where
  "params_schema s = \<lparr>v_body = None, v_query = None, v_params = Some s\<rparr>"

definition signupValidation :: validation where
  "signupValidation = body_schema
     [(''email'', required email_rule), (''fullName'', required full_name_rule),
      (''password'', password_rule), (''userType'', required user_type_rule),
      (''countryCode'', joi_string\<lparr>j_max := Some 5, j_required := True\<rparr>),
      (''mobileNumber'', joi_string\<lparr>j_max := Some 15, j_required := True\<rparr>),
      (''orderType'', joi_number),
      (''zipcodeIds'', (joi_any JoiNumberArray)\<lparr>j_default := Some JNull\<rparr>),
      (''deviceId'', joi_string), (''deviceType'', joi_string)]"

definition loginValidation :: validation where
  "loginValidation = body_schema
     [(''email'', email_rule), (''password'', password_rule), (''userType'', user_type_rule),
      (''countryCode'', joi_string), (''mobileNumber'', joi_string), (''deviceId'', joi_string),
      (''deviceType'', joi_string)]"

definition refreshTokenValidation :: validation where
  "refreshTokenValidation = body_schema [(''refreshToken'', required joi_string)]"

definition getUsersValidation :: validation where
  "getUsersValidation = query_schema
     [(''search'', joi_string\<lparr>j_max := Some 50\<rparr>),
      (''userType'', user_type_rule\<lparr>j_default := Some JNull\<rparr>),
      (''email'', email_rule\<lparr>j_default := Some JNull\<rparr>),
      (''page'', joi_integer\<lparr>j_min := Some 1, j_default := Some (JNum 1)\<rparr>),
      (''perPage'', joi_integer\<lparr>j_min := Some 1, j_max := Some 40, j_default := Some (JNum 20)\<rparr>),
      (''sort'', joi_string\<lparr>j_valid := [''ASC'', ''DESC''], j_default := Some (JStr ''DESC'')\<rparr>),
      (''sortBy'', joi_string\<lparr>j_valid := [''fullName'', ''email'', ''status'', ''createdAt'', ''updatedAt''],
                              j_default := Some (JStr ''createdAt'')\<rparr>)]"

definition getUsersByUserTypeValidation :: validation where
  "getUsersByUserTypeValidation = query_schema
     [(''userType'', user_type_rule\<lparr>j_default := Some JNull\<rparr>)]"

definition createUserValidation :: validation where
  "createUserValidation = body_schema
     [(''fullName'', required full_name_rule), (''email'', required email_rule),
      (''password'', password_rule), (''userType'', required user_type_rule)]"

definition changePasswordValidation :: validation where
  "changePasswordValidation = body_schema
     [(''oldPassword'', password_rule), (''newPassword'', password_rule)]"

definition changeMobileNumberValidation :: validation where
  "changeMobileNumberValidation = body_schema
     [(''mobileNumber'', required joi_string), (''countryCode'', required joi_string)]"

definition getUserValidation :: validation where
  "getUserValidation = params_schema [(''id'', uuid_rule)]"

definition updateUserValidation :: validation where
  "updateUserValidation =
     \<lparr>v_body = Some
        [(''fullName'', full_name_rule), (''email'', email_rule), (''countryCode'', joi_string),
         (''mobileNumber'', joi_string), (''profileImage'', joi_string), (''orderType'', joi_number),
         (''zipcodeIds'', joi_string), (''personalId'', joi_string), (''idInformation'', joi_string),
         (''driverVehicle'', joi_string), (''vehicalNo'', joi_string),
         (''orderCapacity'', joi_number\<lparr>j_min := Some 0\<rparr>), (''address'', joi_string),
         (''licenceNo'', joi_string), (''licenceImage'', joi_string),
         (''isOnline'', joi_any JoiBoolean), (''lowStockReminder'', joi_number),
         (''pageSize'', joi_number), (''isActive'', joi_any JoiBoolean),
         (''adminAddress'', joi_string)],
      v_query = None, v_params = Some [(''id'', uuid_rule)]\<rparr>"

definition forgetPasswordValidation :: validation where
  "forgetPasswordValidation = body_schema
     [(''userType'', required user_type_rule), (''countryCode'', joi_string),
      (''mobileNumber'', joi_string), (''email'', email_rule)]"

definition updatePasswordValidation :: validation where
  "updatePasswordValidation = body_schema
     [(''token'', joi_string), (''otp'', joi_string), (''newPassword'', password_rule),
      (''userType'', required (user_type_rule\<lparr>j_default := Some JNull\<rparr>))]"

definition resetPasswordValidation :: validation where
  "resetPasswordValidation =
     \<lparr>v_body = Some [(''password'', password_rule)], v_query = None,
      v_params = Some [(''id'', uuid_rule)]\<rparr>"

definition userContactUsValidation :: validation where
  "userContactUsValidation = body_schema
     [(''subject'', joi_string\<lparr>j_max := Some 255, j_required := True\<rparr>),
      (''message'', joi_string\<lparr>j_max := Some 255, j_required := True\<rparr>)]"

definition contactUsListValidation :: validation where
  "contactUsListValidation = query_schema
     [(''search'', joi_string\<lparr>j_max := Some 255\<rparr>),
      (''page'', joi_integer\<lparr>j_min := Some 1, j_default := Some (JNum 1)\<rparr>),
      (''perPage'', joi_integer\<lparr>j_min := Some 1, j_default := Some (JNum 10)\<rparr>)]"

definition removeContactUsValidation :: validation where
  "removeContactUsValidation = params_schema [(''id'', required joi_integer)]"

definition adminContactUsValidation :: validation where
  "adminContactUsValidation =
     \<lparr>v_body = Some [(''message'', joi_string\<lparr>j_max := Some 255, j_required := True\<rparr>)],
      v_query = None,
      v_params = Some [(''id'', joi_number\<lparr>j_min := Some 0, j_required := True\<rparr>)]\<rparr>"

section \<open>What a validated object satisfies\<close>

fun within :: "int option \<Rightarrow> int option \<Rightarrow> int \<Rightarrow> bool" where
  "within lo hi n \<longleftrightarrow>
     (case lo of None \<Rightarrow> True | Some l \<Rightarrow> l \<le> n) \<and> (case hi of None \<Rightarrow> True | Some h \<Rightarrow> n \<le> h)"

text \<open>Joi rejects the empty string unless it is allowed, which no schema does.\<close>

fun kind_ok :: "joi_rule \<Rightarrow> json \<Rightarrow> bool" where
  "kind_ok r (JStr s) \<longleftrightarrow>
     j_kind r = JoiString \<and> s \<noteq> [] \<and> within (j_min r) (j_max r) (int (length s))
     \<and> (j_valid r = [] \<or> s \<in> set (j_valid r))"
| "kind_ok r (JNum n) \<longleftrightarrow>
     (j_kind r = JoiNumber \<or> j_kind r = JoiInteger) \<and> within (j_min r) (j_max r) n"
| "kind_ok r (JBool b) \<longleftrightarrow> j_kind r = JoiBoolean"
| "kind_ok r (JArr xs) \<longleftrightarrow> j_kind r = JoiNumberArray"
| "kind_ok r v = False"

fun rule_ok :: "joi_rule \<Rightarrow> json \<Rightarrow> bool" where
  "rule_ok r JUndef \<longleftrightarrow> \<not> j_required r \<and> j_default r = None"
| "rule_ok r v \<longleftrightarrow> kind_ok r v \<or> (\<not> j_required r \<and> j_default r = Some v)"

locale joi_validation =
  fixes E :: "'db env"
  assumes rules_hold:
      "distinct (map fst sch) \<Longrightarrow> joi E sch o' = Inr o2 \<Longrightarrow>
         list_all (\<lambda>(k, r). rule_ok r (field o2 k)) sch"
    and no_other_field:
      "distinct (map fst sch) \<Longrightarrow> joi E sch o' = Inr o2 \<Longrightarrow>
         list_all (\<lambda>(k, v). k \<in> set (map fst sch)) o2"
    and string_given:
      "distinct (map fst sch) \<Longrightarrow> joi E sch o' = Inr o2 \<Longrightarrow> (k, r) \<in> set sch \<Longrightarrow>
         j_kind r = JoiString \<Longrightarrow> j_required r \<Longrightarrow> j_default r = None \<Longrightarrow>
         \<exists>c s. field o' k = JStr (c # s)"
begin

lemma field_ok:
  "distinct (map fst sch) \<Longrightarrow> joi E sch o' = Inr o2 \<Longrightarrow> (k, r) \<in> set sch \<Longrightarrow> rule_ok r (field o2 k)"
  using rules_hold unfolding list_all_iff by blast

end

lemma required_string:
  assumes "rule_ok r v" and "j_required r" and "j_kind r = JoiString"
  shows "\<exists>c s. v = JStr (c # s) \<and> (j_valid r = [] \<or> c # s \<in> set (j_valid r))
     \<and> within (j_min r) (j_max r) (int (length (c # s)))"
proof (cases v)
  case (JStr s)
  with assms show ?thesis by (cases s) auto
qed (use assms in auto)

section \<open>The middleware\<close>

definition check_part ::
    "'db env \<Rightarrow> schema option \<Rightarrow> (string \<times> json) list \<Rightarrow> json + (string \<times> json) list" where
  "check_part E s o' = (case s of None \<Rightarrow> Inr o' | Some sch \<Rightarrow> joi E sch o')"

text \<open>
  The parts are checked in the order parameters, query, body; \<open>context: true\<close> puts the
  converted values into the request, otherwise the request stays as it was sent.
\<close>

definition validate_parts :: "'db env \<Rightarrow> validation \<Rightarrow> request \<Rightarrow> json + request" where
  "validate_parts E v req =
     (case check_part E (v_params v) (rq_params req) of
        Inl d \<Rightarrow> Inl d
      | Inr ps \<Rightarrow>
          (case check_part E (v_query v) (rq_query req) of
             Inl d \<Rightarrow> Inl d
           | Inr qs \<Rightarrow>
               (case check_part E (v_body v) (rq_body req) of
                  Inl d \<Rightarrow> Inl d
                | Inr bs \<Rightarrow> Inr (req\<lparr>rq_params := ps, rq_query := qs, rq_body := bs\<rparr>))))"

end
