(* ===== verification/Reference.thy ===== *)
theory Reference
  imports Store Validation
begin

text \<open>
  A reference instance of the packages: tables kept in lists, tokens that carry their claims
  and the secret they were made with, and password hashes that carry what they were made from.
  It shows that the laws assumed of the packages can hold together, and it is what the
  theorems about the handlers are evaluated on. It stands for no code of the repository.
\<close>

section \<open>Tables in lists\<close>

record mem =
  m_users :: "users list"
  m_tokens :: "tokens list"
  m_contacts :: "contact_us list"
  m_templates :: "email_templates list"
  m_permissions :: "(string \<times> permission list) list"
  m_next :: nat
  m_time :: int

definition empty_mem :: mem where
  "empty_mem = \<lparr>m_users = [], m_tokens = [], m_contacts = [], m_templates = [],
                m_permissions = [], m_next = 0, m_time = 0\<rparr>"

text \<open>The key of a row is its place in the table.\<close>

fun number_users :: "nat \<Rightarrow> users list \<Rightarrow> users list" where
  "number_users n [] = []"
| "number_users n (r # rs) = r\<lparr>u_id := Val (show_nat n)\<rparr> # number_users (Suc n) rs"

fun number_tokens :: "nat \<Rightarrow> tokens list \<Rightarrow> tokens list" where
  "number_tokens n [] = []"
| "number_tokens n (r # rs) = r\<lparr>t_id := Val (show_nat n)\<rparr> # number_tokens (Suc n) rs"

definition user_table :: "mem \<Rightarrow> users list" where
  "user_table d = number_users 0 (m_users d)"

definition token_table :: "mem \<Rightarrow> tokens list" where
  "token_table d = number_tokens 0 (m_tokens d)"

text \<open>A condition on \<open>undefined\<close> is left out, as TypeORM's find options do.\<close>

fun like :: "string \<Rightarrow> string \<Rightarrow> bool" where
  "like [] s = (s = [])"
| "like (p # ps) [] = (p = CHR ''%'' \<and> like ps [])"
| "like (p # ps) (c # s) =
     (if p = CHR ''%'' then like ps (c # s) \<or> like (p # ps) s
      else (p = c \<or> p = CHR ''_'') \<and> like ps s)"

fun mem_cond :: "cond \<Rightarrow> string js \<Rightarrow> bool" where
  "mem_cond (Is Undef) v = True"
| "mem_cond (ILike p) (Val x) = like p x"
| "mem_cond c v = cond_ok (=) c v"

definition mem_matches :: "criteria \<Rightarrow> users \<Rightarrow> bool" where
  "mem_matches q u \<longleftrightarrow> list_all (\<lambda>(k, c). mem_cond c (column k u)) (conditions_of q)"

definition token_of :: "string js \<Rightarrow> mem \<Rightarrow> tokens js" where
  "token_of i d =
     (case find (\<lambda>t. live_token t \<and> t_user t = i) (token_table d) of None \<Rightarrow> Null | Some t \<Rightarrow> Val t)"

definition mem_entity :: "find_opts \<Rightarrow> mem \<Rightarrow> users \<Rightarrow> users" where
  "mem_entity o' d r =
     (project (f_select o') r)
       \<lparr>u_token := if ''token'' \<in> set (f_relations o') then token_of (u_id r) d else Undef,
        u_contactUs := if ''contactUs'' \<in> set (f_relations o')
                       then Val (filter (\<lambda>c. c_user c = u_id r) (m_contacts d)) else Undef\<rparr>"

definition unknown_relations :: exn where
  "unknown_relations = OtherExn ''FindRelationsNotFoundError'' (Val ''Relation was not found'')"

definition not_found :: exn where
  "not_found = OtherExn ''EntityNotFound'' (Val ''Could not find any entity'')"

definition mem_find :: "string list \<Rightarrow> criteria \<Rightarrow> find_opts \<Rightarrow> mem \<Rightarrow> exn + users list" where
  "mem_find declared q o' d =
     (if set (f_relations o') \<subseteq> set declared
      then Inr (map (mem_entity o' d) (filter (\<lambda>u. live o' u \<and> mem_matches q u) (user_table d)))
      else Inl unknown_relations)"

fun head_option :: "'a list \<Rightarrow> 'a option" where
  "head_option [] = None"
| "head_option (x # xs) = Some x"

definition mem_findOne :: "string list \<Rightarrow> criteria \<Rightarrow> find_opts \<Rightarrow> mem \<Rightarrow> exn + users option" where
  "mem_findOne declared q o' d = map_sum id head_option (mem_find declared q o' d)"

definition or_fail :: "exn + 'a option \<Rightarrow> exn + 'a" where
  "or_fail r = (case r of Inl e \<Rightarrow> Inl e | Inr None \<Rightarrow> Inl not_found | Inr (Some x) \<Rightarrow> Inr x)"

definition page :: "find_opts \<Rightarrow> 'a list \<Rightarrow> 'a list" where
  "page o' xs =
     (let ys = (case f_skip o' of None \<Rightarrow> xs | Some n \<Rightarrow> drop (nat n) xs) in
      case f_take o' of None \<Rightarrow> ys | Some n \<Rightarrow> take (nat n) ys)"

definition mem_findAndCount ::
    "string list \<Rightarrow> criteria \<Rightarrow> find_opts \<Rightarrow> mem \<Rightarrow> exn + users list \<times> nat" where
  "mem_findAndCount declared q o' d =
     map_sum id (\<lambda>us. (page o' us, length us)) (mem_find declared q o' d)"

text \<open>Saving returns the entity, with the columns the database generates filled in.\<close>

definition merge_saved :: "users \<Rightarrow> users \<Rightarrow> users" where
  "merge_saved u r =
     u\<lparr>u_id := u_id r, u_createdAt := u_createdAt r, u_updatedAt := u_updatedAt r,
       u_deletedAt := u_deletedAt r, u_isActive := u_isActive r,
       u_userSubscriptionCount := u_userSubscriptionCount r\<rparr>"

definition mem_save :: "users \<Rightarrow> (mem, exn, users) io" where
  "mem_save u d =
     (case find (\<lambda>r. u_id r = u_id u) (user_table d) of
        Some r \<Rightarrow>
          (Inr (merge_saved u (overwrite u r (m_time d))),
           d\<lparr>m_users := map (\<lambda>r'. if u_id r' = u_id u then overwrite u r' (m_time d) else r')
                            (user_table d)\<rparr>)
      | None \<Rightarrow>
          (let r = new_row u (show_nat (length (m_users d))) (m_time d) in
           (Inr (merge_saved u r), d\<lparr>m_users := m_users d @ [r]\<rparr>)))"

text \<open>The partial entity an \<open>update\<close> of some columns stands for.\<close>

fun set_column :: "string \<times> string js \<Rightarrow> users \<Rightarrow> users" where
  "set_column (k, v) u =
     (if k = ''profileImage'' then u\<lparr>u_profileImage := v\<rparr>
      else if k = ''otp'' then u\<lparr>u_otp := v\<rparr> else u)"

definition mem_update :: "string js \<Rightarrow> (string \<times> string js) list \<Rightarrow> (mem, exn, unit) io" where
  "mem_update i cs d =
     (Inr (), d\<lparr>m_users := map (\<lambda>r. if u_id r = i then overwrite (fold set_column cs blank_user) r (m_time d)
                                    else r) (user_table d)\<rparr>)"

definition mem_tokens_find :: "criteria \<Rightarrow> find_opts \<Rightarrow> mem \<Rightarrow> exn + tokens" where
  "mem_tokens_find q o' d =
     (case q of
        Where [(k, IsUser (Some u))] \<Rightarrow>
          (case token_of (u_id u) d of Val t \<Rightarrow> Inr t | _ \<Rightarrow> Inl not_found)
      | _ \<Rightarrow> Inl not_found)"

definition mem_tokens_save :: "tokens \<Rightarrow> (mem, exn, tokens) io" where
  "mem_tokens_save t d =
     (case find (\<lambda>r. t_id r = t_id t) (token_table d) of
        Some r \<Rightarrow>
          (Inr (overwrite_token t r (m_time d)),
           d\<lparr>m_tokens := map (\<lambda>r'. if t_id r' = t_id t then overwrite_token t r' (m_time d) else r')
                             (token_table d)\<rparr>)
      | None \<Rightarrow>
          (let r = new_token_row t (show_nat (length (m_tokens d))) (m_time d) in
           (Inr r, d\<lparr>m_tokens := m_tokens d @ [r]\<rparr>)))"

definition mem_tokens_update :: "string js \<Rightarrow> tokens \<Rightarrow> (mem, exn, unit) io" where
  "mem_tokens_update i t d =
     (Inr (), d\<lparr>m_tokens := map (\<lambda>r. if t_id r = i then overwrite_token t r (m_time d) else r)
                                (token_table d)\<rparr>)"

text \<open>The other tables.\<close>

definition live_contact :: "contact_us \<Rightarrow> bool" where
  "live_contact c \<longleftrightarrow> c_deletedAt c = Null"

definition mem_contact :: "criteria \<Rightarrow> find_opts \<Rightarrow> mem \<Rightarrow> exn + contact_us" where
  "mem_contact q o' d =
     (case q of
        ById i \<Rightarrow> or_fail (Inr (find (\<lambda>c. live_contact c \<and> c_id c = i) (m_contacts d)))
      | Where cs \<Rightarrow> Inl not_found)"

definition mem_contact_save :: "contact_us \<Rightarrow> (mem, exn, contact_us) io" where
  "mem_contact_save c d =
     (let r = c\<lparr>c_id := Val (show_nat (m_next d)), c_createdAt := Val (m_time d),
               c_updatedAt := Val (m_time d), c_deletedAt := Null\<rparr> in
      (Inr r, d\<lparr>m_contacts := m_contacts d @ [r], m_next := Suc (m_next d)\<rparr>))"

definition mem_contact_update :: "string js \<Rightarrow> (string \<times> string js) list \<Rightarrow> (mem, exn, unit) io" where
  "mem_contact_update i cs d =
     (Inr (), d\<lparr>m_contacts := map (\<lambda>c. if c_id c = i
                then c\<lparr>c_updatedBy := (case map_of cs ''updatedBy'' of None \<Rightarrow> c_updatedBy c | Some v \<Rightarrow> v)\<rparr>
                else c) (m_contacts d)\<rparr>)"

definition mem_contact_softDelete :: "string js \<Rightarrow> (mem, exn, unit) io" where
  "mem_contact_softDelete i d =
     (Inr (), d\<lparr>m_contacts := map (\<lambda>c. if c_id c = i \<and> live_contact c
                then c\<lparr>c_deletedAt := Val (m_time d)\<rparr> else c) (m_contacts d)\<rparr>)"

definition mem_contact_query ::
    "string list \<Rightarrow> int \<Rightarrow> int \<Rightarrow> (string \<times> string) list \<Rightarrow> mem \<Rightarrow> exn + json list" where
  "mem_contact_query sel skip lim ors d =
     Inr (map contact_json (take (nat lim) (drop (nat skip) (filter live_contact (m_contacts d)))))"

definition mem_contact_author :: "string js \<Rightarrow> mem \<Rightarrow> exn + string js" where
  "mem_contact_author i d =
     (case find (\<lambda>c. live_contact c \<and> c_id c = i) (m_contacts d) of
        None \<Rightarrow> Inl not_found
      | Some c \<Rightarrow>
          (case find (\<lambda>u. u_id u = c_user c) (user_table d) of
             None \<Rightarrow> Inl (OtherExn ''TypeError'' (Val ''Cannot read property of null''))
           | Some u \<Rightarrow> Inr (u_email u)))"

definition mem_template :: "criteria \<Rightarrow> mem \<Rightarrow> exn + email_templates option" where
  "mem_template q d =
     (case q of
        Where [(k, Is v)] \<Rightarrow> Inr (find (\<lambda>t. v = Undef \<or> e_key t = v) (m_templates d))
      | _ \<Rightarrow> Inr None)"

definition mem_permissions ::
    "string list \<Rightarrow> criteria \<Rightarrow> find_opts \<Rightarrow> mem \<Rightarrow> exn + permission list js" where
  "mem_permissions declared q o' d =
     (case or_fail (mem_findOne declared q o' d) of
        Inl e \<Rightarrow> Inl e
      | Inr u \<Rightarrow> Inr (js_of_option (case u_id u of Val i \<Rightarrow> map_of (m_permissions d) i | _ \<Rightarrow> None)))"

definition mem_orm :: "string list \<Rightarrow> mem orm" where
  "mem_orm declared =
     \<lparr>users_findOne = mem_findOne declared,
      users_findOneOrFail = (\<lambda>q o' d. or_fail (mem_findOne declared q o' d)),
      users_find = mem_find declared,
      users_findAndCount = mem_findAndCount declared,
      users_save = mem_save,
      users_update = mem_update,
      tokens_findOneOrFail = mem_tokens_find,
      tokens_save = mem_tokens_save,
      tokens_update = mem_tokens_update,
      contacts_findOneOrFail = mem_contact,
      contacts_save = mem_contact_save,
      contacts_update = mem_contact_update,
      contacts_softDelete = mem_contact_softDelete,
      contacts_query = mem_contact_query,
      contacts_author = mem_contact_author,
      templates_findOne = mem_template,
      users_permissions = mem_permissions declared\<rparr>"

section \<open>Tokens and password hashes\<close>

text \<open>Every character as two letters, so that the separators of a token stay apart.\<close>

definition letters :: "char \<Rightarrow> string" where
  "letters c = [char_of (97 + of_char c div 16 :: nat), char_of (97 + of_char c mod 16 :: nat)]"

fun unletters :: "string \<Rightarrow> string" where
  "unletters (a # b # s) = char_of (16 * (of_char a - 97) + (of_char b - 97) :: nat) # unletters s"
| "unletters s = []"

definition armor :: "string \<Rightarrow> string" where
  "armor s = concat (map letters s)"

definition read_int :: "string \<Rightarrow> int" where
  "read_int s = (case s of c # cs \<Rightarrow> if c = CHR ''-'' then - int (read_nat cs) else int (read_nat s)
                 | [] \<Rightarrow> 0)"

definition ref_sign :: "string \<Rightarrow> string \<Rightarrow> string js \<Rightarrow> int \<Rightarrow> int \<Rightarrow> exn + string" where
  "ref_sign secret aud subject n now =
     (case subject of
        Val sub \<Rightarrow> Inr (js_join ''.'' [armor aud, armor sub, show_int (now div 1000),
                                   show_int (now div 1000 + n), armor secret])
      | _ \<Rightarrow> Inl (OtherExn ''Error'' (Val ''\"subject\" must be a string'')))"

definition jwt_error :: "string \<Rightarrow> exn" where
  "jwt_error m = OtherExn ''JsonWebTokenError'' (Val m)"

definition ref_verify :: "string \<Rightarrow> string js \<Rightarrow> string \<Rightarrow> int \<Rightarrow> exn + token_base option" where
  "ref_verify secret token aud now =
     (case token of
        Val t \<Rightarrow>
          (case js_split CHR ''.'' t of
             [a, s, iat, ex, sig] \<Rightarrow>
               if sig \<noteq> armor secret then Inl (jwt_error ''invalid signature'')
               else if read_int ex \<le> now div 1000
               then Inl (OtherExn ''TokenExpiredError'' (Val ''jwt expired''))
               else if a \<noteq> armor aud then Inl (jwt_error ''jwt audience invalid'')
               else Inr (Some \<lparr>tk_jti = Undef, tk_aud = Val aud, tk_sub = Val (unletters s),
                               tk_iat = read_int iat, tk_exp = read_int ex\<rparr>)
           | _ \<Rightarrow> Inl (jwt_error ''jwt malformed''))
      | _ \<Rightarrow> Inl (jwt_error ''jwt must be provided''))"

text \<open>Only the first 72 bytes of a password count.\<close>

definition ref_hash :: "string js \<Rightarrow> nat \<Rightarrow> nat \<Rightarrow> exn + string" where
  "ref_hash p rounds salt =
     (case p of
        Val s \<Rightarrow> Inr (''$2a$'' @ show_nat rounds @ ''$'' @ show_nat salt @ ''$'' @ armor (take 72 s))
      | _ \<Rightarrow> Inl (OtherExn ''Error'' (Val ''Illegal arguments'')))"

definition ref_compare :: "string js \<Rightarrow> string js \<Rightarrow> exn + bool" where
  "ref_compare p h =
     (case (p, h) of
        (Val s, Val x) \<Rightarrow> Inr (last (js_split CHR ''$'' x) = armor (take 72 s))
      | _ \<Rightarrow> Inl (OtherExn ''Error'' (Val ''Illegal arguments'')))"

text \<open>A cookie header is a list of pairs separated by semicolons.\<close>

fun trim_left :: "string \<Rightarrow> string" where
  "trim_left [] = []"
| "trim_left (c # s) = (if c = CHR '' '' then trim_left s else c # s)"

definition ref_cookie_parse :: "string \<Rightarrow> (string \<times> string) list" where
  "ref_cookie_parse s =
     map (\<lambda>p. case js_split CHR ''='' (trim_left p) of
               k # vs \<Rightarrow> (k, js_join ''='' vs) | [] \<Rightarrow> ([], []))
         (js_split CHR '';'' s)"

text \<open>Checking a schema: conversion of every declared field, then its rule, and no other field.\<close>

definition lower_char :: "char \<Rightarrow> char" where
  "lower_char c = (if 65 \<le> (of_char c :: nat) \<and> (of_char c :: nat) \<le> 90
                   then char_of ((of_char c :: nat) + 32) else c)"

fun joi_convert :: "joi_rule \<Rightarrow> json \<Rightarrow> json" where
  "joi_convert r JUndef = (case j_default r of None \<Rightarrow> JUndef | Some v \<Rightarrow> v)"
| "joi_convert r (JStr s) =
     (if j_kind r \<in> {JoiNumber, JoiInteger} \<and> s \<noteq> [] \<and> list_all is_digit s then JNum (int (read_nat s))
      else if j_lowercase r then JStr (map lower_char s) else JStr s)"
| "joi_convert r v = v"

definition ref_joi :: "schema \<Rightarrow> (string \<times> json) list \<Rightarrow> json + (string \<times> json) list" where
  "ref_joi sch o' =
     (let vs = map (\<lambda>(k, r). (k, joi_convert r (field o' k))) sch in
      if list_all (\<lambda>(k, v). k \<in> set (map fst sch)) o'
         \<and> list_all (\<lambda>(k, r). rule_ok r (joi_convert r (field o' k))) sch
      then Inr (filter (\<lambda>(k, v). v \<noteq> JUndef) vs) else Inl (JStr ''Validation Failed''))"

definition ref_config :: config where
  "ref_config =
     \<lparr>isDev = False, isProd = True, isTest = False, SECRET_HEX = ''5ec4e7'',
      ACCESS_TOKEN_LIFETIME_MIN = 15, REFRESH_TOKEN_LIFETIME_MIN = 600,
      FRONTEND_BASE_URL = ''https://app'', FRONTEND_CHANGE_PASSWORD_URL = ''/change'',
      FRONTEND_VERIFY_EMAIL_URL = ''/verify'', ADMIN_CONTACT_EMAIL = ''admin@app'',
      GMAIL_USER = ''mail@app'', OPEN_API_MAX_REQUEST = 3, OPEN_API_WINDOW_IN_MS = 1000,
      CLOSED_API_MAX_REQUEST = 3, CLOSED_API_WINDOW_IN_MS = 1000\<rparr>"

definition ref_env :: "string list \<Rightarrow> mem env" where
  "ref_env declared =
     \<lparr>cfg = ref_config, orm = mem_orm declared, bcrypt_hash = ref_hash,
      bcrypt_compare = ref_compare, jwt_sign = ref_sign, jwt_verify = ref_verify,
      cookie_parse = ref_cookie_parse, randtoken_uid = (\<lambda>n seed. show_nat seed),
      joi = ref_joi, rate_limit = (\<lambda>m win hits now. m \<le> int (length (filter (\<lambda>t. now - win < t) hits)))\<rparr>"

definition world_of :: "mem \<Rightarrow> mem world" where
  "world_of d = \<lparr>w_db = d, w_now = 5000, w_entropy = 0, w_outbox = [], w_log = [], w_hits = []\<rparr>"

lemma ref_env_sel [simp]:
  "cfg (ref_env ds) = ref_config" "orm (ref_env ds) = mem_orm ds"
  "bcrypt_hash (ref_env ds) = ref_hash" "bcrypt_compare (ref_env ds) = ref_compare"
  "jwt_sign (ref_env ds) = ref_sign" "jwt_verify (ref_env ds) = ref_verify"
  "cookie_parse (ref_env ds) = ref_cookie_parse"
  "randtoken_uid (ref_env ds) = (\<lambda>n seed. show_nat seed)" "joi (ref_env ds) = ref_joi"
  "rate_limit (ref_env ds)
     = (\<lambda>m win hits now. m \<le> int (length (filter (\<lambda>t. now - win < t) hits)))"
  by (simp_all add: ref_env_def)

section \<open>The laws hold\<close>

lemma high_bound: "of_char (c :: char) div 16 < (16 :: nat)"
proof -
  have "of_char c < (256 :: nat)" by (rule nat_of_char_less_256)
  then show ?thesis by (simp add: less_mult_imp_div_less)
qed

lemma high_letter [simp]: "(97 + of_char (c :: char) div 16) mod 256 = 97 + of_char c div (16 :: nat)"
  using high_bound [of c] by (intro mod_less) linarith

lemma letters_code: "char_of (16 * (of_char (char_of (97 + of_char c div 16 :: nat)) - 97)
     + (of_char (char_of (97 + of_char c mod 16 :: nat)) - 97) :: nat) = (c :: char)"
proof -
  have "of_char c < (256 :: nat)" by (rule nat_of_char_less_256)
  then show ?thesis by (simp add: mult.commute)
qed

lemma unletters_armor [simp]: "unletters (armor s) = s"
  using letters_code by (induction s) (simp_all add: armor_def letters_def del: of_char_of)

lemma armor_inj [simp]: "armor s = armor t \<longleftrightarrow> s = t"
  by (metis unletters_armor)

lemma armor_chars: "c \<in> set (armor s) \<Longrightarrow> 97 \<le> (of_char c :: nat) \<and> (of_char c :: nat) < 113"
proof (induction s)
  case (Cons x s)
  with high_bound [of x] show ?case by (auto simp: armor_def letters_def)
qed (simp add: armor_def)

lemma armor_free [simp]:
  "CHR ''.'' \<notin> set (armor s)" "CHR ''$'' \<notin> set (armor s)" "CHR '' '' \<notin> set (armor s)"
  using armor_chars by fastforce+

lemma show_int_chars: "c \<in> set (show_int i) \<Longrightarrow> is_digit c \<or> c = CHR ''-''"
  using show_nat_digits by (auto simp: show_int_def split: if_splits)

lemma show_int_free [simp]:
  "CHR ''.'' \<notin> set (show_int s)" "CHR '' '' \<notin> set (show_int s)"
  using show_int_chars by (fastforce simp: is_digit_def)+

lemma read_show_int [simp]: "read_int (show_int i) = i"
proof (cases "i < 0")
  case False
  obtain c cs where c: "show_nat (nat i) = c # cs" by (cases "show_nat (nat i)") auto
  then have "is_digit c" using show_nat_digits [of "nat i"] by simp
  then have "c \<noteq> CHR ''-''" by (auto simp: is_digit_def)
  with False c read_show_nat [of "nat i"] show ?thesis by (simp add: read_int_def show_int_def)
qed (simp add: read_int_def show_int_def read_show_nat)

lemma ref_sign_Val:
  "ref_sign secret aud (Val sub) n now = Inr t \<longleftrightarrow>
     t = armor aud @ CHR ''.'' # armor sub @ CHR ''.'' # show_int (now div 1000)
           @ CHR ''.'' # show_int (now div 1000 + n) @ CHR ''.'' # armor secret"
  by (auto simp: ref_sign_def)

lemma ref_verify_signed:
  "ref_sign secret aud (Val sub) n now = Inr t \<Longrightarrow>
     ref_verify secret (Val t) aud' later =
       (if now div 1000 + n \<le> later div 1000
        then Inl (OtherExn ''TokenExpiredError'' (Val ''jwt expired''))
        else if aud' \<noteq> aud then Inl (jwt_error ''jwt audience invalid'')
        else Inr (Some \<lparr>tk_jti = Undef, tk_aud = Val aud', tk_sub = Val sub,
                         tk_iat = now div 1000, tk_exp = now div 1000 + n\<rparr>))"
  by (auto simp: ref_sign_Val ref_verify_def js_split_append js_split_no_sep)

interpretation ref_jwt: jsonwebtoken "ref_env ds" for ds
  by unfold_locales
     (auto simp: ref_sign_Val ref_verify_signed jwt_error_def claims_def)

lemma last_split: "c \<notin> set t \<Longrightarrow> last (js_split c (s @ c # t)) = t"
  by (simp add: js_split_sep js_split_no_sep)

interpretation ref_bcrypt: bcryptjs "ref_env ds" for ds
proof unfold_locales
  fix p salt rounds h
  assume "bcrypt_hash (ref_env ds) (Val p) rounds salt = Inr h"
  then have "h = (''$2a$'' @ show_nat rounds @ ''$'' @ show_nat salt) @ CHR ''$'' # armor (take 72 p)"
    by (auto simp: ref_hash_def)
  then show "bcrypt_compare (ref_env ds) (Val p) (Val h) = Inr True"
    by (simp add: ref_compare_def last_split del: append_assoc)
qed (simp add: ref_hash_def)

lemma map_of_values:
  "distinct (map fst sch) \<Longrightarrow> (k, r) \<in> set sch \<Longrightarrow>
     field (filter (\<lambda>(k, v). v \<noteq> JUndef) (map (\<lambda>(k, r). (k, f k r)) sch)) k = f k r"
proof (induction sch)
  case (Cons p sch)
  obtain k' r' where p: "p = (k', r')" by fastforce
  have none: "k' \<notin> set (map fst sch) \<Longrightarrow>
      map_of (filter (\<lambda>(k, v). v \<noteq> JUndef) (map (\<lambda>(k, r). (k, f k r)) sch)) k' = None"
    by (auto simp: map_of_eq_None_iff image_iff split: prod.splits)
  have other: "(k, r) \<in> set sch \<Longrightarrow> k \<noteq> k'" using Cons.prems(1) p by (force simp: rev_image_eqI)
  from Cons p none other show ?case by (auto simp: field_def)
qed simp

interpretation ref_joi_laws: joi_validation "ref_env ds" for ds
proof unfold_locales
  fix sch o' o2
  assume d: "distinct (map fst (sch :: schema))" and v: "joi (ref_env ds) sch o' = Inr o2"
  then have ok: "list_all (\<lambda>(k, r). rule_ok r (joi_convert r (field o' k))) sch"
    and o2: "o2 = filter (\<lambda>(k, v). v \<noteq> JUndef) (map (\<lambda>(k, r). (k, joi_convert r (field o' k))) sch)"
    by (auto simp: ref_joi_def Let_def split: if_splits)
  show "list_all (\<lambda>(k, r). rule_ok r (field o2 k)) sch"
    unfolding list_all_iff
  proof (clarify)
    fix k r assume kr: "(k, r) \<in> set sch"
    with ok have "rule_ok r (joi_convert r (field o' k))" by (auto simp: list_all_iff)
    with map_of_values [OF d kr, of "\<lambda>k r. joi_convert r (field o' k)"] o2
    show "rule_ok r (field o2 k)" by simp
  qed
  show "list_all (\<lambda>(k, v). k \<in> set (map fst sch)) o2"
    unfolding o2 by (force simp: list_all_iff)
  fix k r
  assume kr: "(k, r) \<in> set sch" "j_kind r = JoiString" "j_required r" "j_default r = None"
  with ok have "rule_ok r (joi_convert r (field o' k))" by (auto simp: list_all_iff)
  from required_string [OF this kr(3,2)] kr(2,4) show "\<exists>c s. field o' k = JStr (c # s)"
    by (cases "field o' k") (auto simp: neq_Nil_conv split: if_splits)
qed

section \<open>The laws of the store\<close>

lemma number_users_append:
  "number_users n (xs @ [r])
     = number_users n xs @ [r\<lparr>u_id := Val (show_nat (n + length xs))\<rparr>]"
  by (induction xs arbitrary: n) simp_all

lemma number_tokens_append:
  "number_tokens n (xs @ [r])
     = number_tokens n xs @ [r\<lparr>t_id := Val (show_nat (n + length xs))\<rparr>]"
  by (induction xs arbitrary: n) simp_all

lemma number_users_map:
  "(\<And>r. u_id (f r) = u_id r) \<Longrightarrow> number_users n (map f (number_users n xs)) = map f (number_users n xs)"
proof (induction xs arbitrary: n)
  case (Cons x xs)
  have "(f (x\<lparr>u_id := Val (show_nat n)\<rparr>))\<lparr>u_id := Val (show_nat n)\<rparr>
          = f (x\<lparr>u_id := Val (show_nat n)\<rparr>)"
    using Cons.prems [of "x\<lparr>u_id := Val (show_nat n)\<rparr>"] by simp
  with Cons show ?case by simp
qed simp

lemma number_tokens_map:
  "(\<And>r. t_id (f r) = t_id r) \<Longrightarrow> number_tokens n (map f (number_tokens n xs)) = map f (number_tokens n xs)"
proof (induction xs arbitrary: n)
  case (Cons x xs)
  have "(f (x\<lparr>t_id := Val (show_nat n)\<rparr>))\<lparr>t_id := Val (show_nat n)\<rparr>
          = f (x\<lparr>t_id := Val (show_nat n)\<rparr>)"
    using Cons.prems [of "x\<lparr>t_id := Val (show_nat n)\<rparr>"] by simp
  with Cons show ?case by simp
qed simp

lemma number_users_id:
  "r \<in> set (number_users n xs) \<Longrightarrow> \<exists>k. n \<le> k \<and> k < n + length xs \<and> u_id r = Val (show_nat k)"
proof (induction xs arbitrary: n)
  case (Cons x xs)
  show ?case
  proof (cases "r \<in> set (number_users (Suc n) xs)")
    case True
    from Cons.IH [OF this] obtain k where "Suc n \<le> k" "k < Suc n + length xs" "u_id r = Val (show_nat k)"
      by blast
    then show ?thesis by (intro exI [of _ k]) simp
  next
    case False
    with Cons.prems show ?thesis by (intro exI [of _ n]) simp
  qed
qed simp

lemma number_tokens_id:
  "r \<in> set (number_tokens n xs) \<Longrightarrow> \<exists>k. n \<le> k \<and> k < n + length xs \<and> t_id r = Val (show_nat k)"
proof (induction xs arbitrary: n)
  case (Cons x xs)
  show ?case
  proof (cases "r \<in> set (number_tokens (Suc n) xs)")
    case True
    from Cons.IH [OF this] obtain k where "Suc n \<le> k" "k < Suc n + length xs" "t_id r = Val (show_nat k)"
      by blast
    then show ?thesis by (intro exI [of _ k]) simp
  next
    case False
    with Cons.prems show ?thesis by (intro exI [of _ n]) simp
  qed
qed simp

lemma number_users_distinct: "distinct (map u_id (number_users n xs))"
proof (induction xs arbitrary: n)
  case (Cons x xs)
  have "\<And>q. q \<in> set (number_users (Suc n) xs) \<Longrightarrow> u_id q \<noteq> Val (show_nat n)"
    using number_users_id [of _ "Suc n" xs] by (fastforce simp: show_nat_inj)
  then have "Val (show_nat n) \<notin> u_id ` set (number_users (Suc n) xs)" by force
  with Cons.IH show ?case by simp
qed simp

lemma number_tokens_distinct: "distinct (map t_id (number_tokens n xs))"
proof (induction xs arbitrary: n)
  case (Cons x xs)
  have "\<And>q. q \<in> set (number_tokens (Suc n) xs) \<Longrightarrow> t_id q \<noteq> Val (show_nat n)"
    using number_tokens_id [of _ "Suc n" xs] by (fastforce simp: show_nat_inj)
  then have "Val (show_nat n) \<notin> t_id ` set (number_tokens (Suc n) xs)" by force
  with Cons.IH show ?case by simp
qed simp

lemma distinct_key:
  "distinct (map f xs) \<Longrightarrow> x \<in> set xs \<Longrightarrow> y \<in> set xs \<Longrightarrow> f x = f y \<Longrightarrow> x = y"
  by (simp add: distinct_map inj_on_def)

lemma find_key:
  assumes "r \<in> set xs" and "\<And>r'. r' \<in> set xs \<Longrightarrow> P r' \<Longrightarrow> r' = r" and "P r"
  shows "find P xs = Some r"
proof (cases "find P xs")
  case None
  with assms(1,3) show ?thesis by (auto simp: find_None_iff)
next
  case (Some q)
  then have "q \<in> set xs \<and> P q" by (auto simp: find_Some_iff)
  with assms(2) Some show ?thesis by blast
qed

lemma map_update_set:
  assumes "r \<in> set xs" and "\<And>r'. r' \<in> set xs \<Longrightarrow> P r' \<longleftrightarrow> r' = r"
  shows "set (map (\<lambda>r'. if P r' then f r' else r') xs) = insert (f r) (set xs - {r})"
  using assms by auto

lemma plain_mem_cond: "plain_cond c \<Longrightarrow> mem_cond c v = cond_ok (=) c v"
  by (cases "(c, v)" rule: mem_cond.cases) auto

lemma plain_mem_matches: "plain q \<Longrightarrow> mem_matches q u = matches (=) q u"
  unfolding plain_def mem_matches_def matches_def list_all_iff
  by (rule ball_cong [OF refl]) (auto simp: plain_mem_cond)

lemma head_option_None [simp]: "head_option xs = None \<longleftrightarrow> xs = []"
  by (cases xs) auto

lemma head_option_Some: "head_option xs = Some x \<Longrightarrow> x \<in> set xs"
  by (cases xs) auto

lemma mem_findOne_result:
  "mem_findOne ds q o' d = Inr v \<longleftrightarrow> set (f_relations o') \<subseteq> set ds \<and>
     v = head_option (map (mem_entity o' d) (filter (\<lambda>u. live o' u \<and> mem_matches q u) (user_table d)))"
  by (auto simp: mem_findOne_def mem_find_def)

lemma token_of_cases:
  "token_of i d = Val t \<Longrightarrow> t \<in> set (token_table d) \<and> live_token t \<and> t_user t = i"
  "token_of i d = Null \<Longrightarrow> t \<in> set (token_table d) \<Longrightarrow> live_token t \<Longrightarrow> t_user t \<noteq> i"
  "token_of i d \<noteq> Undef"
  by (auto simp: token_of_def find_Some_iff find_None_iff split: option.splits)

lemma user_table_key:
  "r \<in> set (user_table d) \<Longrightarrow> r' \<in> set (user_table d) \<Longrightarrow> u_id r = u_id r' \<Longrightarrow> r = r'"
  unfolding user_table_def by (rule distinct_key [OF number_users_distinct])

lemma token_table_key:
  "r \<in> set (token_table d) \<Longrightarrow> r' \<in> set (token_table d) \<Longrightarrow> t_id r = t_id r' \<Longrightarrow> r = r'"
  unfolding token_table_def by (rule distinct_key [OF number_tokens_distinct])

lemma user_table_id: "r \<in> set (user_table d) \<Longrightarrow> \<exists>k < length (m_users d). u_id r = Val (show_nat k)"
  unfolding user_table_def using number_users_id by fastforce

lemma token_table_id: "r \<in> set (token_table d) \<Longrightarrow> \<exists>k < length (m_tokens d). t_id r = Val (show_nat k)"
  unfolding token_table_def using number_tokens_id by fastforce

lemma mem_save_existing:
  assumes "r \<in> set (user_table d)" and "u_id u = u_id r"
  shows "mem_save u d = (Inr (merge_saved u (overwrite u r (m_time d))),
     d\<lparr>m_users := map (\<lambda>r'. if u_id r' = u_id r then overwrite u r' (m_time d) else r') (user_table d)\<rparr>)"
proof -
  have "find (\<lambda>r'. u_id r' = u_id u) (user_table d) = Some r"
    using assms(2) user_table_key [OF _ assms(1)] by (intro find_key [OF assms(1)]) simp_all
  with assms(2) show ?thesis by (simp add: mem_save_def)
qed

lemma mem_save_new:
  assumes "\<And>r. r \<in> set (user_table d) \<Longrightarrow> u_id r \<noteq> u_id u"
  shows "mem_save u d =
     (Inr (merge_saved u (new_row u (show_nat (length (m_users d))) (m_time d))),
      d\<lparr>m_users := m_users d @ [new_row u (show_nat (length (m_users d))) (m_time d)]\<rparr>)"
proof -
  have "find (\<lambda>r'. u_id r' = u_id u) (user_table d) = None"
    using assms by (auto simp: find_None_iff)
  then show ?thesis by (simp add: mem_save_def Let_def)
qed

lemma mem_tokens_save_existing:
  assumes "r \<in> set (token_table d)" and "t_id t = t_id r"
  shows "mem_tokens_save t d = (Inr (overwrite_token t r (m_time d)),
     d\<lparr>m_tokens := map (\<lambda>r'. if t_id r' = t_id r then overwrite_token t r' (m_time d) else r')
                      (token_table d)\<rparr>)"
proof -
  have "find (\<lambda>r'. t_id r' = t_id t) (token_table d) = Some r"
    using assms(2) token_table_key [OF _ assms(1)] by (intro find_key [OF assms(1)]) simp_all
  with assms(2) show ?thesis by (simp add: mem_tokens_save_def)
qed

lemma mem_tokens_save_new:
  assumes "\<And>r. r \<in> set (token_table d) \<Longrightarrow> t_id r \<noteq> t_id t"
  shows "mem_tokens_save t d =
     (Inr (new_token_row t (show_nat (length (m_tokens d))) (m_time d)),
      d\<lparr>m_tokens := m_tokens d @ [new_token_row t (show_nat (length (m_tokens d))) (m_time d)]\<rparr>)"
proof -
  have "find (\<lambda>r'. t_id r' = t_id t) (token_table d) = None"
    using assms by (auto simp: find_None_iff)
  then show ?thesis by (simp add: mem_tokens_save_def Let_def)
qed

lemma mem_save_never_fails:
  "fst (mem_save u d) \<noteq> Inl e" "fst (mem_tokens_save t d) \<noteq> Inl e'"
  by (simp_all add: mem_save_def mem_tokens_save_def Let_def split: option.split)

lemma overwrite_id [simp]: "u_id (overwrite u r n) = u_id r" "t_id (overwrite_token t q n) = t_id q"
  by (simp_all add: overwrite_def overwrite_token_def)

lemma merge_saved_sel [simp]:
  "u_id (merge_saved u r) = u_id r" "u_password (merge_saved u r) = u_password u"
  "u_email (merge_saved u r) = u_email u" "u_userType (merge_saved u r) = u_userType u"
  by (simp_all add: merge_saved_def)

lemma new_row_id [simp]: "u_id (new_row u i n) = Val i" "t_id (new_token_row t i n) = Val i"
  by (simp_all add: new_row_def new_token_row_def)

lemma user_table_update:
  "(\<And>r. u_id (f r) = u_id r) \<Longrightarrow> user_table (d\<lparr>m_users := map f (user_table d)\<rparr>) = map f (user_table d)"
  by (simp add: user_table_def number_users_map)

lemma token_table_update:
  "(\<And>r. t_id (f r) = t_id r) \<Longrightarrow> token_table (d\<lparr>m_tokens := map f (token_table d)\<rparr>) = map f (token_table d)"
  by (simp add: token_table_def number_tokens_map)

lemma table_frame [simp]:
  "token_table (d\<lparr>m_users := us\<rparr>) = token_table d" "user_table (d\<lparr>m_tokens := ts\<rparr>) = user_table d"
  "token_table (d\<lparr>m_contacts := cs\<rparr>) = token_table d" "user_table (d\<lparr>m_contacts := cs\<rparr>) = user_table d"
  "token_table (d\<lparr>m_next := n\<rparr>) = token_table d" "user_table (d\<lparr>m_next := n\<rparr>) = user_table d"
  by (simp_all add: token_table_def user_table_def)

lemma user_table_append:
  "user_table (d\<lparr>m_users := m_users d @ [new_row u (show_nat (length (m_users d))) n]\<rparr>)
     = user_table d @ [new_row u (show_nat (length (m_users d))) n]"
  by (simp add: user_table_def number_users_append new_row_def)

lemma token_table_append:
  "token_table (d\<lparr>m_tokens := m_tokens d @ [new_token_row t (show_nat (length (m_tokens d))) n]\<rparr>)
     = token_table d @ [new_token_row t (show_nat (length (m_tokens d))) n]"
  by (simp add: token_table_def number_tokens_append new_token_row_def)

lemma user_table_fresh: "r \<in> set (user_table d) \<Longrightarrow> u_id r \<noteq> Val (show_nat (length (m_users d)))"
  using user_table_id [of r d] by (auto simp: show_nat_inj)

lemma token_table_fresh: "r \<in> set (token_table d) \<Longrightarrow> t_id r \<noteq> Val (show_nat (length (m_tokens d)))"
  using token_table_id [of r d] by (auto simp: show_nat_inj)

lemma user_rows_update:
  assumes "r \<in> set (user_table d)" and "\<And>x. u_id (f x) = u_id x"
  shows "set (user_table (d\<lparr>m_users := map (\<lambda>r'. if u_id r' = u_id r then f r' else r') (user_table d)\<rparr>))
           = insert (f r) (set (user_table d) - {r})"
  using assms user_table_key [OF _ assms(1)]
  by (subst user_table_update) (simp, rule map_update_set, auto)

lemma token_rows_update:
  assumes "r \<in> set (token_table d)" and "\<And>x. t_id (f x) = t_id x"
  shows "set (token_table (d\<lparr>m_tokens := map (\<lambda>r'. if t_id r' = t_id r then f r' else r') (token_table d)\<rparr>))
           = insert (f r) (set (token_table d) - {r})"
  using assms token_table_key [OF _ assms(1)]
  by (subst token_table_update) (simp, rule map_update_set, auto)

lemma mem_orm_sel [simp]:
  "users_findOne (mem_orm ds) = mem_findOne ds"
  "users_findOneOrFail (mem_orm ds) = (\<lambda>q o' d. or_fail (mem_findOne ds q o' d))"
  "users_find (mem_orm ds) = mem_find ds"
  "users_findAndCount (mem_orm ds) = mem_findAndCount ds"
  "users_save (mem_orm ds) = mem_save"
  "users_update (mem_orm ds) = mem_update"
  "tokens_findOneOrFail (mem_orm ds) = mem_tokens_find"
  "tokens_save (mem_orm ds) = mem_tokens_save"
  "tokens_update (mem_orm ds) = mem_tokens_update"
  "contacts_findOneOrFail (mem_orm ds) = mem_contact"
  "contacts_save (mem_orm ds) = mem_contact_save"
  "contacts_update (mem_orm ds) = mem_contact_update"
  "contacts_softDelete (mem_orm ds) = mem_contact_softDelete"
  "contacts_query (mem_orm ds) = mem_contact_query"
  "contacts_author (mem_orm ds) = mem_contact_author"
  "templates_findOne (mem_orm ds) = mem_template"
  "users_permissions (mem_orm ds) = mem_permissions ds"
  by (simp_all add: mem_orm_def)

lemma or_fail_Inr: "or_fail r = Inr u \<longleftrightarrow> r = Inr (Some u)"
  by (auto simp: or_fail_def split: sum.splits option.splits)

lemma mem_findOne_row:
  assumes "mem_findOne ds q o' d = Inr (Some u)"
  shows "\<exists>r \<in> set (user_table d). live o' r \<and> (plain q \<longrightarrow> matches (=) q r) \<and>
           u = (project (f_select o') r)\<lparr>u_token := u_token u, u_contactUs := u_contactUs u\<rparr> \<and>
           (if ''token'' \<in> set (f_relations o')
            then (case u_token u of
                    Val t \<Rightarrow> t \<in> set (token_table d) \<and> live_token t \<and> t_user t = u_id r
                  | Null \<Rightarrow> (\<forall>t \<in> set (token_table d). live_token t \<longrightarrow> t_user t \<noteq> u_id r)
                  | Undef \<Rightarrow> False)
            else u_token u = Undef)"
proof -
  from assms have "u \<in> set (map (mem_entity o' d)
      (filter (\<lambda>u. live o' u \<and> mem_matches q u) (user_table d)))"
    unfolding mem_findOne_result by (metis head_option_Some)
  then obtain r where r: "r \<in> set (user_table d)" "live o' r" "mem_matches q r" "u = mem_entity o' d r"
    by auto
  have tok: "u_token u = (if ''token'' \<in> set (f_relations o') then token_of (u_id r) d else Undef)"
    using r(4) by (simp add: mem_entity_def)
  have rel: "if ''token'' \<in> set (f_relations o')
            then (case u_token u of
                    Val t \<Rightarrow> t \<in> set (token_table d) \<and> live_token t \<and> t_user t = u_id r
                  | Null \<Rightarrow> (\<forall>t \<in> set (token_table d). live_token t \<longrightarrow> t_user t \<noteq> u_id r)
                  | Undef \<Rightarrow> False)
            else u_token u = Undef"
    using tok token_of_cases [of "u_id r" d] by (auto split: js.splits)
  have eq: "u = (project (f_select o') r)\<lparr>u_token := u_token u, u_contactUs := u_contactUs u\<rparr>"
    using r(4) by (simp add: mem_entity_def)
  have m: "plain q \<longrightarrow> matches (=) q r" using plain_mem_matches [of q r] r(3) by simp
  show ?thesis by (rule bexI [OF _ r(1)]) (intro conjI r(2) m eq rel)
qed

lemma mem_findOne_None:
  "plain q \<Longrightarrow> mem_findOne ds q o' d = Inr None \<Longrightarrow> r \<in> set (user_table d) \<Longrightarrow> live o' r
     \<Longrightarrow> \<not> matches (=) q r"
  using plain_mem_matches [of q r] by (auto simp: mem_findOne_result filter_empty_conv dest: sym)

lemma mem_update_image:
  "\<exists>d'. mem_update i [(''profileImage'', v)] d = (Inr (), d') \<and> token_table d' = token_table d
     \<and> user_table d' = map (\<lambda>r. if u_id r = i
          then overwrite (blank_user\<lparr>u_profileImage := v\<rparr>) r (m_time d) else r) (user_table d)"
proof -
  let ?f = "\<lambda>r. if u_id r = i then overwrite (blank_user\<lparr>u_profileImage := v\<rparr>) r (m_time d) else r"
  have "\<And>r. u_id (?f r) = u_id r" by simp
  from user_table_update [OF this, of d]
  have t: "user_table (d\<lparr>m_users := map ?f (user_table d)\<rparr>) = map ?f (user_table d)" .
  have "mem_update i [(''profileImage'', v)] d = (Inr (), d\<lparr>m_users := map ?f (user_table d)\<rparr>)"
    by (simp add: mem_update_def)
  with t show ?thesis by auto
qed

interpretation ref_store: user_store "ref_env ds" "(=)" ds "\<lambda>d. set (user_table d)"
    "\<lambda>d. set (token_table d)" for ds
proof unfold_locales
  show "equivp ((=) :: string \<Rightarrow> string \<Rightarrow> bool)" by (rule identity_equivp)
next
  fix q o' d u
  assume "users_findOne (orm (ref_env ds)) q o' d = Inr (Some u)"
  then show "\<exists>r\<in>set (user_table d). live o' r \<and> (plain q \<longrightarrow> matches (=) q r) \<and>
           u = (project (f_select o') r)\<lparr>u_token := u_token u, u_contactUs := u_contactUs u\<rparr> \<and>
           (if ''token'' \<in> set (f_relations o')
            then (case u_token u of
                    Val t \<Rightarrow> t \<in> set (token_table d) \<and> live_token t \<and> t_user t = u_id r
                  | Null \<Rightarrow> (\<forall>t \<in> set (token_table d). live_token t \<longrightarrow> t_user t \<noteq> u_id r)
                  | Undef \<Rightarrow> False)
            else u_token u = Undef)"
    using mem_findOne_row [of ds q o' d u] by (simp only: ref_env_sel mem_orm_sel)
next
  fix i v d ures d'
  assume "users_update (orm (ref_env ds)) i [(''profileImage'', v)] d = (ures, d')"
  with mem_update_image [of i v d] show "set (token_table d') = set (token_table d) \<and>
      (\<exists>now. set (user_table d') = (\<lambda>r. if ures = Inr () \<and> u_id r = i
             then overwrite (blank_user\<lparr>u_profileImage := v\<rparr>) r now else r) ` set (user_table d))"
    by (intro conjI exI [of _ "m_time d"]) auto
next
  fix u d v d'
  assume u: "u_id u = Undef" and s: "users_save (orm (ref_env ds)) u d = (Inr v, d')"
  have "\<And>r. r \<in> set (user_table d) \<Longrightarrow> u_id r \<noteq> u_id u" using u user_table_id by fastforce
  from mem_save_new [OF this] s have
    "v = merge_saved u (new_row u (show_nat (length (m_users d))) (m_time d))"
    "d' = d\<lparr>m_users := m_users d @ [new_row u (show_nat (length (m_users d))) (m_time d)]\<rparr>"
    by simp_all
  with user_table_fresh [of _ d]
  show "\<exists>i now. (\<forall>r \<in> set (user_table d). u_id r \<noteq> Val i)
          \<and> set (user_table d') = insert (new_row u i now) (set (user_table d))
           \<and> set (token_table d') = set (token_table d) \<and> u_id v = Val i \<and> u_password v = u_password u
           \<and> u_email v = u_email u \<and> u_userType v = u_userType u"
    by (intro exI [of _ "show_nat (length (m_users d))"] exI [of _ "m_time d"])
       (simp add: user_table_append)
next
  fix r d u v d'
  assume "r \<in> set (user_table d)" "u_id u = u_id r" "users_save (orm (ref_env ds)) u d = (Inr v, d')"
  then show "\<exists>now. set (user_table d') = insert (overwrite u r now) (set (user_table d) - {r})
      \<and> set (token_table d') = set (token_table d)"
    using mem_save_existing [of r d u] user_rows_update [of r d "\<lambda>x. overwrite u x (m_time d)"]
    by (intro exI [of _ "m_time d"]) auto
next
  fix t d tv d'
  assume t: "t_id t = Undef" and s: "tokens_save (orm (ref_env ds)) t d = (Inr tv, d')"
  have "\<And>r. r \<in> set (token_table d) \<Longrightarrow> t_id r \<noteq> t_id t" using t token_table_id by fastforce
  from mem_tokens_save_new [OF this] s have
    "d' = d\<lparr>m_tokens := m_tokens d @ [new_token_row t (show_nat (length (m_tokens d))) (m_time d)]\<rparr>"
    by auto
  with token_table_fresh [of _ d]
  show "\<exists>i now. (\<forall>t' \<in> set (token_table d). t_id t' \<noteq> Val i)
           \<and> set (token_table d') = insert (new_token_row t i now) (set (token_table d))
           \<and> set (user_table d') = set (user_table d)"
    by (intro exI [of _ "show_nat (length (m_tokens d))"] exI [of _ "m_time d"])
       (simp add: token_table_append)
next
  fix tr d t tv d'
  assume "tr \<in> set (token_table d)" "t_id t = t_id tr" "tokens_save (orm (ref_env ds)) t d = (Inr tv, d')"
  then show "\<exists>now. set (token_table d') = insert (overwrite_token t tr now) (set (token_table d) - {tr})
      \<and> set (user_table d') = set (user_table d)"
    using mem_tokens_save_existing [of tr d t]
      token_rows_update [of tr d "\<lambda>x. overwrite_token t x (m_time d)"]
    by (intro exI [of _ "m_time d"]) auto
next
  fix tr d t d'
  assume "tr \<in> set (token_table d)" "tokens_update (orm (ref_env ds)) (t_id tr) t d = (Inr (), d')"
  then show "\<exists>now. set (token_table d') = insert (overwrite_token t tr now) (set (token_table d) - {tr})
      \<and> set (user_table d') = set (user_table d)"
    using token_rows_update [of tr d "\<lambda>x. overwrite_token t x (m_time d)"]
    by (intro exI [of _ "m_time d"]) (auto simp: mem_tokens_update_def)
next
  fix t d
  assume "t \<in> set (token_table d)"
  from token_table_id [OF this] obtain k where "t_id t = Val (show_nat k)" by blast
  then show "\<exists>c i. t_id t = Val (c # i)" by (cases "show_nat k") auto
next
  fix u o' d t
  assume "tokens_findOneOrFail (orm (ref_env ds)) (Where [(''user'', IsUser (Some u))]) o' d = Inr t"
  then show "t \<in> set (token_table d) \<and> live_token t \<and> t_user t = u_id u"
    using token_of_cases [of "u_id u" d] by (auto simp: mem_tokens_find_def split: js.splits)
next
  fix u d e d'
  assume "users_save (orm (ref_env ds)) u d = (Inl e, d')"
  then show "set (user_table d') = set (user_table d) \<and> set (token_table d') = set (token_table d)"
    using mem_save_never_fails(1) [of u d e] by simp
next
  fix t d e d'
  assume "tokens_save (orm (ref_env ds)) t d = (Inl e, d')"
  then show "set (user_table d') = set (user_table d) \<and> set (token_table d') = set (token_table d)"
    using mem_save_never_fails(2) [of t d e] by simp
next
  fix o' :: find_opts and q d
  assume "\<not> set (f_relations o') \<subseteq> set ds"
  then show "\<exists>e. users_permissions (orm (ref_env ds)) q o' d = Inl e"
    by (simp add: mem_permissions_def mem_findOne_def mem_find_def or_fail_def)
qed (auto dest: user_table_key token_table_key user_table_id mem_findOne_None
       simp: mem_tokens_find_def mem_contact_save_def mem_contact_update_def mem_contact_softDelete_def Let_def or_fail_Inr mem_findOne_def mem_find_def mem_tokens_update_def)

interpretation ref_server: auth_server "ref_env (''token'' # ds)" "(=)" "''token'' # ds"
    "\<lambda>d. set (user_table d)" "\<lambda>d. set (token_table d)" for ds
  by unfold_locales (auto simp: mem_findOne_def mem_find_def)

section \<open>Concrete inputs\<close>

definition demo_request :: "string \<Rightarrow> string \<Rightarrow> (string \<times> json) list \<Rightarrow> request" where
  "demo_request m url body =
     \<lparr>rq_method = m, rq_baseUrl = url, rq_originalUrl = url, rq_authorization = Undef,
      rq_cookie = Undef, rq_secure = True, rq_ip = ''127.0.0.1'', rq_file = Inr Undef, rq_body = body, rq_query = [], rq_params = [],
      rq_user = None, rq_token = Undef\<rparr>"

definition demo_signup :: request where
  "demo_signup = demo_request ''POST'' ''/auth''
     [(''email'', JStr ''ann@b.c''), (''fullName'', JStr ''Ann''), (''password'', JStr ''secret1''),
      (''userType'', JStr ''user''), (''countryCode'', JStr ''+1''), (''mobileNumber'', JStr ''555'')]"

text \<open>An account of a given type whose password is \<open>secret1\<close>, and the row of its session.\<close>

definition demo_user :: "propane_user_type \<Rightarrow> users" where
  "demo_user ty =
     (new_row (blank_user\<lparr>u_fullName := Val ''Ann'', u_email := Val ''ann@b.c'',
                          u_password := Val (''$'' @ armor ''secret1''),
                          u_countryCode := Val ''+1'', u_mobileNumber := Val ''555'',
                          u_userType := Val (PropaneUserType ty)\<rparr>) ''0'' 0)"

definition demo_pair :: "token_kind \<Rightarrow> int \<Rightarrow> string" where
  "demo_pair k now = js_join ''.'' [armor (Token k), armor ''0'', show_int (now div 1000),
     show_int (now div 1000 + (if k = REFRESH then 36000 else 900)), armor ''5ec4e7'']"

definition demo_session :: tokens where
  "demo_session = new_token_row
     (blank_token\<lparr>t_user := Val ''0'', t_accessToken := Val (demo_pair ACCESS 1000),
                  t_refreshToken := Val (demo_pair REFRESH 1000)\<rparr>) ''0'' 0"

definition demo_db :: "propane_user_type \<Rightarrow> tokens list \<Rightarrow> mem" where
  "demo_db ty ts = empty_mem\<lparr>m_users := [demo_user ty], m_tokens := ts\<rparr>"

lemma show_nat_0 [simp]: "show_nat 0 = ''0''"
  by code_simp

lemma demo_tables [simp]:
  "user_table (demo_db ty ts) = [demo_user ty]"
  "token_table (demo_db ty [demo_session]) = [demo_session]"
  "token_table (demo_db ty []) = []"
  "user_table empty_mem = []" "token_table empty_mem = []"
  by (simp_all add: demo_db_def empty_mem_def user_table_def token_table_def demo_user_def
      demo_session_def new_row_def new_token_row_def)

lemma world_of_sel [simp]:
  "w_db (world_of d) = d" "w_now (world_of d) = 5000" "w_entropy (world_of d) = 0"
  "w_outbox (world_of d) = []" "w_log (world_of d) = []" "w_hits (world_of d) = []"
  by (simp_all add: world_of_def)

lemma ref_config_sel [simp]:
  "SECRET_HEX ref_config = ''5ec4e7''" "ACCESS_TOKEN_LIFETIME_MIN ref_config = 15"
  "REFRESH_TOKEN_LIFETIME_MIN ref_config = 600"
  by (simp_all add: ref_config_def)

lemma demo_user_sel [simp]:
  "u_id (demo_user ty) = Val ''0''" "u_deletedAt (demo_user ty) = Null"
  "u_isActive (demo_user ty) = Val True" "u_email (demo_user ty) = Val ''ann@b.c''"
  "u_userType (demo_user ty) = Val (PropaneUserType ty)"
  "u_countryCode (demo_user ty) = Val ''+1''" "u_mobileNumber (demo_user ty) = Val ''555''"
  "u_password (demo_user ty) = Val (CHR ''$'' # armor ''secret1'')"
  by (simp_all add: demo_user_def new_row_def blank_user_def pick_def)

lemma demo_session_sel [simp]:
  "live_token demo_session" "t_user demo_session = Val ''0''" "t_id demo_session = Val ''0''"
  "t_accessToken demo_session = Val (demo_pair ACCESS 1000)"
  "t_refreshToken demo_session = Val (demo_pair REFRESH 1000)"
  "t_deletedAt demo_session = Null"
  by (simp_all add: demo_session_def new_token_row_def blank_token_def pick_def live_token_def)

lemma demo_request_sel [simp]:
  "rq_method (demo_request m url b) = m" "rq_baseUrl (demo_request m url b) = url"
  "rq_originalUrl (demo_request m url b) = url"
  "rq_body (demo_request m url b) = b" "rq_authorization (demo_request m url b) = Undef"
  "rq_cookie (demo_request m url b) = Undef" "rq_user (demo_request m url b) = None"
  "rq_query (demo_request m url b) = []" "rq_params (demo_request m url b) = []"
  by (simp_all add: demo_request_def)

lemma demo_body_fields [simp]:
  "str_field ((k, JStr v) # o') k' = (if k' = k then Val v else str_field o' k')"
  "str_field [] k = Undef"
  by (simp_all add: str_field_def field_def)

lemma ref_compare_demo [simp]:
  "ref_compare (Val p) (Val (CHR ''$'' # armor q)) = Inr (q = take 72 p)"
  by (auto simp: ref_compare_def js_split_no_sep)

lemmas ref_run =
  andThen_def write_db_def signAccessToken_def signRefreshToken_def signToken_def ref_sign_def
  mem_findOne_def mem_find_def mem_matches_def mem_entity_def project_def column_def live_def
  no_opts_def token_of_def

end
