(* ===== verification/AuthProps.thy ===== *)
theory AuthProps
  imports AuthFacts Reference
begin

text \<open>
  The properties of authentication, sign-up, login and refreshing, each with a concrete input
  on which its hypotheses hold.
\<close>

section \<open>Who gets through\<close>

text \<open>
  C1. \<open>authenticate\<close> passes a request on exactly when it carries credentials, the token in them
  verifies as an access token of an existing user, that token is the one stored in the user's
  session if the user is of the persisted type, and, for a sub-admin, the stored permissions
  grant the method on the module of the base URL. What is passed on is the request with that
  user and that token attached.
\<close>

theorem authenticate_exact:
  "(\<exists>w'. authenticate E req w = (Inr (Next req'), w')) \<longleftrightarrow>
     (truthy (rq_authorization req) \<or> truthy (getAuthCookie E (rq_cookie req)))
     \<and> (\<exists>u. token_accepted E (auth_token_of E req) w u
          \<and> req' = req\<lparr>rq_user := Some u, rq_token := auth_token_of E req\<rparr>
          \<and> (if u_userType u = Val (PropaneUserType SUB_ADMIN)
             then permission_granted E req' (w_db w) else True))"
  by (rule authenticate_Next_iff)

section \<open>Signing up\<close>

text \<open>
  C4. A sign-up that answers 200 has added exactly one account, with a fresh id, the hash of the
  password in place of the password, and no other live account of that type with the same e-mail
  address or phone number; the answer carries a token pair signed for the new account and hides
  the hash; for the persisted user type, and only for it, one session row holding that pair was
  added.
\<close>

theorem signup_registers:
  assumes "user_store E db_eq declared rows token_rows"
    and "signUp E req w = (Inr resp, w')"
    and "has_strings (rq_body req) [''email'', ''userType'', ''countryCode'', ''mobileNumber'']"
  shows "(\<forall>r \<in> rows (w_db w). u_deletedAt r = Null \<longrightarrow> \<not> same_account db_eq r (rq_body req))
     \<and> (\<exists>i h now at rt user.
     (\<forall>r \<in> rows (w_db w). u_id r \<noteq> Val i)
     \<and> bcrypt_hash E (str_field (rq_body req) ''password'') 10 (Suc (w_entropy w)) = Inr h
     \<and> rows (w_db w') = insert (new_row (signup_entity (rq_body req) h) i now) (rows (w_db w))
     \<and> signed_pair E w (Val i) at rt
     \<and> resp = token_response E req at rt [(''user'', user_json user)]
     \<and> u_id user = Val i \<and> \<not> truthy (u_password user)
     \<and> (if str_field (rq_body req) ''userType'' = Val stored_token_type
        then \<exists>j n. token_rows (w_db w') = insert (new_token_row
               (session_token (rq_body req) i at rt (w_now w)) j n) (token_rows (w_db w))
        else token_rows (w_db w') = token_rows (w_db w)))"
  using user_store.signup_creates [OF assms(1,2)] user_store.signup_no_rival [OF assms]
  by blast

lemma demo_signup_strings:
  "has_strings (rq_body demo_signup) [''email'', ''userType'', ''countryCode'', ''mobileNumber'']"
  by (simp add: demo_signup_def has_strings_def)

lemma demo_signup_runs:
  "\<exists>resp w'. signUp (ref_env ds) demo_signup (world_of empty_mem) = (Inr resp, w')"
  by (simp add: signUp_def signup_check_def signup_commit_def signup_session_def Let_def ref_run demo_signup_def hashPassword_def
      ref_hash_def mem_save_def mem_tokens_save_def clear_password_def
      signup_entity_def blank_user_def)

lemma signup_registers_witness:
  "\<exists>resp w' i h now. signUp (ref_env []) demo_signup (world_of empty_mem) = (Inr resp, w')
     \<and> set (user_table (w_db w')) = {new_row (signup_entity (rq_body demo_signup) h) i now}"
proof -
  obtain resp w' where s: "signUp (ref_env []) demo_signup (world_of empty_mem) = (Inr resp, w')"
    using demo_signup_runs by blast
  from signup_registers [OF ref_store.user_store_axioms s demo_signup_strings] s
  show ?thesis by auto
qed

text \<open>
  Sign-ups keep the accounts unique: if no two live accounts of a type share an e-mail
  address or a phone number before, none do after, whether the sign-up succeeds or throws.
\<close>

theorem signup_keeps_accounts_unique:
  assumes "user_store E db_eq declared rows token_rows"
    and "accounts_unique db_eq (rows (w_db w))"
    and "has_strings (rq_body req) [''email'', ''userType'', ''countryCode'', ''mobileNumber'']"
    and "signUp E req w = (Inr resp, w')"
  shows "accounts_unique db_eq (rows (w_db w'))"
  using user_store.signup_keeps_unique [OF assms(1,4,2,3)] .

lemma signup_keeps_accounts_unique_witness:
  "\<exists>resp w'. signUp (ref_env []) demo_signup (world_of empty_mem) = (Inr resp, w')
     \<and> accounts_unique (=) (set (user_table (w_db w')))"
proof -
  obtain resp w' where s: "signUp (ref_env []) demo_signup (world_of empty_mem) = (Inr resp, w')"
    using demo_signup_runs by blast
  have "accounts_unique (=) (set (user_table (w_db (world_of empty_mem))))"
    by (simp add: accounts_unique_def)
  from signup_keeps_accounts_unique [OF ref_store.user_store_axioms this demo_signup_strings s] s
  show ?thesis by blast
qed

text \<open>
  A sign-up for which a live account of that type already has the e-mail address or the phone
  number is answered with one of the two errors of status 400, and nothing is written, mailed
  or logged.
\<close>

theorem signup_refuses_duplicates:
  assumes "auth_server E db_eq declared rows token_rows"
    and "has_strings (rq_body req) [''email'', ''userType'', ''countryCode'', ''mobileNumber'']"
    and "r \<in> rows (w_db w)" and "u_deletedAt r = Null" and "same_account db_eq r (rq_body req)"
  shows "\<exists>e. e \<in> {bad_request (ApiMessages phone_exist_already) ''PHONE_ALREADY_EXIST'',
                  bad_request (ApiMessages email_exist_already) ''Email_ALREADY_EXIST''}
     \<and> signUp E req w = (Inl e, w\<lparr>w_entropy := Suc (w_entropy w)\<rparr>)"
  using auth_server.signup_duplicate [OF assms] .

lemma signup_refuses_duplicates_witness:
  "\<exists>e. signUp (ref_env [''token'']) demo_signup (world_of (demo_db USER []))
        = (Inl e, (world_of (demo_db USER []))\<lparr>w_entropy := 1\<rparr>)"
proof -
  have "same_account (=) (demo_user USER) (rq_body demo_signup)"
    by (simp add: same_account_def matches_def phone_conditions_def email_conditions_def
        demo_signup_def column_def enum_strings)
  with signup_refuses_duplicates [OF ref_server.auth_server_axioms demo_signup_strings,
      of "demo_user USER" "world_of (demo_db USER [])" "[]"]
  show ?thesis by auto
qed

section \<open>Logging in\<close>

definition demo_login :: "string \<Rightarrow> request" where
  "demo_login password = demo_request ''POST'' ''/auth''
     [(''password'', JStr password), (''userType'', JStr ''user''),
      (''countryCode'', JStr ''+1''), (''mobileNumber'', JStr ''555'')]"







text \<open>
  C6. Every login asks TypeORM for the relation \<open>address\<close>. The entity class declares only
  \<open>token\<close> and \<open>contactUs\<close>, so with the entities of the repository no login can succeed, and
  the state is left as it was.
\<close>

theorem login_unavailable:
  assumes "user_store E db_eq users_relations rows token_rows"
  shows "\<exists>e. login E req w = (Inl e, w)"
  by (rule user_store.login_needs_address [OF assms]) (simp add: users_relations_def)

lemma login_unavailable_witness:
  "\<exists>e. login (ref_env users_relations) (demo_login ''secret1'') (world_of (demo_db USER [])) =
     (Inl e, world_of (demo_db USER []))"
  by (rule login_unavailable [OF ref_store.user_store_axioms])



section \<open>Refreshing\<close>

text \<open>
  C5. A refresh that answers 200 was given an unexpired refresh token of an existing user. For the
  persisted user type the presented token was the one in the user's only session, which now holds
  the new pair, so the presented token no longer refreshes anything once the pair differs from it;
  for the other types nothing is looked up or written, so nothing revokes the presented token.
\<close>

theorem refresh_rotates_session:
  assumes "user_store E db_eq declared rows token_rows"
    and "refreshToken E req w = (Inr resp, w')"
    and "str_field (rq_body req) ''refreshToken'' = Val (c # rt)"
    and "one_session (token_rows (w_db w))"
  shows "\<exists>u at nrt. refresh_user E (Val (c # rt)) w u
     \<and> signed_pair E w (u_id u) at nrt
     \<and> resp = token_response E req at nrt []
     \<and> rows (w_db w') = rows (w_db w)
     \<and> (if u_userType u = Val stored_token_type
        then \<exists>t i. u_id u = Val i \<and> tokens_of (token_rows (w_db w)) (Val i) = {t}
             \<and> t_refreshToken t = Val (c # rt)
             \<and> session_now (token_rows (w_db w)) (token_rows (w_db w')) (Val i) at nrt
        else w' = w)"
  by (rule user_store.refresh_effect [OF assms])

definition demo_refresh :: request where
  "demo_refresh = demo_request ''POST'' ''/auth'' [(''refreshToken'', JStr (demo_pair REFRESH 1000))]"

lemma demo_refresh_verifies:
  "ref_verify ''5ec4e7'' (Val (demo_pair REFRESH 1000)) (Token REFRESH) 5000 =
     Inr (Some \<lparr>tk_jti = Undef, tk_aud = Val (Token REFRESH), tk_sub = Val ''0'', tk_iat = 1,
                tk_exp = 36001\<rparr>)"
proof -
  have "ref_sign ''5ec4e7'' (Token REFRESH) (Val ''0'') 36000 1000 = Inr (demo_pair REFRESH 1000)"
    by (simp add: ref_sign_def demo_pair_def)
  from ref_verify_signed [OF this, of "Token REFRESH" 5000] show ?thesis by simp
qed

lemma demo_pair_not_Nil: "demo_pair k n \<noteq> []"
  by (simp add: demo_pair_def)

lemma demo_refresh_runs:
  "\<exists>resp w'. refreshToken (ref_env []) demo_refresh (world_of (demo_db USER [demo_session]))
     = (Inr resp, w')"
  by (simp add: refreshToken_def decode_refresh_unfold Let_def ref_run demo_refresh_def
      demo_refresh_verifies isRefreshToken_def or_fail_def rotate_def getByUserId_def
      mem_tokens_find_def mem_tokens_save_def demo_pair_not_Nil)

lemma refresh_rotates_session_witness:
  "\<exists>resp w' at nrt. refreshToken (ref_env []) demo_refresh (world_of (demo_db USER [demo_session]))
        = (Inr resp, w')
     \<and> resp = token_response (ref_env []) demo_refresh at nrt []"
proof -
  obtain resp w' where l: "refreshToken (ref_env []) demo_refresh
     (world_of (demo_db USER [demo_session])) = (Inr resp, w')" using demo_refresh_runs by blast
  obtain c rt where p: "demo_pair REFRESH 1000 = c # rt"
    using demo_pair_not_Nil by (cases "demo_pair REFRESH 1000") auto
  then have b: "str_field (rq_body demo_refresh) ''refreshToken'' = Val (c # rt)"
    by (simp add: demo_refresh_def)
  have o1: "one_session (set (token_table (w_db (world_of (demo_db USER [demo_session])))))"
    by (simp add: one_session_def)
  from refresh_rotates_session [OF ref_store.user_store_axioms l b o1] l show ?thesis by blast
qed

end
