(* ===== verification/PasswordServices.thy ===== *)
theory PasswordServices
  imports TokenService
begin

text \<open>
  src/service/ForgetPasswordService.ts and src/service/UpdatePasswordService.ts: asking for a
  reset link, and setting a new password with a one-time code or with the token of such a link.
  Both classes are singletons whose instances keep no state.
\<close>

definition is_mobile_type :: "string js \<Rightarrow> bool" where
  "is_mobile_type userType \<longleftrightarrow>
     userType = Val (PropaneUserType VENDOR) \<or> userType = Val (PropaneUserType DRIVER)
     \<or> userType = Val (PropaneUserType USER)"

section \<open>src/service/ForgetPasswordService.ts\<close>

definition forget_where :: "(string \<times> json) list \<Rightarrow> conditions" where
  "forget_where body =
     (if is_mobile_type (str_field body ''userType'') then
        [(''countryCode'', Is (str_field body ''countryCode'')),
         (''mobileNumber'', Is (str_field body ''mobileNumber'')),
         (''userType'', Is (str_field body ''userType''))]
      else
        [(''email'', Is (str_field body ''email'')),
         (''userType'', InList [''admin'', ''sub_admin''])])"

definition forget_link :: "'db env \<Rightarrow> string \<Rightarrow> string" where
  "forget_link E token =
     FRONTEND_BASE_URL (cfg E) @ FRONTEND_CHANGE_PASSWORD_URL (cfg E) @ ''?token='' @ token"

definition getForgetPasswordLink :: "'db env \<Rightarrow> string js \<Rightarrow> ('db, string \<times> string) async" where
  "getForgetPasswordLink E userId =
     andThen (signForgetPasswordToken E userId) (\<lambda>token. ret (forget_link E token, token))"

definition forgot_password_mail :: "users \<Rightarrow> string \<Rightarrow> mail_body" where
  "forgot_password_mail user link =
     [(''link'', Val link),
      (''text'', Val ''forgot_password''),
      (''subject'', Val ''Reset Password''),
      (''to'', u_email user),
      (''fullname'', u_fullName user),
      (''mobileNo'', Val (interp (u_countryCode user) @ interp (u_mobileNumber user))),
      (''actor'', u_userType user),
      (''email'', u_email user)]"

definition contact_admin :: exn where
  "contact_admin = OtherExn ''Error'' (Val ''Please contact admin.'')"

text \<open>The result is the pair of \<open>message\<close> and \<open>verification\<close>.\<close>

definition forget_execute ::
    "'db env \<Rightarrow> (string \<times> json) list \<Rightarrow> ('db, string \<times> string) async" where
  "forget_execute E request =
     andThen (read_db (users_findOne (orm E) (Where (forget_where request)) no_opts)) (\<lambda>found.
     case found of
       None \<Rightarrow> andThen (log_error ''Invalid credential'' [])
                 (\<lambda>_. throw (AppExn (BadRequestError (Some ''Invalid credential'') None)))
     | Some user \<Rightarrow>
         andThen
           (catch
             (andThen (getForgetPasswordLink E (u_id user)) (\<lambda>(link, token).
              andThen (start_mail (forgot_password_mail user link)) (\<lambda>_. ret link)))
             (\<lambda>e. throw contact_admin))
           (\<lambda>verification. ret (''RESETPASSWORD_SEND_SUCCESS'', verification)))"

section \<open>src/service/UpdatePasswordService.ts\<close>

definition invalid_forget_token :: exn where
  "invalid_forget_token = bad_request ''Provided token is not valid token'' ''INVALID_TOKEN''"

definition decode_forget :: "'db env \<Rightarrow> string js \<Rightarrow> ('db, token_base) async" where
  "decode_forget E token =
     catch
       (andThen (verifyToken E (Val (or_else token [])) FORGETPASSWORD) (\<lambda>decoded.
          if \<not> isForgetPasswordToken decoded then throw invalid_forget_token else ret decoded))
       (\<lambda>error.
          if error_name error = Val ''TokenExpiredError''
          then throw (unauthorized ''Token is expired.'' ''TOKEN_EXPIRED'')
          else throw invalid_forget_token)"

definition update_target :: "'db env \<Rightarrow> (string \<times> json) list \<Rightarrow> ('db, users option) async" where
  "update_target E request =
     (let token = str_field request ''token''; userType = str_field request ''userType'';
          otp = str_field request ''otp''
      in
      if is_mobile_type userType
      then read_db (users_findOne (orm E)
             (Where [(''otp'', Is otp), (''userType'', Is userType)]) no_opts)
      else andThen (decode_forget E token) (\<lambda>decoded.
             read_db (users_findOne (orm E) (Where [(''id'', Is (tk_sub decoded))]) no_opts)))"

definition update_execute :: "'db env \<Rightarrow> (string \<times> json) list \<Rightarrow> ('db, string) async" where
  "update_execute E request =
     andThen (update_target E request) (\<lambda>found.
     case found of
       None \<Rightarrow>
         andThen (log_error (''user does not exist with this token : ['' @
                    interp (str_field request ''token'') @ '']'') [])
           (\<lambda>_. throw (bad_request ''User does not exist'' ''USER_DOES_NOT_EXIST''))
     | Some user \<Rightarrow>
         andThen (hashPassword E (str_field request ''newPassword'')) (\<lambda>hash.
         andThen (write_db (users_save (orm E) (user\<lparr>u_password := Val hash, u_otp := Null\<rparr>)))
           (\<lambda>_. ret ''Password updated successfully'')))"

end
