(* ===== verification/UsersController.thy ===== *)
theory UsersController
  imports PasswordServices
begin

text \<open>
  src/controller/users.ts: the handlers of the /users routes.
\<close>

text \<open>Reading a property of a \<open>user\<close> that no middleware has attached throws a TypeError.\<close>

definition no_user :: exn where
  "no_user = OtherExn ''TypeError'' (Val ''Cannot read properties of undefined'')"

definition with_user :: "request \<Rightarrow> (users \<Rightarrow> ('db, 'a) async) \<Rightarrow> ('db, 'a) async" where
  "with_user req k = (case rq_user req of None \<Rightarrow> throw no_user | Some user \<Rightarrow> k user)"

text \<open>A number that the validation schema requires or gives a default.\<close>

definition int_field :: "(string \<times> json) list \<Rightarrow> string \<Rightarrow> int" where
  "int_field o' k = (case field o' k of JNum n \<Rightarrow> n | _ \<Rightarrow> 0)"

definition message_response :: "string \<Rightarrow> response" where
  "message_response m = json_response 200 (JObj [(''message'', JStr m)])"

section \<open>Lists of users\<close>

definition getAll_where :: "(string \<times> json) list \<Rightarrow> conditions" where
  "getAll_where query =
     (if truthy (str_field query ''search'')
      then [(''fullName'', ILike (''%'' @ interp (str_field query ''search'') @ ''%''))] else [])
     @ (if truthy (str_field query ''userType'')
        then [(''userType'', Is (str_field query ''userType''))] else [])
     @ (if truthy (str_field query ''email'')
        then [(''email'', Is (str_field query ''email''))] else [])"

definition users_response :: "users list \<times> nat \<Rightarrow> response" where
  "users_response r = (case r of (us, count) \<Rightarrow>
     json_response 200 (JObj [(''count'', JNum (int count)), (''users'', JArr (map user_json us))]))"

definition page_offset :: "int \<Rightarrow> int \<Rightarrow> int" where
  "page_offset page limit = (page - 1) * limit"

definition getAll_opts :: "(string \<times> json) list \<Rightarrow> find_opts" where
  "getAll_opts query =
     (let limit = int_field query ''perPage'';
          offset = page_offset (int_field query ''page'') limit
      in no_opts\<lparr>f_take := Some limit, f_skip := Some offset,
                 f_order := [(str_field query ''sortBy'', str_field query ''sort'')]\<rparr>)"

definition getAll :: "'db env \<Rightarrow> request \<Rightarrow> ('db, response) async" where
  "getAll E req =
     andThen (read_db (users_findAndCount (orm E) (Where (getAll_where (rq_query req)))
                         (getAll_opts (rq_query req))))
       (\<lambda>r. ret (users_response r))"

definition getAllByUserType :: "'db env \<Rightarrow> request \<Rightarrow> ('db, response) async" where
  "getAllByUserType E req =
     (let userType = str_field (rq_query req) ''userType'' in
      andThen (read_db (users_findAndCount (orm E)
          (Where (if truthy userType then [(''userType'', Is userType)] else []))
          (no_opts\<lparr>f_select := [''id'', ''fullName'']\<rparr>)))
        (\<lambda>r. ret (users_response r)))"

section \<open>createUser and avatar\<close>

definition created_entity :: "(string \<times> json) list \<Rightarrow> string \<Rightarrow> users" where
  "created_entity body hashedPassword =
     blank_user\<lparr>u_fullName := str_field body ''fullName'', u_email := str_field body ''email'',
                u_password := Val hashedPassword, u_userType := str_field body ''userType''\<rparr>"

text \<open>\<open>const { password: _, ...userInfo } = user\<close>.\<close>

definition user_info :: "users \<Rightarrow> json" where
  "user_info user = json_object (filter (\<lambda>(k, v). k \<noteq> ''password'') (user_fields user))"

definition createUser :: "'db env \<Rightarrow> request \<Rightarrow> ('db, response) async" where
  "createUser E req =
     (let body = rq_body req in
      andThen (read_db (users_findOne (orm E)
          (Where [(''email'', Is (str_field body ''email'')),
                  (''userType'', Is (str_field body ''userType''))]) no_opts)) (\<lambda>existingUser.
      if existingUser \<noteq> None
      then throw (bad_request ''Email address already used'' ''EMAIL_ALREADY_EXIST'')
      else
      andThen (hashPassword E (str_field body ''password'')) (\<lambda>hashedPassword.
      andThen (write_db (users_save (orm E) (created_entity body hashedPassword))) (\<lambda>user.
      ret (json_response 201 (user_info user))))))"

text \<open>\<open>location\<close> is what the upload middleware left on \<open>req.file\<close>, if anything.\<close>

definition avatar :: "'db env \<Rightarrow> string js \<Rightarrow> request \<Rightarrow> ('db, response) async" where
  "avatar E location req =
     andThen (updateAvatar E (rq_user req) location) (\<lambda>_.
       ret (json_response 200 (case rq_user req of None \<Rightarrow> JUndef | Some u \<Rightarrow> user_json u)))"

section \<open>changePassword and changeMobileNumber\<close>

definition changePassword_opts :: "users \<Rightarrow> find_opts" where
  "changePassword_opts user =
     no_opts\<lparr>f_select := [''id'', ''password'', ''isActive''],
             f_relations := if u_userType user = Val (PropaneUserType VENDOR) then [''vendor''] else []\<rparr>"

definition changePassword :: "'db env \<Rightarrow> request \<Rightarrow> ('db, response) async" where
  "changePassword E req =
     (let oldPassword = str_field (rq_body req) ''oldPassword'';
          newPassword = str_field (rq_body req) ''newPassword''
      in
      with_user req (\<lambda>user.
      andThen (read_db (users_findOneOrFail (orm E) (ById (u_id user)) (changePassword_opts user)))
        (\<lambda>userWithPassword.
      if u_isActive userWithPassword = Val False
      then throw (unauthorized (ApiMessages account_deactivate) ''401'')
      else
      andThen (comparePassword E oldPassword (u_password userWithPassword)) (\<lambda>result.
      if \<not> result
      then throw (bad_request (ApiMessages incorrect_old_password) ''incorrect_old_password'')
      else
      andThen (hashPassword E newPassword) (\<lambda>hash.
      andThen (write_db (users_save (orm E) (user\<lparr>u_password := Val hash\<rparr>))) (\<lambda>_.
      ret (message_response (ApiMessages password_change))))))))"

definition changeMobileNumber :: "'db env \<Rightarrow> request \<Rightarrow> ('db, response) async" where
  "changeMobileNumber E req =
     (let mobileNumber = str_field (rq_body req) ''mobileNumber'';
          countryCode = str_field (rq_body req) ''countryCode''
      in
      with_user req (\<lambda>user.
      andThen (read_db (users_findOne (orm E)
          (Where [(''mobileNumber'', Is mobileNumber), (''countryCode'', Is countryCode),
                  (''userType'', Is (u_userType user))])
          (no_opts\<lparr>f_withDeleted := Some False\<rparr>))) (\<lambda>existingUser.
      if existingUser \<noteq> None
      then throw (bad_request (''User with mobile number: '' @ interp countryCode @
                               interp mobileNumber @ '' already exist.'') ''USER_ALREADY_EXIST'')
      else ret (message_response ''VERIFICATION_SENT_SUCCESS''))))"

section \<open>One user\<close>

text \<open>\<open>Object.assign(o, o')\<close> on the properties that are set.\<close>

definition assign :: "(string \<times> json) list \<Rightarrow> (string \<times> json) list \<Rightarrow> (string \<times> json) list" where
  "assign o1 o2 = fold (\<lambda>(k, v). obj_put k v) o2 o1"

definition own_fields :: "users \<Rightarrow> (string \<times> json) list" where
  "own_fields u = filter (\<lambda>(k, v). v \<noteq> JUndef) (user_fields u)"

definition without_password :: "(string \<times> json) list \<Rightarrow> json" where
  "without_password o' = json_object (assign o' [(''password'', JUndef)])"

definition getById :: "'db env \<Rightarrow> request \<Rightarrow> ('db, response) async" where
  "getById E req =
     andThen (read_db (users_find (orm E) (Where [(''id'', Is (str_field (rq_params req) ''id''))])
         (no_opts\<lparr>f_relations := [''vendor'', ''driver'', ''subAdmin'', ''documents'']\<rparr>)))
       (\<lambda>us. ret (json_response 200
                   (without_password (fold (\<lambda>u o'. assign o' (own_fields u)) us []))))"

text \<open>The assignments of \<open>updateProfile\<close>, which change an entity that is not saved.\<close>

definition if_set :: "'a js \<Rightarrow> 'a js \<Rightarrow> 'a js" where
  "if_set new old = (if new \<noteq> Undef then new else old)"

definition updated_profile :: "(string \<times> json) list \<Rightarrow> users \<Rightarrow> users" where
  "updated_profile body u =
     u\<lparr>u_fullName := if_set (str_field body ''fullName'') (u_fullName u),
       u_email := if_set (str_field body ''email'') (u_email u),
       u_countryCode := if_set (str_field body ''countryCode'') (u_countryCode u),
       u_mobileNumber := if_set (str_field body ''mobileNumber'') (u_mobileNumber u),
       u_profileImage := if_set (str_field body ''profileImage'') (u_profileImage u),
       u_isActive := if_set (bool_field body ''isActive'') (u_isActive u),
       u_adminAddress := if_set (str_field body ''adminAddress'') (u_adminAddress u)\<rparr>"

definition updateProfile :: "'db env \<Rightarrow> request \<Rightarrow> ('db, response) async" where
  "updateProfile E req =
     andThen (read_db (users_findOneOrFail (orm E)
         (ById (str_field (rq_params req) ''id'')) no_opts)) (\<lambda>found.
       let userById = updated_profile (rq_body req) found in
       ret (sendStatus 204))"

definition profile :: "'db env \<Rightarrow> request \<Rightarrow> ('db, response) async" where
  "profile E req =
     with_user req (\<lambda>user.
     andThen (read_db (users_findOne (orm E) (Where [(''id'', Is (u_id user))])
         (no_opts\<lparr>f_relations := [''vendor'', ''driver'', ''subAdmin'', ''verificationDetails'',
                                  ''documents'']\<rparr>)))
       (\<lambda>userInfo. ret (json_response 200 (without_password
                   (case userInfo of None \<Rightarrow> [] | Some u \<Rightarrow> own_fields u)))))"

section \<open>Passwords\<close>

definition forgetPassword :: "'db env \<Rightarrow> request \<Rightarrow> ('db, response) async" where
  "forgetPassword E req =
     andThen (forget_execute E (rq_body req)) (\<lambda>(message, verification).
       ret (json_response 200
         (JObj [(''message'', JStr message), (''verification'', JStr verification)])))"

definition updatePassword :: "'db env \<Rightarrow> request \<Rightarrow> ('db, response) async" where
  "updatePassword E req =
     andThen (update_execute E (rq_body req)) (\<lambda>message. ret (message_response message))"

definition resetPassword :: "'db env \<Rightarrow> request \<Rightarrow> ('db, response) async" where
  "resetPassword E req =
     andThen (read_db (users_findOneOrFail (orm E)
         (ById (str_field (rq_params req) ''id'')) no_opts)) (\<lambda>user.
     andThen (hashPassword E (str_field (rq_body req) ''password'')) (\<lambda>hash.
     andThen (write_db (users_save (orm E) (user\<lparr>u_password := Val hash\<rparr>))) (\<lambda>_.
     ret (sendStatus 200))))"

end
