(* ===== verification/ContactController.thy ===== *)
theory ContactController
  imports UsersController
begin

text \<open>
  src/controller/v2/contactUs.ts: the contact requests users send and admins answer.
\<close>

definition admin_mail :: "'db env \<Rightarrow> users \<Rightarrow> (string \<times> json) list \<Rightarrow> mail_body" where
  "admin_mail E user body =
     [(''email'', u_email user), (''subject'', str_field body ''subject''),
      (''message'', str_field body ''message''), (''text'', Val ''contact_us''),
      (''adminContactEmail'', Val (ADMIN_CONTACT_EMAIL (cfg E))),
      (''to'', Val (ADMIN_CONTACT_EMAIL (cfg E)))]"

definition appreciation_mail :: "'db env \<Rightarrow> users \<Rightarrow> (string \<times> json) list \<Rightarrow> mail_body" where
  "appreciation_mail E user body =
     [(''to'', u_email user), (''email'', u_email user), (''subject'', str_field body ''subject''),
      (''message'', str_field body ''message''), (''text'', Val ''appreciate''),
      (''adminContactEmail'', Val (ADMIN_CONTACT_EMAIL (cfg E)))]"

definition contact_entity :: "users \<Rightarrow> (string \<times> json) list \<Rightarrow> contact_us" where
  "contact_entity user body =
     blank_contact\<lparr>c_subject := str_field body ''subject'', c_message := str_field body ''message'',
                   c_userType := u_userType user, c_user := u_id user\<rparr>"

definition userContactUs :: "'db env \<Rightarrow> request \<Rightarrow> ('db, response) async" where
  "userContactUs E req =
     with_user req (\<lambda>user.
     andThen (start_mail (admin_mail E user (rq_body req))) (\<lambda>_.
     andThen (start_mail (appreciation_mail E user (rq_body req))) (\<lambda>_.
     andThen (write_db (contacts_save (orm E) (contact_entity user (rq_body req)))) (\<lambda>_.
     ret (sendStatus 201)))))"

text \<open>The alternatives of the \<open>Brackets\<close>, each a \<open>like\<close> on one column.\<close>

definition contact_search :: "string js \<Rightarrow> (string \<times> string) list" where
  "contact_search search =
     (if truthy search
      then map (\<lambda>column. (column, ''%'' @ interp search @ ''%''))
             [''contactUs.subject'', ''user.fullName'', ''user.email'']
      else [])"

definition contactUsList :: "'db env \<Rightarrow> request \<Rightarrow> ('db, response) async" where
  "contactUsList E req =
     (let limit = int_field (rq_query req) ''perPage'';
          offset = page_offset (int_field (rq_query req) ''page'') limit
      in andThen (read_db (contacts_query (orm E)
             [''contactUs.subject'', ''contactUs.createdAt'', ''user.fullName'', ''user.email'']
             offset limit (contact_search (str_field (rq_query req) ''search''))))
           (\<lambda>list. ret (json_response 200 (JObj [(''list'', JArr list)]))))"

text \<open>An id that the schema makes a number.\<close>

definition id_param :: "(string \<times> json) list \<Rightarrow> string js" where
  "id_param params = (case field params ''id'' of JNum n \<Rightarrow> Val (show_int n) | _ \<Rightarrow> Undef)"

text \<open>\<open>getManager().transaction\<close>: when the callback rejects, its changes are rolled back.\<close>

definition transaction :: "('db, 'a) async \<Rightarrow> ('db, 'a) async" where
  "transaction m w =
     (case m w of (Inl e, t) \<Rightarrow> (Inl e, t\<lparr>w_db := w_db w\<rparr>) | (Inr x, t) \<Rightarrow> (Inr x, t))"

definition removeContactUs :: "'db env \<Rightarrow> request \<Rightarrow> ('db, response) async" where
  "removeContactUs E req =
     (let i = id_param (rq_params req) in
      with_user req (\<lambda>user.
      andThen (read_db (contacts_findOneOrFail (orm E) (ById i) no_opts)) (\<lambda>_.
      andThen (transaction
        (andThen (write_db (contacts_update (orm E) i [(''updatedBy'', u_id user)])) (\<lambda>_.
         write_db (contacts_softDelete (orm E) i)))) (\<lambda>_.
      ret (sendStatus 204)))))"

definition answer_mail :: "'db env \<Rightarrow> users \<Rightarrow> string js \<Rightarrow> (string \<times> json) list \<Rightarrow> mail_body" where
  "answer_mail E user author body =
     [(''to'', author), (''email'', u_email user), (''message'', str_field body ''message''),
      (''text'', Val ''appreciate''), (''adminContactEmail'', Val (ADMIN_CONTACT_EMAIL (cfg E)))]"

definition adminContactUs :: "'db env \<Rightarrow> request \<Rightarrow> ('db, response) async" where
  "adminContactUs E req =
     andThen (read_db (contacts_author (orm E) (id_param (rq_params req)))) (\<lambda>author.
     with_user req (\<lambda>user.
     andThen (start_mail (answer_mail E user author (rq_body req))) (\<lambda>_.
     ret (sendStatus 201))))"

end
