(* ===== verification/Routes.thy ===== *)
theory Routes
  imports Access AuthController ContactController Validation
begin

text \<open>
  src/route, src/middleware/limit-api-call.ts, the routing part of src/app.ts and the way a
  request runs through them: the tables of routes with their chains of middleware as data, the
  routers (each of which is mounted inside itself), and what the client receives.
\<close>

section \<open>src/middleware/limit-api-call.ts\<close>

record limiter_options =
  lim_max :: int
  lim_windowMs :: int
  lim_keyGenerator :: "request \<Rightarrow> exn + string"

definition openAPIsOptions :: "int \<Rightarrow> int \<Rightarrow> limiter_options" where
  "openAPIsOptions maxRequest timeWindow =
     \<lparr>lim_max = maxRequest, lim_windowMs = timeWindow,
      lim_keyGenerator = (\<lambda>req. Inr (rq_ip req @ '':'' @ rq_originalUrl req))\<rparr>"

definition closedAPIsOption :: "int \<Rightarrow> int \<Rightarrow> limiter_options" where
  "closedAPIsOption maxRequest timeWindow =
     \<lparr>lim_max = maxRequest, lim_windowMs = timeWindow,
      lim_keyGenerator = (\<lambda>req. case rq_user req of
         None \<Rightarrow> Inl no_user
       | Some u \<Rightarrow> Inr (rq_ip req @ '':'' @ rq_originalUrl req @ '':'' @ interp (u_id u)))\<rparr>"

text \<open>\<open>RateLimit(options)\<close>: count the hit, and call the handler when there are too many.\<close>

definition RateLimit :: "limiter_options \<Rightarrow> 'db env \<Rightarrow> request \<Rightarrow> ('db, next_call) async" where
  "RateLimit opts E req w =
     (case lim_keyGenerator opts req of
        Inl e \<Rightarrow> (Inr (NextErr e), w)
      | Inr key \<Rightarrow>
          (let earlier = map snd (filter (\<lambda>h. fst h = key) (w_hits w)) in
           (Inr (if rate_limit E (lim_max opts) (lim_windowMs opts) earlier (w_now w)
                 then NextErr (AppExn (TooManyRequest None None)) else Next req),
            w\<lparr>w_hits := w_hits w @ [(key, w_now w)]\<rparr>)))"

definition openLimiter :: "'db env \<Rightarrow> request \<Rightarrow> ('db, next_call) async" where
  "openLimiter E = RateLimit (openAPIsOptions (OPEN_API_MAX_REQUEST (cfg E))
                               (OPEN_API_WINDOW_IN_MS (cfg E))) E"

definition closedLimiter :: "'db env \<Rightarrow> request \<Rightarrow> ('db, next_call) async" where
  "closedLimiter E = RateLimit (closedAPIsOption (CLOSED_API_MAX_REQUEST (cfg E))
                                 (CLOSED_API_WINDOW_IN_MS (cfg E))) E"

section \<open>The middleware of a route, as data\<close>

datatype middleware =
    Authenticate
  | CheckUserType "propane_user_type list"
  | Validate validation bool
  | OpenLimiter
  | SingleFileS3 media string

definition validate :: "validation \<Rightarrow> bool \<Rightarrow> 'db env \<Rightarrow> request \<Rightarrow> ('db, next_call) async" where
  "validate v context E req =
     (case validate_parts E v req of
        Inl details \<Rightarrow> ret (NextErr (ValidationExn 400 details))
      | Inr req' \<Rightarrow> ret (Next (if context then req' else req)))"

definition singleFileS3 :: "'db env \<Rightarrow> request \<Rightarrow> ('db, next_call) async" where
  "singleFileS3 E req = (case rq_file req of Inl e \<Rightarrow> ret (NextErr e) | Inr l \<Rightarrow> ret (Next req))"

fun run_middleware :: "middleware \<Rightarrow> 'db env \<Rightarrow> request \<Rightarrow> ('db, next_call) async" where
  "run_middleware Authenticate = authenticate"
| "run_middleware (CheckUserType ts) = checkUserType ts"
| "run_middleware (Validate v context) = validate v context"
| "run_middleware OpenLimiter = openLimiter"
| "run_middleware (SingleFileS3 m fieldName) = singleFileS3"

fun through ::
    "middleware list \<Rightarrow> ('db env \<Rightarrow> request \<Rightarrow> ('db, response) async) \<Rightarrow> 'db env \<Rightarrow> request
     \<Rightarrow> 'db route_io" where
  "through [] handler E req = finish (handleError (handler E) req)"
| "through (m # ms) handler E req = pass (run_middleware m E req) (\<lambda>req'. through ms handler E req')"

section \<open>Routes\<close>

datatype seg = Lit string | Param string

datatype handler =
    SignUp | Login | RefreshToken
  | GetAll | GetAllByUserType | CreateUser | Avatar | ChangePassword | ForgetPassword
  | UpdatePassword | Profile | GetById | UpdateProfile | ResetPassword
  | UserContactUs | ContactUsList | RemoveContactUs | AdminContactUs

text \<open>The location of the uploaded file, for the one handler that reads it.\<close>

definition file_location :: "request \<Rightarrow> string js" where
  "file_location req = (case rq_file req of Inr l \<Rightarrow> l | Inl e \<Rightarrow> Undef)"

fun run_handler :: "handler \<Rightarrow> 'db env \<Rightarrow> request \<Rightarrow> ('db, response) async" where
  "run_handler SignUp = signUp"
| "run_handler Login = login"
| "run_handler RefreshToken = refreshToken"
| "run_handler GetAll = getAll"
| "run_handler GetAllByUserType = getAllByUserType"
| "run_handler CreateUser = createUser"
| "run_handler Avatar = (\<lambda>E req. avatar E (file_location req) req)"
| "run_handler ChangePassword = changePassword"
| "run_handler ForgetPassword = forgetPassword"
| "run_handler UpdatePassword = updatePassword"
| "run_handler Profile = profile"
| "run_handler GetById = getById"
| "run_handler UpdateProfile = updateProfile"
| "run_handler ResetPassword = resetPassword"
| "run_handler UserContactUs = userContactUs"
| "run_handler ContactUsList = contactUsList"
| "run_handler RemoveContactUs = removeContactUs"
| "run_handler AdminContactUs = adminContactUs"

record route =
  r_method :: api_method
  r_path :: "seg list"
  r_chain :: "middleware list"
  r_handler :: handler

definition route :: "api_method \<Rightarrow> seg list \<Rightarrow> middleware list \<Rightarrow> handler \<Rightarrow> route" where
  "route m p c h = \<lparr>r_method = m, r_path = p, r_chain = c, r_handler = h\<rparr>"

text \<open>src/route/auth.ts.\<close>

definition auth_routes :: "route list" where
  "auth_routes =
     [route POST [Lit ''signup''] [OpenLimiter, Validate signupValidation True] SignUp,
      route POST [Lit ''signin''] [OpenLimiter, Validate loginValidation True] Login,
      route POST [Lit ''refresh''] [OpenLimiter, Validate refreshTokenValidation False] RefreshToken]"

text \<open>src/route/users.ts, in the order in which the functions add them.\<close>

definition users_routes :: "route list" where
  "users_routes =
     [route GET [Param ''id''] [Authenticate, Validate getUserValidation True] GetById,
      route GET [] [Authenticate, Validate getUsersValidation True] GetAll,
      route GET [Lit ''profile'', Lit ''me''] [Authenticate] Profile,
      route PATCH [Lit ''avatar''] [Authenticate, SingleFileS3 MEDIA_USER ''image''] Avatar,
      route POST [] [Validate createUserValidation False] CreateUser,
      route PUT [Param ''id''] [Authenticate, Validate updateUserValidation True] UpdateProfile,
      route POST [Lit ''forget-password''] [Validate forgetPasswordValidation True] ForgetPassword,
      route GET [Lit ''type'', Lit ''all''] [Authenticate, Validate getUsersByUserTypeValidation True]
        GetAllByUserType,
      route PATCH [Param ''id'', Lit ''reset-password'']
        [Authenticate, Validate resetPasswordValidation False] ResetPassword,
      route POST [Lit ''update-password''] [Validate updatePasswordValidation True] UpdatePassword,
      route PATCH [Lit ''change-password''] [Authenticate, Validate changePasswordValidation False]
        ChangePassword]"

text \<open>src/route/v2/contactUs.ts.\<close>

definition contact_routes :: "route list" where
  "contact_routes =
     [route POST [] [Authenticate, Validate userContactUsValidation True] UserContactUs,
      route GET [] [Authenticate, CheckUserType [ADMIN, SUB_ADMIN],
                    Validate contactUsListValidation True] ContactUsList,
      route DELETE [Param ''id''] [Authenticate, CheckUserType [ADMIN, SUB_ADMIN],
                    Validate removeContactUsValidation True] RemoveContactUs,
      route PATCH [Lit ''admin'', Param ''id''] [Authenticate, CheckUserType [ADMIN, SUB_ADMIN],
                    Validate adminContactUsValidation True] AdminContactUs]"

section \<open>Routers\<close>

text \<open>
  Express compares paths without case and ignores a trailing slash; a GET route also answers
  HEAD. Parameters are kept as they are in the path, before any decoding of escapes.
\<close>

definition down_char :: "char \<Rightarrow> char" where
  "down_char c = (if 65 \<le> (of_char c :: nat) \<and> (of_char c :: nat) \<le> 90
                  then char_of ((of_char c :: nat) + 32) else c)"

definition same_text :: "string \<Rightarrow> string \<Rightarrow> bool" where
  "same_text s t \<longleftrightarrow> map down_char s = map down_char t"

fun match_path :: "seg list \<Rightarrow> string list \<Rightarrow> (string \<times> json) list option" where
  "match_path [] [] = Some []"
| "match_path (Lit l # ps) (s # ss) = (if same_text l s then match_path ps ss else None)"
| "match_path (Param p # ps) (s # ss) =
     (if s = [] then None else map_option (\<lambda>m. (p, JStr s) # m) (match_path ps ss))"
| "match_path ps ss = None"

definition method_matches :: "api_method \<Rightarrow> string \<Rightarrow> bool" where
  "method_matches r m \<longleftrightarrow> m = ApiMethods r \<or> (r = GET \<and> m = ''HEAD'')"

definition match_route :: "route \<Rightarrow> string \<Rightarrow> string list \<Rightarrow> (string \<times> json) list option" where
  "match_route r m segs = (if method_matches (r_method r) m then match_path (r_path r) segs else None)"

text \<open>
  Every function of a routes file adds its route to the file's router and returns that router,
  and the default export mounts all these results, so a router holds its routes followed by
  itself, once per route. \<open>depth\<close> bounds the nesting, as the JavaScript stack does.
\<close>

datatype layer = Endpoint route | Nested

datatype routed = Matched route "(string \<times> json) list" | Fallthrough | StackOverflow

function run_router :: "nat \<Rightarrow> layer list \<Rightarrow> layer list \<Rightarrow> string \<Rightarrow> string list \<Rightarrow> routed" where
  "run_router depth all [] m segs = Fallthrough"
| "run_router depth all (Endpoint r # ls) m segs =
     (case match_route r m segs of
        Some params \<Rightarrow> Matched r params
      | None \<Rightarrow> run_router depth all ls m segs)"
| "run_router 0 all (Nested # ls) m segs = StackOverflow"
| "run_router (Suc depth) all (Nested # ls) m segs =
     (case run_router depth all all m segs of
        Fallthrough \<Rightarrow> run_router (Suc depth) all ls m segs
      | x \<Rightarrow> x)"
  by pat_completeness auto
termination
  by (relation "measures [\<lambda>(depth, all, ls, m, segs). depth, \<lambda>(depth, all, ls, m, segs). length ls]")
     auto

definition layers :: "route list \<Rightarrow> layer list" where
  "layers rs = map Endpoint rs @ map (\<lambda>_. Nested) rs"

definition router :: "nat \<Rightarrow> route list \<Rightarrow> string \<Rightarrow> string list \<Rightarrow> routed" where
  "router depth rs m segs = run_router depth (layers rs) (layers rs) m segs"

section \<open>The application\<close>

definition range_error :: exn where
  "range_error = OtherExn ''RangeError'' (Val ''Maximum call stack size exceeded'')"

text \<open>What a mounted router does with a request, and what happens when it passes it on.\<close>

definition mounted ::
    "nat \<Rightarrow> route list \<Rightarrow> string \<Rightarrow> string list \<Rightarrow> 'db env \<Rightarrow> request \<Rightarrow> 'db route_io \<Rightarrow> 'db route_io" where
  "mounted depth rs baseUrl segs E req otherwise =
     (case router depth rs (rq_method req) segs of
        Matched r params \<Rightarrow>
          through (r_chain r) (run_handler (r_handler r)) E
            (req\<lparr>rq_baseUrl := baseUrl, rq_params := params\<rparr>)
      | Fallthrough \<Rightarrow> otherwise
      | StackOverflow \<Rightarrow> (\<lambda>w. (Inl (NextWith range_error), w)))"

definition access_not_allowed :: response where
  "access_not_allowed = json_response 400 (JObj [(''message'', JStr ''Access not allowed'')])"

definition no_route :: "request \<Rightarrow> 'db route_io" where
  "no_route req w = (Inl (NextWith (not_found_exn (rq_method req) (rq_originalUrl req))), w)"

text \<open>The segments of a path.\<close>

definition segments :: "string \<Rightarrow> string list" where
  "segments p =
     (let ss = drop 1 (js_split CHR ''/'' p) in
      if ss \<noteq> [] \<and> last ss = [] then butlast ss else ss)"

text \<open>src/route/index.ts, src/route/v2/index.ts and the two \<open>app.use\<close> of src/app.ts.\<close>

definition routes :: "nat \<Rightarrow> 'db env \<Rightarrow> request \<Rightarrow> string list \<Rightarrow> 'db route_io" where
  "routes depth E req segs =
     (case segs of
        [] \<Rightarrow> if method_matches GET (rq_method req) then (\<lambda>w. (Inr access_not_allowed, w)) else no_route req
      | s # ss \<Rightarrow>
          if same_text s ''users'' then mounted depth users_routes (CHR ''/'' # s) ss E req (no_route req)
          else if same_text s ''auth'' then mounted depth auth_routes (CHR ''/'' # s) ss E req (no_route req)
          else no_route req)"

definition routesV2 :: "nat \<Rightarrow> 'db env \<Rightarrow> request \<Rightarrow> string \<Rightarrow> string list \<Rightarrow> 'db route_io \<Rightarrow> 'db route_io" where
  "routesV2 depth E req v segs otherwise =
     (case segs of
        [] \<Rightarrow> if method_matches GET (rq_method req) then (\<lambda>w. (Inr access_not_allowed, w)) else otherwise
      | s # ss \<Rightarrow>
          if same_text s ''contactUs''
          then mounted depth contact_routes (CHR ''/'' # v @ CHR ''/'' # s) ss E req otherwise
          else otherwise)"

definition app_route :: "nat \<Rightarrow> 'db env \<Rightarrow> string \<Rightarrow> request \<Rightarrow> 'db route_io" where
  "app_route depth E path req =
     (let segs = segments path in
      case segs of
        [] \<Rightarrow> routes depth E req segs
      | s # ss \<Rightarrow>
          if same_text s ''v2'' then routesV2 depth E req s ss (routes depth E req segs)
          else routes depth E req segs)"

text \<open>
  What the client receives: the response, or the error handler's response. A rejection that nobody
  handles ends the process since version 15 of Node, which the Dockerfile uses; before it, which
  package.json allows too, Node only warns, and the request is answered by the error handler when
  the timeout set in src/app.ts is over. \<open>throws\<close> says which of the two Node does.
\<close>

definition timeout_exn :: "request \<Rightarrow> exn" where
  "timeout_exn req = AppExn (RequestTimeoutError
     (Some (''Request timeout for: ['' @ rq_method req @ ''] '' @ rq_originalUrl req)) None)"

datatype outcome = Answer response | TimedOut response | ProcessEnds

definition error_answer :: "'db env \<Rightarrow> string \<Rightarrow> request \<Rightarrow> exn \<Rightarrow> response" where
  "error_answer E stack req e =
     final_response (isDev (cfg E)) stack (rq_method req) (rq_originalUrl req) (Inl e)"

definition unhandled :: "bool \<Rightarrow> 'db env \<Rightarrow> string \<Rightarrow> request \<Rightarrow> outcome" where
  "unhandled throws E stack req =
     (if throws then ProcessEnds else TimedOut (error_answer E stack req (timeout_exn req)))"

fun outcome_of :: "bool \<Rightarrow> 'db env \<Rightarrow> string \<Rightarrow> request \<Rightarrow> route_error + response \<Rightarrow> outcome" where
  "outcome_of throws E stack req (Inr r) = Answer r"
| "outcome_of throws E stack req (Inl (NextWith e)) = Answer (error_answer E stack req e)"
| "outcome_of throws E stack req (Inl (Unhandled e)) = unhandled throws E stack req"

definition serve ::
    "bool \<Rightarrow> nat \<Rightarrow> 'db env \<Rightarrow> string \<Rightarrow> string \<Rightarrow> request \<Rightarrow> 'db world \<Rightarrow> outcome \<times> 'db world" where
  "serve throws depth E stack path req w =
     (case app_route depth E path req w of (r, w') \<Rightarrow> (outcome_of throws E stack req r, w'))"

lemma timeout_status: "resp_status (error_answer E stack req (timeout_exn req)) = 408"
  by (simp add: error_answer_def timeout_exn_def json_response_def)

end
