(* ===== verification/AccountFacts.thy ===== *)
theory AccountFacts
  imports AuthFacts Routes
begin

text \<open>
  What every handler, whether it answers or throws, may do to the tables of users and tokens: an
  abstract step relation, the invariant it keeps, and the refinement of it by the handlers.
\<close>

section \<open>The abstract steps\<close>

inductive account_step ::
    "(string \<Rightarrow> string \<Rightarrow> bool) \<Rightarrow> users set \<Rightarrow> tokens set \<Rightarrow> users set \<Rightarrow> tokens set \<Rightarrow> bool"
  for eq where
  idle: "account_step eq R T R T"
| touched: "(\<And>r. r \<in> R \<Longrightarrow> same_identity r (f r) \<and> u_id (f r) = u_id r) \<Longrightarrow>
     account_step eq R T (f ` R) T"
| added: "(\<And>r. r \<in> R \<Longrightarrow> u_id r \<noteq> u_id n) \<Longrightarrow>
     (\<And>r. r \<in> R \<Longrightarrow> u_deletedAt r = Null \<Longrightarrow> \<not> rivals eq n r) \<Longrightarrow>
     T' = T \<or> (\<exists>tk. t_user tk = u_id n \<and> T' = insert tk T) \<Longrightarrow>
     account_step eq R T (insert n R) T'"
| session: "r \<in> R \<Longrightarrow> session_now T T' (u_id r) at rt \<Longrightarrow> account_step eq R T R T'"

inductive_cases account_stepE: "account_step eq R T R' T'"

definition sessions_owned :: "users set \<Rightarrow> tokens set \<Rightarrow> bool" where
  "sessions_owned R T \<longleftrightarrow> (\<forall>t \<in> T. live_token t \<longrightarrow> (\<exists>r \<in> R. u_id r = t_user t))"

text \<open>
  Unique accounts, at most one session per account, and no session without an account.
\<close>

definition accounts_ok :: "(string \<Rightarrow> string \<Rightarrow> bool) \<Rightarrow> users set \<Rightarrow> tokens set \<Rightarrow> bool" where
  "accounts_ok eq R T \<longleftrightarrow> accounts_unique eq R \<and> one_session T \<and> sessions_owned R T"

lemma accounts_unique_image:
  assumes "accounts_unique eq R" and "\<And>r. r \<in> R \<Longrightarrow> same_identity r (f r)"
  shows "accounts_unique eq (f ` R)"
  using assms unfolding accounts_unique_def
  by (force simp: same_identity_def rivals_def)

lemma sessions_owned_image:
  "sessions_owned R T \<Longrightarrow> (\<And>r. r \<in> R \<Longrightarrow> u_id (f r) = u_id r) \<Longrightarrow> sessions_owned (f ` R) T"
  unfolding sessions_owned_def by (metis imageI)

lemma one_session_insert:
  assumes "one_session T" and "\<And>t. t \<in> T \<Longrightarrow> live_token t \<Longrightarrow> t_user t \<noteq> t_user tk"
  shows "one_session (insert tk T)"
  using assms unfolding one_session_def by (metis insert_iff)

lemma session_now_owned:
  assumes "sessions_owned R T" and "session_now T T' (u_id r) at rt" and "r \<in> R"
  shows "sessions_owned R T'"
  unfolding sessions_owned_def
proof (intro ballI impI)
  fix t assume t: "t \<in> T'" "live_token t"
  show "\<exists>r\<in>R. u_id r = t_user t"
  proof (cases "t_user t = u_id r")
    case True
    with assms(3) show ?thesis by metis
  next
    case False
    with assms(2) have "tokens_of T' (t_user t) = tokens_of T (t_user t)" by (simp add: session_now_def)
    with t have "t \<in> T" by (auto simp: tokens_of_def)
    with assms(1) t(2) show ?thesis by (simp add: sessions_owned_def)
  qed
qed

lemma account_step_keeps:
  assumes "account_step eq R T R' T'" and "\<And>s t. eq s t \<Longrightarrow> eq t s" and "accounts_ok eq R T"
  shows "accounts_ok eq R' T'"
  using assms(1)
proof cases
  case idle
  with assms(3) show ?thesis by simp
next
  case (touched f)
  have parts: "accounts_unique eq R" "sessions_owned R T" "one_session T"
    using assms(3) by (simp_all add: accounts_ok_def)
  have ident: "same_identity x (f x)" "u_id (f x) = u_id x" if "x \<in> R" for x
    using touched(3) [OF that] by simp_all
  have "accounts_unique eq (f ` R)" by (rule accounts_unique_image [OF parts(1) ident(1)])
  moreover have "sessions_owned (f ` R) T" by (rule sessions_owned_image [OF parts(2) ident(2)])
  ultimately show ?thesis using parts(3) touched(1,2) by (simp add: accounts_ok_def)
next
  case (added n)
  have parts: "accounts_unique eq R" "sessions_owned R T" "one_session T"
    using assms(3) by (simp_all add: accounts_ok_def)
  have uniq: "accounts_unique eq (insert n R)"
    by (rule accounts_unique_insert [OF parts(1) assms(2) added(3)])
  from added(4) show ?thesis
  proof
    assume "T' = T"
    with uniq added(1) assms(3) show ?thesis by (auto simp: accounts_ok_def sessions_owned_def)
  next
    assume "\<exists>tk. t_user tk = u_id n \<and> T' = insert tk T"
    then obtain tk where tk: "t_user tk = u_id n" "T' = insert tk T" by blast
    have "t_user t \<noteq> t_user tk" if t: "t \<in> T" "live_token t" for t
    proof -
      from parts(2) t obtain r where "r \<in> R" "u_id r = t_user t"
        unfolding sessions_owned_def by blast
      with added(2) tk(1) show ?thesis by metis
    qed
    from one_session_insert [OF parts(3) this] uniq added(1) parts(2) tk show ?thesis
      unfolding accounts_ok_def sessions_owned_def by auto
  qed
next
  case (session r at rt)
  with assms(3) show ?thesis
    using session_now_one_session [of T T' "u_id r" at rt] session_now_owned [of R T T' r at rt]
    by (simp add: accounts_ok_def)
qed

section \<open>Saving a changed row\<close>

text \<open>Saving a found entity with another password and code touches its row only.\<close>

lemma account_step_replace:
  assumes "r \<in> R" and "\<And>x. x \<in> R \<Longrightarrow> u_id x = u_id r \<Longrightarrow> x = r"
    and "same_identity r r'" and "u_id r' = u_id r"
  shows "account_step eq R T (insert r' (R - {r})) T"
proof -
  let ?f = "\<lambda>x. if x = r then r' else x"
  have "insert r' (R - {r}) = ?f ` R" using assms(1) by auto
  moreover have "account_step eq R T (?f ` R) T"
    by (rule account_step.touched) (use assms(3,4) in \<open>auto simp: same_identity_def\<close>)
  ultimately show ?thesis by simp
qed

lemma pick_same [simp]: "pick x x = x"
  by (simp add: pick_def)

context user_store
begin

abbreviation step_of :: "'db world \<Rightarrow> 'db world \<Rightarrow> bool" where
  "step_of w w' \<equiv> account_step db_eq (rows (w_db w)) (token_rows (w_db w))
                                      (rows (w_db w')) (token_rows (w_db w'))"

lemma step_same: "w_db w' = w_db w \<Longrightarrow> step_of w w'"
  by (simp add: account_step.idle)

lemma step_save:
  assumes "users_save (orm E) u (w_db w) = (res, d)" and "w_db w' = d"
    and "r \<in> rows (w_db w)" and "u_id u = u_id r" and "u_email u = u_email r"
    and "u_countryCode u = u_countryCode r" and "u_mobileNumber u = u_mobileNumber r"
    and "u_userType u = u_userType r" and "u_deletedAt u = u_deletedAt r"
  shows "step_of w w'"
proof (cases res)
  case (Inl e)
  with save_error assms(1,2) account_step.idle show ?thesis by metis
next
  case (Inr v)
  from save_existing [OF assms(3,4)] assms(1) Inr obtain now where
    n: "rows d = insert (overwrite u r now) (rows (w_db w) - {r})" "token_rows d = token_rows (w_db w)"
    by blast
  have "same_identity r (overwrite u r now)" "u_id (overwrite u r now) = u_id r"
    using assms(5-9) by (simp_all add: same_identity_def overwrite_def)
  from account_step_replace [OF assms(3) _ this] primary_key [OF _ assms(3)] n assms(2)
  show ?thesis by metis
qed

text \<open>The same for an entity that a query has found in the state in which it is saved.\<close>

lemma step_save_found:
  assumes "users_findOne (orm E) q o' (w_db w) = Inr (Some u)" and "f_select o' = []"
    and "users_save (orm E) (u\<lparr>u_password := p, u_otp := c\<rparr>) (w_db w) = (res, d)" and "w_db w' = d"
  shows "step_of w w'"
proof -
  from found_entity [OF assms(1,2)] obtain r where r: "r \<in> rows (w_db w)"
    "u = r\<lparr>u_token := u_token u, u_contactUs := u_contactUs u\<rparr>" by blast
  have cols: "u_id u = u_id r" "u_email u = u_email r" "u_countryCode u = u_countryCode r"
    "u_mobileNumber u = u_mobileNumber r" "u_userType u = u_userType r" "u_deletedAt u = u_deletedAt r"
    by (subst r(2); simp)+
  show ?thesis by (rule step_save [OF assms(3,4) r(1)]) (simp_all add: cols)
qed

lemma step_save_new:
  assumes "users_save (orm E) u (w_db w) = (res, d)" and "rows (w_db w') = rows d"
    and "token_rows (w_db w') = token_rows d" and "u_id u = Undef"
    and "\<And>r i now. r \<in> rows (w_db w) \<Longrightarrow> u_deletedAt r = Null \<Longrightarrow> \<not> rivals db_eq (new_row u i now) r"
  shows "step_of w w'"
proof (cases res)
  case (Inl e)
  with save_error assms(1-3) account_step.idle show ?thesis by metis
next
  case (Inr v)
  from save_new [OF assms(4)] assms(1) Inr obtain i now where
    n: "\<forall>r \<in> rows (w_db w). u_id r \<noteq> Val i" "rows d = insert (new_row u i now) (rows (w_db w))"
      "token_rows d = token_rows (w_db w)" by blast
  have "u_id (new_row u i now) = Val i" by (simp add: new_row_def)
  with n assms(2,3,5) account_step.added [of "rows (w_db w)" "new_row u i now" db_eq] show ?thesis by simp
qed

end

section \<open>The handlers of src/controller/auth.ts\<close>

lemma signUp_unfold:
  "signUp E req w =
     (let w1 = w\<lparr>w_entropy := Suc (w_entropy w)\<rparr>;
          w2 = w1\<lparr>w_entropy := Suc (w_entropy w1)\<rparr>
      in
      case users_findOne (orm E) (phone_conditions (rq_body req)) no_opts (w_db w) of
        Inl e \<Rightarrow> (Inl e, w1)
      | Inr (Some x) \<Rightarrow>
          (Inl (bad_request (ApiMessages phone_exist_already) ''PHONE_ALREADY_EXIST''), w1)
      | Inr None \<Rightarrow>
          (case users_findOne (orm E) (email_conditions (rq_body req)) no_opts (w_db w) of
             Inl e \<Rightarrow> (Inl e, w1)
           | Inr (Some x) \<Rightarrow>
               (Inl (bad_request (ApiMessages email_exist_already) ''Email_ALREADY_EXIST''), w1)
           | Inr None \<Rightarrow>
               (case bcrypt_hash E (str_field (rq_body req) ''password'') 10 (w_entropy w1) of
                  Inl e \<Rightarrow> (Inl e, w2)
                | Inr h \<Rightarrow>
                    (case users_save (orm E) (signup_entity (rq_body req) h) (w_db w) of
                       (Inl e, d) \<Rightarrow> (Inl e, w2\<lparr>w_db := d\<rparr>)
                     | (Inr saved, d) \<Rightarrow>
                         signup_session E req (clear_password saved)
                           (w2\<lparr>w_db := d, w_outbox := w_outbox w @
                             [verify_email_mail saved (FRONTEND_BASE_URL (cfg E) @
                                FRONTEND_VERIFY_EMAIL_URL (cfg E) @ ''?token='' @
                                randtoken_uid E 32 (w_entropy w))]\<rparr>)))))"
  unfolding signUp_def signup_check_def signup_commit_def phone_conditions_def email_conditions_def
    Let_def andThen_def hashPassword_def write_db_def
  by (simp split: sum.split option.split prod.split)

lemma signUp_reaches_save:
  assumes "signUp E req w = (r, w')" and "w_db w' \<noteq> w_db w"
  shows "\<exists>h res d w1. users_findOne (orm E) (phone_conditions (rq_body req)) no_opts (w_db w) = Inr None
     \<and> users_findOne (orm E) (email_conditions (rq_body req)) no_opts (w_db w) = Inr None
     \<and> users_save (orm E) (signup_entity (rq_body req) h) (w_db w) = (res, d)
     \<and> (case res of Inl e \<Rightarrow> w_db w' = d
        | Inr saved \<Rightarrow> w_db w1 = d \<and> signup_session E req (clear_password saved) w1 = (r, w'))"
proof -
  note run = assms(1) [unfolded signUp_unfold Let_def]
  obtain v1 where v1: "users_findOne (orm E) (phone_conditions (rq_body req)) no_opts (w_db w) = Inr v1"
    using run assms(2) by (cases "users_findOne (orm E) (phone_conditions (rq_body req)) no_opts (w_db w)") auto
  have n1: "v1 = None" using run assms(2) v1 by (cases v1) auto
  obtain v2 where v2: "users_findOne (orm E) (email_conditions (rq_body req)) no_opts (w_db w) = Inr v2"
    using run assms(2) v1 n1
    by (cases "users_findOne (orm E) (email_conditions (rq_body req)) no_opts (w_db w)") auto
  have n2: "v2 = None" using run assms(2) v1 n1 v2 by (cases v2) auto
  obtain h where h: "bcrypt_hash E (str_field (rq_body req) ''password'') 10 (Suc (w_entropy w)) = Inr h"
    using run assms(2) v1 n1 v2 n2
    by (cases "bcrypt_hash E (str_field (rq_body req) ''password'') 10 (Suc (w_entropy w))") auto
  obtain res d where s: "users_save (orm E) (signup_entity (rq_body req) h) (w_db w) = (res, d)"
    by fastforce
  show ?thesis
  proof (cases res)
    case (Inl e)
    with run v1 n1 v2 n2 h s have "w_db w' = d" by auto
    with Inl v1 n1 v2 n2 s show ?thesis by (intro exI [of _ h] exI [of _ res] exI [of _ d]) simp
  next
    case (Inr saved)
    let ?w1 = "w\<lparr>w_entropy := Suc (Suc (w_entropy w)), w_db := d, w_outbox := w_outbox w @
      [verify_email_mail saved (FRONTEND_BASE_URL (cfg E) @ FRONTEND_VERIFY_EMAIL_URL (cfg E) @
         ''?token='' @ randtoken_uid E 32 (w_entropy w))]\<rparr>"
    from Inr run v1 n1 v2 n2 h s have "signup_session E req (clear_password saved) ?w1 = (r, w')" by simp
    with Inr v1 n1 v2 n2 s show ?thesis
      by (intro exI [of _ h] exI [of _ res] exI [of _ d] exI [of _ ?w1]) simp
  qed
qed

lemma signup_session_state:
  assumes "signup_session E req u w = (r, w')"
  shows "w' = w \<or> (\<exists>at rt tr d. tokens_save (orm E) (first_token (rq_body req) u at rt (w_now w)) (w_db w)
     = (tr, d) \<and> w' = w\<lparr>w_db := d\<rparr>)"
  using assms unfolding signup_session_def Let_def andThen_def signAccessToken_def signRefreshToken_def
    signToken_def write_db_def
  by (auto split: sum.splits prod.splits if_split_asm)

lemma login_session_state:
  assumes "login_session E req u w = (r, w')"
  shows "w' = w \<or> (\<exists>at rt x. str_field (rq_body req) ''userType'' = Val stored_token_type
     \<and> login_store E (rq_body req) u at rt w = (x, w'))"
  using assms unfolding login_session_def Let_def andThen_def signAccessToken_def signRefreshToken_def
    signToken_def
  by (auto split: sum.splits prod.splits if_split_asm)

lemma map_sum_Inl: "map_sum id f x = Inl e \<longleftrightarrow> x = Inl e"
  by (cases x) auto

lemma rotate_unfold:
  "rotate E user rt at nrt w =
     (case users_findOne (orm E) (ById (u_id user)) no_opts (w_db w) of
        Inl e \<Rightarrow> (Inl e, w)
      | Inr v \<Rightarrow>
          (case tokens_findOneOrFail (orm E) (Where [(''user'', IsUser v)]) no_opts (w_db w) of
             Inl e \<Rightarrow> (Inl e, w)
           | Inr t \<Rightarrow>
               if t_refreshToken t \<noteq> rt
               then (Inl (AppExn (BadRequestError (Some ''Invalid token'') None)), w)
               else (case tokens_save (orm E) (t\<lparr>t_accessToken := Val at, t_refreshToken := Val nrt\<rparr>) (w_db w) of
                       (x, d) \<Rightarrow> (map_sum id (\<lambda>_. ()) x, w\<lparr>w_db := d\<rparr>))))"
  unfolding rotate_def getByUserId_def andThen_def write_db_def
  by (simp split: sum.split prod.split)

lemma refreshToken_state:
  assumes "refreshToken E req w = (r, w')"
  shows "w' = w \<or> (\<exists>u at nrt x. refresh_user E (str_field (rq_body req) ''refreshToken'') w u
     \<and> rotate E u (str_field (rq_body req) ''refreshToken'') at nrt w = (x, w'))"
  using assms unfolding refreshToken_def Let_def andThen_def signAccessToken_def signRefreshToken_def
    signToken_def decode_refresh_unfold refresh_user_def
  by (auto split: sum.splits prod.splits if_split_asm option.splits)

context user_store
begin

lemma no_rival_row:
  assumes "has_strings body [''email'', ''userType'', ''countryCode'', ''mobileNumber'']"
    and "users_findOne (orm E) (phone_conditions body) no_opts d = Inr None"
    and "users_findOne (orm E) (email_conditions body) no_opts d = Inr None"
    and "r \<in> rows d" and "u_deletedAt r = Null"
  shows "\<not> rivals db_eq (new_row (signup_entity body h) i now) r"
proof -
  have "live no_opts r" using assms(5) by (simp add: live_def)
  with finds_none [OF plain_signup(1) [OF assms(1)] assms(2,4)]
    finds_none [OF plain_signup(2) [OF assms(1)] assms(3,4)]
  show ?thesis using same_account_rivals [OF assms(1), of db_eq r h i now]
    unfolding same_account_def by blast
qed

lemma signUp_step:
  assumes "signUp E req w = (r, w')"
    and "has_strings (rq_body req) [''email'', ''userType'', ''countryCode'', ''mobileNumber'']"
  shows "step_of w w'"
proof (cases "w_db w' = w_db w")
  case False
  let ?body = "rq_body req"
  from signUp_reaches_save [OF assms(1) False] obtain h res d w1 where
    f: "users_findOne (orm E) (phone_conditions ?body) no_opts (w_db w) = Inr None"
      "users_findOne (orm E) (email_conditions ?body) no_opts (w_db w) = Inr None" and
    s: "users_save (orm E) (signup_entity ?body h) (w_db w) = (res, d)" and
    k: "case res of Inl e \<Rightarrow> w_db w' = d
        | Inr saved \<Rightarrow> w_db w1 = d \<and> signup_session E req (clear_password saved) w1 = (r, w')" by blast
  have new: "u_id (signup_entity ?body h) = Undef" by (simp add: signup_entity_def blank_user_def)
  note rival = no_rival_row [OF assms(2) f]
  show ?thesis
  proof (cases res)
    case (Inl e)
    with k show ?thesis by (intro step_save_new [OF s _ _ new rival]) simp_all
  next
    case (Inr saved)
    with k have w1: "w_db w1 = d" and ses: "signup_session E req (clear_password saved) w1 = (r, w')"
      by simp_all
    from save_new [OF new] s Inr obtain i now where
      n: "\<forall>q \<in> rows (w_db w). u_id q \<noteq> Val i"
        "rows d = insert (new_row (signup_entity ?body h) i now) (rows (w_db w))"
        "token_rows d = token_rows (w_db w)" "u_id saved = Val i" by blast
    have id: "u_id (new_row (signup_entity ?body h) i now) = Val i" by (simp add: new_row_def)
    from signup_session_state [OF ses] show ?thesis
    proof
      assume "w' = w1"
      with w1 show ?thesis by (intro step_save_new [OF s _ _ new rival]) simp_all
    next
      assume "\<exists>at rt tr d'. tokens_save (orm E) (first_token ?body (clear_password saved) at rt (w_now w1))
        (w_db w1) = (tr, d') \<and> w' = w1\<lparr>w_db := d'\<rparr>"
      then obtain at rt tr d' where
        t: "tokens_save (orm E) (first_token ?body (clear_password saved) at rt (w_now w1)) d = (tr, d')"
          "w' = w1\<lparr>w_db := d'\<rparr>" using w1 by blast
      show ?thesis
      proof (cases tr)
        case (Inl e)
        with tokens_save_error t have "rows d' = rows d" "token_rows d' = token_rows d" by metis+
        with t(2) show ?thesis by (intro step_save_new [OF s _ _ new rival]) simp_all
      next
        case (Inr tk)
        have "t_id (first_token ?body (clear_password saved) at rt (w_now w1)) = Undef"
          by (simp add: first_token_def blank_token_def)
        from tokens_save_new [OF this] t(1) Inr obtain j m where
          tj: "token_rows d' = insert (new_token_row
             (first_token ?body (clear_password saved) at rt (w_now w1)) j m) (token_rows d)"
            "rows d' = rows d" by blast
        have "t_user (new_token_row (first_token ?body (clear_password saved) at rt (w_now w1)) j m) = Val i"
          using session_token_row(2) [of "clear_password saved"] n(4) by simp
        with tj n id t(2) rival show ?thesis
          by (auto intro!: account_step.added)
      qed
    qed
  qed
qed (rule step_same)

lemma login_step:
  assumes "login E req w = (r, w')" and "one_session (token_rows (w_db w))"
  shows "step_of w w'"
proof (cases "w' = w")
  case False
  with assms(1) obtain u where
    f: "users_findOne (orm E) (Where (login_where (rq_body req)))
       (login_opts (str_field (rq_body req) ''userType'')) (w_db w) = Inr (Some u)" and
    s: "login_session E req u w = (r, w')"
    unfolding login_unfold by (auto split: sum.splits option.splits if_split_asm)
  from login_session_state [OF s] False obtain at rt x where
    ty: "str_field (rq_body req) ''userType'' = Val stored_token_type" and
    ls: "login_store E (rq_body req) u at rt w = (x, w')" by blast
  from login_finds [OF f] ty obtain q where q: "q \<in> rows (w_db w)" "u_id u = u_id q"
    "case u_token u of Val t \<Rightarrow> t \<in> tokens_of (token_rows (w_db w)) (u_id q)
           | _ \<Rightarrow> tokens_of (token_rows (w_db w)) (u_id q) = {}" by blast
  show ?thesis
  proof (cases x)
    case (Inr y)
    from ids [OF q(1)] q(2) have uid: "u_id u \<noteq> Undef" by auto
    have "login_store E (rq_body req) u at rt w = (Inr (), w')" using ls Inr by simp
    from login_session_user [OF this assms(2) uid q(3) [folded q(2)]] q
    show ?thesis by (metis account_step.session)
  next
    case (Inl e)
    from ls have "rows (w_db w') = rows (w_db w) \<and> token_rows (w_db w') = token_rows (w_db w)"
    proof (cases rule: login_store_cases)
      case (updates tk d)
      with Inl tokens_update_error show ?thesis by simp
    next
      case (inserts tv d)
      with Inl obtain e' where "tv = Inl e'" by (cases tv) auto
      with inserts tokens_save_error show ?thesis by simp
    qed
    then show ?thesis by (simp add: account_step.idle)
  qed
qed (simp add: account_step.idle)

lemma refresh_step:
  assumes "refreshToken E req w = (r, w')" and "one_session (token_rows (w_db w))"
  shows "step_of w w'"
  using refreshToken_state [OF assms(1)]
proof
  assume "\<exists>u at nrt x. refresh_user E (str_field (rq_body req) ''refreshToken'') w u
     \<and> rotate E u (str_field (rq_body req) ''refreshToken'') at nrt w = (x, w')"
  then obtain u at nrt x where u: "refresh_user E (str_field (rq_body req) ''refreshToken'') w u"
    and ro: "rotate E u (str_field (rq_body req) ''refreshToken'') at nrt w = (x, w')" by blast
  from u obtain p :: token_base where
    "users_findOneOrFail (orm E) (ById (tk_sub p)) no_opts (w_db w) = Inr u"
    by (auto simp: refresh_user_def)
  then have "users_findOne (orm E) (ById (tk_sub p)) no_opts (w_db w) = Inr (Some u)"
    by (simp add: findOneOrFail)
  from found_entity [OF this] obtain q where q: "q \<in> rows (w_db w)" "u_id u = u_id q"
    by (auto simp: no_opts_def)
  with ids obtain i where i: "u_id u = Val i" by metis
  show ?thesis
  proof (cases x)
    case (Inr y)
    with ro have "rotate E u (str_field (rq_body req) ''refreshToken'') at nrt w = (Inr (), w')" by simp
    from refresh_rotates [OF this i assms(2)] q i show ?thesis by (metis account_step.session)
  next
    case (Inl e)
    with ro have "w' = w \<or> (\<exists>t d. tokens_save (orm E) t (w_db w) = (Inl e, d) \<and> w' = w\<lparr>w_db := d\<rparr>)"
      unfolding rotate_unfold
      by (auto simp: map_sum_Inl split: sum.splits prod.splits if_split_asm)
    then have "rows (w_db w') = rows (w_db w) \<and> token_rows (w_db w') = token_rows (w_db w)"
      using tokens_save_error by fastforce
    then show ?thesis by (simp add: account_step.idle)
  qed
qed (simp add: account_step.idle)

end

section \<open>The handlers of src/controller/users.ts and contactUs.ts\<close>

lemma getAll_db: "getAll E req w = (r, w') \<Longrightarrow> w' = w"
  by (auto simp: getAll_def andThen_def split: sum.splits)

lemma getAllByUserType_db: "getAllByUserType E req w = (r, w') \<Longrightarrow> w' = w"
  by (auto simp: getAllByUserType_def Let_def andThen_def split: sum.splits)

lemma getById_db: "getById E req w = (r, w') \<Longrightarrow> w' = w"
  by (auto simp: getById_def andThen_def split: sum.splits)

lemma updateProfile_db: "updateProfile E req w = (r, w') \<Longrightarrow> w' = w"
  by (auto simp: updateProfile_def Let_def andThen_def split: sum.splits)

lemma profile_db: "profile E req w = (r, w') \<Longrightarrow> w' = w"
  by (auto simp: profile_def with_user_def andThen_def split: sum.splits option.splits)

lemma changeMobileNumber_db: "changeMobileNumber E req w = (r, w') \<Longrightarrow> w' = w"
  by (auto simp: changeMobileNumber_def Let_def with_user_def andThen_def
      split: sum.splits option.splits if_split_asm)

lemma contactUsList_db: "contactUsList E req w = (r, w') \<Longrightarrow> w' = w"
  by (auto simp: contactUsList_def Let_def andThen_def split: sum.splits)

lemma adminContactUs_db: "adminContactUs E req w = (r, w') \<Longrightarrow> w_db w' = w_db w"
  by (auto simp: adminContactUs_def with_user_def andThen_def split: sum.splits option.splits)

lemma forgetPassword_db: "forgetPassword E req w = (r, w') \<Longrightarrow> w_db w' = w_db w"
  by (auto simp: forgetPassword_def forget_execute_def getForgetPasswordLink_def
      signForgetPasswordToken_def signToken_def catch_def andThen_def
      split: sum.splits option.splits prod.splits if_split_asm)

text \<open>Saving the entity a query returned, in the state of that query.\<close>

definition saves_found :: "'db env \<Rightarrow> 'db world \<Rightarrow> 'db world \<Rightarrow> bool" where
  "saves_found E w w' \<longleftrightarrow> w_db w' = w_db w \<or>
     (\<exists>q o' u p c x d. f_select o' = [] \<and> users_findOne (orm E) q o' (w_db w) = Inr (Some u)
        \<and> users_save (orm E) (u\<lparr>u_password := p, u_otp := c\<rparr>) (w_db w) = (x, d) \<and> w_db w' = d)"

lemma saves_foundI:
  assumes "users_findOne (orm E) q o' (w_db w) = Inr (Some u)" and "f_select o' = []"
    and "users_save (orm E) (u\<lparr>u_password := p, u_otp := c\<rparr>) (w_db w) = (x, d)" and "w_db w' = d"
  shows "saves_found E w w'"
  using assms unfolding saves_found_def by blast

lemma update_target_unfold:
  "update_target E body w =
     (if is_mobile_type (str_field body ''userType'')
      then (users_findOne (orm E) (Where [(''otp'', Is (str_field body ''otp'')),
              (''userType'', Is (str_field body ''userType''))]) no_opts (w_db w), w)
      else (case jwt_verify E (SECRET_HEX (cfg E)) (Val (or_else (str_field body ''token'') []))
                  (Token FORGETPASSWORD) (w_now w) of
          Inl e \<Rightarrow> (Inl (if error_name e = Val ''TokenExpiredError''
                        then unauthorized ''Token is expired.'' ''TOKEN_EXPIRED''
                        else invalid_forget_token), w)
        | Inr None \<Rightarrow> (Inl invalid_forget_token, w)
        | Inr (Some p) \<Rightarrow>
            if isForgetPasswordToken p
            then (users_findOne (orm E) (Where [(''id'', Is (tk_sub p))]) no_opts (w_db w), w)
            else (Inl invalid_forget_token, w)))"
  unfolding update_target_def decode_forget_def verifyToken_def catch_def andThen_def Let_def
  by (simp add: invalid_forget_token_def split: sum.split option.split)

lemma update_target_found:
  "update_target E body w = (r, w1) \<Longrightarrow>
     w1 = w \<and> (\<forall>u. r = Inr (Some u) \<longrightarrow> (\<exists>q. users_findOne (orm E) q no_opts (w_db w) = Inr (Some u)))"
  unfolding update_target_unfold by (auto split: if_split_asm sum.splits option.splits)

lemma update_execute_unfold:
  "update_execute E body w =
     (case update_target E body w of
        (Inl e, t) \<Rightarrow> (Inl e, t)
      | (Inr None, t) \<Rightarrow>
          (Inl (bad_request ''User does not exist'' ''USER_DOES_NOT_EXIST''),
           t\<lparr>w_log := w_log t @ [(''user does not exist with this token : ['' @
                    interp (str_field body ''token'') @ '']'', [])]\<rparr>)
      | (Inr (Some u), t) \<Rightarrow>
          (case bcrypt_hash E (str_field body ''newPassword'') 10 (w_entropy t) of
             Inl e \<Rightarrow> (Inl e, t\<lparr>w_entropy := Suc (w_entropy t)\<rparr>)
           | Inr h \<Rightarrow>
               (case users_save (orm E) (u\<lparr>u_password := Val h, u_otp := Null\<rparr>) (w_db t) of
                  (x, d) \<Rightarrow> (map_sum id (\<lambda>_. ''Password updated successfully'') x,
                             t\<lparr>w_entropy := Suc (w_entropy t), w_db := d\<rparr>))))"
  unfolding update_execute_def andThen_def hashPassword_def write_db_def
  by (simp split: sum.split option.split prod.split)

lemma updatePassword_saves:
  assumes "updatePassword E req w = (r, w')"
  shows "saves_found E w w'"
proof -
  obtain x t where x: "update_execute E (rq_body req) w = (x, t)" by fastforce
  with assms have t: "w_db w' = w_db t"
    by (auto simp: updatePassword_def andThen_def split: sum.splits)
  obtain v w1 where v: "update_target E (rq_body req) w = (v, w1)" by fastforce
  note f = update_target_found [OF v]
  show ?thesis
  proof (cases "\<exists>u. v = Inr (Some u)")
    case True
    then obtain u where u: "v = Inr (Some u)" by blast
    with f obtain q where q: "users_findOne (orm E) q no_opts (w_db w) = Inr (Some u)" "w1 = w" by blast
    have sel: "f_select no_opts = []" by (simp add: no_opts_def)
    show ?thesis
    proof (cases "bcrypt_hash E (str_field (rq_body req) ''newPassword'') 10 (w_entropy w)")
      case (Inl e)
      with x v u q(2) t show ?thesis by (auto simp: update_execute_unfold saves_found_def)
    next
      case (Inr h)
      obtain y d where s: "users_save (orm E) (u\<lparr>u_password := Val h, u_otp := Null\<rparr>) (w_db w) = (y, d)"
        by fastforce
      with Inr x v u q(2) t have "w_db w' = d" by (auto simp: update_execute_unfold)
      with saves_foundI [OF q(1) sel s] show ?thesis by simp
    qed
  next
    case False
    with x v f t show ?thesis
      unfolding update_execute_unfold saves_found_def
      by (auto split: sum.splits option.splits)
  qed
qed

lemma resetPassword_saves:
  assumes "resetPassword E req w = (r, w')"
    and iff: "\<And>q o' d u. users_findOneOrFail (orm E) q o' d = Inr u
       \<longleftrightarrow> users_findOne (orm E) q o' d = Inr (Some u)"
  shows "saves_found E w w'"
proof (cases "w_db w' = w_db w")
  case False
  with assms(1) obtain u h x d where
    u: "users_findOne (orm E) (ById (str_field (rq_params req) ''id'')) no_opts (w_db w) = Inr (Some u)" and
    s: "users_save (orm E) (u\<lparr>u_password := Val h\<rparr>) (w_db w) = (x, d)" "w_db w' = d"
    by (auto simp: resetPassword_def andThen_def hashPassword_def write_db_def iff
        split: sum.splits prod.splits)
  have "u\<lparr>u_password := Val h\<rparr> = u\<lparr>u_password := Val h, u_otp := u_otp u\<rparr>" by simp
  with s have "users_save (orm E) (u\<lparr>u_password := Val h, u_otp := u_otp u\<rparr>) (w_db w) = (x, d)" by simp
  from saves_foundI [OF u _ this s(2)] show ?thesis by (simp add: no_opts_def)
qed (simp add: saves_found_def)

definition attached :: "'db env \<Rightarrow> request \<Rightarrow> 'db \<Rightarrow> bool" where
  "attached E req d \<longleftrightarrow> (\<forall>u. rq_user req = Some u \<longrightarrow>
     (\<exists>q o'. f_select o' = [] \<and> users_findOne (orm E) q o' d = Inr (Some u)))"

lemma changePassword_saves:
  assumes "changePassword E req w = (r, w')" and "attached E req (w_db w)"
  shows "saves_found E w w'"
proof (cases "w_db w' = w_db w")
  case False
  with assms(1) obtain u h x d where u: "rq_user req = Some u" and
    s: "users_save (orm E) (u\<lparr>u_password := Val h\<rparr>) (w_db w) = (x, d)" "w_db w' = d"
    by (auto simp: changePassword_def Let_def with_user_def andThen_def hashPassword_def
        comparePassword_def write_db_def split: sum.splits prod.splits option.splits if_split_asm)
  from assms(2) u obtain q o' where q: "f_select o' = []"
    "users_findOne (orm E) q o' (w_db w) = Inr (Some u)" unfolding attached_def by blast
  have "u\<lparr>u_password := Val h\<rparr> = u\<lparr>u_password := Val h, u_otp := u_otp u\<rparr>" by simp
  with s have "users_save (orm E) (u\<lparr>u_password := Val h, u_otp := u_otp u\<rparr>) (w_db w) = (x, d)" by simp
  from saves_foundI [OF q(2,1) this s(2)] show ?thesis .
qed (simp add: saves_found_def)

lemma createUser_saves:
  assumes "createUser E req w = (r, w')" and "w_db w' \<noteq> w_db w"
  shows "\<exists>h x d. users_findOne (orm E) (email_conditions (rq_body req)) no_opts (w_db w) = Inr None
     \<and> users_save (orm E) (created_entity (rq_body req) h) (w_db w) = (x, d) \<and> w_db w' = d"
  using assms unfolding createUser_def Let_def email_conditions_def andThen_def hashPassword_def write_db_def
  by (auto split: sum.splits prod.splits option.splits if_split_asm) blast+

text \<open>What the middleware in front of a handler makes sure of.\<close>

definition handler_ready :: "'db env \<Rightarrow> handler \<Rightarrow> request \<Rightarrow> 'db \<Rightarrow> bool" where
  "handler_ready E h req d \<longleftrightarrow>
     (case h of
        SignUp \<Rightarrow> has_strings (rq_body req) [''email'', ''userType'', ''countryCode'', ''mobileNumber'']
      | CreateUser \<Rightarrow> has_strings (rq_body req) [''email'', ''userType'']
      | ChangePassword \<Rightarrow> attached E req d
      | _ \<Rightarrow> True)"

context user_store
begin

lemma step_saves_found: "saves_found E w w' \<Longrightarrow> step_of w w'"
  unfolding saves_found_def by (auto intro: step_same step_save_found)

lemma createUser_step:
  assumes "createUser E req w = (r, w')"
    and "has_strings (rq_body req) [''email'', ''userType'']"
  shows "step_of w w'"
proof (cases "w_db w' = w_db w")
  case False
  let ?body = "rq_body req"
  from createUser_saves [OF assms(1) False] obtain h x d where
    f: "users_findOne (orm E) (email_conditions ?body) no_opts (w_db w) = Inr None" and
    s: "users_save (orm E) (created_entity ?body h) (w_db w) = (x, d)" "w_db w' = d" by blast
  have new: "u_id (created_entity ?body h) = Undef" by (simp add: created_entity_def blank_user_def)
  obtain em ty where em: "str_field ?body ''email'' = Val em" "str_field ?body ''userType'' = Val ty"
    using has_stringsD [OF assms(2), of "''email''"] has_stringsD [OF assms(2), of "''userType''"] by auto
  have p: "plain (email_conditions ?body)"
    using em by (simp add: plain_def email_conditions_def columns_def)
  have rival: "\<not> rivals db_eq (new_row (created_entity ?body h) i now) q"
    if "q \<in> rows (w_db w)" "u_deletedAt q = Null" for q i now
  proof -
    have "live no_opts q" using that(2) by (simp add: live_def)
    from finds_none [OF p f that(1) this] em show ?thesis
      by (auto simp: rivals_def matches_def email_conditions_def column_def cond_ok_Is
          new_row_def created_entity_def blank_user_def pick_def js_eq_def)
  qed
  show ?thesis by (rule step_save_new [OF s(1) _ _ new rival]) (simp_all add: s(2))
qed (rule step_same)

lemma avatar_step:
  assumes "avatar E l req w = (r, w')"
  shows "step_of w w'"
proof -
  let ?i = "case rq_user req of None \<Rightarrow> Undef | Some u \<Rightarrow> u_id u"
  obtain x d where u: "users_update (orm E) ?i [(''profileImage'', l)] (w_db w) = (x, d)" by fastforce
  with assms have w': "w_db w' = d"
    by (auto simp: avatar_def updateAvatar_def andThen_def write_db_def split: sum.splits)
  from users_update_image [OF u] obtain now where
    n: "token_rows d = token_rows (w_db w)"
      "rows d = (\<lambda>r. if x = Inr () \<and> u_id r = ?i
                then overwrite (blank_user\<lparr>u_profileImage := l\<rparr>) r now else r) ` rows (w_db w)" by blast
  have "account_step db_eq (rows (w_db w)) (token_rows (w_db w)) (rows d) (token_rows (w_db w))"
    unfolding n(2)
    by (rule account_step.touched)
       (auto simp: same_identity_def overwrite_def blank_user_def pick_def)
  then show ?thesis using n(1) w' by simp
qed

lemma userContactUs_step:
  assumes "userContactUs E req w = (r, w')"
  shows "step_of w w'"
proof -
  have "w_db w' = w_db w \<or> (\<exists>c x. contacts_save (orm E) c (w_db w) = (x, w_db w'))"
    using assms by (auto simp: userContactUs_def with_user_def andThen_def write_db_def
        split: option.splits sum.splits prod.splits)
  then show ?thesis using contacts_frame(1) account_step.idle by metis
qed

lemma removeContactUs_step:
  assumes "removeContactUs E req w = (r, w')"
  shows "step_of w w'"
proof -
  have "w_db w' = w_db w \<or> (\<exists>i cs x d y. contacts_update (orm E) i cs (w_db w) = (x, d)
      \<and> contacts_softDelete (orm E) i d = (y, w_db w'))"
    using assms by (auto simp: removeContactUs_def Let_def with_user_def andThen_def write_db_def
        transaction_def split: option.splits sum.splits prod.splits)
  then show ?thesis using contacts_frame(2,3) account_step.idle by metis
qed

lemma handler_step:
  assumes "run_handler h E req w = (r, w')" and "handler_ready E h req (w_db w)"
    and "one_session (token_rows (w_db w))"
  shows "step_of w w'"
  using assms
  by (cases h)
     (auto simp: handler_ready_def
       intro: signUp_step login_step refresh_step createUser_step avatar_step userContactUs_step
         removeContactUs_step step_saves_found updatePassword_saves changePassword_saves
         resetPassword_saves [OF _ findOneOrFail] step_same adminContactUs_db forgetPassword_db
       dest!: getAll_db getAllByUserType_db getById_db updateProfile_db profile_db contactUsList_db)

end

end
