(* ===== verification/RouteFacts.thy ===== *)
theory RouteFacts
  imports AccountFacts
begin

text \<open>
  How the routers choose, what a chain of middleware lets through, and which requests can reach
  a handler.
\<close>

section \<open>Routers\<close>

lemma run_router_Matched:
  "run_router depth all ls m segs = Matched r params \<Longrightarrow> set ls \<subseteq> set all \<Longrightarrow>
     Endpoint r \<in> set all \<and> match_route r m segs = Some params"
  by (induction depth all ls m segs rule: run_router.induct)
     (auto split: option.splits routed.splits)

lemma router_Matched:
  "router depth rs m segs = Matched r params \<Longrightarrow> r \<in> set rs \<and> match_route r m segs = Some params"
  unfolding router_def by (drule run_router_Matched) (auto simp: layers_def)

lemma run_router_skip:
  "(\<And>r. Endpoint r \<in> set ls1 \<Longrightarrow> match_route r m segs = None) \<Longrightarrow> Nested \<notin> set ls1 \<Longrightarrow>
     run_router depth all (ls1 @ ls2) m segs = run_router depth all ls2 m segs"
proof (induction ls1)
  case (Cons l ls1)
  then show ?case by (cases l) auto
qed simp

text \<open>A request that no route of a router matches never leaves the router.\<close>

lemma router_unmatched:
  assumes "rs \<noteq> []" and "\<And>r. r \<in> set rs \<Longrightarrow> match_route r m segs = None"
  shows "router depth rs m segs = StackOverflow"
proof -
  have skip: "run_router d (layers rs) (layers rs) m segs
      = run_router d (layers rs) (map (\<lambda>_. Nested) rs) m segs" for d
    by (subst (2) layers_def, rule run_router_skip) (use assms(2) in auto)
  show ?thesis unfolding router_def
  proof (induction depth)
    case 0
    show ?case unfolding skip using assms(1) by (cases rs) auto
  next
    case (Suc d)
    show ?case unfolding skip [of "Suc d"] using assms(1) Suc by (cases rs) auto
  qed
qed

text \<open>The first route that matches is chosen, however deep the nesting may go.\<close>

lemma router_first:
  assumes "rs = rs1 @ r # rs2" and "\<And>r'. r' \<in> set rs1 \<Longrightarrow> match_route r' m segs = None"
    and "match_route r m segs = Some params"
  shows "router depth rs m segs = Matched r params"
proof -
  have "layers rs = map Endpoint rs1 @ Endpoint r # map Endpoint rs2 @ map (\<lambda>_. Nested) rs"
    using assms(1) by (simp add: layers_def)
  then have "router depth rs m segs
      = run_router depth (layers rs) (map Endpoint rs1
          @ Endpoint r # map Endpoint rs2 @ map (\<lambda>_. Nested) rs) m segs"
    unfolding router_def by simp
  also have "\<dots> = run_router depth (layers rs) (Endpoint r # map Endpoint rs2 @ map (\<lambda>_. Nested) rs) m segs"
    by (rule run_router_skip) (use assms(2) in auto)
  finally show ?thesis using assms(3) by simp
qed

lemma router_outcomes:
  assumes "rs \<noteq> []"
  shows "router depth rs m segs \<noteq> Fallthrough"
proof (cases "\<exists>r \<in> set rs. match_route r m segs \<noteq> None")
  case True
  then obtain rs1 r rs2 where r: "rs = rs1 @ r # rs2" "match_route r m segs \<noteq> None"
    "\<forall>r' \<in> set rs1. \<not> match_route r' m segs \<noteq> None"
    by (rule split_list_first_propE)
  from r(2) obtain params where p: "match_route r m segs = Some params" by blast
  have "router depth rs m segs = Matched r params"
    by (rule router_first [OF r(1) _ p]) (use r(3) in auto)
  then show ?thesis by simp
next
  case False
  with router_unmatched [OF assms] show ?thesis by simp
qed

section \<open>Chains\<close>

lemma validate_unfold:
  "validate v context E req w =
     (Inr (case validate_parts E v req of
        Inl d \<Rightarrow> NextErr (ValidationExn 400 d)
      | Inr req' \<Rightarrow> Next (if context then req' else req)), w)"
  unfolding validate_def by (simp split: sum.split)

lemma RateLimit_keeps:
  "RateLimit opts E req w = (r, w') \<Longrightarrow>
     w_db w' = w_db w \<and> w_outbox w' = w_outbox w \<and> w_now w' = w_now w"
  by (auto simp: RateLimit_def Let_def split: sum.splits)

interpretation limiter_step: quiet_step openLimiter
  by unfold_locales (auto simp: openLimiter_def dest: RateLimit_keeps)

interpretation closed_limiter_step: quiet_step closedLimiter
  by unfold_locales (auto simp: closedLimiter_def dest: RateLimit_keeps)

interpretation validate_step: quiet_step "validate v c" for v c
  by unfold_locales (auto simp: validate_unfold)

interpretation upload_step: quiet_step singleFileS3
  by unfold_locales (auto simp: singleFileS3_def split: sum.splits)

interpretation chain_step: quiet_step "run_middleware m" for m
proof (cases m)
  case Authenticate
  have "run_middleware m = authenticate" using Authenticate by simp
  then show "quiet_step (run_middleware m)" using auth_guard.quiet_step_axioms by metis
next
  case (CheckUserType ts)
  have "run_middleware m = checkUserType ts" using CheckUserType by simp
  then show "quiet_step (run_middleware m)" using type_guard.quiet_step_axioms by metis
next
  case (Validate v c)
  have "run_middleware m = validate v c" using Validate by simp
  then show "quiet_step (run_middleware m)" using validate_step.quiet_step_axioms by metis
next
  case OpenLimiter
  have "run_middleware m = openLimiter" using OpenLimiter by simp
  then show "quiet_step (run_middleware m)" using limiter_step.quiet_step_axioms by metis
next
  case (SingleFileS3 md f)
  have "run_middleware m = singleFileS3" using SingleFileS3 by simp
  then show "quiet_step (run_middleware m)" using upload_step.quiet_step_axioms by metis
qed

text \<open>What a chain hands to its handler.\<close>

fun passes :: "middleware list \<Rightarrow> 'db env \<Rightarrow> request \<Rightarrow> 'db world \<Rightarrow> request \<Rightarrow> 'db world \<Rightarrow> bool" where
  "passes [] E req w req' w' \<longleftrightarrow> req' = req \<and> w' = w"
| "passes (m # ms) E req w req' w' \<longleftrightarrow>
     (\<exists>r t. run_middleware m E req w = (Inr (Next r), t) \<and> passes ms E r t req' w')"

lemma passes_state:
  "passes ms E req w req' w' \<Longrightarrow>
     w_db w' = w_db w \<and> w_outbox w' = w_outbox w \<and> w_now w' = w_now w"
proof (induction ms arbitrary: req w)
  case (Cons m ms)
  from Cons.prems obtain r t where s: "run_middleware m E req w = (Inr (Next r), t)"
    and p: "passes ms E r t req' w'" by auto
  from chain_step.keeps_state [OF s] Cons.IH [OF p] show ?case by simp
qed simp

lemma through_cases:
  assumes "through ms h E req w = (r, w')"
  obtains (stops) e where "r = Inl e" "w_db w' = w_db w" "w_outbox w' = w_outbox w"
  | (handles) req' t where "passes ms E req w req' t"
      "finish (handleError (h E) req') t = (r, w')"
  using assms
proof (induction ms arbitrary: req w thesis)
  case Nil
  then show ?case by simp
next
  case (Cons m ms)
  from Cons.prems(3) have "pass (run_middleware m E req) (\<lambda>req'. through ms h E req') w = (r, w')"
    by simp
  then show ?case
  proof (cases rule: chain_step.pass_cases)
    case (stops e)
    with Cons.prems(1) show ?thesis by blast
  next
    case (goes_on req' t)
    show ?thesis
    proof (rule Cons.IH [OF _ _ goes_on(2)])
      fix e assume "r = Inl e" "w_db w' = w_db t" "w_outbox w' = w_outbox t"
      with goes_on Cons.prems(1) show ?thesis by simp
    next
      fix req2 t2 assume "passes ms E req' t req2 t2" "finish (handleError (h E) req2) t2 = (r, w')"
      with goes_on Cons.prems(2) [of req2 t2] show ?thesis by auto
    qed
  qed
qed

section \<open>The application's tables\<close>

text \<open>The router a path leads to, the base URL it is mounted at, and what is left of the path.\<close>

definition table_of :: "string list \<Rightarrow> (route list \<times> string \<times> string list) option" where
  "table_of segs =
     (case segs of
        [] \<Rightarrow> None
      | s # ss \<Rightarrow>
          if same_text s ''v2'' then
            (case ss of
               [] \<Rightarrow> None
             | s2 # ss2 \<Rightarrow>
                 if same_text s2 ''contactUs''
                 then Some (contact_routes, CHR ''/'' # s @ CHR ''/'' # s2, ss2) else None)
          else if same_text s ''users'' then Some (users_routes, CHR ''/'' # s, ss)
          else if same_text s ''auth'' then Some (auth_routes, CHR ''/'' # s, ss)
          else None)"

lemma tables_not_Nil [simp]: "users_routes \<noteq> []" "auth_routes \<noteq> []" "contact_routes \<noteq> []"
  by (simp_all add: users_routes_def auth_routes_def contact_routes_def)

lemma table_of_not_Nil: "table_of segs = Some (rs, base, ss) \<Longrightarrow> rs \<noteq> []"
  by (auto simp: table_of_def split: list.splits if_splits)

lemma mounted_otherwise:
  "rs \<noteq> [] \<Longrightarrow> mounted depth rs b segs E req o1 = mounted depth rs b segs E req o2"
  using router_outcomes [of rs depth "rq_method req" segs]
  unfolding mounted_def by (simp split: routed.split)

lemma v2_elsewhere:
  "same_text s ''v2'' \<Longrightarrow> \<not> same_text s ''users'' \<and> \<not> same_text s ''auth''"
  by (simp add: same_text_def down_char_def)

lemma app_route_table:
  assumes "table_of (segments path) = Some (rs, base, ss)"
  shows "app_route depth E path req = mounted depth rs base ss E req (no_route req)"
  using assms mounted_otherwise [OF tables_not_Nil(3)] v2_elsewhere
  unfolding app_route_def Let_def table_of_def routes_def routesV2_def
  by (auto split: list.splits if_splits)

lemma app_route_elsewhere:
  assumes "table_of (segments path) = None"
  shows "(method_matches GET (rq_method req) \<and> app_route depth E path req w = (Inr access_not_allowed, w))
     \<or> app_route depth E path req w = no_route req w"
  using assms v2_elsewhere unfolding app_route_def Let_def table_of_def routes_def routesV2_def
  by (auto split: list.splits if_splits)

text \<open>A request that no route matches, or whose route runs its chain.\<close>

lemma app_route_cases:
  assumes "app_route depth E path req w = (r, w')"
  obtains (home) "r = Inr access_not_allowed" "w' = w" "method_matches GET (rq_method req)"
  | (nowhere) e where "r = Inl (NextWith e)" "w' = w"
  | (matched) rs base ss rt params where "table_of (segments path) = Some (rs, base, ss)"
      "rt \<in> set rs" "match_route rt (rq_method req) ss = Some params"
      "through (r_chain rt) (run_handler (r_handler rt)) E
         (req\<lparr>rq_baseUrl := base, rq_params := params\<rparr>) w = (r, w')"
proof (cases "table_of (segments path)")
  case None
  from app_route_elsewhere [OF this, where depth = depth and E = E and req = req and w = w] assms home nowhere show thesis
    by (auto simp: no_route_def)
next
  case (Some t)
  obtain rs base ss where t: "t = (rs, base, ss)" by (cases t)
  note run = assms [unfolded app_route_table [OF Some [unfolded t]] mounted_def]
  show thesis
  proof (cases "router depth rs (rq_method req) ss")
    case (Matched rt params)
    with router_Matched [OF Matched] run Some t matched show thesis by auto
  next
    case Fallthrough
    with router_outcomes [OF table_of_not_Nil [OF Some [unfolded t]]] show thesis by simp
  next
    case StackOverflow
    with run nowhere show thesis by auto
  qed
qed

section \<open>Who may reach a handler\<close>

text \<open>The paths that POST reaches without credentials.\<close>

definition public_paths :: "string list list" where
  "public_paths =
     [[''auth'', ''signup''], [''auth'', ''signin''], [''auth'', ''refresh''], [''users''],
      [''users'', ''forget-password''], [''users'', ''update-password'']]"

lemma same_text_cons: "same_text s t \<longleftrightarrow> map down_char s = map down_char t"
  by (simp add: same_text_def)

lemma match_path_Nil_iff: "match_path [] segs = Some p \<longleftrightarrow> segs = [] \<and> p = []"
  by (cases segs) auto

lemma match_path_Lit_iff:
  "match_path (Lit l # ps) segs = Some p \<longleftrightarrow>
     (\<exists>s ss. segs = s # ss \<and> same_text l s \<and> match_path ps ss = Some p)"
  by (cases segs) auto

definition guarded :: "route \<Rightarrow> bool" where
  "guarded rt \<longleftrightarrow> (case r_chain rt of m # ms \<Rightarrow> m = Authenticate | [] \<Rightarrow> False)"

lemma guarded_chain: "guarded rt \<Longrightarrow> \<exists>ms. r_chain rt = Authenticate # ms"
  by (auto simp: guarded_def split: list.splits)

lemma open_users_routes:
  "rt \<in> set users_routes \<Longrightarrow> guarded rt \<or> r_method rt = POST \<and>
     r_path rt \<in> {[], [Lit ''forget-password''], [Lit ''update-password'']}"
  by (auto simp: users_routes_def route_def guarded_def)

lemma open_auth_routes:
  "rt \<in> set auth_routes \<Longrightarrow> r_method rt = POST \<and>
     r_path rt \<in> {[Lit ''signup''], [Lit ''signin''], [Lit ''refresh'']}"
  by (auto simp: auth_routes_def route_def)

lemma contact_routes_guarded: "rt \<in> set contact_routes \<Longrightarrow> guarded rt"
  by (auto simp: contact_routes_def route_def guarded_def)

lemma match_POST:
  "match_route rt m ss = Some params \<Longrightarrow> r_method rt = POST \<Longrightarrow>
     m = ApiMethods POST \<and> match_path (r_path rt) ss = Some params"
  by (simp add: match_route_def method_matches_def split: if_split_asm)

lemma match_literal:
  "match_path [Lit l] ss = Some p \<Longrightarrow> map (map down_char) ss = [map down_char l]"
  by (auto simp: match_path_Lit_iff match_path_Nil_iff same_text_cons)

lemma guarded_or_public:
  assumes "table_of segs = Some (rs, base, ss)" and "rt \<in> set rs"
    and "match_route rt m ss = Some params"
  shows "guarded rt \<or> (m = ApiMethods POST \<and> map (map down_char) segs \<in> set public_paths)"
proof -
  have lits: "map down_char ''users'' = ''users''" "map down_char ''auth'' = ''auth''"
    "map down_char ''signup'' = ''signup''" "map down_char ''signin'' = ''signin''"
    "map down_char ''refresh'' = ''refresh''"
    "map down_char ''forget-password'' = ''forget-password''"
    "map down_char ''update-password'' = ''update-password''"
    by (simp_all add: down_char_def)
  show ?thesis
  proof (cases "guarded rt")
    case False
    consider (contact) "rs = contact_routes"
      | (users) s where "rs = users_routes" "segs = s # ss" "same_text s ''users''"
      | (auth) s where "rs = auth_routes" "segs = s # ss" "same_text s ''auth''"
      using assms(1) by (auto simp: table_of_def split: list.splits if_splits)
    then show ?thesis
    proof cases
      case contact
      with contact_routes_guarded assms(2) False show ?thesis by blast
    next
      case users
      with open_users_routes [of rt] assms(2) False have rt: "r_method rt = POST"
        "r_path rt \<in> {[], [Lit ''forget-password''], [Lit ''update-password'']}" by auto
      note mp = match_POST [OF assms(3) rt(1)]
      have "map down_char s = ''users''" using users(3) lits by (simp add: same_text_cons)
      moreover have "map (map down_char) ss \<in> {[], [''forget-password''], [''update-password'']}"
        using mp rt(2) match_literal [of _ ss params] lits by (auto simp: match_path_Nil_iff)
      ultimately show ?thesis using mp users(2) by (auto simp: public_paths_def)
    next
      case auth
      with open_auth_routes [of rt] assms(2) have rt: "r_method rt = POST"
        "r_path rt \<in> {[Lit ''signup''], [Lit ''signin''], [Lit ''refresh'']}" by auto
      note mp = match_POST [OF assms(3) rt(1)]
      have "map down_char s = ''auth''" using auth(3) lits by (simp add: same_text_cons)
      moreover have "map (map down_char) ss \<in> {[''signup''], [''signin''], [''refresh'']}"
        using mp rt(2) match_literal [of _ ss params] lits by auto
      ultimately show ?thesis using mp auth(2) by (auto simp: public_paths_def)
    qed
  qed simp
qed

text \<open>Behind \<open>Authenticate\<close>, a chain hands on a request whose token was accepted.\<close>

lemma guarded_passes:
  assumes "guarded rt" and "passes (r_chain rt) E req w req' w'"
  shows "\<exists>u ms r t. token_accepted E (auth_token_of E req) w u \<and> r_chain rt = Authenticate # ms
     \<and> r = req\<lparr>rq_user := Some u, rq_token := auth_token_of E req\<rparr>
     \<and> (if u_userType u = Val (PropaneUserType SUB_ADMIN)
        then rq_baseUrl req \<in> set PropaneBaseRoutes else True)
     \<and> w_db t = w_db w \<and> passes ms E r t req' w'"
proof -
  from guarded_chain [OF assms(1)] obtain ms where ms: "r_chain rt = Authenticate # ms" by blast
  with assms(2) obtain r t where a: "authenticate E req w = (Inr (Next r), t)"
    and p: "passes ms E r t req' w'" by auto
  from authenticate_accepts [OF a] auth_guard.keeps_state [OF a] ms p show ?thesis by blast
qed

lemma auth_token_of_frame [simp]:
  "auth_token_of E (req\<lparr>rq_baseUrl := b, rq_params := p\<rparr>) = auth_token_of E req"
  by (simp add: auth_token_of_def)

section \<open>What the chains make sure of\<close>

lemma str_field_JStr: "field b k = JStr s \<Longrightarrow> str_field b k = Val s"
  by (simp add: str_field_def)

context joi_validation
begin

lemma validated_strings:
  assumes "joi E sch b = Inr b'" and "distinct (map fst sch)"
    and "\<And>k. k \<in> set ks \<Longrightarrow> \<exists>r. (k, r) \<in> set sch \<and> j_kind r = JoiString \<and> j_required r"
  shows "has_strings b' ks"
proof -
  have "truthy (str_field b' k)" if k: "k \<in> set ks" for k
  proof -
    from assms(3) [OF k] obtain r where r: "(k, r) \<in> set sch" "j_kind r = JoiString" "j_required r" by blast
    from required_string [OF field_ok [OF assms(2,1) r(1)] r(3,2)]
    obtain c s where "field b' k = JStr (c # s)" by blast
    then show ?thesis by (simp add: str_field_JStr)
  qed
  then show ?thesis by (simp add: has_strings_def list_all_iff)
qed

lemma given_strings:
  assumes "joi E sch b = Inr b'" and "distinct (map fst sch)"
    and "\<And>k. k \<in> set ks \<Longrightarrow> \<exists>r. (k, r) \<in> set sch \<and> j_kind r = JoiString \<and> j_required r \<and> j_default r = None"
  shows "has_strings b ks"
proof -
  have "truthy (str_field b k)" if k: "k \<in> set ks" for k
  proof -
    from assms(3) [OF k] obtain r where r: "(k, r) \<in> set sch" "j_kind r = JoiString" "j_required r"
      "j_default r = None" by blast
    from string_given [OF assms(2,1) r] obtain c s where "field b k = JStr (c # s)" by blast
    then show ?thesis by (simp add: str_field_JStr)
  qed
  then show ?thesis by (simp add: has_strings_def list_all_iff)
qed

end

lemma validate_passes:
  "validate v c E req w = (Inr (Next req'), w') \<Longrightarrow>
     \<exists>r. validate_parts E v req = Inr r \<and> req' = (if c then r else req) \<and> w' = w"
  by (auto simp: validate_unfold split: sum.splits)

lemma validate_body:
  "validate_parts E (body_schema sch) req = Inr r \<Longrightarrow>
     \<exists>b. joi E sch (rq_body req) = Inr b \<and> r = req\<lparr>rq_body := b\<rparr>"
  by (auto simp: validate_parts_def check_part_def body_schema_def split: sum.splits)

lemma signup_schema:
  "\<exists>sch. signupValidation = body_schema sch \<and> distinct (map fst sch)
     \<and> (\<forall>k \<in> set [''email'', ''userType'', ''countryCode'', ''mobileNumber''].
          \<exists>r. (k, r) \<in> set sch \<and> j_kind r = JoiString \<and> j_required r)"
  unfolding signupValidation_def
  by (rule exI, rule conjI, rule refl)
     (simp add: required_def email_rule_def user_type_rule_def joi_any_def)

lemma create_user_schema:
  "\<exists>sch. createUserValidation = body_schema sch \<and> distinct (map fst sch)
     \<and> (\<forall>k \<in> set [''email'', ''userType''].
          \<exists>r. (k, r) \<in> set sch \<and> j_kind r = JoiString \<and> j_required r \<and> j_default r = None)"
  unfolding createUserValidation_def
  by (rule exI, rule conjI, rule refl)
     (simp add: required_def email_rule_def user_type_rule_def joi_any_def)

lemma route_handlers:
  "rt \<in> set users_routes \<union> set auth_routes \<union> set contact_routes \<Longrightarrow>
     (r_handler rt = SignUp \<longrightarrow> r_chain rt = [OpenLimiter, Validate signupValidation True])
     \<and> (r_handler rt = CreateUser \<longrightarrow> r_chain rt = [Validate createUserValidation False])
     \<and> (r_handler rt = ChangePassword \<longrightarrow>
          r_chain rt = [Authenticate, Validate changePasswordValidation False])"
  by (auto simp: users_routes_def auth_routes_def contact_routes_def route_def)

lemma limiter_same: "openLimiter E req w = (Inr (Next req'), w') \<Longrightarrow> req' = req"
  by (auto simp: openLimiter_def RateLimit_def Let_def split: sum.splits if_split_asm)

lemma chain_ready:
  assumes "joi_validation E"
    and rt: "rt \<in> set users_routes \<union> set auth_routes \<union> set contact_routes"
    and p: "passes (r_chain rt) E req w req' t"
  shows "handler_ready E (r_handler rt) req' (w_db t)"
proof -
  note chain = route_handlers [OF rt]
  consider "r_handler rt = SignUp" | "r_handler rt = CreateUser" | "r_handler rt = ChangePassword"
    | "r_handler rt \<notin> {SignUp, CreateUser, ChangePassword}" by blast
  then show ?thesis
  proof cases
    case 1
    with chain p obtain r t0 where l: "openLimiter E req w = (Inr (Next r), t0)"
      and v: "validate signupValidation True E r t0 = (Inr (Next req'), t)" by auto
    obtain sch where sch: "signupValidation = body_schema sch" "distinct (map fst sch)"
      "\<And>k. k \<in> set [''email'', ''userType'', ''countryCode'', ''mobileNumber''] \<Longrightarrow>
          \<exists>r. (k, r) \<in> set sch \<and> j_kind r = JoiString \<and> j_required r" using signup_schema by blast
    from validate_passes [OF v] sch(1) have "validate_parts E (body_schema sch) r = Inr req'" by auto
    from validate_body [OF this] obtain b where b: "joi E sch (rq_body r) = Inr b" "req' = r\<lparr>rq_body := b\<rparr>"
      by blast
    have "has_strings b [''email'', ''userType'', ''countryCode'', ''mobileNumber'']"
      by (rule joi_validation.validated_strings [OF assms(1) b(1) sch(2)]) (rule sch(3))
    with b(2) 1 show ?thesis by (simp add: handler_ready_def)
  next
    case 2
    with chain p have v: "validate createUserValidation False E req w = (Inr (Next req'), t)" by auto
    obtain sch where sch: "createUserValidation = body_schema sch" "distinct (map fst sch)"
      "\<And>k. k \<in> set [''email'', ''userType''] \<Longrightarrow>
          \<exists>r. (k, r) \<in> set sch \<and> j_kind r = JoiString \<and> j_required r \<and> j_default r = None"
      using create_user_schema by blast
    from validate_passes [OF v] sch(1) obtain r where "validate_parts E (body_schema sch) req = Inr r"
      "req' = req" by auto
    with validate_body obtain b where "joi E sch (rq_body req') = Inr b" by blast
    then have "has_strings (rq_body req') [''email'', ''userType'']"
      by (rule joi_validation.given_strings [OF assms(1) _ sch(2)]) (rule sch(3))
    with 2 show ?thesis by (simp add: handler_ready_def)
  next
    case 3
    with chain p obtain r t0 where a: "authenticate E req w = (Inr (Next r), t0)"
      and v: "validate changePasswordValidation False E r t0 = (Inr (Next req'), t)" by auto
    from validate_passes [OF v] have e: "req' = r" "t = t0" by auto
    from authenticate_accepts [OF a] obtain u where u: "token_accepted E (auth_token_of E req) w u"
      "r = req\<lparr>rq_user := Some u, rq_token := auth_token_of E req\<rparr>" by blast
    from u(1) obtain p :: token_base where
      "users_findOne (orm E) (Where [(''id'', Is (tk_sub p))]) (no_opts\<lparr>f_relations := [''token'']\<rparr>) (w_db w)
         = Inr (Some u)" by (auto simp: token_accepted_def)
    with u(2) e auth_guard.keeps_state [OF a] have "attached E req' (w_db t)"
      unfolding attached_def
      by (intro allI impI exI [of _ "Where [(''id'', Is (tk_sub p))]"]
            exI [of _ "no_opts\<lparr>f_relations := [''token'']\<rparr>"])
         (simp add: no_opts_def)
    with 3 show ?thesis by (simp add: handler_ready_def)
  next
    case 4
    then show ?thesis by (cases "r_handler rt") (auto simp: handler_ready_def)
  qed
qed

lemma table_of_routes:
  "table_of segs = Some (rs, base, ss) \<Longrightarrow> rs \<in> {users_routes, auth_routes, contact_routes}"
  by (auto simp: table_of_def split: list.splits if_splits)

lemma handleError_state:
  assumes "finish (handleError h req) t = (r, w')"
  shows "\<exists>x t'. h req t = (x, t') \<and> w_db w' = w_db t' \<and> w_outbox w' = w_outbox t'
     \<and> (\<forall>resp. r = Inr resp \<longrightarrow> x = Inr resp)"
proof -
  obtain x t' where "h req t = (x, t')" by fastforce
  with assms show ?thesis
    by (cases x) (auto simp: finish_def handleError_def catch_def andThen_def split: if_split_asm)
qed

context user_store
begin

text \<open>Whatever the request, the application takes one abstract step.\<close>

lemma app_step:
  assumes "joi_validation E" and "app_route depth E path req w = (r, w')"
    and "one_session (token_rows (w_db w))"
  shows "step_of w w'"
  using assms(2)
proof (cases rule: app_route_cases)
  case (matched rs base ss rt params)
  from table_of_routes [OF matched(1)] matched(2) have
    rt: "rt \<in> set users_routes \<union> set auth_routes \<union> set contact_routes" by auto
  from matched(4) show ?thesis
  proof (cases rule: through_cases)
    case (stops e)
    then show ?thesis by (simp add: step_same)
  next
    case (handles req' t)
    from passes_state [OF handles(1)] have t: "w_db t = w_db w" by simp
    from handleError_state [OF handles(2)] obtain x t' where
      h: "run_handler (r_handler rt) E req' t = (x, t')" "w_db w' = w_db t'" by blast
    have "handler_ready E (r_handler rt) req' (w_db t)" by (rule chain_ready [OF assms(1) rt handles(1)])
    from handler_step [OF h(1) this] assms(3) t h(2) show ?thesis by simp
  qed
qed (simp_all add: step_same)

end

end
