(* ===== verification/ServerFacts.thy ===== *)
theory ServerFacts
  imports RouteFacts
begin

text \<open>
  Facts about whole requests, from the path to what the client receives: the routers as a search
  for the first matching route, the requests that get no answer, and what a request proves
  before anything is written or mailed.
\<close>

section \<open>The routers as a first-match search\<close>

fun first_match :: "route list \<Rightarrow> string \<Rightarrow> string list \<Rightarrow> (route \<times> (string \<times> json) list) option" where
  "first_match [] m segs = None"
| "first_match (r # rs) m segs =
     (case match_route r m segs of
        Some params \<Rightarrow> Some (r, params)
      | None \<Rightarrow> first_match rs m segs)"

definition routed_of :: "(route \<times> (string \<times> json) list) option \<Rightarrow> routed" where
  "routed_of f = (case f of Some (r, params) \<Rightarrow> Matched r params | None \<Rightarrow> StackOverflow)"

lemma first_match_None: "first_match rs m segs = None \<longleftrightarrow> (\<forall>r \<in> set rs. match_route r m segs = None)"
  by (induction rs) (auto split: option.splits)

lemma first_match_Some:
  "first_match rs m segs = Some (r, params) \<Longrightarrow>
     \<exists>rs1 rs2. rs = rs1 @ r # rs2 \<and> (\<forall>r' \<in> set rs1. match_route r' m segs = None)
        \<and> match_route r m segs = Some params"
proof (induction rs)
  case (Cons x rs)
  show ?case
  proof (cases "match_route x m segs")
    case None
    with Cons obtain rs1 rs2 where "rs = rs1 @ r # rs2" "\<forall>r' \<in> set rs1. match_route r' m segs = None"
      "match_route r m segs = Some params" by auto
    with None show ?thesis by (intro exI [of _ "x # rs1"] exI [of _ rs2]) simp
  next
    case (Some p)
    with Cons.prems have "x = r" "p = params" by simp_all
    with Some show ?thesis by (intro exI [of _ "[]"] exI [of _ rs]) simp
  qed
qed simp

lemma router_is_first_match:
  assumes "rs \<noteq> []"
  shows "router depth rs m segs = routed_of (first_match rs m segs)"
proof (cases "first_match rs m segs")
  case None
  then have "\<And>r. r \<in> set rs \<Longrightarrow> match_route r m segs = None" by (simp add: first_match_None)
  from router_unmatched [OF assms this] None show ?thesis by (simp add: routed_of_def)
next
  case (Some f)
  obtain r params where f: "f = (r, params)" by (cases f)
  from first_match_Some [OF Some [unfolded f]] obtain rs1 rs2 where
    "rs = rs1 @ r # rs2" "\<forall>r' \<in> set rs1. match_route r' m segs = None"
    "match_route r m segs = Some params" by blast
  then have "router depth rs m segs = Matched r params" by (intro router_first) auto
  with Some f show ?thesis by (simp add: routed_of_def)
qed

section \<open>Requests without an answer\<close>

lemma only_authenticate_rejects:
  "run_middleware m E req w = (Inl e, w') \<Longrightarrow> m = Authenticate"
  by (cases m)
     (auto simp: checkUserType_def validate_def openLimiter_def RateLimit_def singleFileS3_def Let_def andThen_def
           split: sum.splits option.splits if_split_asm)

lemma authenticate_rejects:
  assumes "authenticate E req w = (Inl e, w')"
  shows "\<exists>u. token_accepted E (auth_token_of E req) w u \<and> u_userType u = Val (PropaneUserType SUB_ADMIN)
     \<and> users_permissions (orm E) (Where [(''id'', Is (u_id u))])
         (no_opts\<lparr>f_relations := [''subAdmin'', ''subAdmin.role'', ''subAdmin.role.permissions'']\<rparr>)
         (w_db w) = Inl e"
proof -
  from assms obtain r t where d: "authenticate_try E req (auth_token_of E req) w = (Inr (Delegate r), t)"
    and h: "handelPermission E r t = (Inl e, w')"
    unfolding authenticate_unfold by (auto split: prod.splits sum.splits auth_step.splits if_split_asm)
  from authenticate_try_Delegate [OF d] authenticate_try_state [OF d] h show ?thesis
    unfolding handelPermission_unfold
    by (auto split: sum.splits js.splits option.splits if_split_asm)
qed

lemma chains_authenticate_once:
  "rt \<in> set users_routes \<union> set auth_routes \<union> set contact_routes \<Longrightarrow>
     Authenticate \<notin> set (tl (r_chain rt))"
  by (auto simp: users_routes_def auth_routes_def contact_routes_def route_def)

lemma through_unhandled:
  "through ms h E req w = (Inl (Unhandled e), w') \<Longrightarrow>
     \<exists>m req1 t t'. m \<in> set ms \<and> run_middleware m E req1 t = (Inl e, t')"
proof (induction ms arbitrary: req w)
  case Nil
  then show ?case by (auto simp: finish_def split: prod.splits sum.splits)
next
  case (Cons m ms)
  obtain x t where s: "run_middleware m E req w = (x, t)" by fastforce
  consider (rej) e1 where "x = Inl e1" | (err) e1 where "x = Inr (NextErr e1)" | (nxt) r where "x = Inr (Next r)"
    by (cases x) (auto, metis next_call.exhaust)
  then show ?case
  proof cases
    case rej
    with s Cons.prems show ?thesis by (auto simp: pass_def)
  next
    case err
    with s Cons.prems show ?thesis by (simp add: pass_def)
  next
    case nxt
    with s Cons.prems have "through ms h E r t = (Inl (Unhandled e), w')" by (simp add: pass_def)
    from Cons.IH [OF this] show ?thesis by auto
  qed
qed

lemma table_route_unhandled:
  assumes "rt \<in> set users_routes \<union> set auth_routes \<union> set contact_routes"
    and "through (r_chain rt) h E req w = (Inl (Unhandled e), w')"
  shows "authenticate E req w = (Inl e, w')"
proof (cases "r_chain rt")
  case Nil
  with through_unhandled [OF assms(2)] show ?thesis by simp
next
  case (Cons m ms)
  obtain x t where s: "run_middleware m E req w = (x, t)" by fastforce
  have rest: "through ms h E r t \<noteq> (Inl (Unhandled e), w')" for r
    using through_unhandled [of ms h E r t e w'] only_authenticate_rejects
      chains_authenticate_once [OF assms(1)] Cons by fastforce
  from assms(2) Cons s rest have "x = Inl e \<and> t = w'"
    by (cases x) (auto simp: pass_def split: next_call.splits)
  with s only_authenticate_rejects [of m E req w e w'] show ?thesis by simp
qed

lemma app_route_unhandled:
  assumes "app_route depth E path req w = (Inl (Unhandled e), w')"
  shows "\<exists>base params. authenticate E (req\<lparr>rq_baseUrl := base, rq_params := params\<rparr>) w = (Inl e, w')"
  using assms
proof (cases rule: app_route_cases)
  case (matched rs base ss rt params)
  from table_of_routes [OF matched(1)] matched(2)
  have "rt \<in> set users_routes \<union> set auth_routes \<union> set contact_routes" by auto
  from table_route_unhandled [OF this matched(4)] show ?thesis by blast
qed simp_all

section \<open>What a request has proved when it has an effect\<close>

lemma app_route_effect:
  assumes "app_route depth E path req w = (r, w')"
    and "w_db w' \<noteq> w_db w \<or> w_outbox w' \<noteq> w_outbox w \<or> (\<exists>resp. r = Inr resp \<and> resp \<noteq> access_not_allowed)"
  shows "(\<exists>u. token_accepted E (auth_token_of E req) w u)
     \<or> (rq_method req = ApiMethods POST \<and> map (map down_char) (segments path) \<in> set public_paths)"
  using assms(1)
proof (cases rule: app_route_cases)
  case (matched rs base ss rt params)
  from matched(4) show ?thesis
  proof (cases rule: through_cases)
    case (stops e)
    with assms(2) show ?thesis by simp
  next
    case (handles req' t)
    from guarded_or_public [OF matched(1-3)] show ?thesis
    proof
      assume "guarded rt"
      from guarded_passes [OF this handles(1)] show ?thesis by auto
    qed blast
  qed
qed (use assms(2) in simp_all)

lemma checkUserType_passes:
  "checkUserType ts E req w = (Inr (Next req'), w') \<Longrightarrow>
     req' = req \<and> (\<exists>u. rq_user req = Some u \<and> u_userType u \<in> (Val \<circ> PropaneUserType) ` set ts)"
  by (auto simp: checkUserType_def andThen_def split: option.splits if_split_asm)

lemma contact_chains:
  assumes "rt \<in> set contact_routes" and "r_method rt \<noteq> POST"
  shows "\<exists>ms. r_chain rt = Authenticate # CheckUserType [ADMIN, SUB_ADMIN] # ms"
  using assms by (auto simp: contact_routes_def route_def)

lemma contact_base_not_listed: "CHR ''/'' # s @ CHR ''/'' # t \<notin> set PropaneBaseRoutes"
proof -
  have "list_all (\<lambda>b. CHR ''/'' \<notin> set (tl b)) PropaneBaseRoutes"
    by (simp add: PropaneBaseRoutes_def)
  then show ?thesis by (force simp: list_all_iff)
qed

lemma table_of_contact:
  "table_of segs = Some (contact_routes, base, ss) \<Longrightarrow> base \<notin> set PropaneBaseRoutes"
proof -
  assume t: "table_of segs = Some (contact_routes, base, ss)"
  have "contact_routes \<noteq> users_routes" "contact_routes \<noteq> auth_routes"
    by (simp_all add: contact_routes_def users_routes_def auth_routes_def route_def)
  with t obtain s s2 where "base = CHR ''/'' # s @ CHR ''/'' # s2"
    by (auto simp: table_of_def split: list.splits if_splits)
  then show ?thesis by (simp add: contact_base_not_listed)
qed

text \<open>The admin routes of /v2/contactUs run only for an admin.\<close>

lemma contact_admin:
  assumes "table_of (segments path) = Some (contact_routes, base, ss)"
    and "rq_method req \<noteq> ApiMethods POST" and "app_route depth E path req w = (Inr resp, w')"
  shows "\<exists>u. token_accepted E (auth_token_of E req) w u \<and> u_userType u = Val (PropaneUserType ADMIN)"
proof -
  from assms(1) have seg: "segments path \<noteq> []" by (auto simp: table_of_def)
  note run = assms(3) [unfolded app_route_table [OF assms(1)] mounted_def]
  have "router depth contact_routes (rq_method req) ss \<noteq> Fallthrough" by (rule router_outcomes) simp
  with run obtain rt params where m: "router depth contact_routes (rq_method req) ss = Matched rt params"
    and thr: "through (r_chain rt) (run_handler (r_handler rt)) E
        (req\<lparr>rq_baseUrl := base, rq_params := params\<rparr>) w = (Inr resp, w')"
    by (auto split: routed.splits)
  from router_Matched [OF m] have rt: "rt \<in> set contact_routes"
    "method_matches (r_method rt) (rq_method req)" by (auto simp: match_route_def split: if_split_asm)
  have "r_method rt \<noteq> POST" using rt(2) assms(2) by (auto simp: method_matches_def)
  with contact_chains [OF rt(1)] obtain ms where
    ms: "r_chain rt = Authenticate # CheckUserType [ADMIN, SUB_ADMIN] # ms"
    by blast
  from thr obtain req' t where p: "passes (r_chain rt) E (req\<lparr>rq_baseUrl := base, rq_params := params\<rparr>) w req' t"
    by (cases rule: through_cases) auto
  let ?req = "req\<lparr>rq_baseUrl := base, rq_params := params\<rparr>"
  from guarded_passes [OF contact_routes_guarded [OF rt(1)] p] obtain u ms' r t' where
    u: "token_accepted E (auth_token_of E ?req) w u" "r_chain rt = Authenticate # ms'"
    "r = ?req\<lparr>rq_user := Some u, rq_token := auth_token_of E ?req\<rparr>"
    "if u_userType u = Val (PropaneUserType SUB_ADMIN)
     then rq_baseUrl ?req \<in> set PropaneBaseRoutes else True"
    "passes ms' E r t' req' t" by blast
  from u(2) ms have "ms' = CheckUserType [ADMIN, SUB_ADMIN] # ms" by simp
  with u(5) obtain r2 t2 where "checkUserType [ADMIN, SUB_ADMIN] E r t' = (Inr (Next r2), t2)" by auto
  from checkUserType_passes [OF this] u(3)
  have "u_userType u = Val (PropaneUserType ADMIN) \<or> u_userType u = Val (PropaneUserType SUB_ADMIN)" by auto
  with u(4) table_of_contact [OF assms(1)] have "u_userType u = Val (PropaneUserType ADMIN)"
    by (simp split: if_split_asm)
  with u(1) show ?thesis by auto
qed

section \<open>Runs of the server\<close>

text \<open>
  The states a server reaches from a first one: it serves one request after another, whatever
  they are, and time passes between them.
\<close>

inductive served :: "'db env \<Rightarrow> 'db world \<Rightarrow> 'db world \<Rightarrow> bool" for E w where
  served_start: "served E w w"
| served_request: "served E w w1 \<Longrightarrow> serve throws depth E stack path req w1 = (out, w2) \<Longrightarrow> served E w w2"
| served_time: "served E w w1 \<Longrightarrow> w_now w1 \<le> t \<Longrightarrow> served E w (w1\<lparr>w_now := t\<rparr>)"

lemma serve_app: "serve throws depth E stack path req w = (out, w') \<Longrightarrow> \<exists>r. app_route depth E path req w = (r, w')"
  by (auto simp: serve_def split: prod.splits)

context user_store
begin

lemma served_keeps:
  assumes "served E w w'" and "joi_validation E"
    and "accounts_ok db_eq (rows (w_db w)) (token_rows (w_db w))"
  shows "accounts_ok db_eq (rows (w_db w')) (token_rows (w_db w'))"
  using assms(1)
proof induction
  case (served_request w1 throws depth stack path req out w2)
  from serve_app [OF served_request(2)] obtain r where a: "app_route depth E path req w1 = (r, w2)" ..
  from served_request.IH have ok: "accounts_ok db_eq (rows (w_db w1)) (token_rows (w_db w1))" .
  then have "one_session (token_rows (w_db w1))" by (simp add: accounts_ok_def)
  from app_step [OF assms(2) a this] show ?case
    by (rule account_step_keeps) (use ok db_eq_sym in blast)+
qed (use assms(3) in simp_all)

end

end
