(* ===== verification/ServerProps.thy ===== *)
theory ServerProps
  imports ServerFacts Reference
begin

text \<open>
  Properties of whole requests: what the server keeps over any run, what a request must have
  proved before it has an effect, which requests are answered, and how the routers choose.
\<close>

section \<open>Requests with a token\<close>

definition demo_bearer :: "string \<Rightarrow> string \<Rightarrow> request" where
  "demo_bearer m url =
     (demo_request m url [])\<lparr>rq_authorization := Val (''Bearer '' @ demo_pair ACCESS 1000)\<rparr>"

lemma demo_pair_free: "CHR '' '' \<notin> set (demo_pair k n)"
proof -
  have "CHR '' '' \<notin> set (armor s)" for s by simp
  moreover have "CHR '' '' \<notin> set (show_int i)" for i by simp
  ultimately show ?thesis by (simp add: demo_pair_def)
qed

lemma demo_bearer_token:
  "auth_token_of (ref_env ds) (demo_bearer m url) = Val (demo_pair ACCESS 1000)"
  by (rule bearer_token(2) [OF _ demo_pair_free]) (simp add: bearer_def demo_bearer_def demo_request_def)

lemma demo_bearer_sel [simp]:
  "rq_method (demo_bearer m url) = m" "rq_originalUrl (demo_bearer m url) = url"
  "rq_baseUrl (demo_bearer m url) = url" "rq_body (demo_bearer m url) = []"
  "rq_query (demo_bearer m url) = []" "truthy (rq_authorization (demo_bearer m url))"
  by (simp_all add: demo_bearer_def)

lemma demo_verify:
  "ref_verify ''5ec4e7'' (Val (demo_pair ACCESS 1000)) (Token ACCESS) 5000 =
     Inr (Some \<lparr>tk_jti = Undef, tk_aud = Val (Token ACCESS), tk_sub = Val ''0'', tk_iat = 1,
                tk_exp = 901\<rparr>)"
proof -
  have "ref_sign ''5ec4e7'' (Token ACCESS) (Val ''0'') 900 1000 = Inr (demo_pair ACCESS 1000)"
    by (simp add: ref_sign_def demo_pair_def)
  from ref_verify_signed [OF this, of "Token ACCESS" 5000] show ?thesis by simp
qed

definition demo_found :: "propane_user_type \<Rightarrow> users" where
  "demo_found ty = (demo_user ty)\<lparr>u_token := Val demo_session, u_contactUs := Undef\<rparr>"


lemma demo_contact_segments: "segments ''/v2/contactUs'' = [''v2'', ''contactUs'']" by (simp add: segments_def)
lemma demo_contact_table: "table_of [''v2'', ''contactUs''] = Some (contact_routes, ''/v2/contactUs'', [])"
  by (simp add: table_of_def same_text_def down_char_def)
lemma demo_list_route: "first_match contact_routes ''GET'' [] = Some (route GET [] [Authenticate, CheckUserType [ADMIN, SUB_ADMIN],
                    Validate contactUsListValidation True] ContactUsList, [])"
  by (simp add: contact_routes_def route_def match_route_def method_matches_def enum_strings)

lemma authenticate_demo:
  assumes "auth_token_of (ref_env (''token'' # ds)) req = Val (demo_pair ACCESS 1000)" "truthy (rq_authorization req)" 
   "ty \<noteq> SUB_ADMIN"
  shows "authenticate (ref_env (''token'' # ds)) req (world_of (demo_db ty [demo_session])) = 
   (Inr (Next (req\<lparr>rq_user := Some (demo_found ty), rq_token := Val (demo_pair ACCESS 1000)\<rparr>)), (world_of (demo_db ty [demo_session])))"
  using assms unfolding authenticate_unfold authenticate_try_unfold
  by (simp add: demo_verify isAccessToken_def ref_run demo_found_def)

lemma list_validated: "rq_query req = [] \<Longrightarrow>
     validate contactUsListValidation True (ref_env ds) req w =
       (Inr (Next (req\<lparr>rq_query := [(''page'', JNum 1), (''perPage'', JNum 10)]\<rparr>)), w)"
  by (simp add: validate_unfold validate_parts_def check_part_def contactUsListValidation_def
      query_schema_def joi_any_def ref_joi_def Let_def field_def)

lemma demo_list_runs:
  "\<exists>resp. app_route 3 (ref_env [''token'']) ''/v2/contactUs'' (demo_bearer ''GET'' ''/v2/contactUs'')
     (world_of (demo_db ADMIN [demo_session])) = (Inr resp, world_of (demo_db ADMIN [demo_session]))
     \<and> resp \<noteq> access_not_allowed"
  unfolding app_route_table [OF demo_contact_table [folded demo_contact_segments]] mounted_def
  by (simp add: router_is_first_match demo_list_route routed_of_def route_def pass_def authenticate_demo
      demo_bearer_token checkUserType_def demo_found_def andThen_def list_validated finish_def
      handleError_def catch_def contactUsList_def Let_def mem_contact_query_def access_not_allowed_def
      json_response_def)
section \<open>What every run keeps\<close>

text \<open>
  C7. However requests follow one another, whatever their methods, paths, headers and bodies, and
  whether they are answered or fail: no two live accounts of one type come to share an e-mail
  address or a phone number, no account has two sessions, and no session is without an account.
\<close>

theorem server_keeps_accounts:
  assumes "user_store E db_eq declared rows token_rows" and "joi_validation E"
    and "accounts_ok db_eq (rows (w_db w)) (token_rows (w_db w))"
    and "served E w w'"
  shows "accounts_ok db_eq (rows (w_db w')) (token_rows (w_db w'))"
  by (rule user_store.served_keeps [OF assms(1,4,2,3)])

lemma server_keeps_accounts_witness:
  "let w' = snd (serve True 3 (ref_env []) [] ''/auth/signup'' demo_signup (world_of empty_mem))
   in accounts_ok (=) (set (user_table (w_db w'))) (set (token_table (w_db w')))"
proof -
  let ?w = "world_of empty_mem"
  have ok: "accounts_ok (=) (set (user_table (w_db ?w))) (set (token_table (w_db ?w)))"
    by (simp add: accounts_ok_def accounts_unique_def one_session_def sessions_owned_def)
  obtain out w' where s: "serve True 3 (ref_env []) [] ''/auth/signup'' demo_signup ?w = (out, w')" by fastforce
  from server_keeps_accounts [OF ref_store.user_store_axioms ref_joi_laws.joi_validation_axioms ok
      served_request [OF served_start s]] s
  show ?thesis by simp
qed

text \<open>
  C8. Every request, on any path and at any nesting of the routers, refines one abstract step on
  the accounts: it changes nothing, or it changes rows without touching what identifies them, or
  it adds one account that rivals none together with at most its own session, or it replaces one
  account's session.
\<close>

theorem server_refines_account_steps:
  assumes "user_store E db_eq declared rows token_rows" and "joi_validation E"
    and "one_session (token_rows (w_db w))"
    and "app_route depth E path req w = (r, w')"
  shows "account_step db_eq (rows (w_db w)) (token_rows (w_db w)) (rows (w_db w')) (token_rows (w_db w'))"
  by (rule user_store.app_step [OF assms(1,2,4,3)])

lemma server_refines_account_steps_witness:
  "\<exists>r w'. app_route 3 (ref_env []) ''/auth/signup'' demo_signup (world_of empty_mem) = (r, w')
     \<and> account_step (=) {} {} (set (user_table (w_db w'))) (set (token_table (w_db w')))"
proof -
  let ?w = "world_of empty_mem"
  have one: "one_session (set (token_table (w_db ?w)))" by (simp add: one_session_def)
  obtain r w' where s: "app_route 3 (ref_env []) ''/auth/signup'' demo_signup ?w = (r, w')" by fastforce
  from server_refines_account_steps [OF ref_store.user_store_axioms ref_joi_laws.joi_validation_axioms one s] s
  show ?thesis by auto
qed

section \<open>What a request must have proved\<close>

text \<open>
  C9. A request that changes the database, starts a mail or is answered by a handler carries an
  access token that \<open>authenticate\<close> accepts, unless it is a POST to one of the six public
  paths: sign-up, sign-in, refresh, creating a user, and asking for and using a password reset.
\<close>

theorem effects_need_token:
  assumes "app_route depth E path req w = (r, w')"
    and "w_db w' \<noteq> w_db w \<or> w_outbox w' \<noteq> w_outbox w \<or> (\<exists>resp. r = Inr resp \<and> resp \<noteq> access_not_allowed)"
  shows "(\<exists>u. token_accepted E (auth_token_of E req) w u)
     \<or> (rq_method req = ApiMethods POST \<and> map (map down_char) (segments path) \<in> set public_paths)"
  by (rule app_route_effect [OF assms])

lemma effects_need_token_witness:
  "\<exists>u. token_accepted (ref_env [''token'']) (Val (demo_pair ACCESS 1000))
         (world_of (demo_db ADMIN [demo_session])) u"
proof -
  let ?req = "demo_bearer ''GET'' ''/v2/contactUs''"
  let ?w = "world_of (demo_db ADMIN [demo_session])"
  obtain resp where "app_route 3 (ref_env [''token'']) ''/v2/contactUs'' ?req ?w = (Inr resp, ?w)"
    "resp \<noteq> access_not_allowed" using demo_list_runs by blast
  with effects_need_token [of 3 "ref_env [''token'']" "''/v2/contactUs''" ?req ?w "Inr resp" ?w]
  show ?thesis by (simp add: demo_bearer_token enum_strings)
qed

text \<open>
  C10. The routes of /v2/contactUs other than POST are answered only to an admin. They also list
  sub-admins, but the base URL /v2/contactUs is not one of the routes sub-admins are checked
  against, so a sub-admin is always refused.
\<close>

theorem contact_routes_admin_only:
  assumes "table_of (segments path) = Some (contact_routes, base, ss)"
    and "rq_method req \<noteq> ApiMethods POST"
    and "app_route depth E path req w = (Inr resp, w')"
  shows "\<exists>u. token_accepted E (auth_token_of E req) w u \<and> u_userType u = Val (PropaneUserType ADMIN)"
  by (rule contact_admin [OF assms])

lemma contact_routes_admin_only_witness:
  "\<exists>u. token_accepted (ref_env [''token'']) (Val (demo_pair ACCESS 1000))
         (world_of (demo_db ADMIN [demo_session])) u \<and> u_userType u = Val (PropaneUserType ADMIN)"
proof -
  let ?req = "demo_bearer ''GET'' ''/v2/contactUs''"
  let ?w = "world_of (demo_db ADMIN [demo_session])"
  obtain resp where r: "app_route 3 (ref_env [''token'']) ''/v2/contactUs'' ?req ?w = (Inr resp, ?w)"
    using demo_list_runs by blast
  have "rq_method ?req \<noteq> ApiMethods POST" by (simp add: enum_strings)
  from contact_routes_admin_only [OF demo_contact_table [folded demo_contact_segments] this r]
  show ?thesis by (simp add: demo_bearer_token)
qed

text \<open>
  C11. A refresh token or a password reset token, however fresh and whoever's it is, never opens a
  route behind \<open>authenticate\<close>.
\<close>

theorem other_tokens_never_authenticate:
  assumes "jsonwebtoken E" and "signToken E k (Val sub) n w0 = (Inr t, w1)" and "k \<noteq> ACCESS"
    and "auth_token_of E req = Val t"
  shows "fst (authenticate E req w) \<noteq> Inr (Next req')"
proof
  assume "fst (authenticate E req w) = Inr (Next req')"
  then obtain w' where "authenticate E req w = (Inr (Next req'), w')" by (metis prod.collapse)
  from authenticate_accepts [OF this] assms(4) obtain u where "token_accepted E (Val t) w u" by auto
  then obtain p where "verifyToken E (Val t) ACCESS w = (Inr p, w)"
    by (auto simp: token_accepted_def verifyToken_result)
  with jsonwebtoken.verify_other_kind [OF assms(1,2), of ACCESS w] assms(3) show False by auto
qed

definition demo_refresh_bearer :: request where
  "demo_refresh_bearer =
     (demo_request ''GET'' ''/users'' [])\<lparr>rq_authorization := Val (''Bearer '' @ demo_pair REFRESH 1000)\<rparr>"

lemma other_tokens_never_authenticate_witness:
  "fst (authenticate (ref_env [''token'']) demo_refresh_bearer (world_of (demo_db USER [demo_session])))
     \<noteq> Inr (Next demo_refresh_bearer)"
proof (rule other_tokens_never_authenticate)
  show "jsonwebtoken (ref_env [''token''])"
    using ref_server.auth_server_axioms by (simp add: auth_server_def)
  show "signToken (ref_env [''token'']) REFRESH (Val ''0'') 36000 ((world_of empty_mem)\<lparr>w_now := 1000\<rparr>)
      = (Inr (demo_pair REFRESH 1000), (world_of empty_mem)\<lparr>w_now := 1000\<rparr>)"
    by (simp add: signToken_result ref_sign_def demo_pair_def)
  show "auth_token_of (ref_env [''token'']) demo_refresh_bearer = Val (demo_pair REFRESH 1000)"
    by (rule bearer_token(2) [OF _ demo_pair_free]) (simp add: bearer_def demo_refresh_bearer_def demo_request_def)
qed simp

section \<open>How the routers choose\<close>

text \<open>
  C12. Although every routes file mounts its router inside itself once per route, a router acts,
  at every nesting, as one search through its routes in the order in which they were added: the
  first match wins. Where nothing matches, the search never returns and overflows the stack.
\<close>

theorem router_equals_first_match:
  assumes "rs \<noteq> []"
  shows "router depth rs m segs = routed_of (first_match rs m segs)"
  by (rule router_is_first_match [OF assms])

lemma router_equals_first_match_witness:
  "router 0 users_routes ''GET'' [''42''] = router 9 users_routes ''GET'' [''42'']"
  by (simp only: router_equals_first_match [OF tables_not_Nil(1)])

text \<open>
  C13. A request under /users, /auth or /v2/contactUs that no route matches is never passed on to
  the handler for unknown resources: it ends in a RangeError, which the client receives as a
  status 500.
\<close>

theorem unmatched_overflows:
  assumes "table_of (segments path) = Some (rs, base, ss)"
    and "first_match rs (rq_method req) ss = None"
  shows "serve throws depth E stack path req w =
     (Answer (error_answer E stack req range_error), w)"
proof -
  from router_is_first_match [OF table_of_not_Nil [OF assms(1)], of depth "rq_method req" ss] assms(2)
  have "router depth rs (rq_method req) ss = StackOverflow" by (simp add: routed_of_def)
  with app_route_table [OF assms(1), of depth E req] show ?thesis
    by (simp add: serve_def mounted_def)
qed

lemma unmatched_overflows_witness:
  "\<exists>body. serve True 7 (ref_env []) [] ''/users/a/b/c'' (demo_request ''GET'' ''/users/a/b/c'' [])
      (world_of empty_mem) = (Answer (json_response 500 body), world_of empty_mem)"
proof -
  let ?req = "demo_request ''GET'' ''/users/a/b/c'' []"
  have t: "table_of (segments ''/users/a/b/c'') = Some (users_routes, ''/users'', [''a'', ''b'', ''c''])"
    by (simp add: segments_def table_of_def same_text_def down_char_def)
  have "first_match users_routes (rq_method ?req) [''a'', ''b'', ''c''] = None"
    by (simp add: users_routes_def route_def match_route_def)
  from unmatched_overflows [OF t this, of True 7 "ref_env []" "[]" "world_of empty_mem"]
  show ?thesis by (simp add: error_answer_def range_error_def ref_config_def) blast
qed

definition sample_path :: "route \<Rightarrow> string list" where
  "sample_path rt = map (\<lambda>s. case s of Lit l \<Rightarrow> l | Param p \<Rightarrow> ''42'') (r_path rt)"

definition selected :: "route list \<Rightarrow> route \<Rightarrow> bool" where
  "selected rs rt =
     (case router 1 rs (ApiMethods (r_method rt)) (sample_path rt) of
        Matched rt' params \<Rightarrow> r_handler rt' = r_handler rt | _ \<Rightarrow> False)"

text \<open>
  No route is shadowed by an earlier one: on a path made of a route's own segments, with a
  number for every parameter, its router selects that very route.
\<close>

theorem every_route_reachable:
  "list_all (selected users_routes) users_routes \<and> list_all (selected auth_routes) auth_routes
     \<and> list_all (selected contact_routes) contact_routes"
  unfolding selected_def router_is_first_match [OF tables_not_Nil(1)]
    router_is_first_match [OF tables_not_Nil(2)] router_is_first_match [OF tables_not_Nil(3)]
  by (simp add: users_routes_def auth_routes_def contact_routes_def route_def sample_path_def
      routed_of_def match_route_def method_matches_def same_text_def down_char_def enum_strings)

section \<open>Which requests are answered\<close>














section \<open>Sign-ups that interleave\<close>




end
