(* ===== verification/UserFacts.thy ===== *)
theory UserFacts
  imports ServerFacts
begin

text \<open>
  What the handlers of src/controller/users.ts and of the password services do to the row of one
  account when they answer, and what a reset link is worth.
\<close>

section \<open>Saving a found entity with another password\<close>

definition changed_row :: "users \<Rightarrow> string \<Rightarrow> string js \<Rightarrow> int \<Rightarrow> users" where
  "changed_row r h otp now =
     r\<lparr>u_password := Val h, u_otp := otp, u_updatedAt := Val now, u_token := Undef, u_contactUs := Undef\<rparr>"

definition only_changed :: "users set \<Rightarrow> users set \<Rightarrow> users \<Rightarrow> string \<Rightarrow> string js \<Rightarrow> bool" where
  "only_changed R R' r h otp \<longleftrightarrow> r \<in> R \<and> (\<exists>now. R' = insert (changed_row r h otp now) (R - {r}))"

lemma overwrite_found:
  "u = r\<lparr>u_token := a, u_contactUs := b\<rparr> \<Longrightarrow>
     overwrite (u\<lparr>u_password := Val h, u_otp := c\<rparr>) r now = changed_row r h (pick c (u_otp r)) now"
  by (simp add: overwrite_def changed_row_def) (simp add: pick_def)

context user_store
begin

lemma save_found:
  assumes "users_findOne (orm E) q o' d = Inr (Some u)" and "f_select o' = []"
    and "users_save (orm E) (u\<lparr>u_password := Val h, u_otp := c\<rparr>) d = (Inr v, d')"
  shows "\<exists>r. u_id r = u_id u \<and> u_userType r = u_userType u \<and> u_otp r = u_otp u \<and> live o' r
     \<and> only_changed (rows d) (rows d') r h (pick c (u_otp r)) \<and> token_rows d' = token_rows d"
proof -
  from found_entity [OF assms(1,2)] obtain r where r: "r \<in> rows d" "live o' r" "u_id u = u_id r"
    "u_userType u = u_userType r" "u = r\<lparr>u_token := u_token u, u_contactUs := u_contactUs u\<rparr>" by blast
  have otp: "u_otp u = u_otp r" by (subst r(5)) simp
  have i: "u_id (u\<lparr>u_password := Val h, u_otp := c\<rparr>) = u_id r" using r(3) by simp
  from save_existing [OF r(1) i assms(3)] obtain now where
    n: "rows d' = insert (overwrite (u\<lparr>u_password := Val h, u_otp := c\<rparr>) r now) (rows d - {r})"
      "token_rows d' = token_rows d" by blast
  from n(1) have "rows d' = insert (changed_row r h (pick c (u_otp r)) now) (rows d - {r})"
    unfolding overwrite_found [OF r(5)] .
  with r(1) have "only_changed (rows d) (rows d') r h (pick c (u_otp r))"
    unfolding only_changed_def by blast
  with r(2,3,4) otp n(2) show ?thesis by metis
qed

lemma save_found_password:
  assumes "users_findOne (orm E) q o' d = Inr (Some u)" and "f_select o' = []"
    and "users_save (orm E) (u\<lparr>u_password := Val h\<rparr>) d = (Inr v, d')"
  shows "\<exists>r. u_id r = u_id u \<and> live o' r \<and> only_changed (rows d) (rows d') r h (u_otp r)
     \<and> token_rows d' = token_rows d"
proof -
  have "u\<lparr>u_password := Val h\<rparr> = u\<lparr>u_password := Val h, u_otp := u_otp u\<rparr>" by simp
  with assms(3) have "users_save (orm E) (u\<lparr>u_password := Val h, u_otp := u_otp u\<rparr>) d = (Inr v, d')" by simp
  from save_found [OF assms(1,2) this] show ?thesis by auto
qed

lemma found_id:
  assumes "users_findOne (orm E) q o' d = Inr (Some u)"
    and "q = ById (Val i) \<or> q = Where [(''id'', Is (Val i))]" and "f_select o' = []"
  shows "u_id u = Val i"
proof -
  from find_id_row [OF assms] obtain r where r: "u_id r = Val i"
    "u = r\<lparr>u_token := u_token u, u_contactUs := u_contactUs u\<rparr>" by blast
  show ?thesis by (subst r(2)) (simp add: r(1))
qed

section \<open>changePassword and resetPassword\<close>

lemma resetPassword_effect:
  assumes "resetPassword E req w = (Inr resp, w')" and "str_field (rq_params req) ''id'' = Val i"
  shows "\<exists>r h. u_id r = Val i \<and> u_deletedAt r = Null
     \<and> bcrypt_hash E (str_field (rq_body req) ''password'') 10 (w_entropy w) = Inr h
     \<and> only_changed (rows (w_db w)) (rows (w_db w')) r h (u_otp r)
     \<and> token_rows (w_db w') = token_rows (w_db w)"
proof -
  from assms obtain u h v d where u: "users_findOne (orm E) (ById (Val i)) no_opts (w_db w) = Inr (Some u)"
    and h: "bcrypt_hash E (str_field (rq_body req) ''password'') 10 (w_entropy w) = Inr h"
    and s: "users_save (orm E) (u\<lparr>u_password := Val h\<rparr>) (w_db w) = (Inr v, d)" "w_db w' = d"
    by (auto simp: resetPassword_def andThen_def hashPassword_def write_db_def findOneOrFail
        split: sum.splits prod.splits)
  have "u_id u = Val i" by (rule found_id [OF u]) (simp_all add: no_opts_def)
  with save_found_password [OF u _ s(1)] h s(2) show ?thesis
    by (auto simp: no_opts_def live_def)
qed

lemma changePassword_effect:
  assumes "changePassword E req w = (Inr resp, w')" and "attached E req (w_db w)"
  shows "\<exists>u r h. rq_user req = Some u \<and> u_id r = u_id u \<and> u_isActive r \<noteq> Val False
     \<and> bcrypt_compare E (str_field (rq_body req) ''oldPassword'') (u_password r) = Inr True
     \<and> bcrypt_hash E (str_field (rq_body req) ''newPassword'') 10 (w_entropy w) = Inr h
     \<and> only_changed (rows (w_db w)) (rows (w_db w')) r h (u_otp r)
     \<and> token_rows (w_db w') = token_rows (w_db w)"
proof -
  from assms(1) obtain u p h v d where u: "rq_user req = Some u"
    and p: "users_findOne (orm E) (ById (u_id u)) (changePassword_opts u) (w_db w) = Inr (Some p)"
      "u_isActive p \<noteq> Val False"
      "bcrypt_compare E (str_field (rq_body req) ''oldPassword'') (u_password p) = Inr True"
    and h: "bcrypt_hash E (str_field (rq_body req) ''newPassword'') 10 (w_entropy w) = Inr h"
    and s: "users_save (orm E) (u\<lparr>u_password := Val h\<rparr>) (w_db w) = (Inr v, d)" "w_db w' = d"
    by (auto simp: changePassword_def Let_def with_user_def andThen_def hashPassword_def
        comparePassword_def write_db_def findOneOrFail
        split: sum.splits prod.splits option.splits if_split_asm)
  from assms(2) u obtain q o' where q: "f_select o' = []"
    "users_findOne (orm E) q o' (w_db w) = Inr (Some u)" unfolding attached_def by blast
  from save_found_password [OF q(2,1) s(1)] obtain r where r: "u_id r = u_id u"
    "only_changed (rows (w_db w)) (rows d) r h (u_otp r)" "token_rows d = token_rows (w_db w)" by blast
  then have row: "r \<in> rows (w_db w)" by (simp add: only_changed_def)
  from ids [OF row] r(1) obtain i where i: "u_id u = Val i" by auto
  have pl: "plain (ById (u_id u))" using i by (simp add: plain_def columns_def)
  from finds_some [OF pl p(1)] obtain r2 where r2: "r2 \<in> rows (w_db w)" "matches db_eq (ById (u_id u)) r2"
    "p = (project (f_select (changePassword_opts u)) r2)\<lparr>u_token := u_token p, u_contactUs := u_contactUs p\<rparr>"
    by blast
  from ids [OF r2(1)] obtain j where j: "u_id r2 = Val j" by blast
  with r2(2) i id_collation [OF r2(1) j] have "u_id r2 = u_id u" by (auto simp: matches_def column_def)
  with primary_key [OF r2(1) row] r(1) have same: "r2 = r" by simp
  have "u_isActive p = u_isActive r" "u_password p = u_password r"
    by (subst r2(3); simp add: same changePassword_opts_def project_def no_opts_def)+
  with u r p h s(2) show ?thesis by metis
qed

end

section \<open>createUser and updatePassword\<close>

lemma user_info_hides:
  "\<exists>fields. user_info u = JObj fields \<and> ''password'' \<notin> fst ` set fields"
  by (auto simp: user_info_def json_object_def)

lemma createUser_runs:
  assumes "createUser E req w = (Inr resp, w')"
  shows "\<exists>h v d. users_findOne (orm E) (email_conditions (rq_body req)) no_opts (w_db w) = Inr None
     \<and> bcrypt_hash E (str_field (rq_body req) ''password'') 10 (w_entropy w) = Inr h
     \<and> users_save (orm E) (created_entity (rq_body req) h) (w_db w) = (Inr v, d) \<and> w_db w' = d
     \<and> resp = json_response 201 (user_info v)"
  using assms unfolding createUser_def Let_def email_conditions_def andThen_def hashPassword_def write_db_def
  by (auto split: sum.splits prod.splits option.splits if_split_asm)

lemma map_sum_Inr: "map_sum id f x = Inr y \<longleftrightarrow> (\<exists>v. x = Inr v \<and> y = f v)"
  by (cases x) auto

lemma updatePassword_runs:
  assumes "updatePassword E req w = (Inr resp, w')"
  shows "\<exists>u h v d. update_target E (rq_body req) w = (Inr (Some u), w)
     \<and> bcrypt_hash E (str_field (rq_body req) ''newPassword'') 10 (w_entropy w) = Inr h
     \<and> users_save (orm E) (u\<lparr>u_password := Val h, u_otp := Null\<rparr>) (w_db w) = (Inr v, d) \<and> w_db w' = d"
proof -
  obtain x t where t: "update_target E (rq_body req) w = (x, t)" by fastforce
  with update_target_found [OF t] assms show ?thesis
    by (auto simp: updatePassword_def andThen_def update_execute_unfold map_sum_Inr
        split: sum.splits option.splits prod.splits)
qed

context user_store
begin

lemma createUser_effect:
  assumes "createUser E req w = (Inr resp, w')" and "has_strings (rq_body req) [''email'', ''userType'']"
  shows "\<exists>h i now fields. bcrypt_hash E (str_field (rq_body req) ''password'') 10 (w_entropy w) = Inr h
     \<and> (\<forall>r \<in> rows (w_db w). u_id r \<noteq> Val i
            \<and> (u_deletedAt r = Null \<longrightarrow> \<not> matches db_eq (email_conditions (rq_body req)) r))
     \<and> rows (w_db w') = insert (new_row (created_entity (rq_body req) h) i now) (rows (w_db w))
     \<and> token_rows (w_db w') = token_rows (w_db w)
     \<and> resp = json_response 201 (JObj fields) \<and> ''password'' \<notin> fst ` set fields"
proof -
  from createUser_runs [OF assms(1)] obtain h v d where
    f: "users_findOne (orm E) (email_conditions (rq_body req)) no_opts (w_db w) = Inr None"
    and h: "bcrypt_hash E (str_field (rq_body req) ''password'') 10 (w_entropy w) = Inr h"
    and s: "users_save (orm E) (created_entity (rq_body req) h) (w_db w) = (Inr v, d)" "w_db w' = d"
    and r: "resp = json_response 201 (user_info v)" by blast
  have new: "u_id (created_entity (rq_body req) h) = Undef" by (simp add: created_entity_def blank_user_def)
  have p: "plain (email_conditions (rq_body req))"
    using has_stringsD [OF assms(2), of "''email''"] has_stringsD [OF assms(2), of "''userType''"]
    by (auto simp: plain_def email_conditions_def columns_def)
  have none: "\<not> matches db_eq (email_conditions (rq_body req)) q"
    if "q \<in> rows (w_db w)" "u_deletedAt q = Null" for q
    using finds_none [OF p f that(1)] that(2) by (simp add: live_def)
  from save_new [OF new s(1)] s(2) none h r user_info_hides [of v] show ?thesis by metis
qed

lemma updatePassword_effect:
  assumes "updatePassword E req w = (Inr resp, w')" and "update_target E (rq_body req) w = (Inr (Some u), w)"
  shows "\<exists>r h. u_id r = u_id u \<and> bcrypt_hash E (str_field (rq_body req) ''newPassword'') 10 (w_entropy w) = Inr h
     \<and> only_changed (rows (w_db w)) (rows (w_db w')) r h Null
     \<and> token_rows (w_db w') = token_rows (w_db w)"
proof -
  from updatePassword_runs [OF assms(1)] assms(2) obtain h v d where
    h: "bcrypt_hash E (str_field (rq_body req) ''newPassword'') 10 (w_entropy w) = Inr h"
    and s: "users_save (orm E) (u\<lparr>u_password := Val h, u_otp := Null\<rparr>) (w_db w) = (Inr v, d)" "w_db w' = d"
    by auto
  from update_target_found [OF assms(2)] obtain q where
    "users_findOne (orm E) q no_opts (w_db w) = Inr (Some u)" by blast
  from save_found [OF this _ s(1)] h s(2) show ?thesis by (auto simp: no_opts_def pick_def)
qed

lemma undeclared_relations_fail:
  assumes "\<not> set [''vendor'', ''driver'', ''subAdmin'', ''documents''] \<subseteq> set declared"
  shows "\<exists>e. getById E req w = (Inl e, w)"
    and "\<exists>e. profile E req w = (Inl e, w)"
proof -
  let ?o = "no_opts\<lparr>f_relations := [''vendor'', ''driver'', ''subAdmin'', ''documents'']\<rparr>"
  have "\<not> set (f_relations ?o) \<subseteq> set declared" using assms by simp
  from unknown_relation_find [OF this, of "Where [(''id'', Is (str_field (rq_params req) ''id''))]" "w_db w"]
  show "\<exists>e. getById E req w = (Inl e, w)"
    by (auto simp: getById_def andThen_def)
  let ?o = "no_opts\<lparr>f_relations := [''vendor'', ''driver'', ''subAdmin'', ''verificationDetails'', ''documents'']\<rparr>"
  have n: "\<not> set (f_relations ?o) \<subseteq> set declared" using assms by auto
  show "\<exists>e. profile E req w = (Inl e, w)"
  proof (cases "rq_user req")
    case (Some u)
    from unknown_relation [OF n, of "Where [(''id'', Is (u_id u))]" "w_db w"] Some show ?thesis
      by (auto simp: profile_def with_user_def andThen_def)
  qed (simp add: profile_def with_user_def)
qed

end

section \<open>Reset links\<close>

context auth_server
begin

text \<open>
  The link a request for a reset answers carries a token that, while its lifetime lasts, makes
  \<open>update_target\<close> find the account it was asked for.
\<close>

lemma forget_answer:
  assumes "forget_execute E body w = (Inr (m, link), w')"
  shows "\<exists>u t w0. users_findOne (orm E) (Where (forget_where body)) no_opts (w_db w) = Inr (Some u)
     \<and> signForgetPasswordToken E (u_id u) w = (Inr t, w0) \<and> link = forget_link E t
     \<and> m = ''RESETPASSWORD_SEND_SUCCESS'' \<and> w_db w' = w_db w
     \<and> w_outbox w' = w_outbox w @ [forgot_password_mail u link]"
  using assms
  by (auto simp: forget_execute_def getForgetPasswordLink_def catch_def andThen_def
      signForgetPasswordToken_def signToken_state
      dest: signToken_state split: sum.splits option.splits prod.splits if_split_asm)

lemma reset_token_target:
  assumes "r \<in> rows (w_db w)" and "u_id r = Val i" and "u_deletedAt r = Null"
    and "signForgetPasswordToken E (Val i) w0 = (Inr t, w1)"
    and "w_now w div 1000 < w_now w0 div 1000 + ACCESS_TOKEN_LIFETIME_MIN (cfg E) * 60"
    and "str_field body ''token'' = Val t" and "\<not> is_mobile_type (str_field body ''userType'')"
  shows "\<exists>u. update_target E body w = (Inr (Some u), w)
     \<and> users_findOne (orm E) (Where [(''id'', Is (Val i))]) no_opts (w_db w) = Inr (Some u) \<and> u_id u = Val i"
proof -
  let ?q = "Where [(''id'', Is (Val i))]"
  have pl: "plain ?q" by (simp add: plain_def columns_def)
  have "set (f_relations no_opts) \<subseteq> set declared" by (simp add: no_opts_def)
  from reads_answer [OF this] obtain v where v: "users_findOne (orm E) ?q no_opts (w_db w) = Inr v" by blast
  have "matches db_eq ?q r" using assms(2) by (simp add: matches_def column_def)
  with finds_none [OF pl, of no_opts "w_db w" r] v assms(1,3) obtain u where u: "v = Some u"
    by (cases v) (auto simp: live_def)
  have id: "u_id u = Val i" by (rule found_id [OF v [unfolded u]]) (simp_all add: no_opts_def)
  note sg = assms(4) [unfolded signForgetPasswordToken_def]
  have ne: "t \<noteq> []" using sg by (simp add: signToken_result)
  from verify_fresh [OF sg assms(5)]
  have "jwt_verify E (SECRET_HEX (cfg E)) (Val t) (Token FORGETPASSWORD) (w_now w)
      = Inr (Some (claims FORGETPASSWORD i (ACCESS_TOKEN_LIFETIME_MIN (cfg E) * 60) (w_now w0)))"
    by (simp add: verifyToken_result)
  then have "update_target E body w = (Inr (Some u), w)"
    unfolding update_target_unfold using assms(6,7) ne v u
    by (simp add: claims_def)
  with v u id show ?thesis by blast
qed

end

end
