(* ===== verification/UserProps.thy ===== *)
theory UserProps
  imports UserFacts Reference
begin

text \<open>
  Properties of the routes under /users and of the contact requests: what they change, for whom,
  and what they answer.
\<close>

section \<open>Passwords\<close>

definition demo_password :: "(string \<times> json) list \<Rightarrow> request" where
  "demo_password body = (demo_request ''PATCH'' ''/users/change-password'' body)
     \<lparr>rq_user := Some (demo_user USER), rq_params := [(''id'', JStr ''0'')]\<rparr>"

definition demo_change :: request where
  "demo_change = demo_password [(''oldPassword'', JStr ''secret1''), (''newPassword'', JStr ''secret2'')]"

definition demo_reset :: request where
  "demo_reset = demo_password [(''password'', JStr ''secret2'')]"

lemma demo_change_runs:
  "\<exists>resp w'. changePassword (ref_env ds) demo_change (world_of (demo_db USER [])) = (Inr resp, w')"
  by (simp add: changePassword_def Let_def with_user_def ref_run demo_change_def demo_password_def
      changePassword_opts_def enum_strings or_fail_def comparePassword_def hashPassword_def
      ref_hash_def mem_save_def)

lemma demo_user_unloaded [simp]: "(demo_user ty)\<lparr>u_token := Undef, u_contactUs := Undef\<rparr> = demo_user ty"
  by (simp add: demo_user_def new_row_def)

lemma demo_attached: "attached (ref_env ds) (demo_password b) (demo_db USER [])"
  unfolding attached_def
  by (intro allI impI exI [of _ "ById (Val ''0'')"] exI [of _ no_opts])
     (simp add: demo_password_def ref_run)

lemma demo_reset_runs:
  "\<exists>resp w'. resetPassword (ref_env []) demo_reset (world_of (demo_db USER [])) = (Inr resp, w')"
  by (simp add: resetPassword_def Let_def ref_run demo_reset_def demo_password_def or_fail_def
      hashPassword_def ref_hash_def mem_save_def)

text \<open>
  C17. Changing the password succeeds only for the attached user's own, active account and only
  with its current password; then that row alone changes, to a hash that accepts the new
  password, and no session changes.
\<close>

theorem change_password_replaces:
  assumes "auth_server E db_eq declared rows token_rows"
    and "changePassword E req w = (Inr resp, w')" and "attached E req (w_db w)"
    and "str_field (rq_body req) ''newPassword'' = Val p"
  shows "\<exists>u r h. rq_user req = Some u \<and> u_id r = u_id u \<and> u_isActive r \<noteq> Val False
     \<and> bcrypt_compare E (str_field (rq_body req) ''oldPassword'') (u_password r) = Inr True
     \<and> bcrypt_compare E (Val p) (Val h) = Inr True
     \<and> only_changed (rows (w_db w)) (rows (w_db w')) r h (u_otp r)
     \<and> token_rows (w_db w') = token_rows (w_db w)"
proof -
  from assms(1) have s: "user_store E db_eq declared rows token_rows" and b: "bcryptjs E"
    by (simp_all add: auth_server_def)
  from user_store.changePassword_effect [OF s assms(2,3)] bcryptjs.compare_hash [OF b] assms(4)
  show ?thesis by metis
qed

lemma change_password_replaces_witness:
  "\<exists>resp w' r h. changePassword (ref_env [''token'']) demo_change (world_of (demo_db USER [])) = (Inr resp, w')
     \<and> only_changed {demo_user USER} (set (user_table (w_db w'))) r h (u_otp r)"
proof -
  let ?E = "ref_env [''token'']" and ?w = "world_of (demo_db USER [])"
  obtain resp w' where c: "changePassword ?E demo_change ?w = (Inr resp, w')"
    using demo_change_runs by blast
  have a: "attached ?E demo_change (w_db ?w)" using demo_attached by (simp add: demo_change_def)
  have n: "str_field (rq_body demo_change) ''newPassword'' = Val ''secret2''"
    by (simp add: demo_change_def demo_password_def)
  from change_password_replaces [OF ref_server.auth_server_axioms c a n] c show ?thesis by auto
qed

text \<open>
  C18. Resetting a password by id does not depend on who asks: any attached user gets the same
  result, and a reset that answers has replaced the password of the account the path names.
\<close>

theorem reset_password_ignores_caller:
  assumes "user_store E db_eq declared rows token_rows"
    and "str_field (rq_params req) ''id'' = Val i"
  shows "resetPassword E (req\<lparr>rq_user := u\<rparr>) w = resetPassword E req w \<and>
    (case resetPassword E req w of
       (Inr resp, w') \<Rightarrow> \<exists>r h. u_id r = Val i \<and> u_deletedAt r = Null
          \<and> bcrypt_hash E (str_field (rq_body req) ''password'') 10 (w_entropy w) = Inr h
          \<and> only_changed (rows (w_db w)) (rows (w_db w')) r h (u_otp r)
          \<and> token_rows (w_db w') = token_rows (w_db w)
     | (Inl e, w') \<Rightarrow> True)"
proof -
  have "resetPassword E (req\<lparr>rq_user := u\<rparr>) w = resetPassword E req w"
    by (simp add: resetPassword_def)
  with user_store.resetPassword_effect [OF assms(1) _ assms(2)] show ?thesis
    by (auto split: prod.splits sum.splits)
qed

lemma reset_password_ignores_caller_witness:
  "\<exists>resp w' r h. resetPassword (ref_env []) (demo_reset\<lparr>rq_user := None\<rparr>) (world_of (demo_db USER []))
        = (Inr resp, w')
     \<and> only_changed {demo_user USER} (set (user_table (w_db w'))) r h (u_otp r)"
proof -
  obtain resp w' where c: "resetPassword (ref_env []) demo_reset (world_of (demo_db USER [])) = (Inr resp, w')"
    using demo_reset_runs by blast
  have i: "str_field (rq_params demo_reset) ''id'' = Val ''0''" by (simp add: demo_reset_def demo_password_def)
  from reset_password_ignores_caller [OF ref_store.user_store_axioms i, of "[]" None "world_of (demo_db USER [])"] c
  show ?thesis by auto
qed

text \<open>
  C19. Asking for a password reset hands the reset link, and with it the token, to whoever asked,
  not only to the account's mail address; for an account that is not of a mobile type that token
  makes \<open>updatePassword\<close> replace the account's password, for as long as an access token
  would live.
\<close>

theorem reset_link_opens_account:
  assumes "auth_server E db_eq declared rows token_rows"
    and "forgetPassword E req w = (Inr resp, w1)"
    and "r \<in> rows (w_db w2)" and "u_id r = Val i" and "u_deletedAt r = Null"
    and "users_findOne (orm E) (Where (forget_where (rq_body req))) no_opts (w_db w) = Inr (Some u)"
    and "u_id u = Val i"
    and "w_now w2 div 1000 < w_now w div 1000 + ACCESS_TOKEN_LIFETIME_MIN (cfg E) * 60"
    and "\<not> is_mobile_type (str_field (rq_body req2) ''userType'')"
  shows "\<exists>t. resp = json_response 200 (JObj [(''message'', JStr ''RESETPASSWORD_SEND_SUCCESS''),
                                          (''verification'', JStr (forget_link E t))])
     \<and> (str_field (rq_body req2) ''token'' = Val t \<longrightarrow>
          (\<exists>u2. update_target E (rq_body req2) w2 = (Inr (Some u2), w2) \<and> u_id u2 = Val i)
          \<and> (\<forall>resp2 w3. updatePassword E req2 w2 = (Inr resp2, w3) \<longrightarrow>
               (\<exists>r2 h. u_id r2 = Val i
                  \<and> bcrypt_hash E (str_field (rq_body req2) ''newPassword'') 10 (w_entropy w2) = Inr h
                  \<and> only_changed (rows (w_db w2)) (rows (w_db w3)) r2 h Null)))"
proof -
  have s: "user_store E db_eq declared rows token_rows" using assms(1) by (simp add: auth_server_def)
  from assms(2) obtain m link t1 where f: "forget_execute E (rq_body req) w = (Inr (m, link), t1)"
    and resp: "resp = json_response 200 (JObj [(''message'', JStr m), (''verification'', JStr link)])"
    by (auto simp: forgetPassword_def andThen_def split: sum.splits prod.splits)
  from auth_server.forget_answer [OF assms(1) f] assms(6,7) obtain t w0 where
    t: "signForgetPasswordToken E (Val i) w = (Inr t, w0)" "link = forget_link E t"
      "m = ''RESETPASSWORD_SEND_SUCCESS''" by auto
  show ?thesis
  proof (intro exI [of _ t] conjI impI allI)
    assume tok: "str_field (rq_body req2) ''token'' = Val t"
    from auth_server.reset_token_target [OF assms(1,3-5) t(1) assms(8) tok assms(9)]
    show "\<exists>u2. update_target E (rq_body req2) w2 = (Inr (Some u2), w2) \<and> u_id u2 = Val i" by blast
    then obtain u2 where u2: "update_target E (rq_body req2) w2 = (Inr (Some u2), w2)" "u_id u2 = Val i"
      by blast
    fix resp2 w3 assume "updatePassword E req2 w2 = (Inr resp2, w3)"
    from user_store.updatePassword_effect [OF s this u2(1)] u2(2)
    show "\<exists>r2 h. u_id r2 = Val i
        \<and> bcrypt_hash E (str_field (rq_body req2) ''newPassword'') 10 (w_entropy w2) = Inr h
        \<and> only_changed (rows (w_db w2)) (rows (w_db w3)) r2 h Null" by auto
  qed (simp add: resp t(2,3))
qed

definition demo_forget :: request where
  "demo_forget = demo_request ''POST'' ''/users/forget-password''
     [(''email'', JStr ''ann@b.c''), (''userType'', JStr ''admin'')]"

lemma demo_forget_finds:
  "users_findOne (orm (ref_env ds)) (Where (forget_where (rq_body demo_forget))) no_opts
     (w_db (world_of (demo_db ADMIN []))) = Inr (Some (demo_user ADMIN))"
  by (simp add: forget_where_def demo_forget_def is_mobile_type_def enum_strings ref_run)

lemma demo_forget_runs:
  "\<exists>resp w'. forgetPassword (ref_env ds) demo_forget (world_of (demo_db ADMIN [])) = (Inr resp, w')"
  using demo_forget_finds [of ds]
  by (simp add: forgetPassword_def forget_execute_def getForgetPasswordLink_def catch_def
      signForgetPasswordToken_def signToken_def andThen_def ref_sign_def)

lemma reset_link_opens_account_witness:
  "\<exists>resp w1 t. forgetPassword (ref_env [''token'']) demo_forget (world_of (demo_db ADMIN [])) = (Inr resp, w1)
     \<and> resp = json_response 200 (JObj [(''message'', JStr ''RESETPASSWORD_SEND_SUCCESS''),
                                 (''verification'', JStr (forget_link (ref_env [''token'']) t))])"
proof -
  let ?E = "ref_env [''token'']" and ?w = "world_of (demo_db ADMIN [])"
  obtain resp w1 where f: "forgetPassword ?E demo_forget ?w = (Inr resp, w1)" using demo_forget_runs by blast
  have m: "\<not> is_mobile_type (str_field (rq_body demo_forget) ''userType'')"
    by (simp add: demo_forget_def is_mobile_type_def enum_strings)
  from reset_link_opens_account [OF ref_server.auth_server_axioms f, of "demo_user ADMIN" ?w "''0''"
      "demo_user ADMIN" demo_forget, OF _ _ _ demo_forget_finds _ _ m] f
  show ?thesis by auto
qed



section \<open>Profiles\<close>

lemma put_handler:
  "rs \<in> {users_routes, auth_routes, contact_routes} \<Longrightarrow> rt \<in> set rs \<Longrightarrow>
     method_matches (r_method rt) (ApiMethods PUT) \<Longrightarrow> r_handler rt = UpdateProfile"
  by (auto simp: users_routes_def auth_routes_def contact_routes_def route_def method_matches_def enum_strings)

lemma updateProfile_answer: "updateProfile E req w = (Inr resp, w') \<Longrightarrow> resp = sendStatus 204"
  by (auto simp: updateProfile_def Let_def andThen_def split: sum.splits)

text \<open>
  C21. No PUT request changes anything: the only PUT route loads an account, assigns the new values
  to the loaded entity and answers 204 without saving it.
\<close>

theorem put_requests_change_nothing:
  assumes "rq_method req = ApiMethods PUT" and "app_route depth E path req w = (r, w')"
  shows "w_db w' = w_db w \<and> w_outbox w' = w_outbox w
     \<and> (case r of Inr resp \<Rightarrow> resp = sendStatus 204 | Inl e \<Rightarrow> True)"
  using assms(2)
proof (cases rule: app_route_cases)
  case home
  with assms show ?thesis by (simp add: method_matches_def enum_strings)
next
  case (matched rs base ss rt params)
  from matched(3) assms(1) have "method_matches (r_method rt) (ApiMethods PUT)"
    by (auto simp: match_route_def split: if_split_asm)
  with put_handler table_of_routes [OF matched(1)] matched(2) have rt: "r_handler rt = UpdateProfile" by blast
  from matched(4) show ?thesis
  proof (cases rule: through_cases)
    case (handles req' t)
    from handleError_state [OF handles(2)] obtain x t' where x: "updateProfile E req' t = (x, t')"
      "w_db w' = w_db t'" "w_outbox w' = w_outbox t'" "\<And>resp. r = Inr resp \<Longrightarrow> x = Inr resp"
      unfolding rt by auto
    with updateProfile_db [OF x(1)] passes_state [OF handles(1)] updateProfile_answer [of E req' t]
    show ?thesis by (auto split: sum.split)
  qed simp
qed simp

lemma put_requests_change_nothing_witness:
  "w_db (snd (app_route 3 (ref_env users_relations) ''/users/0'' (demo_request ''PUT'' ''/users/0'' [])
     (world_of (demo_db USER [])))) = demo_db USER []"
proof -
  let ?req = "demo_request ''PUT'' ''/users/0'' []" and ?w = "world_of (demo_db USER [])"
  have m: "rq_method ?req = ApiMethods PUT" by (simp add: enum_strings)
  obtain r w' where a: "app_route 3 (ref_env users_relations) ''/users/0'' ?req ?w = (r, w')" by fastforce
  from put_requests_change_nothing [OF m a] a show ?thesis by simp
qed

text \<open>
  Reading a profile, one's own or another one's, asks for relations that the entity class does
  not declare, so with the entities of the repository both handlers always fail.
\<close>

theorem profiles_unavailable:
  assumes "user_store E db_eq users_relations rows token_rows"
  shows "(\<exists>e. getById E req w = (Inl e, w)) \<and> (\<exists>e. profile E req w = (Inl e, w))"
  by (intro conjI user_store.undeclared_relations_fail [OF assms]) (simp_all add: users_relations_def)

lemma profiles_unavailable_witness:
  "(\<exists>e. getById (ref_env users_relations) demo_reset (world_of (demo_db USER []))
        = (Inl e, world_of (demo_db USER [])))
   \<and> (\<exists>e. profile (ref_env users_relations) demo_reset (world_of (demo_db USER []))
        = (Inl e, world_of (demo_db USER [])))"
  by (rule profiles_unavailable [OF ref_store.user_store_axioms])

section \<open>Creating users\<close>

text \<open>
  C22. A request to create a user that is answered adds exactly one account, with a fresh id, the
  hashed password and the requested type, when no live account had that address and type; the
  answer contains the stored fields but not the password.
\<close>

theorem create_user_adds_account:
  assumes "user_store E db_eq declared rows token_rows"
    and "createUser E req w = (Inr resp, w')"
    and "has_strings (rq_body req) [''email'', ''userType'']"
  shows "\<exists>h i now fields. bcrypt_hash E (str_field (rq_body req) ''password'') 10 (w_entropy w) = Inr h
     \<and> (\<forall>r \<in> rows (w_db w). u_id r \<noteq> Val i
            \<and> (u_deletedAt r = Null \<longrightarrow> \<not> matches db_eq (email_conditions (rq_body req)) r))
     \<and> rows (w_db w') = insert (new_row (created_entity (rq_body req) h) i now) (rows (w_db w))
     \<and> token_rows (w_db w') = token_rows (w_db w)
     \<and> resp = json_response 201 (JObj fields) \<and> ''password'' \<notin> fst ` set fields"
  by (rule user_store.createUser_effect [OF assms])

definition demo_create :: request where
  "demo_create = demo_request ''POST'' ''/users''
     [(''fullName'', JStr ''Eve''), (''email'', JStr ''eve@b.c''), (''password'', JStr ''secret1''),
      (''userType'', JStr ''super_admin'')]"

lemma demo_create_runs:
  "\<exists>resp w'. createUser (ref_env ds) demo_create (world_of empty_mem) = (Inr resp, w')"
  by (simp add: createUser_def Let_def ref_run demo_create_def hashPassword_def ref_hash_def mem_save_def)

lemma demo_create_unchanged [simp]: "demo_create\<lparr>rq_params := []\<rparr> = demo_create"
  "demo_create\<lparr>rq_baseUrl := ''/users'', rq_params := []\<rparr> = demo_create"
  by (simp_all add: demo_create_def demo_request_def)

lemma demo_create_valid:
  "validate createUserValidation False (ref_env ds) demo_create w = (Inr (Next demo_create), w)"
  by (simp add: validate_unfold validate_parts_def check_part_def createUserValidation_def body_schema_def
      required_def full_name_rule_def email_rule_def password_rule_def user_type_rule_def joi_any_def
      ref_joi_def Let_def field_def demo_create_def PropaneUserType_values_def PropaneUserType.simps)

lemma create_user_adds_account_witness:
  "\<exists>resp w' i h now. createUser (ref_env []) demo_create (world_of empty_mem) = (Inr resp, w')
     \<and> set (user_table (w_db w')) = {new_row (created_entity (rq_body demo_create) h) i now}"
proof -
  obtain resp w' where c: "createUser (ref_env []) demo_create (world_of empty_mem) = (Inr resp, w')"
    using demo_create_runs by blast
  have "has_strings (rq_body demo_create) [''email'', ''userType'']"
    by (simp add: demo_create_def has_strings_def)
  from create_user_adds_account [OF ref_store.user_store_axioms c this] c show ?thesis by auto
qed

text \<open>
  POST /users asks for no credentials and its schema allows every account type: whoever sends
  it to an empty server is answered 201 and has an account of type super_admin.
\<close>

lemma demo_create_route:
  "first_match users_routes ''POST'' [] =
     Some (route POST [] [Validate createUserValidation False] CreateUser, [])"
  by (simp add: users_routes_def route_def match_route_def method_matches_def enum_strings)

lemma demo_create_table: "table_of (segments ''/users'') = Some (users_routes, ''/users'', [])"
  by (simp add: segments_def table_of_def same_text_def down_char_def)

theorem anyone_creates_super_admin:
  "\<exists>body w' r. rq_authorization demo_create = Undef
     \<and> serve throws depth (ref_env users_relations) stack ''/users'' demo_create (world_of empty_mem)
        = (Answer (json_response 201 body), w')
     \<and> set (user_table (w_db w')) = {r} \<and> u_userType r = Val (PropaneUserType SUPER_ADMIN)"
proof -
  let ?E = "ref_env users_relations" and ?w = "world_of empty_mem"
  obtain resp w' where c: "createUser ?E demo_create ?w = (Inr resp, w')"
    using demo_create_runs by blast
  have "has_strings (rq_body demo_create) [''email'', ''userType'']"
    by (simp add: demo_create_def has_strings_def)
  from user_store.createUser_effect [OF ref_store.user_store_axioms c this] obtain h i now fields where
    e: "set (user_table (w_db w')) = {new_row (created_entity (rq_body demo_create) h) i now}"
      "resp = json_response 201 (JObj fields)" by auto
  have t: "u_userType (new_row (created_entity (rq_body demo_create) h) i now) = Val (PropaneUserType SUPER_ADMIN)"
    by (simp add: new_row_def created_entity_def blank_user_def demo_create_def enum_strings pick_def)
  have m: "rq_method demo_create = ''POST''" "rq_authorization demo_create = Undef"
    by (simp_all add: demo_create_def)
  have "app_route depth ?E ''/users'' demo_create ?w = (Inr resp, w')"
    unfolding app_route_table [OF demo_create_table] mounted_def
    by (simp add: m router_is_first_match demo_create_route routed_of_def route_def pass_def
        demo_create_valid finish_def handleError_def catch_def c)
  with e t m(2) show ?thesis by (auto simp: serve_def)
qed

section \<open>Lists\<close>







section \<open>Contact requests\<close>




section \<open>Modules\<close>

text \<open>
  On the base routes that sub-admins may use, permissions for the modules 4, 5, 7, 11, 12 and
  25 are never asked for, since an earlier module has the same route, the route is misspelt, or it
  is no base route; and thirteen of the base routes belong to no module at all, so every sub-admin
  may use them.
\<close>

theorem module_table:
  "list_all (\<lambda>b. module_of MapPropaneBaseRoutes b \<notin> {4, 5, 7, 11, 12, 25}) PropaneBaseRoutes
   \<and> filter (\<lambda>b. module_of MapPropaneBaseRoutes b = 0) PropaneBaseRoutes
      = [''/vendorProducts'', ''/testPayment'', ''/driverOrder'', ''/manageStock'', ''/categories'',
         ''/usercards'', ''/ratings'', ''/modules'', ''/mocky'', ''/cart'', ''/auth'', ''/faqs'', ''/faq'']"
  by code_simp

end
