(* ===== verification/Strings.thy ===== *)
theory Strings
  imports Prelude
begin

text \<open>
  String operations of JavaScript that the services and utilities use, with the facts about them
  that these share: cutting at a separator, and replacing every match of a literal pattern.
\<close>

section \<open>toLowerCase\<close>

definition to_lower :: "char \<Rightarrow> char" where
  "to_lower c = (if 65 \<le> (of_char c :: nat) \<and> (of_char c :: nat) \<le> 90
                 then char_of ((of_char c :: nat) + 32) else c)"

section \<open>Cutting at a separator\<close>

lemma takeWhile_sep: "c \<notin> set k \<Longrightarrow> takeWhile (\<lambda>x. x \<noteq> c) (k @ c # r) = k"
  by (induction k) auto

lemma cut_at:
  assumes "c \<notin> set k" and "c \<notin> set j"
  shows "k @ c # r = j @ c # s \<longleftrightarrow> k = j \<and> r = s"
proof
  assume e: "k @ c # r = j @ c # s"
  then have "takeWhile (\<lambda>x. x \<noteq> c) (k @ c # r) = takeWhile (\<lambda>x. x \<noteq> c) (j @ c # s)" by simp
  with assms have "k = j" by (simp add: takeWhile_sep)
  with e show "k = j \<and> r = s" by simp
qed simp

lemma is_prefix_append [simp]: "is_prefix p (p @ s)"
  by (auto simp: is_prefix_iff)

section \<open>\<open>String.prototype.replace\<close> with a global pattern and a string\<close>

text \<open>
  The replacement string is not taken literally: \<open>$$\<close> stands for a dollar sign, \<open>$&\<close> for the
  match, and a dollar with a backquote or a quote for what is before or after the match. The
  patterns of the program have no groups, so \<open>$1\<close> and the like stay as they are.
\<close>

fun expand :: "string \<Rightarrow> string \<Rightarrow> string \<Rightarrow> string \<Rightarrow> string" where
  "expand matched before after (c # d # s) =
     (if c = CHR ''$'' then
        (if d = CHR ''$'' then CHR ''$'' # expand matched before after s
         else if d = CHR ''&'' then matched @ expand matched before after s
         else if d = CHR 0x60 then before @ expand matched before after s
         else if d = CHR 0x27 then after @ expand matched before after s
         else CHR ''$'' # expand matched before after (d # s))
      else c # expand matched before after (d # s))"
| "expand matched before after s = s"

text \<open>One pass over the text from the left; \<open>before\<close> is what the pass has left behind.\<close>

fun replace_from :: "string \<Rightarrow> string \<Rightarrow> string \<Rightarrow> string \<Rightarrow> string" where
  "replace_from pat rep before [] = []"
| "replace_from pat rep before (c # s) =
     (if is_prefix pat (c # s)
      then expand pat before (drop (length pat) (c # s)) rep
           @ replace_from pat rep (before @ pat) (drop (length pat - 1) s)
      else c # replace_from pat rep (before @ [c]) s)"

definition replace_all :: "string \<Rightarrow> string \<Rightarrow> string \<Rightarrow> string" where
  "replace_all pat rep s = replace_from pat rep [] s"

text \<open>With a string as the pattern only the first match is replaced.\<close>

fun replace_first_from :: "string \<Rightarrow> string \<Rightarrow> string \<Rightarrow> string \<Rightarrow> string" where
  "replace_first_from pat rep before [] = (if pat = [] then expand [] before [] rep else [])"
| "replace_first_from pat rep before (c # s) =
     (if is_prefix pat (c # s)
      then expand pat before (drop (length pat) (c # s)) rep @ drop (length pat) (c # s)
      else c # replace_first_from pat rep (before @ [c]) s)"

definition replace_first :: "string \<Rightarrow> string \<Rightarrow> string \<Rightarrow> string" where
  "replace_first pat rep s = replace_first_from pat rep [] s"

lemma expand_plain: "CHR ''$'' \<notin> set s \<Longrightarrow> expand m b a s = s"
  by (induction m b a s rule: expand.induct) auto

lemma replace_from_skip:
  assumes "pat = c # p" and "c \<notin> set t"
  shows "replace_from pat rep before (t @ s) = t @ replace_from pat rep (before @ t) s"
  using assms by (induction t arbitrary: before) auto

lemma replace_from_hit:
  assumes "pat \<noteq> []" and "CHR ''$'' \<notin> set rep"
  shows "replace_from pat rep before (pat @ s) = rep @ replace_from pat rep (before @ pat) s"
proof -
  obtain c p where p: "pat = c # p" using assms(1) by (cases pat) auto
  have "is_prefix pat (c # p @ s)" unfolding p by (simp add: is_prefix_iff)
  then show ?thesis using p assms(2) by (simp add: expand_plain)
qed

end
