(* ===== verification/Mail.thy ===== *)
theory Mail
  imports Model Strings
begin

text \<open>
  src/service/Mail.ts: the choice of a transport and the text of a mail. nodemailer, the OAuth
  client of googleapis and the delivery itself are parameters: a transport is its options.
\<close>

section \<open>The text of a mail\<close>

definition mail_field :: "mail_body \<Rightarrow> string \<Rightarrow> string js" where
  "mail_field b k = (case map_of b k of None \<Rightarrow> Undef | Some v \<Rightarrow> v)"

definition hole :: "string \<Rightarrow> string" where
  "hole k = CHR ''{'' # k @ ''}''"

text \<open>The chain of \<open>replace\<close> calls, in order.\<close>

definition replacements :: "mail_body \<Rightarrow> (string \<times> string) list" where
  "replacements b =
     (let v = (\<lambda>k. or_else (mail_field b k) []) in
     [(''qty'', v ''qty''), (''link'', v ''link''), (''logo'', v ''image''),
      (''email'', v ''email''), (''total'', v ''total''), (''actor'', v ''actor''),
      (''name'', v ''fullname''), (''mobile'', v ''mobileNo''), (''subject'', v ''subject''),
      (''message'', v ''message''), (''endDate'', v ''endDate''), (''comment'', v ''comment''),
      (''address'', v ''address''), (''appname'', ''Propane Bros''), (''password'', v ''password''),
      (''planName'', v ''planName''), (''salesTax'', v ''salesTax''),
      (''promocode'', v ''promocode''), (''startDate'', v ''startDate''),
      (''planPrice'', v ''planPrice''), (''serviceFee'', v ''serviceFee''),
      (''invoiceNumber'', v ''orderId''), (''deliverFee'', v ''deliverFee''),
      (''admin'', v ''adminContactEmail''), (''serviceCharge'', v ''serviceCharge''),
      (''promocodeDiscount'', v ''promocodeDiscount'')])"

definition html_of :: "string \<Rightarrow> mail_body \<Rightarrow> string" where
  "html_of template b = fold (\<lambda>(k, v) html. replace_all (hole k) v html) (replacements b) template"

section \<open>Transports\<close>

record gmail_config =
  g_user :: string
  g_password :: string
  g_clientId :: "string js"
  g_clientSecret :: "string js"
  g_refreshToken :: "string js"

datatype transport =
    OAuth2 string "string js" "string js" "string js" string
  | Smtp string int string string

text \<open>\<open>token\<close> is what \<open>getAccessToken\<close> rejects with, or the token it gives, if any.\<close>

definition createSmtpTransport ::
    "gmail_config \<Rightarrow> exn + string js \<Rightarrow> ('db, transport option) async" where
  "createSmtpTransport g token =
     (if truthy (g_clientId g) \<and> truthy (g_clientSecret g) \<and> truthy (g_refreshToken g)
      then (case token of
              Inl e \<Rightarrow> andThen (log_error (interp (error_name e)) []) (\<lambda>_. ret None)
            | Inr t \<Rightarrow> ret (if truthy t
                 then Some (OAuth2 (g_user g) (g_clientId g) (g_clientSecret g)
                              (g_refreshToken g) (interp t))
                 else None))
      else ret None)"

definition createTransport :: "gmail_config \<Rightarrow> transport" where
  "createTransport g = Smtp ''smtp.gmail.com'' 587 (g_user g) (g_password g)"

text \<open>The constructor keeps the first instance made, with its transport.\<close>

definition MailService :: "gmail_config \<Rightarrow> transport option option \<Rightarrow> transport option" where
  "MailService g instance' =
     (case instance' of Some service \<Rightarrow> service | None \<Rightarrow> Some (createTransport g))"

section \<open>send\<close>

record outgoing_mail =
  o_from :: string
  o_to :: "string js"
  o_subject :: "string js"
  o_text :: "string js"
  o_html :: string

definition no_transport :: string where
  "no_transport = ''Transport is not present to send email.''"

definition send ::
    "'db env \<Rightarrow> gmail_config \<Rightarrow> exn + string js \<Rightarrow> transport option
     \<Rightarrow> (transport \<Rightarrow> outgoing_mail \<Rightarrow> exn + 'info) \<Rightarrow> mail_body \<Rightarrow> ('db, 'info) async" where
  "send E g token this_transport sendMail b =
     andThen (createSmtpTransport g token) (\<lambda>smtp.
     (case (case smtp of Some t \<Rightarrow> Some t | None \<Rightarrow> this_transport) of
        None \<Rightarrow> andThen (log_error no_transport [])
                  (\<lambda>_. throw (OtherExn ''Error'' (Val no_transport)))
      | Some transport \<Rightarrow>
          andThen (read_db (templates_findOne (orm E) (Where [(''key'', Is (mail_field b ''text''))])))
            (\<lambda>emailTemplate.
          of_sum (sendMail transport
            \<lparr>o_from = ''Propane <'' @ g_user g @ ''>'', o_to = mail_field b ''to'',
             o_subject = mail_field b ''subject'', o_text = mail_field b ''text'',
             o_html = html_of (case emailTemplate of None \<Rightarrow> [] | Some t \<Rightarrow> or_else (e_template t) []) b\<rparr>))))"

section \<open>Facts about replacing\<close>

text \<open>A hole is not the beginning of another one.\<close>

lemma hole_prefix:
  assumes "CHR ''}'' \<notin> set k" and "CHR ''}'' \<notin> set j"
  shows "is_prefix (hole k) (hole j @ s) \<longleftrightarrow> k = j"
proof
  assume "is_prefix (hole k) (hole j @ s)"
  then obtain r where "k @ CHR ''}'' # r = j @ CHR ''}'' # s" by (auto simp: is_prefix_iff hole_def)
  with assms show "k = j" by (simp add: cut_at)
qed simp

lemma replace_from_other:
  assumes "CHR ''}'' \<notin> set k" and "CHR ''}'' \<notin> set j" and "CHR ''{'' \<notin> set j" and "k \<noteq> j"
  shows "replace_from (hole k) rep before (hole j @ s)
           = hole j @ replace_from (hole k) rep (before @ hole j) s"
proof -
  have "\<not> is_prefix (hole k) (hole j @ s)" using hole_prefix [OF assms(1,2)] assms(4) by simp
  then have "replace_from (hole k) rep before (hole j @ s)
      = CHR ''{'' # replace_from (hole k) rep (before @ ''{'') ((j @ ''}'') @ s)"
    by (simp add: hole_def)
  also have "\<dots> = hole j @ replace_from (hole k) rep (before @ hole j) s"
    by (subst replace_from_skip [of _ "CHR ''{''" "k @ ''}''"]) (use assms(3) in \<open>auto simp: hole_def\<close>)
  finally show ?thesis .
qed

section \<open>Templates as pieces\<close>

text \<open>A template read as text and holes, and what the chain is meant to make of it.\<close>

datatype piece = Text string | Hole string

fun render :: "piece \<Rightarrow> string" where
  "render (Text t) = t"
| "render (Hole k) = hole k"

fun fill :: "(string \<times> string) list \<Rightarrow> piece \<Rightarrow> string" where
  "fill vs (Text t) = t"
| "fill vs (Hole k) = (case map_of vs k of Some v \<Rightarrow> v | None \<Rightarrow> hole k)"

definition no_brace :: "string \<Rightarrow> bool" where
  "no_brace s \<longleftrightarrow> CHR ''{'' \<notin> set s \<and> CHR ''}'' \<notin> set s"

fun clear_piece :: "piece \<Rightarrow> bool" where
  "clear_piece (Text t) \<longleftrightarrow> CHR ''{'' \<notin> set t"
| "clear_piece (Hole k) \<longleftrightarrow> no_brace k"

fun put :: "string \<Rightarrow> string \<Rightarrow> piece \<Rightarrow> piece" where
  "put k v (Text t) = Text t"
| "put k v (Hole j) = (if k = j then Text v else Hole j)"

lemma replace_from_pieces:
  assumes "no_brace k" and "CHR ''$'' \<notin> set v" and "list_all clear_piece ps"
  shows "replace_from (hole k) v before (concat (map render ps)) = concat (map (\<lambda>p. render (put k v p)) ps)"
  using assms(3)
proof (induction ps arbitrary: before)
  case (Cons p ps)
  then have IH: "replace_from (hole k) v b (concat (map render ps)) = concat (map (\<lambda>p. render (put k v p)) ps)" for b
    by simp
  show ?case
  proof (cases p)
    case (Text t)
    with Cons.prems replace_from_skip [of "hole k" "CHR ''{''" "k @ ''}''" t] IH show ?thesis
      by (simp add: hole_def)
  next
    case (Hole j)
    with Cons.prems assms(1) replace_from_other [of k j v before "concat (map render ps)"]
      replace_from_hit [of "hole k" v before "concat (map render ps)"] assms(2) IH
    show ?thesis by (auto simp: no_brace_def hole_def)
  qed
qed simp

lemma put_clear: "CHR ''{'' \<notin> set v \<Longrightarrow> clear_piece p \<Longrightarrow> clear_piece (put k v p)"
  by (cases p) auto

lemma fill_put: "k \<notin> fst ` set vs \<Longrightarrow> fill vs (put k v p) = fill ((k, v) # vs) p"
  by (cases p) (auto split: option.split)

text \<open>The whole chain, on values without braces and dollar signs.\<close>

lemma replace_chain:
  assumes "list_all clear_piece ps"
    and "list_all (\<lambda>(k, v). no_brace k \<and> CHR ''{'' \<notin> set v \<and> CHR ''$'' \<notin> set v) vs"
  shows "fold (\<lambda>(k, v) html. replace_all (hole k) v html) vs (concat (map render ps))
           = concat (map (fill vs) ps)"
  using assms
proof (induction vs arbitrary: ps)
  case Nil
  have "fill [] = render" by (rule ext, case_tac x) simp_all
  then show ?case by simp
next
  case (Cons kv vs)
  obtain k v where kv: "kv = (k, v)" by (cases kv)
  with Cons.prems have c: "no_brace k" "CHR ''{'' \<notin> set v" "CHR ''$'' \<notin> set v" by auto
  have cl: "list_all clear_piece (map (put k v) ps)"
    using Cons.prems(1) c(2) put_clear by (auto simp: list_all_iff)
  have "replace_all (hole k) v (concat (map render ps)) = concat (map render (map (put k v) ps))"
    using replace_from_pieces [OF c(1,3) Cons.prems(1)] by (simp add: replace_all_def comp_def)
  moreover have "fill vs (put k v p) = fill ((k, v) # vs) p" for p
    by (cases p) (auto split: option.split)
  ultimately show ?case using Cons.IH [OF cl] Cons.prems(2) kv by (simp add: comp_def)
qed

lemma value_plain:
  assumes "list_all (\<lambda>(k, v). c \<notin> set (interp v)) b"
  shows "c \<notin> set (or_else (mail_field b k) [])"
proof (cases "map_of b k")
  case (Some v)
  from map_of_SomeD [OF this] assms have "c \<notin> set (interp v)" by (auto simp: list_all_iff)
  with Some show ?thesis by (cases v rule: or_else.cases [of "(v, [])" for v]) (auto simp: mail_field_def)
qed (simp add: mail_field_def)

lemma replacements_clear:
  assumes "list_all (\<lambda>(k, v). CHR ''{'' \<notin> set (interp v)) b"
    and "list_all (\<lambda>(k, v). CHR ''$'' \<notin> set (interp v)) b"
  shows "list_all (\<lambda>(k, v). no_brace k \<and> CHR ''{'' \<notin> set v \<and> CHR ''$'' \<notin> set v) (replacements b)"
  using value_plain [OF assms(1)] value_plain [OF assms(2)]
  by (simp add: replacements_def Let_def no_brace_def)

section \<open>What the chain is meant to do, and what it does\<close>

text \<open>
  For a template made of text and holes, the chain of 26 replacements fills every hole with its
  value at once, as long as the values given contain no opening brace and no dollar sign: the
  order of the chain does not matter then, and unknown holes stay.
\<close>

theorem mail_fills_template:
  assumes "list_all clear_piece ps"
    and "list_all (\<lambda>(k, v). CHR ''{'' \<notin> set (interp v)) b"
    and "list_all (\<lambda>(k, v). CHR ''$'' \<notin> set (interp v)) b"
  shows "html_of (concat (map render ps)) b = concat (map (fill (replacements b)) ps)"
  unfolding html_of_def by (rule replace_chain [OF assms(1) replacements_clear [OF assms(2,3)]])

lemma mail_fills_template_witness:
  "html_of ''Hello {name}, see {link}'' [(''fullname'', Val ''Ann''), (''link'', Val ''http://b.c/t'')]
     = ''Hello Ann, see http://b.c/t''"
  using mail_fills_template [of "[Text ''Hello '', Hole ''name'', Text '', see '', Hole ''link'']"
      "[(''fullname'', Val ''Ann''), (''link'', Val ''http://b.c/t'')]"]
  by (simp add: no_brace_def hole_def replacements_def Let_def mail_field_def)

text \<open>
  Without that restriction the values are not data: a subject that names a later hole is
  replaced by that hole's value, and a dollar sign with a backquote copies the text before it.
\<close>

theorem mail_values_interpreted:
  "html_of ''About {subject}.'' [(''subject'', Val ''{admin}''), (''adminContactEmail'', Val ''root@b.c'')]
     = ''About root@b.c.''
   \<and> html_of ''Code 7. {message}'' [(''message'', Val [CHR ''$'', CHR 0x60])] = ''Code 7. Code 7. ''"
  by code_simp

end
