(* ===== verification/Templates.thy ===== *)
theory Templates
  imports Mail
begin

text \<open>
  src/database/seed/table/htmlTemplate: the texts of the mails, line by line, with the holes that
  \<open>send\<close> in src/service/Mail.ts fills. What a template takes from the configuration or from its
  argument is an argument.
\<close>

section \<open>Lines\<close>



section \<open>The templates\<close>













section \<open>What the templates ask for\<close>


























section \<open>Properties\<close>



end
