(* ===== verification/Cache.thy ===== *)
theory Cache
  imports Strings "HOL-Library.Word" "HOL-Library.While_Combinator"
begin

unbundle bit_operations_syntax

text \<open>
  src/utils/binaryCombination.ts and src/utils/cache.ts: the keys under which a user's details
  are cached, one for every choice of the relations that were asked for.
\<close>

section \<open>src/utils/binaryCombination.ts\<close>

text \<open>JavaScript shifts on 32 bits, with the distance taken modulo 32; the result is signed.\<close>

definition shl_one :: "nat \<Rightarrow> 32 word" where
  "shl_one k = push_bit (k mod 32) 1"

definition bit_set :: "nat \<Rightarrow> nat \<Rightarrow> bool" where
  "bit_set i j \<longleftrightarrow> word_of_nat i AND shl_one j \<noteq> 0"

definition label :: "string \<Rightarrow> bool \<Rightarrow> string" where
  "label name b = name @ (if b then ''=true'' else ''=false'')"

definition currentCombination :: "string list \<Rightarrow> nat \<Rightarrow> string" where
  "currentCombination n i = js_join '':'' (map (\<lambda>j. label (n ! j) (bit_set i j)) [0..<length n])"

text \<open>The outer loop runs while \<open>i < 1 << n.length\<close>, so not at all for a negative bound.\<close>

definition combinations :: "string list \<Rightarrow> string list" where
  "combinations n = map (currentCombination n) [0..<nat (sint (shl_one (length n)))]"

text \<open>
  The same loop as the code runs it, on its counter and the list it pushes to; \<open>None\<close> would mean
  that it never ends.
\<close>

definition combinations_loop :: "string list \<Rightarrow> string list option" where
  "combinations_loop n =
     map_option snd (while_option (\<lambda>(i, cs). int i < sint (shl_one (length n)))
       (\<lambda>(i, cs). (Suc i, cs @ [currentCombination n i])) (0, []))"

section \<open>src/utils/cache.ts\<close>






section \<open>The loop's bound\<close>

lemma shl_one_exp: "shl_one k = 2 ^ (k mod 32)"
  by (simp add: shl_one_def push_bit_eq_mult)

lemma bit_set_iff: "bit_set i j \<longleftrightarrow> bit i (j mod 32)"
  by (simp add: bit_set_def shl_one_exp and_exp_eq_0_iff_not_bit bit_of_nat_iff)

lemma sint_shl_one: "sint (shl_one k) = (if k mod 32 = 31 then - (2 ^ 31) else 2 ^ (k mod 32))"
proof -
  have w: "shl_one k = word_of_int (2 ^ (k mod 32))" by (simp add: shl_one_exp)
  have e: "sint (shl_one k) = signed_take_bit 31 (2 ^ (k mod 32))" unfolding w signed_of_int by simp
  have "k mod 32 \<le> 31" using mod_less_divisor [of 32 k] by simp
  then consider "k mod 32 = 31" | "k mod 32 < 31" by linarith
  then show ?thesis
  proof cases
    case 1
    then show ?thesis by (simp add: e signed_take_bit_def not_int_def mask_eq_exp_minus_1)
  next
    case 2
    then show ?thesis by (simp add: e signed_take_bit_eq_if_positive bit_exp_iff take_bit_int_eq_self)
  qed
qed

lemma combinations_count:
  "length (combinations n) = (if length n mod 32 = 31 then 0 else 2 ^ (length n mod 32))"
  by (simp add: combinations_def sint_shl_one nat_power_eq)

text \<open>A loop that counts up to a bound and pushes one value in each turn returns them all.\<close>

lemma counting_loop:
  "\<exists>i. while_option (\<lambda>(i, cs). int i < b) (\<lambda>(i, cs). (Suc i, cs @ [f i])) (i0, cs0)
       = Some (i, cs0 @ map f [i0..<nat b])"
proof (induction "nat b - i0" arbitrary: i0 cs0)
  case 0
  then have "\<not> int i0 < b" by simp
  with 0 show ?case by (subst while_option_unfold) simp
next
  case (Suc k)
  then have less: "int i0 < b" by simp
  have "k = nat b - Suc i0" using Suc.hyps(2) by simp
  from Suc.hyps(1) [OF this, of "cs0 @ [f i0]"] obtain i where
    "while_option (\<lambda>(i, cs). int i < b) (\<lambda>(i, cs). (Suc i, cs @ [f i])) (Suc i0, cs0 @ [f i0])
       = Some (i, cs0 @ f i0 # map f [Suc i0..<nat b])" by auto
  moreover have "f i0 # map f [Suc i0..<nat b] = map f [i0..<nat b]"
    using less by (simp add: upt_conv_Cons zless_nat_eq_int_zless)
  ultimately show ?case using less by (subst while_option_unfold) simp
qed

section \<open>What the loops enumerate\<close>

text \<open>The combination for a list of truth values, one for each name.\<close>

definition choice :: "string list \<Rightarrow> bool list \<Rightarrow> string" where
  "choice n bs = js_join '':'' (map2 label n bs)"

lemma combination_choice:
  assumes "length n \<le> 32"
  shows "currentCombination n i = choice n (map (bit i) [0..<length n])"
proof -
  have "map (\<lambda>j. label (n ! j) (bit_set i j)) [0..<length n] = map2 label n (map (bit i) [0..<length n])"
    using assms by (intro nth_equalityI) (simp_all add: bit_set_iff)
  then show ?thesis by (simp add: currentCombination_def choice_def)
qed

lemma combinations_upto:
  "length n \<le> 30 \<Longrightarrow> combinations n = map (currentCombination n) [0..<2 ^ length n]"
  by (simp add: combinations_def sint_shl_one nat_power_eq)

lemma combinations_set:
  assumes "length n \<le> 30"
  shows "set (combinations n) = {choice n bs |bs. length bs = length n}"
proof -
  note up = combinations_upto [OF assms]
  show ?thesis
  proof (intro set_eqI iffI)
    fix x assume "x \<in> set (combinations n)"
    then show "x \<in> {choice n bs |bs. length bs = length n}"
      using assms by (auto simp: up combination_choice)
  next
    fix x assume "x \<in> {choice n bs |bs. length bs = length n}"
    then obtain bs where x: "x = choice n bs" "length bs = length n" by blast
    let ?i = "horner_sum of_bool 2 bs :: nat"
    have "map (bit ?i) [0..<length n] = bs"
      using x(2) by (intro nth_equalityI) (simp_all add: bit_horner_sum_bit_iff)
    moreover have "?i < 2 ^ length n" using horner_sum_of_bool_2_less [of bs] x(2) by simp
    ultimately show "x \<in> set (combinations n)"
      using assms x(1) by (auto simp: up combination_choice intro!: image_eqI [of _ _ ?i])
  qed
qed

lemma label_inj: "label x b @ r = label x c @ s \<longleftrightarrow> b = c \<and> r = s"
  by (simp add: label_def)

lemma choice_inj: "length bs = length n \<Longrightarrow> length cs = length n \<Longrightarrow> choice n bs = choice n cs \<Longrightarrow> bs = cs"
proof (induction n arbitrary: bs cs)
  case (Cons x n)
  then obtain b bs' c cs' where l: "bs = b # bs'" "cs = c # cs'" "length bs' = length n" "length cs' = length n"
    by (metis length_Suc_conv)
  show ?case
  proof (cases "n = []")
    case True
    with Cons.prems(3) l label_inj [of x b "[]" c "[]"] show ?thesis by (simp add: choice_def)
  next
    case False
    with l have "map2 label n bs' \<noteq> []" "map2 label n cs' \<noteq> []" by auto
    with Cons.prems(3) l have "label x b @ '':'' @ choice n bs' = label x c @ '':'' @ choice n cs'"
      by (simp add: choice_def js_join_Cons)
    with Cons.IH [OF l(3,4)] l label_inj show ?thesis by auto
  qed
qed simp

lemma combinations_distinct:
  assumes "length n \<le> 30"
  shows "distinct (combinations n)"
proof -
  note up = combinations_upto [OF assms]
  have "inj_on (currentCombination n) {0..<2 ^ length n}"
  proof (rule inj_onI)
    fix i j :: nat
    assume ij: "i \<in> {0..<2 ^ length n}" "j \<in> {0..<2 ^ length n}"
      and e: "currentCombination n i = currentCombination n j"
    from e assms have "map (bit i) [0..<length n] = map (bit j) [0..<length n]"
      by (intro choice_inj [of _ n]) (simp_all add: combination_choice)
    then have "\<And>k. k < length n \<Longrightarrow> bit i k = bit j k" by simp
    then have "take_bit (length n) i = take_bit (length n) j"
      by (intro bit_eqI) (auto simp: bit_take_bit_iff)
    with ij show "i = j" by (simp add: take_bit_nat_eq_self)
  qed
  then show ?thesis by (simp add: up distinct_map)
qed

section \<open>Keys\<close>











section \<open>Properties\<close>

text \<open>
  C26. For up to 30 names \<open>combinations\<close> lists every choice of truth values exactly once.
\<close>

theorem combinations_enumerate:
  assumes "length n \<le> 30"
  shows "set (combinations n) = {choice n bs |bs. length bs = length n}
     \<and> distinct (combinations n) \<and> length (combinations n) = 2 ^ length n"
  using combinations_set [OF assms] combinations_distinct [OF assms] assms by (simp add: combinations_count)

lemma combinations_enumerate_witness:
  "distinct (combinations [''a'', ''b'']) \<and> length (combinations [''a'', ''b'']) = 4"
  using combinations_enumerate [of "[''a'', ''b'']"] by simp

text \<open>
  Beyond that the 32-bit shift in the loop's bound takes over: 31 names give no combination at
  all, 32 names give one, and from there on the count repeats.
\<close>

lemma combinations_wrap:
  "length (combinations n) = (if length n mod 32 = 31 then 0 else 2 ^ (length n mod 32))"
  by (rule combinations_count)

text \<open>
  C27. The outer loop of \<open>combinations\<close> ends for every list of names, with the combinations as its
  result; their number is two to the number of names only below 31 names. Since the bound is a
  signed 32-bit shift, 31 names give none, 32 names give one, and from there on the counts repeat.
\<close>

theorem combinations_loop_returns:
  "\<exists>cs. combinations_loop n = Some cs \<and> cs = combinations n
     \<and> length cs = (if length n mod 32 = 31 then 0 else 2 ^ (length n mod 32))"
proof -
  obtain i where "while_option (\<lambda>(i, cs). int i < sint (shl_one (length n)))
      (\<lambda>(i, cs). (Suc i, cs @ [currentCombination n i])) (0, []) = Some (i, combinations n)"
    using counting_loop [of "sint (shl_one (length n))" "currentCombination n" 0 "[]"]
    by (auto simp: combinations_def)
  then have "combinations_loop n = Some (combinations n)" by (simp add: combinations_loop_def)
  then show ?thesis using combinations_count by blast
qed


end
