(* ===== verification/ConnectionString.thy ===== *)
theory ConnectionString
  imports Strings
begin

text \<open>
  src/utils/parseConnectionString.ts and src/utils/buildConnectionUrl.ts. The regular expression of
  \<open>parse\<close> is kept as an expression and run by a backtracking matcher, as JavaScript runs it.
\<close>

section \<open>Regular expressions\<close>

text \<open>
  The constructs the pattern uses: one character of a class, greedy repetition of a class, sequence,
  an optional part (tried first), and a numbered group.
\<close>

datatype re =
    Cls "char \<Rightarrow> bool"
  | Star "char \<Rightarrow> bool"
  | Seq re re
  | Opt re
  | Cap nat re

abbreviation Plus :: "(char \<Rightarrow> bool) \<Rightarrow> re" where
  "Plus p \<equiv> Seq (Cls p) (Star p)"

text \<open>
  All ways in which an expression matches a beginning of the string, in the order in which
  backtracking tries them: the groups that were set, and the rest of the string.
\<close>

fun tries :: "re \<Rightarrow> string \<Rightarrow> ((nat \<times> string) list \<times> string) list" where
  "tries (Cls p) s = (case s of [] \<Rightarrow> [] | c # r \<Rightarrow> if p c then [([], r)] else [])"
| "tries (Star p) s = map (\<lambda>k. ([], drop k s)) (rev [0..<Suc (length (takeWhile p s))])"
| "tries (Seq a b) s =
     concat (map (\<lambda>(g, r). map (\<lambda>(h, r'). (g @ h, r')) (tries b r)) (tries a s))"
| "tries (Opt a) s = tries a s @ [([], s)]"
| "tries (Cap i a) s = map (\<lambda>(g, r). ((i, take (length s - length r) s) # g, r)) (tries a s)"

text \<open>\<open>exec\<close> of a pattern that is anchored at both ends.\<close>

definition exec :: "re \<Rightarrow> string \<Rightarrow> (nat \<times> string) list option" where
  "exec e s = map_option fst (find (\<lambda>(g, r). r = []) (tries e s))"

section \<open>src/utils/parseConnectionString.ts\<close>

text \<open>The characters \<open>\s\<close> matches among the first 256.\<close>

definition white :: "char \<Rightarrow> bool" where
  "white c \<longleftrightarrow> c \<in> {CHR 0x09, CHR 0x0A, CHR 0x0B, CHR 0x0C, CHR 0x0D, CHR '' '', CHR 0xA0}"

definition except :: "string \<Rightarrow> char \<Rightarrow> bool" where
  "except cs c \<longleftrightarrow> c \<notin> set cs \<and> \<not> white c"

definition is_char :: "char \<Rightarrow> char \<Rightarrow> bool" where
  "is_char c d \<longleftrightarrow> d = c"

definition dialect_part :: re where
  "dialect_part = Opt (Seq (Cap 1 (Plus (except '':/?#'')))
                        (Seq (Cls (is_char CHR '':'')) (Seq (Cls (is_char CHR ''/'')) (Cls (is_char CHR ''/'')))))"

definition user_part :: re where
  "user_part = Opt (Seq (Cap 2 (Plus (except ''@/?#''))) (Cls (is_char CHR ''@'')))"

definition host_part :: re where
  "host_part = Opt (Cap 3 (Plus (except ''/?#'')))"

definition database_part :: re where
  "database_part = Opt (Seq (Cls (is_char CHR ''/'')) (Cap 4 (Star (except ''?#''))))"

definition query_part :: re where
  "query_part = Opt (Seq (Cls (is_char CHR ''?'')) (Cap 5 (Plus (except ''#''))))"

definition matcher :: re where
  "matcher = Seq dialect_part (Seq user_part (Seq host_part (Seq database_part
     (Seq query_part (Star (except []))))))"

text \<open>\<open>split(/:(?=\d+$)/)\<close>: cut at every colon that only digits follow, up to the end.\<close>

fun split_port :: "string \<Rightarrow> string list" where
  "split_port [] = [[]]"
| "split_port (c # s) =
     (if c = CHR '':'' \<and> s \<noteq> [] \<and> list_all is_digit s then [] # split_port s
      else (case split_port s of p # ps \<Rightarrow> (c # p) # ps | [] \<Rightarrow> [[c]]))"

record database_config =
  d_dialect :: "string js"
  d_username :: "string js"
  d_password :: "string js"
  d_host :: "string js"
  d_port :: "string js"
  d_database :: "string js"

definition group :: "(nat \<times> string) list \<Rightarrow> nat \<Rightarrow> string js" where
  "group g i = js_of_option (map_of g i)"

fun nth_of :: "(string \<Rightarrow> string list) \<Rightarrow> nat \<Rightarrow> string js \<Rightarrow> string js" where
  "nth_of split i (Val s) = js_nth (split s) i"
| "nth_of split i v = Undef"

definition parse :: "string \<Rightarrow> string + database_config" where
  "parse connectionStr =
     (case exec matcher connectionStr of
        None \<Rightarrow> Inl ''connection string is not valid''
      | Some matches \<Rightarrow> Inr
          \<lparr>d_dialect = group matches 1,
           d_username = nth_of (js_split CHR '':'') 0 (group matches 2),
           d_password = nth_of (js_split CHR '':'') 1 (group matches 2),
           d_host = nth_of split_port 0 (group matches 3),
           d_port = nth_of split_port 1 (group matches 3),
           d_database = group matches 4\<rparr>)"

section \<open>src/utils/buildConnectionUrl.ts\<close>




section \<open>The first choice of the matcher\<close>

lemma find_map_first:
  "find Q ys = Some y \<Longrightarrow> (\<And>x. P (F x) = Q x) \<Longrightarrow> find P (map F ys @ zs) = Some (F y)"
  by (induction ys) (auto split: if_split_asm)

lemma exec_Seq:
  assumes "tries a s = (g, r) # xs" and "exec b r = Some h"
  shows "exec (Seq a b) s = Some (g @ h)"
proof -
  from assms(2) obtain q where q: "find (\<lambda>(g, r). r = []) (tries b r) = Some q" "fst q = h"
    by (auto simp: exec_def)
  have "find (\<lambda>(g, r). r = []) (tries (Seq a b) s) = Some ((\<lambda>(h, r'). (g @ h, r')) q)"
    using find_map_first [OF q(1), of "\<lambda>(g, r). r = []" "\<lambda>(h, r'). (g @ h, r')"] assms(1)
    by (simp add: case_prod_unfold)
  with q(2) show ?thesis by (simp add: exec_def case_prod_unfold)
qed

lemma tries_Star: "\<exists>xs. tries (Star p) s = ([], dropWhile p s) # xs"
  by (simp add: dropWhile_eq_drop)

lemma tries_Plus: "s \<noteq> [] \<Longrightarrow> p (hd s) \<Longrightarrow> \<exists>xs. tries (Plus p) s = ([], dropWhile p s) # xs"
  using tries_Star [of p "tl s"] by (cases s) auto

lemma taken_length: "length s - length (dropWhile p s) = length (takeWhile p s)"
  by (induction s) (auto simp: Suc_diff_le length_dropWhile_le)

lemma take_taken [simp]: "take (length (takeWhile p s)) s = takeWhile p s"
  by (induction s) auto

text \<open>A group of a repeated class, before something that no character of the class begins.\<close>

lemma tries_blocked:
  assumes "\<And>c r. p c \<Longrightarrow> tries b (c # r) = []" and "k < length (takeWhile p t)"
  shows "tries b (drop k t) = []"
proof -
  from assms(2) have "p (t ! k)" by (metis nth_mem set_takeWhileD takeWhile_nth)
  moreover have "drop k t = t ! k # drop (Suc k) t"
    using assms(2) length_takeWhile_le [of p t] by (intro Cons_nth_drop_Suc [symmetric]) linarith
  ultimately show ?thesis using assms(1) by simp
qed

lemma tries_until:
  assumes "\<And>c r. p c \<Longrightarrow> tries b (c # r) = []"
  shows "tries (Seq (Cap i (Plus p)) b) s =
     (if s \<noteq> [] \<and> p (hd s)
      then map (\<lambda>(h, r). ((i, takeWhile p s) # h, r)) (tries b (dropWhile p s)) else [])"
proof (cases "s \<noteq> [] \<and> p (hd s)")
  case True
  then obtain c t where s: "s = c # t" "p c" by (cases s) auto
  let ?n = "length (takeWhile p t)"
  let ?F = "\<lambda>k. map (\<lambda>(h, r). ((i, take (length s - length (drop k t)) s) # h, r)) (tries b (drop k t))"
  have "tries (Seq (Cap i (Plus p)) b) s = concat (map ?F (rev [0..<Suc ?n]))"
    using s by (simp add: case_prod_unfold comp_def)
  also have "\<dots> = ?F ?n"
    using tries_blocked [OF assms, where t = t] by simp
  also have "drop ?n t = dropWhile p s" using s by (simp add: dropWhile_eq_drop)
  finally show ?thesis using True by (simp add: taken_length)
qed (auto split: list.splits)

section \<open>The parts of a connection string\<close>

definition no_white :: "string \<Rightarrow> bool" where
  "no_white s \<longleftrightarrow> \<not> list_ex white s"

text \<open>What \<open>parse\<close> is to find, read from left to right without going back.\<close>

definition cut_dialect :: "string \<Rightarrow> string js \<times> string" where
  "cut_dialect s =
     (let t = takeWhile (except '':/?#'') s; r = dropWhile (except '':/?#'') s
      in if t \<noteq> [] \<and> is_prefix ''://'' r then (Val t, drop 3 r) else (Undef, s))"

definition cut_user :: "string \<Rightarrow> string js \<times> string" where
  "cut_user s =
     (let t = takeWhile (except ''@/?#'') s; r = dropWhile (except ''@/?#'') s
      in if t \<noteq> [] \<and> is_prefix ''@'' r then (Val t, drop 1 r) else (Undef, s))"

definition cut_host :: "string \<Rightarrow> string js \<times> string" where
  "cut_host s =
     (let t = takeWhile (except ''/?#'') s
      in if t \<noteq> [] then (Val t, dropWhile (except ''/?#'') s) else (Undef, s))"

definition cut_database :: "string \<Rightarrow> string js \<times> string" where
  "cut_database s =
     (if is_prefix ''/'' s then (Val (takeWhile (except ''?#'') (tl s)), dropWhile (except ''?#'') (tl s))
      else (Undef, s))"

definition parts_of :: "string \<Rightarrow> database_config" where
  "parts_of s =
     (let (dialect, s1) = cut_dialect s; (user, s2) = cut_user s1; (host, s3) = cut_host s2;
          (database, s4) = cut_database s3
      in \<lparr>d_dialect = dialect, d_username = nth_of (js_split CHR '':'') 0 user,
          d_password = nth_of (js_split CHR '':'') 1 user, d_host = nth_of split_port 0 host,
          d_port = nth_of split_port 1 host, d_database = database\<rparr>)"

fun numbered :: "nat \<Rightarrow> string js \<Rightarrow> (nat \<times> string) list" where
  "numbered i (Val s) = [(i, s)]"
| "numbered i v = []"

lemma first_char: "takeWhile p s \<noteq> [] \<longleftrightarrow> s \<noteq> [] \<and> p (hd s)"
  by (cases s) auto

lemma tries_dialect:
  "\<exists>xs. tries dialect_part s = (numbered 1 (fst (cut_dialect s)), snd (cut_dialect s)) # xs"
proof -
  let ?p = "except '':/?#''"
  let ?b = "Seq (Cls (is_char CHR '':'')) (Seq (Cls (is_char CHR ''/'')) (Cls (is_char CHR ''/'')))"
  have blocked: "tries ?b (c # r) = []" if "?p c" for c r using that by (auto simp: is_char_def except_def)
  have b: "tries ?b r = (if is_prefix ''://'' r then [([], drop 3 r)] else [])" for r
    by (auto simp: is_char_def eval_nat_numeral split: list.splits)
  have u: "tries (Seq (Cap 1 (Plus ?p)) ?b) s =
     (if s \<noteq> [] \<and> ?p (hd s)
      then map (\<lambda>(h, r). ((1, takeWhile ?p s) # h, r)) (tries ?b (dropWhile ?p s)) else [])"
    by (rule tries_until [OF blocked])
  have "tries dialect_part s = (if takeWhile ?p s \<noteq> [] \<and> is_prefix ''://'' (dropWhile ?p s)
     then [([(1, takeWhile ?p s)], drop 3 (dropWhile ?p s))] else []) @ [([], s)]"
    unfolding dialect_part_def tries.simps(4) u first_char by (simp del: tries.simps add: b)
  then show ?thesis by (simp add: cut_dialect_def Let_def)
qed

lemma tries_user:
  "\<exists>xs. tries user_part s = (numbered 2 (fst (cut_user s)), snd (cut_user s)) # xs"
proof -
  let ?p = "except ''@/?#''"
  have blocked: "tries (Cls (is_char CHR ''@'')) (c # r) = []" if "?p c" for c r
    using that by (auto simp: is_char_def except_def)
  have b: "tries (Cls (is_char CHR ''@'')) r = (if is_prefix ''@'' r then [([], drop 1 r)] else [])" for r
    by (auto simp: is_char_def split: list.splits)
  have u: "tries (Seq (Cap 2 (Plus ?p)) (Cls (is_char CHR ''@''))) s =
     (if s \<noteq> [] \<and> ?p (hd s)
      then map (\<lambda>(h, r). ((2, takeWhile ?p s) # h, r)) (tries (Cls (is_char CHR ''@'')) (dropWhile ?p s)) else [])"
    by (rule tries_until [OF blocked])
  have "tries user_part s = (if takeWhile ?p s \<noteq> [] \<and> is_prefix ''@'' (dropWhile ?p s)
     then [([(2, takeWhile ?p s)], drop 1 (dropWhile ?p s))] else []) @ [([], s)]"
    unfolding user_part_def tries.simps(4) u first_char by (simp del: tries.simps add: b)
  then show ?thesis by (simp add: cut_user_def Let_def)
qed

lemma tries_group:
  assumes "\<exists>xs. tries e s = ([], dropWhile p s) # xs"
  shows "\<exists>xs. tries (Cap i e) s = ([(i, takeWhile p s)], dropWhile p s) # xs"
  using assms by (auto simp: taken_length)

lemma tries_host:
  "\<exists>xs. tries host_part s = (numbered 3 (fst (cut_host s)), snd (cut_host s)) # xs"
proof (cases "takeWhile (except ''/?#'') s = []")
  case True
  then have "tries (Cap 3 (Plus (except ''/?#''))) s = []" by (cases s) (auto split: if_split_asm)
  with True show ?thesis by (simp del: tries.simps add: host_part_def cut_host_def tries.simps(4))
next
  case False
  with tries_group [OF tries_Plus] first_char [of "except ''/?#''" s] obtain xs where
    "tries (Cap 3 (Plus (except ''/?#''))) s = ([(3, takeWhile (except ''/?#'') s)], dropWhile (except ''/?#'') s) # xs"
    by blast
  with False show ?thesis
    by (simp del: tries.simps add: host_part_def cut_host_def Let_def tries.simps(4))
qed

lemma tries_database:
  "\<exists>xs. tries database_part s = (numbered 4 (fst (cut_database s)), snd (cut_database s)) # xs"
proof (cases "is_prefix ''/'' s")
  case True
  then obtain t where s: "s = CHR ''/'' # t" by (auto simp: is_prefix_iff)
  from tries_group [OF tries_Star] obtain xs where
    "tries (Cap 4 (Star (except ''?#''))) t = ([(4, takeWhile (except ''?#'') t)], dropWhile (except ''?#'') t) # xs"
    by blast
  with s show ?thesis by (simp del: tries.simps(2,5) add: database_part_def cut_database_def is_char_def)
next
  case False
  then show ?thesis
    by (cases s) (auto simp: database_part_def cut_database_def is_char_def)
qed

section \<open>The whole pattern\<close>

text \<open>What a try consumes, and that no class of the pattern takes white space.\<close>

fun solid :: "re \<Rightarrow> bool" where
  "solid (Cls p) \<longleftrightarrow> (\<forall>c. p c \<longrightarrow> \<not> white c)"
| "solid (Star p) \<longleftrightarrow> (\<forall>c. p c \<longrightarrow> \<not> white c)"
| "solid (Seq a b) \<longleftrightarrow> solid a \<and> solid b"
| "solid (Opt a) \<longleftrightarrow> solid a"
| "solid (Cap i a) \<longleftrightarrow> solid a"

fun groups :: "re \<Rightarrow> nat set" where
  "groups (Seq a b) = groups a \<union> groups b"
| "groups (Opt a) = groups a"
| "groups (Cap i a) = insert i (groups a)"
| "groups e = {}"

lemma tries_consume:
  "(g, r) \<in> set (tries e s) \<Longrightarrow>
     (\<exists>t. s = t @ r \<and> (solid e \<longrightarrow> no_white t)) \<and> fst ` set g \<subseteq> groups e"
proof (induction e arbitrary: g r s)
  case (Cls p)
  then show ?case by (auto simp: no_white_def split: list.splits if_split_asm)
next
  case (Star p)
  then have "\<exists>k \<le> length (takeWhile p s). g = [] \<and> r = drop k s" by auto (metis less_imp_le)
  then obtain k where k: "k \<le> length (takeWhile p s)" "g = []" "r = drop k s" by blast
  have "c \<in> set (take k s) \<Longrightarrow> p c" for c
    using k(1) by (metis set_take_subset_set_take set_takeWhileD subsetD take_taken)
  then have "(\<forall>c. p c \<longrightarrow> \<not> white c) \<longrightarrow> no_white (take k s)" by (auto simp: no_white_def list_ex_iff)
  with k show ?case by (intro conjI exI [of _ "take k s"]) auto
next
  case (Seq a b)
  then obtain g1 r1 h where a: "(g1, r1) \<in> set (tries a s)" and b: "(h, r) \<in> set (tries b r1)" "g = g1 @ h"
    by auto
  from Seq.IH(1) [OF a] Seq.IH(2) [OF b(1)] b(2) show ?case
    by (auto simp: no_white_def intro!: exI [of _ "_ @ _"])
next
  case (Opt a)
  then consider "(g, r) \<in> set (tries a s)" | "g = []" "r = s" by auto
  then show ?case
  proof cases
    case 1
    from Opt.IH [OF 1] show ?thesis by simp
  qed (auto simp: no_white_def)
next
  case (Cap i a)
  then obtain g1 where "(g1, r) \<in> set (tries a s)" "g = (i, take (length s - length r) s) # g1" by auto
  with Cap.IH show ?case by fastforce
qed

lemma matcher_solid: "solid matcher"
  by (simp add: matcher_def dialect_part_def user_part_def host_part_def database_part_def
      query_part_def except_def is_char_def white_def)

lemma exec_white:
  assumes "\<not> no_white s"
  shows "exec matcher s = None"
proof -
  have "\<not> (case x of (g, r) \<Rightarrow> r = [])" if x: "x \<in> set (tries matcher s)" for x
    using tries_consume [of "fst x" "snd x" matcher s] x matcher_solid assms by (cases x) auto
  then have "find (\<lambda>(g, r). r = []) (tries matcher s) = None" unfolding find_None_iff by blast
  then show ?thesis by (simp add: exec_def)
qed

lemma exec_rest: "no_white s \<Longrightarrow> exec (Star (except [])) s = Some []"
proof -
  assume "no_white s"
  then have "dropWhile (except []) s = []" by (auto simp: no_white_def list_ex_iff except_def)
  with tries_Star [of "except []" s] show ?thesis by (auto simp: exec_def simp del: tries.simps)
qed

lemma no_white_rest: "tries e s = (g, r) # xs \<Longrightarrow> no_white s \<Longrightarrow> no_white r"
  using tries_consume [of g r e s] by (auto simp: no_white_def)

lemma tries_Opt: "\<exists>g r xs. tries (Opt e) s = (g, r) # xs"
  by (cases "tries e s") auto

lemma exec_matcher:
  assumes "no_white s"
    and "cut_dialect s = (d, s1)" and "cut_user s1 = (u, s2)" and "cut_host s2 = (h, s3)"
    and "cut_database s3 = (b, s4)"
  shows "\<exists>g. exec matcher s = Some (numbered 1 d @ numbered 2 u @ numbered 3 h @ numbered 4 b @ g)
     \<and> fst ` set g \<subseteq> {5}"
proof -
  from tries_dialect [of s] assms(2) obtain x1 where t1: "tries dialect_part s = (numbered 1 d, s1) # x1" by auto
  from tries_user [of s1] assms(3) obtain x2 where t2: "tries user_part s1 = (numbered 2 u, s2) # x2" by auto
  from tries_host [of s2] assms(4) obtain x3 where t3: "tries host_part s2 = (numbered 3 h, s3) # x3" by auto
  from tries_database [of s3] assms(5) obtain x4 where t4: "tries database_part s3 = (numbered 4 b, s4) # x4" by auto
  obtain g s5 x5 where t5: "tries query_part s4 = (g, s5) # x5" using tries_Opt unfolding query_part_def by blast
  have "no_white s5"
    using assms(1) no_white_rest [OF t1] no_white_rest [OF t2] no_white_rest [OF t3] no_white_rest [OF t4]
      no_white_rest [OF t5] by blast
  from exec_Seq [OF t1 exec_Seq [OF t2 exec_Seq [OF t3 exec_Seq [OF t4 exec_Seq [OF t5 exec_rest [OF this]]]]]]
  have "exec matcher s = Some (numbered 1 d @ numbered 2 u @ numbered 3 h @ numbered 4 b @ g)"
    by (simp add: matcher_def)
  moreover have "fst ` set g \<subseteq> {5}"
  proof -
    have "(g, s5) \<in> set (tries query_part s4)" unfolding t5 by simp
    then have "fst ` set g \<subseteq> groups query_part" using tries_consume by blast
    then show ?thesis by (simp add: query_part_def)
  qed
  ultimately show ?thesis by blast
qed

lemma cut_defined:
  "fst (cut_dialect s) \<noteq> Null" "fst (cut_user s) \<noteq> Null" "fst (cut_host s) \<noteq> Null"
  "fst (cut_database s) \<noteq> Null"
  by (simp_all add: cut_dialect_def cut_user_def cut_host_def cut_database_def Let_def)

lemma group_none: "fst ` set g \<subseteq> {5} \<Longrightarrow> j \<noteq> 5 \<Longrightarrow> group g j = Undef"
proof -
  assume "fst ` set g \<subseteq> {5}" "j \<noteq> 5"
  then have "map_of g j = None" by (auto simp: map_of_eq_None_iff)
  then show ?thesis by (simp add: group_def)
qed

lemma group_hit: "v \<noteq> Null \<Longrightarrow> group g i = Undef \<Longrightarrow> group (numbered i v @ g) i = v"
  by (cases v) (simp_all add: group_def)

lemma group_skip: "i \<noteq> j \<Longrightarrow> group (numbered j v @ g) i = group g i"
  by (cases v) (simp_all add: group_def)

lemma parse_parts:
  assumes "no_white s"
  shows "parse s = Inr (parts_of s)"
proof -
  obtain d s1 where c1: "cut_dialect s = (d, s1)" by fastforce
  obtain u s2 where c2: "cut_user s1 = (u, s2)" by fastforce
  obtain h s3 where c3: "cut_host s2 = (h, s3)" by fastforce
  obtain b s4 where c4: "cut_database s3 = (b, s4)" by fastforce
  have n: "d \<noteq> Null" "u \<noteq> Null" "h \<noteq> Null" "b \<noteq> Null"
    using cut_defined(1) [of s] cut_defined(2) [of s1] cut_defined(3) [of s2] cut_defined(4) [of s3]
      c1 c2 c3 c4 by simp_all
  from exec_matcher [OF assms c1 c2 c3 c4] obtain g where
    e: "exec matcher s = Some (numbered 1 d @ numbered 2 u @ numbered 3 h @ numbered 4 b @ g)"
      "fst ` set g \<subseteq> {5}" by blast
  let ?g = "numbered 1 d @ numbered 2 u @ numbered 3 h @ numbered 4 b @ g"
  have "group ?g 1 = d" "group ?g 2 = u" "group ?g 3 = h" "group ?g 4 = b"
    using n group_none [OF e(2)] by (simp_all add: group_hit group_skip)
  then show ?thesis by (simp add: parse_def e(1) parts_of_def c1 c2 c3 c4)
qed

section \<open>What is built can be parsed\<close>







lemma no_white_append [simp]: "no_white (s @ t) \<longleftrightarrow> no_white s \<and> no_white t"
  "no_white (c # t) \<longleftrightarrow> \<not> white c \<and> no_white t" "no_white []"
  by (auto simp: no_white_def)








section \<open>Properties\<close>

text \<open>
  C29. On every string without white space \<open>parse\<close>, which backtracks over a regular expression,
  gives what one reading from left to right finds; with white space anywhere it throws.
\<close>

theorem parse_reads_parts:
  "parse s = (if no_white s then Inr (parts_of s) else Inl ''connection string is not valid'')"
  using parse_parts [of s] exec_white [of s] by (simp add: parse_def)




text \<open>A password with a colon loses what follows the colon.\<close>

lemma password_cut_at_colon:
  "parse ''mysql://ann:a:b@h/d'' = Inr \<lparr>d_dialect = Val ''mysql'', d_username = Val ''ann'',
     d_password = Val ''a'', d_host = Val ''h'', d_port = Undef, d_database = Val ''d''\<rparr>"
  by code_simp

end
