(* ===== verification/Environment.thy ===== *)
theory Environment
  imports Errors Strings
begin

text \<open>
  src/config.ts: the table of environment variables with their validators and defaults, the type
  that is declared for the result, and the three validators the file defines. envalid itself,
  \<open>JSON.parse\<close>, \<open>URL\<close> and \<open>RegExp\<close> are parameters.
\<close>

section \<open>Validators\<close>

datatype validator =
  Str "string list" | Num | Port | Url | Host | Email | Origins | HexKey | AwsRegion

datatype origin = Exact string | Pattern string

datatype env_value = EStr string | ENum int | EOrigins "origin list" | EUndefined

datatype env_error = Invalid string | NativeError

text \<open>What the file uses of JavaScript: each either throws or gives its result.\<close>

record natives =
  JSON_parse :: "string \<Rightarrow> json option"
  URL_origin :: "string \<Rightarrow> string option"
  RegExp_ok :: "string \<Rightarrow> bool"

definition invalid_url :: "nat \<Rightarrow> string \<Rightarrow> env_error" where
  "invalid_url index origin =
     Invalid (''Invalid url at position ['' @ show_nat index @ '']: '' @ [CHR 0x22] @ origin @ [CHR 0x22])"

definition checked_origin :: "natives \<Rightarrow> nat \<Rightarrow> json \<Rightarrow> env_error + origin" where
  "checked_origin js index v =
     (case v of
        JStr origin \<Rightarrow>
          if is_prefix ''regex://'' origin
          then (let pattern = drop 8 origin in
                if RegExp_ok js pattern then Inr (Pattern pattern) else Inl NativeError)
          else (case URL_origin js origin of
                  None \<Rightarrow> Inl (invalid_url index origin)
                | Some parsed \<Rightarrow> if parsed = [] \<or> parsed = ''null'' then Inl (invalid_url index origin)
                                 else Inr (Exact parsed))
      | _ \<Rightarrow> Inl NativeError)"

fun checked_origins :: "natives \<Rightarrow> nat \<Rightarrow> json list \<Rightarrow> env_error + origin list" where
  "checked_origins js index [] = Inr []"
| "checked_origins js index (v # vs) =
     (case checked_origin js index v of
        Inl e \<Rightarrow> Inl e
      | Inr x \<Rightarrow> map_sum id ((#) x) (checked_origins js (Suc index) vs))"

definition origins :: "natives \<Rightarrow> string \<Rightarrow> env_error + origin list" where
  "origins js x =
     (case JSON_parse js x of
        None \<Rightarrow> Inl (Invalid (''Invalid urls: '' @ [CHR 0x22] @ x @ [CHR 0x22]))
      | Some (JArr vs) \<Rightarrow> checked_origins js 0 vs
      | Some _ \<Rightarrow> Inl NativeError)"

definition lower_hex :: "char \<Rightarrow> bool" where
  "lower_hex c \<longleftrightarrow> c \<in> set ''0123456789abcdef''"

definition strHex64 :: "string \<Rightarrow> env_error + string" where
  "strHex64 x = (if length x = 64 \<and> list_all lower_hex x then Inr x
                 else Inl (Invalid ''Expected a hex-character string of length 64''))"

definition AWS_REGIONS :: "string list" where
  "AWS_REGIONS =
     [''us-east-2'', ''us-east-1'', ''us-west-1'', ''us-west-2'', ''ap-east-1'', ''ap-south-1'',
      ''ap-northeast-3'', ''ap-northeast-2'', ''ap-southeast-1'', ''ap-southeast-2'',
      ''ap-northeast-1'', ''ca-central-1'', ''eu-central-1'', ''eu-west-1'', ''eu-west-2'',
      ''eu-west-3'', ''eu-north-1'', ''me-south-1'', ''sa-east-1'']"

definition awsRegion :: "string \<Rightarrow> env_error + string" where
  "awsRegion region = (if region \<in> set AWS_REGIONS then Inr region
                       else Inl (Invalid (region @ '' is not a valid AWS region.'')))"

section \<open>The declared type\<close>

datatype ts_type = TString | TNumber | TOrigins | TStringOrUndefined

definition Env_type :: "(string \<times> ts_type) list" where
  "Env_type =
    [(''NODE_ENV'', TString), (''PORT'', TNumber), (''SERVER_URL'', TString), (''LOG_LEVEL'', TString),
     (''WHITELIST_ORIGINS'', TOrigins), (''MEDIA_FOLDER'', TString), (''REPORT_FOLDER'', TString),
     (''SECRET_HEX'', TString), (''ACCESS_TOKEN_LIFETIME_MIN'', TNumber),
     (''REFRESH_TOKEN_LIFETIME_MIN'', TNumber), (''MAX_FILE_SIZE_IN_MB'', TNumber),
     (''MAX_APK_FILE_SIZE_IN_MB'', TNumber), (''GLOBAL_REQUEST_TIMEOUT_IN_MS'', TNumber),
     (''OPEN_API_MAX_REQUEST'', TNumber), (''OPEN_API_WINDOW_IN_MS'', TNumber),
     (''CLOSED_API_MAX_REQUEST'', TNumber), (''CLOSED_API_WINDOW_IN_MS'', TNumber),
     (''POSTGRES_CONNECTION'', TString), (''POSTGRES_HOST'', TString), (''POSTGRES_USER'', TString),
     (''POSTGRES_PASSWORD'', TString), (''POSTGRES_DB'', TString), (''POSTGRES_PORT'', TNumber),
     (''MONGODB_CONNECTION'', TString), (''MONGODB_HOST'', TString), (''MONGODB_USERNAME'', TString),
     (''MONGODB_PASSWORD'', TString), (''MONGODB_DATABASE'', TString), (''MONGODB_PORT'', TNumber),
     (''MYSQL_CONNECTION'', TString), (''MYSQL_HOST'', TString), (''MYSQL_USER'', TString),
     (''MYSQL_PASSWORD'', TString), (''MYSQL_DB'', TString), (''MYSQL_PORT'', TNumber),
     (''SLACK_WEBHOOK'', TStringOrUndefined), (''REDIS_HOST'', TString), (''REDIS_PORT'', TNumber),
     (''CACHE_DURATION_IN_MS'', TNumber), (''GMAIL_USER'', TString),
     (''ADMIN_CONTACT_EMAIL'', TString), (''GMAIL_CLIENT_ID'', TString),
     (''GMAIL_CLIENT_SECRET'', TString), (''GMAIL_REFRESH_TOKEN'', TString),
     (''GMAIL_PASSWORD'', TString), (''FORGET_PASSWORD_MAIL_SUBJECT'', TString),
     (''FORGET_PASSWORD_TOKEN_LENGTH'', TNumber), (''FORGET_PASSWORD_TOKEN_EXPIRE_TIME'', TNumber),
     (''FRONTEND_BASE_URL'', TString), (''FRONTEND_CHANGE_PASSWORD_URL'', TString),
     (''FRONTEND_VERIFY_EMAIL_URL'', TString), (''CUSTOMER_SERVICE_EMAIL'', TString),
     (''REPORT_MAIL_SUBJECT'', TString), (''PUPPETEER_EXECUTABLE_PATH'', TString),
     (''SUPPORT_EMAIL_RECIPIENT_EMAIL_ID'', TString), (''TEST_DATABASE_URL'', TString),
     (''AWS_REGION'', TString), (''AWS_ACCESS_KEY_ID'', TString), (''AWS_SECRET_ACCESS_KEY'', TString),
     (''S3_CAMERA_TEST_BUCKET'', TString), (''S3_USER_MEDIA_BUCKET'', TString), (''B2_NAME'', TString),
     (''B2_KEY_NAME'', TString), (''B2_KEY_ID'', TString), (''B2_SECRET_KEY'', TString),
     (''B2_ENDPOINT'', TString), (''MACHINE_RPM_JOB_INTERVAL_IN_MIN'', TNumber),
     (''AGENDA_COLLECTION_NAME'', TString), (''SENTRY_DNS'', TStringOrUndefined),
     (''SENTRY_ENV'', TString), (''SUSTAINABILITY_VALUES_WATER'', TNumber),
     (''SUSTAINABILITY_VALUES_ENERGY'', TNumber), (''SUSTAINABILITY_VALUES_MESH'', TNumber),
     (''SUSTAINABILITY_VALUES_CO2'', TNumber), (''SAVINGS_REPORT_PATH'', TString),
     (''UPDATE_STOPS_JOB_CRON_EXPRESSION'', TString),
     (''NOTION_CLIENT_COMPLAINT_TOKEN'', TStringOrUndefined),
     (''NOTION_CLIENT_COMPLAINT_DATABSE'', TStringOrUndefined),
     (''UPDATE_DEFECT_LABEL_FOR_STOPS_INTERVAL'', TNumber), (''SENDGRID_API_KEY'', TString),
     (''TWILIO_ACCOUNT_SID'', TStringOrUndefined), (''TWILIO_AUTH_TOKEN'', TStringOrUndefined),
     (''TWILIO_PHONE_NUMBER'', TStringOrUndefined), (''STRIPE_PUBLISHABLE_KEY'', TString),
     (''STRIPE_SECRET_KEY'', TString), (''STRIPE_WEBHOOK_ENDPOINT_SECRET'', TString),
     (''STRIPE_AUTH_URL'', TString), (''STRIPE_CLIENT_ID'', TString), (''FIREBASE_TYPE'', TString),
     (''FIREBASE_PROJECT_ID'', TString), (''FIREBASE_PRIVATE_KEY_ID'', TString),
     (''FIREBASE_PRIVATE_KEY'', TString), (''FIREBASE_CLIENT_EMAIL'', TString),
     (''FIREBASE_CLIENT_ID'', TString), (''FIREBASE_AUTH_URI'', TString),
     (''FIREBASE_TOKEN_URI'', TString), (''FIREBASE_AUTH_PROVIDER_X509_CERT_URL'', TString),
     (''FIREBASE_CLIENT_X509_CERT_URL'', TString)]"

section \<open>The table\<close>

datatype env_default = NoDefault | DefaultUndefined | DefaultStr string | DefaultNum int

type_synonym env_spec = "(string \<times> validator \<times> env_default) list"

definition environment :: env_spec where
  "environment =
    [(''NODE_ENV'', Str [''production'', ''test'', ''development''], DefaultStr ''production''),
     (''PORT'', Port, DefaultNum 3333), (''SERVER_URL'', Url, NoDefault),
     (''LOG_LEVEL'', Str [''error'', ''warn'', ''info'', ''http'', ''verbose'', ''debug'',
        ''silly''], DefaultStr ''error''),
     (''WHITELIST_ORIGINS'', Origins, DefaultUndefined),
     (''MEDIA_FOLDER'', Str [], DefaultStr ''media''),
     (''REPORT_FOLDER'', Str [], DefaultStr ''reports''), (''SECRET_HEX'', HexKey, NoDefault),
     (''ACCESS_TOKEN_LIFETIME_MIN'', Num, NoDefault), (''REFRESH_TOKEN_LIFETIME_MIN'', Num, NoDefault),
     (''MAX_FILE_SIZE_IN_MB'', Num, DefaultNum 1),
     (''MAX_APK_FILE_SIZE_IN_MB'', Num, DefaultNum 1),
     (''GLOBAL_REQUEST_TIMEOUT_IN_MS'', Num, DefaultNum (1000 * 60 * 5)),
     (''OPEN_API_MAX_REQUEST'', Num, DefaultNum 3),
     (''OPEN_API_WINDOW_IN_MS'', Num, DefaultNum 1000),
     (''CLOSED_API_MAX_REQUEST'', Num, DefaultNum 3),
     (''CLOSED_API_WINDOW_IN_MS'', Num, DefaultNum 1000),
     (''POSTGRES_CONNECTION'', Str [''mysql'', ''mariadb'', ''postgres'', ''cockroachdb'',
        ''sqlite'', ''mssql'', ''sap'', ''oracle'', ''cordova'', ''nativescript'',
        ''react-native'', ''sqljs'', ''mongodb'', ''aurora-data-api'', ''aurora-data-api-pg'',
        ''expo''], DefaultStr ''postgres''),
     (''POSTGRES_HOST'', Host, DefaultStr ''localhost''), (''POSTGRES_USER'', Str [], NoDefault),
     (''POSTGRES_PASSWORD'', Str [], NoDefault), (''POSTGRES_DB'', Str [], DefaultStr ''test''),
     (''POSTGRES_PORT'', Port, DefaultNum 5432),
     (''MONGODB_CONNECTION'', Str [], DefaultStr ''mongodb''),
     (''MONGODB_HOST'', Host, DefaultStr ''localhost''), (''MONGODB_USERNAME'', Str [], NoDefault),
     (''MONGODB_PASSWORD'', Str [], NoDefault), (''MONGODB_DATABASE'', Str [], NoDefault),
     (''MONGODB_PORT'', Port, NoDefault), (''MYSQL_CONNECTION'', Str [], NoDefault),
     (''MYSQL_HOST'', Host, NoDefault), (''MYSQL_USER'', Str [], NoDefault),
     (''MYSQL_PASSWORD'', Str [], NoDefault), (''MYSQL_DB'', Str [], NoDefault),
     (''MYSQL_PORT'', Port, NoDefault), (''SLACK_WEBHOOK'', Url, DefaultUndefined),
     (''REDIS_HOST'', Str [], DefaultStr ''127.0.0.1''), (''REDIS_PORT'', Port, DefaultNum 6379),
     (''CACHE_DURATION_IN_MS'', Num, DefaultNum (1000 * 7)), (''GMAIL_USER'', Email, NoDefault),
     (''ADMIN_CONTACT_EMAIL'', Email, NoDefault), (''GMAIL_PASSWORD'', Str [], NoDefault),
     (''GMAIL_CLIENT_ID'', Str [], DefaultUndefined),
     (''GMAIL_CLIENT_SECRET'', Str [], DefaultUndefined),
     (''GMAIL_REFRESH_TOKEN'', Str [], DefaultUndefined),
     (''FORGET_PASSWORD_MAIL_SUBJECT'', Str [], NoDefault),
     (''FORGET_PASSWORD_TOKEN_LENGTH'', Num, NoDefault),
     (''FORGET_PASSWORD_TOKEN_EXPIRE_TIME'', Num, DefaultNum 15),
     (''FRONTEND_BASE_URL'', Str [], NoDefault),
     (''FRONTEND_CHANGE_PASSWORD_URL'', Str [], NoDefault),
     (''FRONTEND_VERIFY_EMAIL_URL'', Str [], NoDefault),
     (''CUSTOMER_SERVICE_EMAIL'', Str [], NoDefault), (''REPORT_MAIL_SUBJECT'', Str [], NoDefault),
     (''PUPPETEER_EXECUTABLE_PATH'', Str [], DefaultStr ''/snap/bin/chromium''),
     (''SUPPORT_EMAIL_RECIPIENT_EMAIL_ID'', Str [], NoDefault),
     (''TEST_DATABASE_URL'', Str [], DefaultStr []), (''AWS_REGION'', AwsRegion, NoDefault),
     (''AWS_ACCESS_KEY_ID'', Str [], NoDefault), (''AWS_SECRET_ACCESS_KEY'', Str [], NoDefault),
     (''S3_CAMERA_TEST_BUCKET'', Str [], NoDefault), (''S3_USER_MEDIA_BUCKET'', Str [], NoDefault),
     (''B2_NAME'', Str [], NoDefault), (''B2_KEY_NAME'', Str [], NoDefault),
     (''B2_KEY_ID'', Str [], NoDefault), (''B2_SECRET_KEY'', Str [], NoDefault),
     (''B2_ENDPOINT'', Url, NoDefault), (''MACHINE_RPM_JOB_INTERVAL_IN_MIN'', Num, DefaultNum 30),
     (''AGENDA_COLLECTION_NAME'', Str [], DefaultStr ''AgendaJobs''),
     (''SENTRY_DNS'', Url, DefaultUndefined),
     (''SENTRY_ENV'', Str [''local'', ''development'', ''demo'', ''test'', ''production''],
        DefaultStr ''local''),
     (''SUSTAINABILITY_VALUES_WATER'', Num, DefaultNum 1344),
     (''SUSTAINABILITY_VALUES_ENERGY'', Num, DefaultNum 108),
     (''SUSTAINABILITY_VALUES_MESH'', Num, DefaultNum 12),
     (''SUSTAINABILITY_VALUES_CO2'', Num, DefaultNum 27),
     (''SAVINGS_REPORT_PATH'', Str [], DefaultStr ''/rolls/rollDetail''),
     (''UPDATE_STOPS_JOB_CRON_EXPRESSION'', Str [], DefaultStr ''0 0 22 ? * *''),
     (''NOTION_CLIENT_COMPLAINT_TOKEN'', Str [], DefaultUndefined),
     (''NOTION_CLIENT_COMPLAINT_DATABSE'', Str [], DefaultUndefined),
     (''UPDATE_DEFECT_LABEL_FOR_STOPS_INTERVAL'', Num, DefaultNum 1),
     (''SENDGRID_API_KEY'', Str [], NoDefault), (''TWILIO_ACCOUNT_SID'', Str [], NoDefault),
     (''TWILIO_AUTH_TOKEN'', Str [], NoDefault), (''TWILIO_PHONE_NUMBER'', Str [], NoDefault),
     (''STRIPE_PUBLISHABLE_KEY'', Str [], NoDefault), (''STRIPE_SECRET_KEY'', Str [], NoDefault),
     (''STRIPE_WEBHOOK_ENDPOINT_SECRET'', Str [], NoDefault),
     (''STRIPE_AUTH_URL'', Str [], NoDefault), (''STRIPE_CLIENT_ID'', Str [], NoDefault),
     (''FIREBASE_TYPE'', Str [], NoDefault), (''FIREBASE_PROJECT_ID'', Str [], NoDefault),
     (''FIREBASE_PRIVATE_KEY_ID'', Str [], NoDefault),
     (''FIREBASE_PRIVATE_KEY'', Str [], NoDefault), (''FIREBASE_CLIENT_EMAIL'', Str [], NoDefault),
     (''FIREBASE_CLIENT_ID'', Str [], NoDefault), (''FIREBASE_AUTH_URI'', Str [], NoDefault),
     (''FIREBASE_TOKEN_URI'', Str [], NoDefault),
     (''FIREBASE_AUTH_PROVIDER_X509_CERT_URL'', Str [], NoDefault),
     (''FIREBASE_CLIENT_X509_CERT_URL'', Str [], NoDefault)]"

section \<open>What the code relies on in envalid\<close>

text \<open>
  A validator of this file is applied as it is defined; the others belong to envalid. Numbers are
  the whole ones.
\<close>

fun check :: "natives \<Rightarrow> (validator \<Rightarrow> string \<Rightarrow> env_error + env_value) \<Rightarrow> validator \<Rightarrow> string
    \<Rightarrow> env_error + env_value" where
  "check js builtin Origins x = map_sum id EOrigins (origins js x)"
| "check js builtin HexKey x = map_sum id EStr (strHex64 x)"
| "check js builtin AwsRegion x = map_sum id EStr (awsRegion x)"
| "check js builtin v x = builtin v x"

fun default_value :: "env_default \<Rightarrow> env_value option" where
  "default_value NoDefault = None"
| "default_value DefaultUndefined = Some EUndefined"
| "default_value (DefaultStr s) = Some (EStr s)"
| "default_value (DefaultNum n) = Some (ENum n)"

text \<open>
  \<open>cleanEnv\<close> ends the process unless every variable that is set passes its validator and every
  other one has a default; \<open>str\<close> accepts the texts that are among its choices, \<open>num\<close> and
  \<open>port\<close> give numbers, \<open>url\<close>, \<open>host\<close> and \<open>email\<close> give the text back.
\<close>

locale envalid =
  fixes js :: natives
    and builtin :: "validator \<Rightarrow> string \<Rightarrow> env_error + env_value"
    and cleanEnv :: "(string \<Rightarrow> string option) \<Rightarrow> env_spec \<Rightarrow> (string \<Rightarrow> env_value) option"
  assumes cleaned:
      "distinct (map fst spec) \<Longrightarrow> cleanEnv raw spec = Some vals \<Longrightarrow> (k, v, d) \<in> set spec \<Longrightarrow>
         (case raw k of Some x \<Rightarrow> check js builtin v x = Inr (vals k)
          | None \<Rightarrow> default_value d = Some (vals k))"
    and str_choice: "builtin (Str cs) x = Inr y \<Longrightarrow> y = EStr x \<and> (cs = [] \<or> x \<in> set cs)"
    and number: "builtin Num x = Inr y \<Longrightarrow> \<exists>n. y = ENum n"
    and port_number: "builtin Port x = Inr y \<Longrightarrow> \<exists>n. y = ENum n \<and> 1 \<le> n \<and> n \<le> 65535"
    and text_back: "v \<in> {Url, Host, Email} \<Longrightarrow> builtin v x = Inr y \<Longrightarrow> y = EStr x"

text \<open>The values of a declared type, and when a validator with its default produces only these.\<close>

fun has_type :: "ts_type \<Rightarrow> env_value \<Rightarrow> bool" where
  "has_type TString (EStr s) = True"
| "has_type TNumber (ENum n) = True"
| "has_type TOrigins (EOrigins os) = True"
| "has_type TStringOrUndefined (EStr s) = True"
| "has_type TStringOrUndefined EUndefined = True"
| "has_type t v = False"

fun type_of :: "validator \<Rightarrow> ts_type" where
  "type_of Num = TNumber"
| "type_of Port = TNumber"
| "type_of Origins = TOrigins"
| "type_of v = TString"

definition produces :: "validator \<Rightarrow> ts_type \<Rightarrow> bool" where
  "produces v t \<longleftrightarrow> type_of v = t \<or> (type_of v = TString \<and> t = TStringOrUndefined)"

definition default_fits :: "env_default \<Rightarrow> ts_type \<Rightarrow> bool" where
  "default_fits d t \<longleftrightarrow> (case default_value d of None \<Rightarrow> True | Some x \<Rightarrow> has_type t x)"

context envalid
begin

lemma check_type:
  assumes "check js builtin v x = Inr y"
  shows "has_type (type_of v) y"
proof (cases v)
  case (Str cs)
  with assms str_choice show ?thesis by fastforce
next
  case Num
  with assms number show ?thesis by fastforce
next
  case Port
  with assms port_number show ?thesis by fastforce
next
  case Url
  with assms text_back [of Url] show ?thesis by fastforce
next
  case Host
  with assms text_back [of Host] show ?thesis by fastforce
next
  case Email
  with assms text_back [of Email] show ?thesis by fastforce
next
  case Origins
  with assms show ?thesis by (cases "origins js x") auto
next
  case HexKey
  with assms show ?thesis by (cases "strHex64 x") auto
next
  case AwsRegion
  with assms show ?thesis by (cases "awsRegion x") auto
qed

lemma cleaned_type:
  assumes "distinct (map fst spec)" and "cleanEnv raw spec = Some vals" and "(k, v, d) \<in> set spec"
    and "produces v t" and "default_fits d t"
  shows "has_type t (vals k)"
proof (cases "raw k")
  case None
  with cleaned [OF assms(1-3)] assms(5) show ?thesis by (simp add: default_fits_def)
next
  case (Some x)
  with cleaned [OF assms(1-3)] have "has_type (type_of v) (vals k)" by (auto intro: check_type)
  with assms(4) show ?thesis by (cases "vals k") (auto simp: produces_def)
qed

lemma cleaned_undefined:
  assumes "distinct (map fst spec)" and "cleanEnv raw spec = Some vals" and "(k, v, d) \<in> set spec"
    and "produces v t" and "d = DefaultUndefined"
  shows "has_type t (vals k) \<or> (raw k = None \<and> vals k = EUndefined)"
proof (cases "raw k")
  case None
  with cleaned [OF assms(1-3)] assms(5) show ?thesis by simp
next
  case (Some x)
  with cleaned [OF assms(1-3)] have "has_type (type_of v) (vals k)" by (auto intro: check_type)
  with assms(4) show ?thesis by (cases "vals k") (auto simp: produces_def)
qed

end

section \<open>The table against the type\<close>

text \<open>The variables that may be undefined although their type does not say so.\<close>

definition undeclared_undefined :: "string list" where
  "undeclared_undefined =
     [''WHITELIST_ORIGINS'', ''GMAIL_CLIENT_ID'', ''GMAIL_CLIENT_SECRET'', ''GMAIL_REFRESH_TOKEN'']"

definition row_fits :: "string \<times> ts_type \<Rightarrow> string \<times> validator \<times> env_default \<Rightarrow> bool" where
  "row_fits r e = (case (r, e) of ((k, t), (k', v, d)) \<Rightarrow>
     k = k' \<and> produces v t
     \<and> (if k \<in> set undeclared_undefined then d = DefaultUndefined else default_fits d t))"

text \<open>Both list the variables in the same order, but for one.\<close>

abbreviation moved :: string where
  "moved \<equiv> ''GMAIL_PASSWORD''"

lemma rows_fit:
  "list_all2 row_fits (filter (\<lambda>r. fst r \<noteq> moved) Env_type) (filter (\<lambda>e. fst e \<noteq> moved) environment)"
  by code_simp

lemma moved_rows:
  "filter (\<lambda>r. fst r = moved) Env_type = [(moved, TString)]"
  "filter (\<lambda>e. fst e = moved) environment = [(moved, Str [], NoDefault)]"
  by code_simp+

lemma environment_distinct: "distinct (map fst environment)"
  unfolding environment_def
  by (simp only: list.map fst_conv distinct.simps list.set(1) list.set(2) insert_iff empty_iff,
      simp only: list.inject simp_thms char.inject list.distinct)

lemma env_row:
  assumes "(k, t) \<in> set Env_type"
  shows "\<exists>v d. (k, v, d) \<in> set environment \<and> row_fits (k, t) (k, v, d)"
proof (cases "k = moved")
  case True
  with assms have "(k, t) \<in> set (filter (\<lambda>r. fst r = moved) Env_type)" by simp
  then have t: "t = TString" by (simp add: moved_rows)
  have "(moved, Str [], NoDefault) \<in> set (filter (\<lambda>e. fst e = moved) environment)" by (simp add: moved_rows)
  then have "(k, Str [], NoDefault) \<in> set environment" using True by simp
  then show ?thesis using True t
    by (intro exI [of _ "Str []"] exI [of _ NoDefault])
       (simp add: row_fits_def produces_def default_fits_def undeclared_undefined_def)
next
  case False
  with assms have "(k, t) \<in> set (filter (\<lambda>r. fst r \<noteq> moved) Env_type)" by simp
  then obtain i where i: "i < length (filter (\<lambda>r. fst r \<noteq> moved) Env_type)"
    "filter (\<lambda>r. fst r \<noteq> moved) Env_type ! i = (k, t)" by (metis in_set_conv_nth)
  let ?e = "filter (\<lambda>e. fst e \<noteq> moved) environment ! i"
  from rows_fit i have f: "row_fits (k, t) ?e" by (auto dest: list_all2_nthD)
  from list_all2_lengthD [OF rows_fit] i(1) have "?e \<in> set (filter (\<lambda>e. fst e \<noteq> moved) environment)"
    by (intro nth_mem) simp
  moreover obtain k' v d where e: "?e = (k', v, d)" by (cases ?e)
  moreover have "k' = k" using f unfolding e by (simp add: row_fits_def)
  ultimately show ?thesis using f by auto
qed

lemma rows_same_keys: "list_all2 row_fits xs ys \<Longrightarrow> map fst xs = map fst ys"
  by (induction rule: list_all2_induct) (auto simp: row_fits_def)

lemma keys_split:
  assumes "filter (\<lambda>x. fst x = m) xs = [(m, y)]"
  shows "fst ` set xs = insert m (set (map fst (filter (\<lambda>x. fst x \<noteq> m) xs)))"
proof -
  have "(m, y) \<in> set (filter (\<lambda>x. fst x = m) xs)" using assms by simp
  then have "(m, y) \<in> set xs" by simp
  then show ?thesis by force
qed

lemma same_variables: "fst ` set Env_type = fst ` set environment"
  by (simp only: keys_split [OF moved_rows(1)] keys_split [OF moved_rows(2)] rows_same_keys [OF rows_fit])

section \<open>A reference\<close>

text \<open>
  An implementation of \<open>cleanEnv\<close> with the documented behaviour, for the concrete inputs below.
\<close>

fun ref_builtin :: "validator \<Rightarrow> string \<Rightarrow> env_error + env_value" where
  "ref_builtin (Str cs) x = (if cs = [] \<or> x \<in> set cs then Inr (EStr x) else Inl NativeError)"
| "ref_builtin Num x = (if list_all is_digit x then Inr (ENum (int (read_nat x))) else Inl NativeError)"
| "ref_builtin Port x =
     (if list_all is_digit x \<and> 1 \<le> read_nat x \<and> read_nat x \<le> 65535
      then Inr (ENum (int (read_nat x))) else Inl NativeError)"
| "ref_builtin v x = Inr (EStr x)"

definition resolved ::
    "natives \<Rightarrow> (string \<Rightarrow> string option) \<Rightarrow> string \<times> validator \<times> env_default \<Rightarrow> env_value option" where
  "resolved js raw r = (case r of (k, v, d) \<Rightarrow>
     (case raw k of
        Some x \<Rightarrow> (case check js ref_builtin v x of Inl e \<Rightarrow> None | Inr y \<Rightarrow> Some y)
      | None \<Rightarrow> default_value d))"

definition ref_cleanEnv ::
    "natives \<Rightarrow> (string \<Rightarrow> string option) \<Rightarrow> env_spec \<Rightarrow> (string \<Rightarrow> env_value) option" where
  "ref_cleanEnv js raw spec =
     (if list_all (\<lambda>r. resolved js raw r \<noteq> None) spec
      then Some (\<lambda>k. case map_of spec k of
                        None \<Rightarrow> EUndefined
                      | Some (v, d) \<Rightarrow> (case resolved js raw (k, v, d) of Some x \<Rightarrow> x | None \<Rightarrow> EUndefined))
      else None)"

interpretation ref_envalid: envalid js ref_builtin "ref_cleanEnv js" for js
proof unfold_locales
  fix spec raw vals k v d
  assume s: "distinct (map fst spec)" "ref_cleanEnv js raw spec = Some vals" "(k, v, d) \<in> set spec"
  from s(1,3) have m: "map_of spec k = Some (v, d)" by simp
  from s(2,3) have "resolved js raw (k, v, d) \<noteq> None"
    by (auto simp: ref_cleanEnv_def list_all_iff split: if_split_asm)
  then obtain x where x: "resolved js raw (k, v, d) = Some x" by blast
  from s(2) have "vals k = x" by (auto simp: ref_cleanEnv_def m x split: if_split_asm)
  with x show "case raw k of Some x \<Rightarrow> check js ref_builtin v x = Inr (vals k)
      | None \<Rightarrow> default_value d = Some (vals k)"
    by (auto simp: resolved_def split: option.splits sum.splits)
qed (auto split: if_split_asm)

text \<open>An environment that sets just the variables without a default.\<close>

definition demo_natives :: natives where
  "demo_natives = \<lparr>JSON_parse = (\<lambda>x. Some (JArr [])), URL_origin = Some, RegExp_ok = (\<lambda>x. True)\<rparr>"

fun sample :: "validator \<Rightarrow> string" where
  "sample (Str cs) = (if cs = [] then ''x'' else hd cs)"
| "sample Num = ''7''"
| "sample Port = ''80''"
| "sample HexKey = replicate 64 CHR ''0''"
| "sample AwsRegion = ''eu-west-1''"
| "sample v = ''x''"

definition demo_raw :: "string \<Rightarrow> string option" where
  "demo_raw k = (case map_of environment k of Some (v, NoDefault) \<Rightarrow> Some (sample v) | _ \<Rightarrow> None)"

lemma sample_accepted: "\<exists>y. check demo_natives ref_builtin v (sample v) = Inr y"
  by (cases v)
     (auto simp: demo_natives_def origins_def strHex64_def lower_hex_def awsRegion_def AWS_REGIONS_def
        read_nat_def is_digit_def list_all_iff)

lemma demo_starts: "\<exists>vals. ref_cleanEnv demo_natives demo_raw environment = Some vals"
proof -
  have "resolved demo_natives demo_raw (k, v, d) \<noteq> None" if "(k, v, d) \<in> set environment" for k v d
  proof -
    have m: "map_of environment k = Some (v, d)" using environment_distinct that by simp
    show ?thesis
    proof (cases d)
      case NoDefault
      with m sample_accepted [of v] show ?thesis by (auto simp: resolved_def demo_raw_def)
    qed (simp_all add: resolved_def demo_raw_def m)
  qed
  then show ?thesis by (auto simp: ref_cleanEnv_def list_all_iff)
qed

section \<open>Properties\<close>

text \<open>
  C31. A process that starts has, for exactly the variables of the declared type, a value of that
  type, with four exceptions: the white list of origins and the three Gmail credentials are
  undefined when they are not set, although their types do not allow it.
\<close>

theorem env_has_declared_type:
  assumes "envalid js builtin cleanEnv" and "cleanEnv raw environment = Some vals"
  shows "fst ` set Env_type = fst ` set environment
     \<and> list_all (\<lambda>(k, t). has_type t (vals k)
          \<or> (k \<in> set undeclared_undefined \<and> raw k = None \<and> vals k = EUndefined)) Env_type"
proof -
  have "has_type t (vals k) \<or> (k \<in> set undeclared_undefined \<and> raw k = None \<and> vals k = EUndefined)"
    if row: "(k, t) \<in> set Env_type" for k t
  proof -
    from env_row [OF row] obtain v d where r: "(k, v, d) \<in> set environment" "row_fits (k, t) (k, v, d)"
      by blast
    show ?thesis
    proof (cases "k \<in> set undeclared_undefined")
      case True
      with envalid.cleaned_undefined [OF assms(1) environment_distinct assms(2) r(1)] r(2)
      show ?thesis by (simp add: row_fits_def)
    next
      case False
      with envalid.cleaned_type [OF assms(1) environment_distinct assms(2) r(1)] r(2)
      show ?thesis by (simp add: row_fits_def)
    qed
  qed
  with same_variables show ?thesis by (auto simp: list_all_iff)
qed

lemma env_has_declared_type_witness:
  "\<exists>vals. ref_cleanEnv demo_natives demo_raw environment = Some vals \<and> has_type TNumber (vals ''PORT'')"
proof -
  obtain vals where v: "ref_cleanEnv demo_natives demo_raw environment = Some vals" using demo_starts by blast
  have "(''PORT'', TNumber) \<in> set Env_type" "''PORT'' \<notin> set undeclared_undefined"
    by (simp_all add: Env_type_def undeclared_undefined_def)
  with env_has_declared_type [OF ref_envalid.envalid_axioms v] v show ?thesis
    unfolding list_all_iff by blast
qed










end
