(* ===== verification/Paths.thy ===== *)
theory Paths
  imports Strings
begin

text \<open>
  What the code uses of node's \<open>path\<close> on POSIX: \<open>join\<close> and \<open>resolve\<close>, which both drop empty and
  single-dot segments and let a double dot take back the segment before it.
\<close>

section \<open>join and resolve\<close>

text \<open>The segments that are kept, the last one first; above the root there is nothing to take back.\<close>

fun collapse :: "bool \<Rightarrow> string list \<Rightarrow> string list \<Rightarrow> string list" where
  "collapse absolute acc [] = rev acc"
| "collapse absolute acc (s # ss) =
     (if s = [] \<or> s = ''.'' then collapse absolute acc ss
      else if s = ''..'' then
        (case acc of
           [] \<Rightarrow> collapse absolute (if absolute then [] else [''..'']) ss
         | t # ts \<Rightarrow> if t = ''..'' then collapse absolute (''..'' # acc) ss else collapse absolute ts ss)
      else collapse absolute (s # acc) ss)"

definition is_absolute :: "string \<Rightarrow> bool" where
  "is_absolute p \<longleftrightarrow> is_prefix ''/'' p"

definition path_normalize :: "string \<Rightarrow> string" where
  "path_normalize p =
     (let trailing = (p \<noteq> [] \<and> last p = CHR ''/'');
          body = js_join ''/'' (collapse (is_absolute p) [] (js_split CHR ''/'' p))
      in if p = [] then ''.''
         else if body = [] then (if is_absolute p then ''/'' else if trailing then ''./'' else ''.'')
         else (if is_absolute p then ''/'' else []) @ body @ (if trailing then ''/'' else []))"

definition path_join :: "string list \<Rightarrow> string" where
  "path_join parts =
     (let ps = filter (\<lambda>p. p \<noteq> []) parts in
      if ps = [] then ''.'' else path_normalize (js_join ''/'' ps))"

text \<open>\<open>resolve\<close> starts from the last absolute part, or else from the working directory.\<close>

definition path_resolve :: "string \<Rightarrow> string list \<Rightarrow> string" where
  "path_resolve cwd parts =
     (let ps = fold (\<lambda>p acc. if is_absolute p then [p] else acc @ [p]) (filter (\<lambda>p. p \<noteq> []) parts) [cwd]
      in CHR ''/'' # js_join ''/'' (collapse True [] (js_split CHR ''/'' (js_join ''/'' ps))))"

section \<open>What they give\<close>

text \<open>A proper name of a file or directory.\<close>

definition proper :: "string \<Rightarrow> bool" where
  "proper s \<longleftrightarrow> s \<noteq> [] \<and> s \<noteq> ''.'' \<and> s \<noteq> ''..'' \<and> CHR ''/'' \<notin> set s"

lemma collapse_append: "collapse a acc (xs @ ys) = collapse a (rev (collapse a acc xs)) ys"
  by (induction a acc xs rule: collapse.induct) (auto split: list.split)

lemma collapse_proper: "list_all proper xs \<Longrightarrow> collapse a acc xs = rev acc @ xs"
  by (induction xs arbitrary: acc) (auto simp: proper_def)

lemma collapse_True_proper:
  "list_all (\<lambda>s. CHR ''/'' \<notin> set s) xs \<Longrightarrow> list_all proper acc \<Longrightarrow> list_all proper (collapse True acc xs)"
proof (induction xs arbitrary: acc)
  case (Cons x xs)
  show ?case
  proof (cases acc)
    case Nil
    with Cons show ?thesis by (auto simp: proper_def)
  next
    case (Cons t ts)
    with Cons.IH Cons.prems show ?thesis by (auto simp: proper_def)
  qed
qed simp

text \<open>A path that \<open>resolve\<close> gives: the root with proper names below it.\<close>

definition resolved_path :: "string \<Rightarrow> bool" where
  "resolved_path p \<longleftrightarrow> (\<exists>ss. p = CHR ''/'' # js_join ''/'' ss \<and> list_all proper ss)"

lemma path_resolve_resolved: "resolved_path (path_resolve cwd parts)"
proof -
  have "list_all proper (collapse True [] (js_split CHR ''/'' s))" for s
    by (rule collapse_True_proper) (auto simp: list_all_iff dest: js_split_pieces)
  then show ?thesis unfolding resolved_path_def path_resolve_def Let_def by blast
qed

lemma split_resolved: "list_all proper ss \<Longrightarrow> ss \<noteq> [] \<Longrightarrow> js_split CHR ''/'' (js_join ''/'' ss) = ss"
  by (rule js_split_join) (auto simp: proper_def list_all_iff)

lemma path_resolve_below:
  assumes "resolved_path p" and "proper name"
  shows "path_resolve cwd [p, name] = (if p = ''/'' then [] else p) @ ''/'' @ name"
proof -
  obtain ss where ss: "p = CHR ''/'' # js_join ''/'' ss" "list_all proper ss"
    using assms(1) by (auto simp: resolved_path_def)
  have n: "name \<noteq> []" "\<not> is_absolute name" "js_split CHR ''/'' name = [name]"
    using assms(2) by (cases name; auto simp: proper_def is_absolute_def js_split_no_sep)+
  have a: "is_absolute p" "p \<noteq> []" using ss(1) by (simp_all add: is_absolute_def)
  have "collapse True [] (js_split CHR ''/'' (p @ CHR ''/'' # name)) = ss @ [name]"
  proof (cases "ss = []")
    case True
    with ss(1) n(3) assms(2) show ?thesis by (simp add: collapse_proper proper_def)
  next
    case False
    have "js_split CHR ''/'' (p @ CHR ''/'' # name) = [] # ss @ [name]"
      unfolding js_split_sep n(3) using ss False by (simp add: split_resolved)
    with ss(2) assms(2) show ?thesis by (simp add: collapse_proper)
  qed
  moreover have "js_join ''/'' (ss @ [name]) = (if ss = [] then [] else js_join ''/'' ss @ ''/'') @ name"
    by (induction ss rule: induct_list012) auto
  moreover have "p = ''/'' \<longleftrightarrow> ss = []"
  proof
    assume "p = ''/''"
    with ss(1) have "js_join ''/'' ss = []" by simp
    with ss(2) show "ss = []" by (cases ss rule: remdups_adj.cases) (auto simp: proper_def)
  qed (simp add: ss(1))
  ultimately show ?thesis using a n ss(1) by (simp add: path_resolve_def Let_def)
qed

lemma path_join_examples:
  "path_join [''/srv/dist/utils'', ''..'', ''..'', ''views'', ''report.ejs''] = ''/srv/views/report.ejs''"
  "path_join [''a'', ''../..'', ''b/''] = ''../b/''"
  "path_join [''/srv/reports'', ''../../etc/passwd''] = ''/etc/passwd''"
  by code_simp+

end
