(* ===== verification/Upload.thy ===== *)
theory Upload
  imports Complex_Main Errors Constants Paths "HOL-Library.Word"
begin

unbundle bit_operations_syntax

text \<open>
  src/config/upload.ts, src/middleware/upload.ts, src/service/random.ts and src/utils/random.ts:
  which files are accepted, under which names they are stored, and the random names these use.
  The bytes come from \<open>crypto\<close> and are arguments; \<open>slug\<close> is a parameter.
\<close>

section \<open>src/service/random.ts and src/utils/random.ts\<close>

definition hex_digit :: "nat \<Rightarrow> char" where
  "hex_digit n = ''0123456789abcdef'' ! n"

text \<open>\<open>Buffer.toString('hex')\<close>.\<close>

definition hex :: "8 word list \<Rightarrow> string" where
  "hex bs = concat (map (\<lambda>b. [hex_digit (unat (drop_bit 4 b)), hex_digit (unat (b AND 15))]) bs)"

definition generateRandomHex :: "(nat \<Rightarrow> 8 word list) \<Rightarrow> nat \<Rightarrow> string" where
  "generateRandomHex randomBytes n = hex (randomBytes n)"

definition generateKey :: "(nat \<Rightarrow> 8 word list) \<Rightarrow> nat option \<Rightarrow> string" where
  "generateKey randomFill n = hex (randomFill (case n of None \<Rightarrow> 16 | Some k \<Rightarrow> k))"

text \<open>\<open>r\<close> is what \<open>Math.random\<close> returned; products and sums are exact.\<close>

definition createOtp :: "rat \<Rightarrow> int" where
  "createOtp r = \<lfloor>1000 + r * 9000\<rfloor>"

section \<open>Names of files: what node's path gives\<close>

definition basename :: "string \<Rightarrow> string" where
  "basename path = (case filter (\<lambda>p. p \<noteq> []) (js_split CHR ''/'' path) of [] \<Rightarrow> [] | ps \<Rightarrow> last ps)"

text \<open>The name and the extension of a file: cut at the last dot, unless nothing stands before it.\<close>

definition name_ext :: "string \<Rightarrow> string \<times> string" where
  "name_ext base =
     (let e = takeWhile (\<lambda>c. c \<noteq> CHR ''.'') (rev base);
          rest = dropWhile (\<lambda>c. c \<noteq> CHR ''.'') (rev base)
      in if rest = [] \<or> tl rest = [] \<or> base = ''..'' then (base, [])
         else (rev (tl rest), CHR ''.'' # rev e))"

definition parsed_name :: "string \<Rightarrow> string" where
  "parsed_name path = fst (name_ext (basename path))"

definition extname :: "string \<Rightarrow> string" where
  "extname path = snd (name_ext (basename path))"

section \<open>src/config/upload.ts\<close>

record upload_file =
  fl_originalname :: string
  fl_mimetype :: string
  fl_fieldname :: string

text \<open>A pattern \<open>/a|b|c/\<close> without anchors matches wherever one of its words occurs.\<close>

definition any_of :: "string list \<Rightarrow> string \<Rightarrow> bool" where
  "any_of ws s \<longleftrightarrow> list_ex (\<lambda>w. js_includes w s) ws"

definition image_words :: "string list" where
  "image_words = [''jpeg'', ''jpg'', ''png'', ''gif'', ''pdf'', ''zip'']"

definition imageFileFilter :: "upload_file \<Rightarrow> exn + bool" where
  "imageFileFilter f =
     (let extName = any_of image_words (map to_lower (extname (fl_originalname f)));
          mimeType = any_of image_words (fl_mimetype f)
      in if mimeType \<and> extName then Inr True
         else Inl (OtherExn ''Error'' (Val ''Error: Images Only!'')))"

definition apkFileFilter :: "upload_file \<Rightarrow> exn + bool" where
  "apkFileFilter f =
     (let extName = any_of [''ex4'', ''dll''] (map to_lower (extname (fl_originalname f)));
          mimeType = any_of [''application/octet-stream'', ''application/x-msdownload''] (fl_mimetype f)
      in if mimeType \<and> extName then Inr True
         else Inl (OtherExn ''Error'' (Val ''Error: APK Only!'')))"

definition MAX_IMAGE_FILE_SIZE :: "int \<Rightarrow> int" where
  "MAX_IMAGE_FILE_SIZE MAX_FILE_SIZE_IN_MB = MAX_FILE_SIZE_IN_MB * 1024 * 1024"

definition MAX_APK_FILE_SIZE :: "int \<Rightarrow> int" where
  "MAX_APK_FILE_SIZE MAX_APK_FILE_SIZE_IN_MB = MAX_APK_FILE_SIZE_IN_MB * 1024 * 1024"

definition mediaFolder :: "string \<Rightarrow> string \<Rightarrow> string \<Rightarrow> string" where
  "mediaFolder cwd dirname MEDIA_FOLDER = path_resolve cwd [dirname, ''..'', ''..'', MEDIA_FOLDER]"

definition reportFolder :: "string \<Rightarrow> string \<Rightarrow> string \<Rightarrow> string" where
  "reportFolder cwd dirname REPORT_FOLDER = path_resolve cwd [dirname, ''..'', ''..'', REPORT_FOLDER]"

text \<open>The folder is absolute, so the working directory does not matter.\<close>

definition getMediaPath :: "string \<Rightarrow> media \<Rightarrow> string" where
  "getMediaPath folder m = path_resolve ''/'' [folder, Media m]"

definition getRelativePath :: "media \<Rightarrow> string \<Rightarrow> string" where
  "getRelativePath m filename = path_join [Media m, filename]"

lemma getMediaPath_below:
  "getMediaPath (mediaFolder cwd dirname F) m =
     (if mediaFolder cwd dirname F = ''/'' then [] else mediaFolder cwd dirname F) @ ''/'' @ Media m"
  unfolding getMediaPath_def
proof (rule path_resolve_below)
  show "resolved_path (mediaFolder cwd dirname F)" unfolding mediaFolder_def by (rule path_resolve_resolved)
  show "proper (Media m)" by (cases m) (simp_all add: proper_def enum_strings)
qed

text \<open>\<open>random\<close> is the source of bytes at the time of the call.\<close>

definition stored_name :: "(string \<Rightarrow> string) \<Rightarrow> (nat \<Rightarrow> 8 word list) \<Rightarrow> upload_file \<Rightarrow> string" where
  "stored_name slug random f =
     generateRandomHex random 10 @ ''-'' @ slug (parsed_name (fl_originalname f)) @ extname (fl_originalname f)"

record disk_storage =
  ds_destination :: string
  ds_filename :: "(nat \<Rightarrow> 8 word list) \<Rightarrow> upload_file \<Rightarrow> string"

definition storage :: "(string \<Rightarrow> string) \<Rightarrow> string \<Rightarrow> media \<Rightarrow> disk_storage" where
  "storage slug folder mediaType =
     \<lparr>ds_destination = getMediaPath folder mediaType, ds_filename = stored_name slug\<rparr>"

record s3_storage =
  ss_bucket :: string
  ss_acl :: string
  ss_metadata :: "upload_file \<Rightarrow> (string \<times> string) list"
  ss_key :: "(nat \<Rightarrow> 8 word list) \<Rightarrow> upload_file \<Rightarrow> string"

definition s3Storage :: "(string \<Rightarrow> string) \<Rightarrow> string \<Rightarrow> media \<Rightarrow> s3_storage" where
  "s3Storage slug S3_USER_MEDIA_BUCKET mediaType =
     \<lparr>ss_bucket = or_else (Val ''gems-fx'') S3_USER_MEDIA_BUCKET, ss_acl = ''public-read'',
      ss_metadata = (\<lambda>f. [(''fieldName'', fl_fieldname f)]),
      ss_key = (\<lambda>random f. Media mediaType @ ''/'' @ stored_name slug random f)\<rparr>"

section \<open>src/middleware/upload.ts\<close>

text \<open>What \<open>multer\<close> is called with: the storage, the limit on the size and the filter.\<close>

record 'storage multer =
  mu_storage :: 'storage
  mu_fileSize :: "int option"
  mu_filter :: "upload_file \<Rightarrow> exn + bool"

definition upload :: "(string \<Rightarrow> string) \<Rightarrow> string \<Rightarrow> int \<Rightarrow> media \<Rightarrow> disk_storage multer" where
  "upload slug folder mb m =
     \<lparr>mu_storage = storage slug folder m, mu_fileSize = Some (MAX_IMAGE_FILE_SIZE mb),
      mu_filter = imageFileFilter\<rparr>"

definition uploadS3 :: "(string \<Rightarrow> string) \<Rightarrow> string \<Rightarrow> int \<Rightarrow> media \<Rightarrow> s3_storage multer" where
  "uploadS3 slug bucket mb m =
     \<lparr>mu_storage = s3Storage slug bucket m, mu_fileSize = Some (MAX_IMAGE_FILE_SIZE mb),
      mu_filter = imageFileFilter\<rparr>"

definition uploadAPKS3 :: "(string \<Rightarrow> string) \<Rightarrow> string \<Rightarrow> media \<Rightarrow> s3_storage multer" where
  "uploadAPKS3 slug bucket m =
     \<lparr>mu_storage = s3Storage slug bucket m, mu_fileSize = None, mu_filter = apkFileFilter\<rparr>"

section \<open>Random names\<close>

lemma byte_halves: "unat (drop_bit 4 (b :: 8 word)) < 16" "unat (b AND 15) < 16"
proof -
  have "take_bit 8 (unat b) < 2 ^ 8" by (rule take_bit_nat_less_exp)
  then show "unat (drop_bit 4 b) < 16"
    by (simp only: unsigned_drop_bit_eq) (simp add: drop_bit_eq_div less_mult_imp_div_less)
  have "b AND 15 = take_bit 4 b" by (simp add: take_bit_eq_mask mask_eq_exp_minus_1)
  then have "unat (b AND 15) = take_bit 4 (unat b)" by (simp add: unsigned_take_bit_eq)
  then show "unat (b AND 15) < 16" by (simp add: take_bit_eq_mod)
qed

lemma byte_of_halves: "(b :: 8 word) = c \<longleftrightarrow> drop_bit 4 b = drop_bit 4 c \<and> b AND 15 = c AND 15"
proof
  assume h: "drop_bit 4 b = drop_bit 4 c \<and> b AND 15 = c AND 15"
  have t: "x AND 15 = take_bit 4 x" for x :: "8 word" by (simp add: take_bit_eq_mask mask_eq_exp_minus_1)
  have "push_bit 4 (drop_bit 4 x) + take_bit 4 x = x" for x :: "8 word" by (rule bits_ident)
  with h t show "b = c" by metis
qed simp

lemma hex_digit_inj: "m < 16 \<Longrightarrow> n < 16 \<Longrightarrow> hex_digit m = hex_digit n \<longleftrightarrow> m = n"
  unfolding hex_digit_def by (rule nth_eq_iff_index_eq) simp_all

lemma hex_digit_hex: "n < 16 \<Longrightarrow> hex_digit n \<in> set ''0123456789abcdef''"
  unfolding hex_digit_def by (rule nth_mem) simp

definition hex_text :: "string \<Rightarrow> bool" where
  "hex_text s \<longleftrightarrow> list_all (\<lambda>c. c \<in> set ''0123456789abcdef'') s"

lemma hex_length: "length (hex bs) = 2 * length bs"
  by (induction bs) (simp_all add: hex_def)

lemma hex_digits: "hex_text (hex bs)"
  using hex_digit_hex byte_halves by (induction bs) (simp_all add: hex_text_def hex_def del: set_simps)

lemma hex_inj: "hex bs = hex cs \<longleftrightarrow> bs = cs"
proof (induction bs arbitrary: cs)
  case Nil
  then show ?case by (cases cs) (simp_all add: hex_def)
next
  case (Cons b bs)
  show ?case
  proof (cases cs)
    case (Cons c cs')
    have "hex (b # bs) = hex (c # cs') \<longleftrightarrow> b = c \<and> hex bs = hex cs'"
      using byte_halves [of b] byte_halves [of c] byte_of_halves [of b c]
      by (simp add: hex_def hex_digit_inj word_unat_eq_iff)
    with Cons Cons.IH show ?thesis by simp
  qed (simp add: hex_def)
qed

lemma createOtp_range: "0 \<le> r \<Longrightarrow> r < 1 \<Longrightarrow> 1000 \<le> createOtp r \<and> createOtp r \<le> 9999"
  unfolding createOtp_def by linarith

section \<open>Stored names\<close>

lemma basename_no_slash: "CHR ''/'' \<notin> set (basename p)"
proof -
  let ?ps = "filter (\<lambda>p. p \<noteq> []) (js_split CHR ''/'' p)"
  have all: "CHR ''/'' \<notin> set q" if "q \<in> set ?ps" for q using that js_split_pieces by fastforce
  show ?thesis
  proof (cases "?ps = []")
    case False
    then have "basename p = last ?ps" by (cases ?ps) (simp_all add: basename_def)
    with all [OF last_in_set [OF False]] show ?thesis by simp
  qed (simp add: basename_def)
qed

lemma name_ext_parts: "fst (name_ext b) @ snd (name_ext b) = b"
proof -
  have "rev b = takeWhile (\<lambda>c. c \<noteq> CHR ''.'') (rev b) @ dropWhile (\<lambda>c. c \<noteq> CHR ''.'') (rev b)" by simp
  moreover have "dropWhile (\<lambda>c. c \<noteq> CHR ''.'') (rev b) = r # rs \<Longrightarrow> r = CHR ''.''" for r rs
    by (simp add: dropWhile_eq_Cons_conv)
  ultimately show ?thesis
    by (cases "dropWhile (\<lambda>c. c \<noteq> CHR ''.'') (rev b)")
       (auto simp: name_ext_def Let_def rev_swap)
qed

lemma ext_no_slash: "CHR ''/'' \<notin> set (extname p)"
  using name_ext_parts [of "basename p"] basename_no_slash [of p]
  by (metis Un_iff extname_def set_append)

lemma name_no_slash: "CHR ''/'' \<notin> set (parsed_name p)"
  using name_ext_parts [of "basename p"] basename_no_slash [of p]
  by (metis Un_iff parsed_name_def set_append)

lemma stored_name_parts:
  assumes "\<And>n. length (random n) = n" and "\<And>s. CHR ''/'' \<notin> set (slug s)"
  shows "CHR ''/'' \<notin> set (stored_name slug random f)"
    and "hex_text (take 20 (stored_name slug random f))"
    and "stored_name slug random f ! 20 = CHR ''-''"
    and "20 < length (stored_name slug random f)"
proof -
  have l: "length (hex (random 10)) = 20" by (simp add: hex_length assms(1))
  have "CHR ''/'' \<notin> set (hex (random 10))"
    using hex_digits [of "random 10"] by (auto simp: hex_text_def list_all_iff)
  then show "CHR ''/'' \<notin> set (stored_name slug random f)"
    using assms(2) ext_no_slash by (simp add: stored_name_def generateRandomHex_def)
  show "hex_text (take 20 (stored_name slug random f))"
    using l hex_digits by (simp add: stored_name_def generateRandomHex_def)
  show "stored_name slug random f ! 20 = CHR ''-''" "20 < length (stored_name slug random f)"
    using l by (simp_all add: stored_name_def generateRandomHex_def nth_append)
qed

section \<open>Properties\<close>

text \<open>
  C33. Whatever name a client gives its file, it is stored under a key in the folder of its medium
  and nowhere below or above it: one segment that begins with twenty hexadecimal digits and a
  hyphen; two uploads that drew different bytes never share a key.
\<close>

theorem upload_keys_contained:
  assumes "\<And>n. length (random n) = n" and "\<And>s. CHR ''/'' \<notin> set (slug s)"
  shows "(\<exists>name. ss_key (mu_storage (uploadS3 slug bucket mb m)) random f = Media m @ ''/'' @ name
       \<and> CHR ''/'' \<notin> set name \<and> 20 < length name \<and> name ! 20 = CHR ''-''
       \<and> hex_text (take 20 name)
       \<and> ds_filename (mu_storage (upload slug folder mb m)) random f = name)
     \<and> (random 10 \<noteq> other 10 \<longrightarrow> length (other 10) = 10 \<longrightarrow>
          ss_key (mu_storage (uploadS3 slug bucket mb m)) random f
            \<noteq> ss_key (mu_storage (uploadS3 slug bucket mb m)) other g)"
proof -
  let ?name = "stored_name slug random f"
  have keys: "ss_key (mu_storage (uploadS3 slug bucket mb m)) r h = Media m @ ''/'' @ stored_name slug r h"
      "ds_filename (mu_storage (upload slug folder mb m)) r h = stored_name slug r h" for r h
    by (simp_all add: uploadS3_def upload_def s3Storage_def storage_def)
  have "stored_name slug random f \<noteq> stored_name slug other g" if "random 10 \<noteq> other 10" "length (other 10) = 10"
    using that hex_inj hex_length assms(1) unfolding stored_name_def generateRandomHex_def
    by (metis append_eq_append_conv)
  then show ?thesis unfolding keys using stored_name_parts [OF assms] by simp
qed

definition demo_file :: upload_file where
  "demo_file = \<lparr>fl_originalname = ''../../etc/me.png'', fl_mimetype = ''image/png'', fl_fieldname = ''image''\<rparr>"

lemma upload_keys_contained_witness:
  "ss_key (mu_storage (uploadS3 (\<lambda>s. ''me'') [] 1 MEDIA_USER)) (\<lambda>n. replicate n 7) demo_file
     \<noteq> ss_key (mu_storage (uploadS3 (\<lambda>s. ''me'') [] 1 MEDIA_USER)) (\<lambda>n. replicate n 8) demo_file"
proof -
  have "length ((\<lambda>n. replicate n (7 :: 8 word)) n) = n" "CHR ''/'' \<notin> set ((\<lambda>s :: string. ''me'') s)" for n and s :: string
    by simp_all
  from upload_keys_contained [where slug = "\<lambda>s. ''me''" and random = "\<lambda>n. replicate n 7"
      and other = "\<lambda>n. replicate n 8", OF this, THEN conjunct2, rule_format]
  show ?thesis by simp
qed

text \<open>The filter looks for its words anywhere in the extension and in the type the client names.\<close>

lemma filter_unanchored:
  "imageFileFilter \<lparr>fl_originalname = ''page.pngsvg'', fl_mimetype = ''text/html+zip'', fl_fieldname = ''image''\<rparr>
     = Inr True"
  by code_simp

end
