(* ===== verification/Response.thy ===== *)
theory Response
  imports Errors "HOL-Library.Multiset"
begin

















section \<open>What the code relies on in lodash\<close>






section \<open>Properties\<close>


section \<open>A reference\<close>







end
