(* ===== verification/Startup.thy ===== *)
theory Startup
  imports Errors ConnectionString
begin

text \<open>
  src/config (the connections), src/database/index.ts, src/database/seed, src/utils/test-utils.ts
  and src/server.ts: with what the server connects, how it starts and how it stops. TypeORM,
  express and the process are parameters; their answers are the events of a step relation.
\<close>

section \<open>src/config: the connections\<close>

record settings =
  st_isProd :: bool
  st_isTest :: bool
  MYSQL_CONNECTION :: string
  MYSQL_HOST :: string
  MYSQL_PORT :: int
  MYSQL_USER :: string
  MYSQL_PASSWORD :: string
  MYSQL_DB :: string
  POSTGRES_CONNECTION :: string
  POSTGRES_HOST :: string
  POSTGRES_PORT :: int
  POSTGRES_USER :: string
  POSTGRES_PASSWORD :: string
  POSTGRES_DB :: string
  MONGODB_CONNECTION :: string
  MONGODB_HOST :: string
  MONGODB_PORT :: int
  MONGODB_USERNAME :: string
  MONGODB_PASSWORD :: string
  MONGODB_DATABASE :: string
  REDIS_HOST :: string
  REDIS_PORT :: int
  CACHE_DURATION_IN_MS :: int

datatype logging = LogAll | LogNothing | LogOnly "string list"

record redis_cache =
  rc_type :: string
  rc_duration :: int
  rc_alwaysEnabled :: bool
  rc_host :: string
  rc_port :: int
  rc_ignoreErrors :: bool

record connection_options =
  co_name :: "string option"
  co_type :: string
  co_host :: string
  co_port :: int
  co_username :: string
  co_password :: string
  co_database :: string
  co_snakeNaming :: bool
  co_logging :: logging
  co_synchronize :: "bool option"
  co_dropSchema :: "bool option"
  co_migrationsTableName :: "string option"
  co_migrationsTransactionMode :: "string option"
  co_entities :: "string list"
  co_migrations :: "string list"
  co_subscribers :: "string list"
  co_cli :: "(string \<times> string) list"
  co_cache :: "redis_cache option"
  co_mongo :: "(string \<times> json) list"

definition baseFolder :: "settings \<Rightarrow> string" where
  "baseFolder c = (if st_isProd c then ''dist'' else ''src'')"

text \<open>The directories of the command line tool, which the relational connections share.\<close>

definition folders :: "settings \<Rightarrow> string \<Rightarrow> (string \<times> string) list" where
  "folders c dir =
     [(''entitiesDir'', baseFolder c @ ''/model''), (''migrationsDir'', baseFolder c @ ''/database/'' @ dir),
      (''subscribersDir'', baseFolder c @ ''/database/subscriber'')]"

definition files :: "string \<Rightarrow> string" where
  "files p = p @ ''/*{.js,.ts}''"

definition redis :: "settings \<Rightarrow> redis_cache" where
  "redis c = \<lparr>rc_type = ''ioredis'', rc_duration = CACHE_DURATION_IN_MS c, rc_alwaysEnabled = True,
     rc_host = REDIS_HOST c, rc_port = REDIS_PORT c, rc_ignoreErrors = True\<rparr>"

definition mySqlTypeorm :: "settings \<Rightarrow> connection_options" where
  "mySqlTypeorm c =
     \<lparr>co_name = None, co_type = MYSQL_CONNECTION c, co_host = MYSQL_HOST c, co_port = MYSQL_PORT c,
      co_username = MYSQL_USER c, co_password = MYSQL_PASSWORD c, co_database = MYSQL_DB c,
      co_snakeNaming = True, co_logging = LogAll, co_synchronize = Some True, co_dropSchema = None,
      co_migrationsTableName = None, co_migrationsTransactionMode = None,
      co_entities = [files (baseFolder c @ ''/model''), files (baseFolder c @ ''/model/views'')],
      co_migrations = [files (baseFolder c @ ''/database/migration/**'')],
      co_subscribers = [files (baseFolder c @ ''/database/subscriber/**'')],
      co_cli = folders c ''migration'', co_cache = Some (redis c), co_mongo = []\<rparr>"

definition mySqlSeedTypeorm :: "settings \<Rightarrow> connection_options" where
  "mySqlSeedTypeorm c =
     \<lparr>co_name = None, co_type = MYSQL_CONNECTION c, co_host = MYSQL_HOST c, co_port = MYSQL_PORT c,
      co_username = MYSQL_USER c, co_password = MYSQL_PASSWORD c, co_database = MYSQL_DB c,
      co_snakeNaming = True, co_logging = LogOnly [''error''], co_synchronize = None,
      co_dropSchema = Some (st_isTest c),
      co_migrationsTableName = Some ''seed'', co_migrationsTransactionMode = Some ''each'',
      co_entities = [files (baseFolder c @ ''/model'')],
      co_migrations = [files (baseFolder c @ ''/database/seed'')],
      co_subscribers = [files (baseFolder c @ ''/database/subscriber/**'')],
      co_cli = folders c ''seed'', co_cache = None, co_mongo = []\<rparr>"

definition postgreTypeorm :: "settings \<Rightarrow> connection_options" where
  "postgreTypeorm c =
     \<lparr>co_name = None, co_type = POSTGRES_CONNECTION c, co_host = POSTGRES_HOST c,
      co_port = POSTGRES_PORT c, co_username = POSTGRES_USER c, co_password = POSTGRES_PASSWORD c,
      co_database = POSTGRES_DB c, co_snakeNaming = True, co_logging = LogOnly [''error''],
      co_synchronize = None, co_dropSchema = Some False,
      co_migrationsTableName = None, co_migrationsTransactionMode = Some ''each'',
      co_entities = [files (baseFolder c @ ''/model''), files (baseFolder c @ ''/model/views'')],
      co_migrations = [files (baseFolder c @ ''/database/migration/**'')],
      co_subscribers = [files (baseFolder c @ ''/database/subscriber/**'')],
      co_cli = folders c ''migration'', co_cache = Some (redis c), co_mongo = []\<rparr>"

definition postgreSeedTypeorm :: "settings \<Rightarrow> connection_options" where
  "postgreSeedTypeorm c =
     \<lparr>co_name = None, co_type = POSTGRES_CONNECTION c, co_host = POSTGRES_HOST c,
      co_port = POSTGRES_PORT c, co_username = POSTGRES_USER c, co_password = POSTGRES_PASSWORD c,
      co_database = POSTGRES_DB c, co_snakeNaming = True, co_logging = LogOnly [''error''],
      co_synchronize = Some True, co_dropSchema = Some (st_isTest c),
      co_migrationsTableName = Some ''seed'', co_migrationsTransactionMode = Some ''each'',
      co_entities = [files (baseFolder c @ ''/model'')],
      co_migrations = [files (baseFolder c @ ''/database/seed'')],
      co_subscribers = [files (baseFolder c @ ''/database/subscriber/**'')],
      co_cli = folders c ''seed'', co_cache = None, co_mongo = []\<rparr>"

definition mongoDbTypeorm :: "settings \<Rightarrow> connection_options" where
  "mongoDbTypeorm c =
     \<lparr>co_name = Some ''mongodb'', co_type = MONGODB_CONNECTION c, co_host = MONGODB_HOST c,
      co_port = MONGODB_PORT c, co_username = MONGODB_USERNAME c, co_password = MONGODB_PASSWORD c,
      co_database = MONGODB_DATABASE c, co_snakeNaming = False, co_logging = LogNothing,
      co_synchronize = Some True, co_dropSchema = None, co_migrationsTableName = None,
      co_migrationsTransactionMode = None,
      co_entities = [files (baseFolder c @ ''/model/mongo/**'')], co_migrations = [],
      co_subscribers = [], co_cli = [], co_cache = None,
      co_mongo = [(''useUnifiedTopology'', JBool True), (''useNewUrlParser'', JBool True),
                  (''authSource'', JStr ''admin'')]\<rparr>"

section \<open>src/utils/test-utils.ts\<close>

record test_connection =
  tc_type :: "string js"
  tc_host :: "string js"
  tc_port :: "string js"
  tc_username :: "string js"
  tc_password :: "string js"
  tc_database :: "string js"
  tc_entities :: "string list"

definition databaseConfigs :: "string \<Rightarrow> string + database_config" where
  "databaseConfigs DB_URL = parse DB_URL"

definition dbConnectionOptions :: "string \<Rightarrow> string \<Rightarrow> string + test_connection" where
  "dbConnectionOptions DB_URL entityPath =
     map_sum id (\<lambda>d. \<lparr>tc_type = d_dialect d, tc_host = d_host d, tc_port = d_port d,
       tc_username = d_username d, tc_password = d_password d, tc_database = d_database d,
       tc_entities = [entityPath]\<rparr>) (databaseConfigs DB_URL)"

section \<open>src/database/index.ts\<close>

text \<open>
  The class keeps the first instance made; an instance keeps the connection that \<open>connect\<close> got.
  Whether the connection is still open is TypeORM's knowledge.
\<close>

record 'conn database =
  db_connection :: "'conn option"
  db_open :: bool




section \<open>src/server.ts\<close>















section \<open>Properties\<close>



end
