(* ===== verification/Services.thy ===== *)
theory Services
  imports Model Strings
begin

text \<open>
  The remaining services: src/service/log.ts, notification.ts, Cron.ts, file.ts, aws/s3.ts and
  backblaze/b2.ts, and the seed of src/database/seed. firebase, cron, mysqldump, the file system,
  AWS and the HTTP client are parameters: what they are called with is data, what they answer is
  an argument.
\<close>

section \<open>src/service/log.ts\<close>

datatype log_level = ERROR | WARN | INFO | HTTP | VERBOSE | DEBUG | SILLY

fun LogLevel :: "log_level \<Rightarrow> string" where
  "LogLevel ERROR = ''error''"
| "LogLevel WARN = ''warn''"
| "LogLevel INFO = ''info''"
| "LogLevel HTTP = ''http''"
| "LogLevel VERBOSE = ''verbose''"
| "LogLevel DEBUG = ''debug''"
| "LogLevel SILLY = ''silly''"










datatype log_target = Console bool | DailyFile string string

definition log_targets :: "config \<Rightarrow> log_target list" where
  "log_targets c =
     (if isDev c \<or> isTest c then [Console (isTest c)] else [])
     @ (if isDev c \<or> isProd c then [DailyFile ''PROPANE-BROS-%DATE%.log'' ''logs''] else [])"











section \<open>src/service/notification.ts\<close>

record push_request =
  pr_fromId :: "string js"
  pr_toIds :: "string list js"
  pr_tokens :: "string list"
  pr_title :: "string js"
  pr_isAdmin :: "bool js"
  pr_description :: "string js"
  pr_notificationType :: "int js"

record credential =
  cr_projectId :: string
  cr_clientEmail :: string
  cr_privateKey :: string

record push_message =
  pm_tokens :: "string list"
  pm_title :: "string js"
  pm_body :: "string js"
  pm_priority :: string
  pm_timeToLive :: int

text \<open>The apps that were initialised and the messages handed to firebase.\<close>

record push_state =
  ps_apps :: "credential list"
  ps_sent :: "push_message list"

definition private_key :: "string \<Rightarrow> string" where
  "private_key k = replace_all [CHR 0x5C, CHR ''n''] [CHR 0x0A] k"

definition sendPushNotification :: "credential \<Rightarrow> push_request \<Rightarrow> push_state \<Rightarrow> push_state" where
  "sendPushNotification c r s =
     (let s1 = (if ps_apps s = []
                then s\<lparr>ps_apps := [c\<lparr>cr_privateKey := private_key (cr_privateKey c)\<rparr>]\<rparr> else s)
      in s1\<lparr>ps_sent := ps_sent s1 @ [\<lparr>pm_tokens = pr_tokens r, pm_title = pr_title r,
             pm_body = pr_description r, pm_priority = ''high'', pm_timeToLive = 60 * 60 * 24\<rparr>]\<rparr>)"

definition SendPushNotificationService_execute :: "credential \<Rightarrow> push_request \<Rightarrow> push_state \<Rightarrow> push_state" where
  "SendPushNotificationService_execute c request = sendPushNotification c request"

lemma one_app: "length (ps_apps (sendPushNotification c r s)) = (if ps_apps s = [] then 1 else length (ps_apps s))"
  by (simp add: sendPushNotification_def Let_def)

section \<open>src/service/Cron.ts and src/service/file.ts\<close>

record cron_job =
  cj_cronTime :: string
  cj_timeZone :: string
  cj_started :: bool
  cj_dump :: "string \<Rightarrow> (string \<times> string) list"

text \<open>\<open>day\<close> is the current date in the format YYYY-MM-DD when the job runs.\<close>

definition createDBdump :: "string \<Rightarrow> string \<Rightarrow> string \<Rightarrow> string \<Rightarrow> cron_job" where
  "createDBdump MYSQL_HOST MYSQL_USER MYSQL_PASSWORD MYSQL_DB =
     \<lparr>cj_cronTime = ''00 00 * * *'', cj_timeZone = ''America/New_York'', cj_started = True,
      cj_dump = (\<lambda>day.
        [(''host'', MYSQL_HOST), (''user'', MYSQL_USER), (''password'', MYSQL_PASSWORD),
         (''database'', MYSQL_DB),
         (''dumpToFile'', ''./dump/propane_bros_database-'' @ day @ ''.sql'')])\<rparr>"

text \<open>Every call starts one more job; the singleton does not keep a second one from being started.\<close>

definition Cron_execute :: "string \<Rightarrow> string \<Rightarrow> string \<Rightarrow> string \<Rightarrow> cron_job list \<Rightarrow> cron_job list" where
  "Cron_execute MYSQL_HOST MYSQL_USER MYSQL_PASSWORD MYSQL_DB jobs =
     jobs @ [createDBdump MYSQL_HOST MYSQL_USER MYSQL_PASSWORD MYSQL_DB]"

text \<open>The files there are; \<open>unlinked\<close> is what deleting one answers.\<close>

definition removeFile :: "exn + unit \<Rightarrow> string \<Rightarrow> string set \<Rightarrow> (exn + unit) \<times> string set" where
  "removeFile unlinked f fs =
     (if f \<in> fs then (unlinked, if unlinked = Inr () then fs - {f} else fs) else (Inr (), fs))"

section \<open>src/service/aws/s3.ts\<close>

record put_object =
  po_bucket :: string
  po_acl :: "string option"
  po_key :: string
  po_body :: string
  po_contentEncoding :: "string js"

definition uploadCameraTest :: "string \<Rightarrow> string \<Rightarrow> string \<Rightarrow> string option \<Rightarrow> put_object" where
  "uploadCameraTest S3_CAMERA_TEST_BUCKET f key acl =
     \<lparr>po_bucket = S3_CAMERA_TEST_BUCKET,
      po_acl = Some (case acl of None \<Rightarrow> ''public-read'' | Some a \<Rightarrow> a),
      po_key = key, po_body = f, po_contentEncoding = Val ''base64''\<rparr>"

section \<open>src/service/backblaze/b2.ts\<close>

text \<open>\<open>indexOf\<close> and \<open>substring\<close>, which orders its bounds and cuts them to the string.\<close>

definition index_of :: "char \<Rightarrow> int \<Rightarrow> string \<Rightarrow> int" where
  "index_of c from s =
     (case find (\<lambda>i. s ! i = c) [nat from..<length s] of None \<Rightarrow> -1 | Some i \<Rightarrow> int i)"

definition substring :: "int \<Rightarrow> int \<Rightarrow> string \<Rightarrow> string" where
  "substring a b s =
     (let lo = nat (min a b); hi = nat (max a b) in take (hi - lo) (drop lo s))"

record uri_parts =
  ur_service :: string
  ur_bucket :: "string js"
  ur_key :: "string js"

text \<open>\<open>amazon\<close> is what \<open>AmazonS3URI\<close> finds, if it does not throw; \<open>pathname\<close> that of \<open>new URL\<close>.\<close>

definition parseUri ::
    "(string \<Rightarrow> (string js \<times> string js) option) \<Rightarrow> (string \<Rightarrow> exn + string) \<Rightarrow> string \<Rightarrow> exn + uri_parts" where
  "parseUri amazon pathname uri =
     (case amazon uri of
        Some (bucket, key) \<Rightarrow> Inr \<lparr>ur_service = ''s3'', ur_bucket = bucket, ur_key = key\<rparr>
      | None \<Rightarrow>
          if js_includes ''s4'' uri
          then (case pathname uri of
                  Inl e \<Rightarrow> Inl e
                | Inr path \<Rightarrow>
                    let indexAfterSign = index_of CHR ''/'' (index_of CHR ''/'' 1 path + 1) path;
                        pathWithoutSign = substring (indexAfterSign + 1) (int (length path)) path;
                        index = index_of CHR ''/'' 1 pathWithoutSign
                    in Inr \<lparr>ur_service = ''b2'', ur_bucket = Val (substring 0 index pathWithoutSign),
                            ur_key = Val (substring (index + 1) (int (length pathWithoutSign)) pathWithoutSign)\<rparr>)
          else Inl (OtherExn ''Error'' (Val ''Provide valid URI'')))"

text \<open>
  The object that is put into the bucket, if any; \<open>getObject\<close> gives body and encoding, \<open>download\<close>
  what axios got, decoded.
\<close>

definition copyFromS3 ::
    "string \<Rightarrow> (string \<Rightarrow> (string js \<times> string js) option) \<Rightarrow> (string \<Rightarrow> exn + string)
     \<Rightarrow> (string \<Rightarrow> string \<Rightarrow> exn + string \<times> string js) \<Rightarrow> (string \<Rightarrow> exn + string) \<Rightarrow> string
     \<Rightarrow> exn + put_object option" where
  "copyFromS3 B2_NAME amazon pathname getObject download url =
     (case parseUri amazon pathname url of
        Inl e \<Rightarrow> Inl e
      | Inr u \<Rightarrow>
          if truthy (ur_key u) \<and> truthy (ur_bucket u) then
            (let put = (\<lambda>body encoding. \<lparr>po_bucket = B2_NAME, po_acl = None, po_key = interp (ur_key u),
                                        po_body = body, po_contentEncoding = encoding\<rparr>) in
             if ur_service u = ''s3''
             then map_sum id (\<lambda>(body, encoding). Some (put body encoding))
                    (getObject (interp (ur_bucket u)) (interp (ur_key u)))
             else if ur_service u = ''b2''
             then map_sum id (\<lambda>body. Some (put body Undef)) (download url)
             else Inr None)
          else Inr None)"

text \<open>A link to a file of B2: the sign is cut off, then the bucket from the key.\<close>

lemma b2_link:
  "parseUri (\<lambda>u. None) (\<lambda>u. Inr ''/sign/x/bucket/dir/file.jpg'') ''https://f.s4.b2/...'' =
     Inr \<lparr>ur_service = ''b2'', ur_bucket = Val ''bucket'', ur_key = Val ''dir/file.jpg''\<rparr>"
  by code_simp

section \<open>src/database/seed\<close>

definition seed_admin_id :: string where
  "seed_admin_id = ''706dd907-3b96-4ad7-84a4-f5ac91ebd68c''"

definition seed_entity :: "string \<Rightarrow> users" where
  "seed_entity hashed =
     blank_user\<lparr>u_id := Val seed_admin_id, u_fullName := Val ''Demo user'', u_email := Val ''admin@gmail.com'',
                u_password := Val hashed, u_userType := Val (PropaneUserType ADMIN)\<rparr>"

definition seed_up :: "'db env \<Rightarrow> ('db, unit) async" where
  "seed_up E =
     andThen draw (\<lambda>salt.
     andThen (of_sum (bcrypt_hash E (Val ''password'') 8 salt)) (\<lambda>hashed.
     andThen (write_db (users_save (orm E) (seed_entity hashed))) (\<lambda>user. ret ())))"

text \<open>\<open>delete_users\<close> is the repository's \<open>delete\<close> for the given ids.\<close>

definition seed_down :: "(string list \<Rightarrow> ('db, exn, unit) io) \<Rightarrow> ('db, unit) async" where
  "seed_down delete_users = write_db (delete_users [seed_admin_id])"

text \<open>The migration \<open>start1600768739937\<close> runs the one seed there is.\<close>

definition start_up :: "'db env \<Rightarrow> ('db, unit) async" where
  "start_up E = andThen (seed_up E) (\<lambda>_. ret ())"

definition start_down :: "(string list \<Rightarrow> ('db, exn, unit) io) \<Rightarrow> ('db, unit) async" where
  "start_down delete_users = andThen (seed_down delete_users) (\<lambda>_. ret ())"

section \<open>Properties\<close>



end
