(* ===== verification/Enums.thy ===== *)
theory Enums
  imports Complex_Main Prelude
begin

text \<open>
  The enumerations and numbers of src/constants.ts that no modelled code uses yet, and the tables
  of src/utils/queryBuilderConstants.ts. The members get a prefix where two enumerations share one.
\<close>

section \<open>Enumerations\<close>

datatype payment_gateway = STRIPE

fun PaymentGateways :: "payment_gateway \<Rightarrow> string" where
  "PaymentGateways STRIPE = ''stripe''"

datatype device_type = DEVICE_A | DEVICE_I

fun DeviceTypes :: "device_type \<Rightarrow> string" where
  "DeviceTypes DEVICE_A = ''android''"
| "DeviceTypes DEVICE_I = ''ios''"

datatype permission_type = PT_CREATE | PT_READ | PT_UPDATE | PT_DELETE

fun PermissionType :: "permission_type \<Rightarrow> string" where
  "PermissionType PT_CREATE = ''create''"
| "PermissionType PT_READ = ''read''"
| "PermissionType PT_UPDATE = ''update''"
| "PermissionType PT_DELETE = ''delete''"

datatype action = ACT_CREATE | ACT_READ | ACT_UPDATE | ACT_DELETE | ACT_LIST

fun Actions :: "action \<Rightarrow> string" where
  "Actions ACT_CREATE = ''create''"
| "Actions ACT_READ = ''read''"
| "Actions ACT_UPDATE = ''update''"
| "Actions ACT_DELETE = ''delete''"
| "Actions ACT_LIST = ''list''"

datatype ckm_status = CKM_ON | CKM_OFF | CKM_STOP | CKM_RUNNING

fun CkmStatus :: "ckm_status \<Rightarrow> string" where
  "CkmStatus CKM_ON = ''on''"
| "CkmStatus CKM_OFF = ''off''"
| "CkmStatus CKM_STOP = ''stop''"
| "CkmStatus CKM_RUNNING = ''running''"

datatype notification_type = AC | AD | AV | SC | SV | SD

fun NotificationType :: "notification_type \<Rightarrow> string" where
  "NotificationType AC = ''allCustomers''"
| "NotificationType AD = ''allDrivers''"
| "NotificationType AV = ''allVendors''"
| "NotificationType SC = ''selectedCustomers''"
| "NotificationType SV = ''selectedVendors''"
| "NotificationType SD = ''selectedDrivers''"

datatype light_type = IR | UV | VIS

fun LightType :: "light_type \<Rightarrow> string" where
  "LightType IR = ''IR''"
| "LightType UV = ''UV''"
| "LightType VIS = ''VIS''"

datatype light_position = LP_TOP | LP_FRONT | LP_BACK

fun LightPosition :: "light_position \<Rightarrow> string" where
  "LightPosition LP_TOP = ''TOP''"
| "LightPosition LP_FRONT = ''FRONT''"
| "LightPosition LP_BACK = ''BACK''"

datatype camera_bar_view = CB_FRONT | CB_BACK

fun CameraBarView :: "camera_bar_view \<Rightarrow> string" where
  "CameraBarView CB_FRONT = ''FRONT''"
| "CameraBarView CB_BACK = ''BACK''"

datatype stop_parameter = ROLL | CONTEXTUAL

fun StopParameter :: "stop_parameter \<Rightarrow> string" where
  "StopParameter ROLL = ''roll''"
| "StopParameter CONTEXTUAL = ''contextual''"

datatype comparison = OP_EQ | OP_NE | OP_LT | OP_LE | OP_GT | OP_GE

fun operators_enum :: "comparison \<Rightarrow> string" where
  "operators_enum OP_EQ = ''=''"
| "operators_enum OP_NE = ''!=''"
| "operators_enum OP_LT = ''<''"
| "operators_enum OP_LE = ''<=''"
| "operators_enum OP_GT = ''>''"
| "operators_enum OP_GE = ''>=''"

datatype template_language = EN | PT | LANG_IT | TR

fun TemplateLanguage :: "template_language \<Rightarrow> string" where
  "TemplateLanguage EN = ''english''"
| "TemplateLanguage PT = ''portuguese''"
| "TemplateLanguage LANG_IT = ''italian''"
| "TemplateLanguage TR = ''turkish''"

datatype time_format = H12 | H24

fun TimeFormat :: "time_format \<Rightarrow> string" where
  "TimeFormat H12 = ''12h''"
| "TimeFormat H24 = ''24h''"

datatype notification_action = NA_READ | NA_UN_READ

fun NotificationActions :: "notification_action \<Rightarrow> string" where
  "NotificationActions NA_READ = ''read''"
| "NotificationActions NA_UN_READ = ''un_read''"

datatype order_status = ONGOING | PENDING | REFILLED | DELIVERED | CANCELLED | RESCHEDULED | CANCELLED_BY_ADMIN | CANCELLED_BY_DRIVER | EMERGENCY_ORDER

fun OrderStatus :: "order_status \<Rightarrow> string" where
  "OrderStatus ONGOING = ''ongoing''"
| "OrderStatus PENDING = ''pending''"
| "OrderStatus REFILLED = ''refilled''"
| "OrderStatus DELIVERED = ''delivered''"
| "OrderStatus CANCELLED = ''cancelled''"
| "OrderStatus RESCHEDULED = ''rescheduled''"
| "OrderStatus CANCELLED_BY_ADMIN = ''cancelled_by_admin''"
| "OrderStatus CANCELLED_BY_DRIVER = ''cancelled_by_driver''"
| "OrderStatus EMERGENCY_ORDER = ''emergency_order''"

datatype status_type = ST_ON | ST_OFF | ST_STOP | ST_RUNNING

fun StatusType :: "status_type \<Rightarrow> int" where
  "StatusType ST_ON = 0"
| "StatusType ST_OFF = 1"
| "StatusType ST_STOP = 2"
| "StatusType ST_RUNNING = 3"

section \<open>Labels and numbers\<close>

definition NO_DEFECT :: string where "NO_DEFECT = ''NoDefect''"
definition EDGES :: "string list" where "EDGES = [''Edge'', ''Right'', ''Left'']"
definition DEFECT_LABEL :: string where "DEFECT_LABEL = ''Defect''"
definition DEFECT :: string where "DEFECT = ''defect''"
definition INVALID_STATUS_TYPE :: string where "INVALID_STATUS_TYPE = ''INVALID''"

definition cacheTime :: "(string \<times> int) list" where
  "cacheTime =
     [(''DEFECTS'', 1000 * 60 * 10), (''DEFECTS_PER_SHIFT'', 1000 * 60 * 10),
      (''DEFECTS_BY_TYPE'', 1000 * 60 * 10), (''DEFECTIVE_ROLLS_COUNT'', 1000 * 60 * 10),
      (''INDIVIDUAL_MACHINE_STATUS'', 1000 * 60 * 10), (''PRODUCTION_ROTATIONS'', 1000 * 60 * 10),
      (''DASHBOARD_STATISTIC'', 1)]"

definition DefaultTimezoneForSavingsReport :: string where
  "DefaultTimezoneForSavingsReport = ''Etc/GMT''"
definition MaxMachinesForXavier :: int where "MaxMachinesForXavier = 5"
definition DefaultEquipmentId :: int where "DefaultEquipmentId = 4006"
definition minStopDuration :: int where "minStopDuration = 15"
definition vfov :: rat where "vfov = 22 / 100"

section \<open>src/utils/queryBuilderConstants.ts\<close>

definition operators :: "(string \<times> string) list" where
  "operators =
     [(''not'', ''NOT ''), (''pos'', ''+''), (''neg'', ''-''), (''add'', ''+''), (''sub'', ''-''),
      (''mul'', ''*''), (''div'', ''/''), (''or'', ''OR''), (''and'', ''AND''), (''eq'', ''=''),
      (''ne'', ''!=''), (''lt'', ''<''), (''le'', ''<=''), (''gt'', ''>''), (''ge'', ''>='')]"

text \<open>Tags of template literals: the literal parts are not used.\<close>

definition likeOperators :: "(string \<times> (string list \<Rightarrow> string \<Rightarrow> string)) list" where
  "likeOperators =
     [(''equals'', \<lambda>_ query. query), (''contains'', \<lambda>_ query. ''%'' @ query @ ''%''),
      (''startsWith'', \<lambda>_ query. query @ ''%''), (''endsWith'', \<lambda>_ query. ''%'' @ query)]"

lemma operators_agree:
  "list_all (\<lambda>(m, k). map_of operators k = Some (operators_enum m))
     [(OP_EQ, ''eq''), (OP_NE, ''ne''), (OP_LT, ''lt''), (OP_LE, ''le''), (OP_GT, ''gt''), (OP_GE, ''ge'')]"
  by (simp add: operators_def)

end
