(* ===== verification/Application.thy ===== *)
theory Application
  imports ServerFacts Reference
begin

text \<open>
  The application of src/app.ts as a whole: the layers in the order they are used, from the static
  files to the routers, around \<open>app_route\<close>. What the packages do to a request is a parameter; an
  incoming request still has the file fields of its body, which the routes never see.
\<close>

section \<open>The layers\<close>

datatype app_layer =
    StaticFiles string
  | RawBody string string
  | Helmet
  | CookieParser
  | MulterArray string
  | JsonBody string
  | UrlEncoded bool
  | Cors string bool
  | Compression
  | RequestTimeout
  | Routers

text \<open>\<open>'*' || config.WHITELIST_ORIGINS\<close> is \<open>'*'\<close>.\<close>

definition app_layers :: "app_layer list" where
  "app_layers =
     [StaticFiles ''/img'', RawBody ''/webhook'' ''*/*'', Helmet, CookieParser, MulterArray ''test'',
      JsonBody ''5mb'', UrlEncoded True, Cors ''*'' True, Compression, RequestTimeout, Routers]"

text \<open>\<open>ic_files\<close> are the fields of a multipart body that carry a file.\<close>

record incoming =
  ic_path :: string
  ic_multipart :: bool
  ic_files :: "string list"
  ic_request :: request

text \<open>A package answers the request itself, passes it on, perhaps changed, or calls \<open>next(err)\<close>.\<close>

datatype passage = Answered response | PassedOn incoming | Failed exn

type_synonym packages = "app_layer \<Rightarrow> incoming \<Rightarrow> passage"

fun run_layers :: "packages \<Rightarrow> nat \<Rightarrow> 'db env \<Rightarrow> app_layer list \<Rightarrow> incoming \<Rightarrow> 'db route_io" where
  "run_layers K depth E [] i = no_route (ic_request i)"
| "run_layers K depth E (Routers # ls) i = app_route depth E (ic_path i) (ic_request i)"
| "run_layers K depth E (RequestTimeout # ls) i = run_layers K depth E ls i"
| "run_layers K depth E (l # ls) i =
     (case K l i of
        Answered r \<Rightarrow> (\<lambda>w. (Inr r, w))
      | PassedOn i' \<Rightarrow> run_layers K depth E ls i'
      | Failed e \<Rightarrow> (\<lambda>w. (Inl (NextWith e), w)))"

definition application ::
    "packages \<Rightarrow> bool \<Rightarrow> nat \<Rightarrow> 'db env \<Rightarrow> string \<Rightarrow> incoming \<Rightarrow> 'db world \<Rightarrow> outcome \<times> 'db world" where
  "application K throws depth E stack i w =
     (case run_layers K depth E app_layers i w of
        (r, w') \<Rightarrow> (outcome_of throws E stack (ic_request i) r, w'))"

section \<open>What the packages promise\<close>

text \<open>
  Static files and the raw body have a path of their own, helmet and cookie-parser only decorate,
  and \<open>multer().array(field)\<close> refuses a file in any other field.
\<close>

definition under :: "string \<Rightarrow> string \<Rightarrow> bool" where
  "under base path \<longleftrightarrow> segments path \<noteq> [] \<and> same_text (hd (segments path)) base"

locale body_packages =
  fixes K :: packages
  assumes static_elsewhere: "\<not> under ''img'' (ic_path i) \<Longrightarrow> K (StaticFiles ''/img'') i = PassedOn i"
    and raw_elsewhere: "\<not> under ''webhook'' (ic_path i) \<Longrightarrow> K (RawBody ''/webhook'' t) i = PassedOn i"
    and decorate: "l = Helmet \<or> l = CookieParser \<Longrightarrow>
      \<exists>i'. K l i = PassedOn i' \<and> ic_files i' = ic_files i \<and> ic_multipart i' = ic_multipart i"
    and unexpected_file: "ic_multipart i \<Longrightarrow> f \<in> set (ic_files i) \<Longrightarrow> f \<noteq> field_name \<Longrightarrow>
      \<exists>m. K (MulterArray field_name) i = Failed (OtherExn ''MulterError'' m)"
begin

lemma unexpected_file_ends:
  assumes "\<not> under ''img'' (ic_path i)" and "\<not> under ''webhook'' (ic_path i)"
    and "ic_multipart i" and "f \<in> set (ic_files i)" and "f \<noteq> ''test''"
  shows "\<exists>m. run_layers K depth E app_layers i w = (Inl (NextWith (OtherExn ''MulterError'' m)), w)"
proof -
  obtain i1 where 1: "K Helmet i = PassedOn i1" "ic_files i1 = ic_files i" "ic_multipart i1 = ic_multipart i"
    using decorate [of Helmet i] by auto
  obtain i2 where 2: "K CookieParser i1 = PassedOn i2" "ic_files i2 = ic_files i1"
      "ic_multipart i2 = ic_multipart i1"
    using decorate [of CookieParser i1] by auto
  from unexpected_file [of i2 f "''test''"] 1 2 assms(3-5) obtain m where
    "K (MulterArray ''test'') i2 = Failed (OtherExn ''MulterError'' m)" by auto
  with 1 2 show ?thesis
    by (simp add: app_layers_def static_elsewhere [OF assms(1)] raw_elsewhere [OF assms(2)])
qed

end

text \<open>Packages that keep these promises and otherwise pass everything on.\<close>

definition ref_packages :: packages where
  "ref_packages l i =
     (case l of
        MulterArray f \<Rightarrow>
          if ic_multipart i \<and> (\<exists>g\<in>set (ic_files i). g \<noteq> f)
          then Failed (OtherExn ''MulterError'' (Val ''Unexpected field'')) else PassedOn i
      | _ \<Rightarrow> PassedOn i)"

interpretation ref_bodies: body_packages ref_packages
  by unfold_locales (auto simp: ref_packages_def)

section \<open>Effects come from the routers\<close>

lemma run_layers_routers:
  "run_layers K depth E ls i w = (r, w') \<Longrightarrow>
     (\<exists>i' :: incoming. app_route depth E (ic_path i') (ic_request i') w = (r, w')) \<or> w' = w"
proof (induction K depth E ls i rule: run_layers.induct)
  case (1 K depth E i)
  then show ?case by (auto simp: no_route_def)
next
  case (2 K depth E ls i)
  then have "app_route depth E (ic_path i) (ic_request i) w = (r, w')" by simp
  then show ?case by blast
qed (auto split: passage.splits)

text \<open>When the packages leave a request as it is, the application is \<open>serve\<close>.\<close>

lemma application_serves:
  assumes "\<And>l. K l i = PassedOn i"
  shows "application K throws depth E stack i w = serve throws depth E stack (ic_path i) (ic_request i) w"
  by (simp add: application_def app_layers_def assms serve_def)

section \<open>Properties\<close>

text \<open>The fields of a form from which some route reads a file.\<close>

definition file_fields :: "string list" where
  "file_fields = concat (map (\<lambda>m. case m of SingleFileS3 media fieldName \<Rightarrow> [fieldName] | _ \<Rightarrow> [])
     (concat (map r_chain (users_routes @ auth_routes @ contact_routes))))"

lemma file_fields_image: "file_fields = [''image'']"
  by (simp add: file_fields_def users_routes_def auth_routes_def contact_routes_def route_def)

text \<open>
  C36. A multipart request with a file in any field from which some route reads one never reaches
  that route: the \<open>multer().array('test')\<close> that src/app.ts uses for every request refuses it and
  the client receives 500, with nothing changed. So no avatar can be uploaded.
\<close>

theorem uploads_refused:
  assumes "body_packages K" and "ic_multipart i"
    and "list_ex (\<lambda>f. f \<in> set file_fields) (ic_files i)"
    and "\<not> under ''img'' (ic_path i)" and "\<not> under ''webhook'' (ic_path i)"
  shows "\<exists>resp. application K throws depth E stack i w = (Answer resp, w) \<and> resp_status resp = 500"
proof -
  from assms(3) have "''image'' \<in> set (ic_files i)" by (auto simp: list_ex_iff file_fields_image)
  from body_packages.unexpected_file_ends [OF assms(1,4,5,2) this, of depth E w] obtain m where
    "run_layers K depth E app_layers i w = (Inl (NextWith (OtherExn ''MulterError'' m)), w)" by auto
  then show ?thesis by (simp add: application_def error_answer_def json_response_def)
qed

definition demo_avatar :: incoming where
  "demo_avatar = \<lparr>ic_path = ''/users/avatar'', ic_multipart = True, ic_files = [''image''],
     ic_request = demo_request ''PATCH'' ''/users/avatar'' []\<rparr>"

lemma uploads_refused_witness:
  "\<exists>resp. application ref_packages True 3 (ref_env []) [] demo_avatar (world_of empty_mem)
     = (Answer resp, world_of empty_mem) \<and> resp_status resp = 500"
  by (rule uploads_refused [OF ref_bodies.body_packages_axioms])
     (simp_all add: demo_avatar_def file_fields_image under_def segments_def same_text_def down_char_def)

end
