(* ===== verification/Reports.thy ===== *)
theory Reports
  imports Errors Paths
begin

text \<open>
  src/utils/createPdf.ts and the report worker: worker/generateReport.mjs with its helpers
  createPdf.mjs, sendMail.mjs and sendMailUsingSendGrid.mjs. puppeteer, ejs, nodemailer, SendGrid and
  the file system are parameters: what they answer is data, and what they are asked to do changes
  the state below. \<open>await\<close> is \<open>andThen\<close>, as in the handlers.
\<close>

section \<open>The state of the worker and its tools\<close>

datatype addressee = Recipients "string list" | UserEmail "string js"

record report_mail =
  rm_from :: string
  rm_to :: addressee
  rm_cc :: "string list js"
  rm_subject :: string
  rm_html :: string
  rm_attachments :: "(string \<times> string) list option"

text \<open>An attachment is its file name with the path of the file, or with the content for SendGrid.\<close>

datatype report_transport = Gmail "string js" "string js" | SendGrid "string js"

record worker =
  wk_messages :: "string list"
  wk_log :: "string list"
  wk_dirs :: "string set"
  wk_files :: "string \<rightharpoonup> nat"
  wk_browsers :: nat
  wk_streams :: "string list"
  wk_mails :: "report_mail list"
  wk_died :: "string option"

text \<open>
  \<open>seconds\<close> gives what the three measurements of time show, \<open>to_text\<close> what a value that is no string
  prints as.
\<close>

record tools =
  tl_dirname :: string
  tl_env :: "string \<Rightarrow> string js"
  tl_parent :: bool
  renderFile :: "string \<Rightarrow> (string \<times> json) list \<Rightarrow> exn + string"
  mkdir :: "string \<Rightarrow> exn + unit"
  launch :: "string js \<Rightarrow> exn + unit"
  newPage :: "exn + unit"
  setDefaultNavigationTimeout :: "int \<Rightarrow> exn + unit"
  setViewport :: "int \<Rightarrow> int \<Rightarrow> exn + unit"
  setContent :: "string \<Rightarrow> exn + unit"
  page_pdf :: "string \<Rightarrow> exn + nat"
  createPDFStream :: "string \<Rightarrow> exn + unit"
  browser_close :: "exn + unit"
  seconds :: "nat \<Rightarrow> int"
  deliver :: "report_transport \<Rightarrow> report_mail \<Rightarrow> exn + unit"
  read_base64 :: "string \<Rightarrow> exn + string"
  to_text :: "json \<Rightarrow> string"

type_synonym 'a work = "(worker, exn, 'a) io"

definition type_error :: "string \<Rightarrow> exn" where
  "type_error m = OtherExn ''TypeError'' (Val m)"

text \<open>\<open>join\<close> throws for an argument that is not a string.\<close>

fun strings :: "string js list \<Rightarrow> exn + string list" where
  "strings [] = Inr []"
| "strings (Val s # vs) = map_sum id ((#) s) (strings vs)"
| "strings (v # vs) =
     Inl (type_error (''The \"path\" argument must be of type string. Received '' @ interp v))"

definition join :: "string js list \<Rightarrow> string work" where
  "join vs = of_sum (map_sum id path_join (strings vs))"

definition post :: "tools \<Rightarrow> string \<Rightarrow> unit work" where
  "post T m s = (Inr (), if tl_parent T then s\<lparr>wk_messages := wk_messages s @ [m]\<rparr> else s)"

definition info :: "string \<Rightarrow> unit work" where
  "info m s = (Inr (), s\<lparr>wk_log := wk_log s @ [m]\<rparr>)"

definition open_browser :: "tools \<Rightarrow> unit work" where
  "open_browser T =
     andThen (of_sum (launch T (tl_env T ''PUPPETEER_EXECUTABLE_PATH'')))
       (\<lambda>_ s. (Inr (), s\<lparr>wk_browsers := Suc (wk_browsers s)\<rparr>))"

definition close_browser :: "tools \<Rightarrow> unit work" where
  "close_browser T =
     andThen (of_sum (browser_close T)) (\<lambda>_ s. (Inr (), s\<lparr>wk_browsers := wk_browsers s - 1\<rparr>))"

definition time_taken :: "tools \<Rightarrow> nat \<Rightarrow> string \<Rightarrow> string" where
  "time_taken T n what = ''time taken '' @ what @ '' : '' @ show_int (seconds T n) @ ''s''"

section \<open>What both createPdf share\<close>

definition createDirIfNotExist :: "tools \<Rightarrow> string \<Rightarrow> string work" where
  "createDirIfNotExist T dir s =
     (if dir \<in> wk_dirs s \<or> wk_files s dir \<noteq> None then (Inr dir, s)
      else (case mkdir T dir of
              Inl e \<Rightarrow> (Inl e, s)
            | Inr u \<Rightarrow> (Inr dir, s\<lparr>wk_dirs := insert dir (wk_dirs s)\<rparr>)))"

definition getReportFolderPath :: "tools \<Rightarrow> string work" where
  "getReportFolderPath T =
     andThen (join [Val (tl_dirname T), Val ''..'', Val ''..'', tl_env T ''REPORT_FOLDER''])
       (createDirIfNotExist T)"

definition getReportPath :: "tools \<Rightarrow> string js \<Rightarrow> string work" where
  "getReportPath T pdfName =
     andThen (getReportFolderPath T) (\<lambda>folder. join [Val folder, pdfName])"

definition open_page :: "tools \<Rightarrow> unit work" where
  "open_page T =
     andThen (open_browser T) (\<lambda>_.
     andThen (of_sum (newPage T)) (\<lambda>_.
     andThen (of_sum (setDefaultNavigationTimeout T 0)) (\<lambda>_.
     of_sum (setViewport T 1754 960))))"

section \<open>src/utils/createPdf.ts\<close>

definition write_pdf :: "tools \<Rightarrow> string \<Rightarrow> unit work" where
  "write_pdf T filePath =
     andThen (of_sum (page_pdf T filePath)) (\<lambda>bytes s. (Inr (), s\<lparr>wk_files := (wk_files s)(filePath \<mapsto> bytes)\<rparr>))"

definition createPdf ::
    "tools \<Rightarrow> string js \<Rightarrow> (string \<times> json) list \<Rightarrow> string js \<Rightarrow> string work" where
  "createPdf T templateName templateData pdfName =
     andThen (join [Val (tl_dirname T), Val ''..'', Val ''..'', Val ''views'', templateName]) (\<lambda>path.
     andThen (of_sum (renderFile T path templateData)) (\<lambda>template.
     andThen (info ''ejs to html is completed'') (\<lambda>_.
     andThen (info (time_taken T 0 ''to convert ejs to html'')) (\<lambda>_.
     andThen (getReportPath T pdfName) (\<lambda>filePath.
     andThen (open_page T) (\<lambda>_.
     andThen (info ''html loading started'') (\<lambda>_.
     andThen (of_sum (setContent T template)) (\<lambda>_.
     andThen (info ''html loading is completed'') (\<lambda>_.
     andThen (info (time_taken T 1 ''in html loading'')) (\<lambda>_.
     andThen (info ''html to pdf is started'') (\<lambda>_.
     andThen (write_pdf T filePath) (\<lambda>_.
     andThen (info ''html to pdf is completed'') (\<lambda>_.
     andThen (info (time_taken T 2 ''to convert html to pdf'')) (\<lambda>_.
     andThen (close_browser T) (\<lambda>_.
     ret filePath)))))))))))))))"

section \<open>worker/helper/createPdf.mjs\<close>

text \<open>
  Here the pdf is a stream that is piped into the file after the function has returned: only its
  path is known then.
\<close>

definition start_stream :: "tools \<Rightarrow> string \<Rightarrow> unit work" where
  "start_stream T filePath =
     andThen (of_sum (createPDFStream T filePath))
       (\<lambda>_ s. (Inr (), s\<lparr>wk_streams := wk_streams s @ [filePath]\<rparr>))"

definition createPdf_worker ::
    "tools \<Rightarrow> string js \<Rightarrow> (string \<times> json) list \<Rightarrow> string js \<Rightarrow> string js \<Rightarrow> string work" where
  "createPdf_worker T templateName templateData pdfName language =
     andThen (join [Val (tl_dirname T), Val ''..'', Val ''..'', Val ''views'', language, templateName])
       (\<lambda>path.
     andThen (of_sum (renderFile T path templateData)) (\<lambda>template.
     andThen (post T ''ejs to html is completed'') (\<lambda>_.
     andThen (post T (time_taken T 0 ''to convert ejs to html'')) (\<lambda>_.
     andThen (getReportPath T pdfName) (\<lambda>filePath.
     andThen (open_page T) (\<lambda>_.
     andThen (post T ''html loading started'') (\<lambda>_.
     andThen (of_sum (setContent T template)) (\<lambda>_.
     andThen (post T (time_taken T 1 ''in html loading'')) (\<lambda>_.
     andThen (post T ''html loading is completed'') (\<lambda>_.
     andThen (post T ''html to pdf is started'') (\<lambda>_.
     andThen (start_stream T filePath) (\<lambda>_.
     andThen (post T ''html to pdf is completed'') (\<lambda>_.
     andThen (post T (time_taken T 2 ''to convert html to pdf'')) (\<lambda>_.
     ret filePath))))))))))))))"


section \<open>worker/helper/sendMail.mjs\<close>

definition field_of :: "(string \<times> json) list \<Rightarrow> string \<Rightarrow> json" where
  "field_of d k = (case map_of d k of None \<Rightarrow> JUndef | Some v \<Rightarrow> v)"

fun as_text :: "tools \<Rightarrow> json \<Rightarrow> string" where
  "as_text T (JStr s) = s"
| "as_text T JUndef = ''undefined''"
| "as_text T JNull = ''null''"
| "as_text T v = to_text T v"

text \<open>\<open>REPORT_MAIL_SUBJECT.replace(':reportType', \<dots>)\<close>.\<close>

definition report_subject :: "tools \<Rightarrow> (string \<times> json) list \<Rightarrow> string work" where
  "report_subject T templateData =
     (case tl_env T ''REPORT_MAIL_SUBJECT'' of
        Val subject \<Rightarrow> ret (replace_first '':reportType'' (as_text T (field_of templateData ''reportType'')) subject)
      | v \<Rightarrow> throw (type_error (''Cannot read properties of undefined (reading '' @ [CHR 0x27] @ ''replace'' @ [CHR 0x27] @ '')'')))"

definition mail_html :: "tools \<Rightarrow> (string \<times> json) list \<Rightarrow> string work" where
  "mail_html T templateData =
     andThen (join [Val (tl_dirname T), Val ''..'', Val ''..'', Val ''views'', Val ''report_email.ejs''])
       (\<lambda>path. of_sum (renderFile T path templateData))"

definition gmailTransport :: "tools \<Rightarrow> report_transport" where
  "gmailTransport T = Gmail (tl_env T ''GMAIL_USER'') (tl_env T ''GMAIL_PASSWORD'')"

definition send_report :: "tools \<Rightarrow> report_transport \<Rightarrow> report_mail \<Rightarrow> unit work" where
  "send_report T transport m =
     andThen (of_sum (deliver T transport m)) (\<lambda>_ s. (Inr (), s\<lparr>wk_mails := wk_mails s @ [m]\<rparr>))"

definition sendMail ::
    "tools \<Rightarrow> addressee \<Rightarrow> (string \<times> string) option \<Rightarrow> string list js \<Rightarrow> (string \<times> json) list \<Rightarrow> unit work" where
  "sendMail T to attachment cc templateData =
     andThen (mail_html T templateData) (\<lambda>html.
     andThen (report_subject T templateData) (\<lambda>subject.
     send_report T (gmailTransport T) \<lparr>rm_from = ''Sarang Patel <'' @ interp (tl_env T ''GMAIL_USER'') @ ''>'', rm_to = to,
       rm_cc = cc, rm_subject = subject, rm_html = html,
       rm_attachments = map_option (\<lambda>a. [a]) attachment\<rparr>))"

section \<open>worker/helper/sendMailUsingSendGrid.mjs\<close>

datatype attachment = NoAttachment | OneAttachment "string \<times> string" | Attachments "(string \<times> string) list"

text \<open>\<open>[undefined]\<close> is what a missing attachment becomes.\<close>

definition attachment_list :: "attachment \<Rightarrow> (string \<times> string) option list" where
  "attachment_list a =
     (case a of NoAttachment \<Rightarrow> [None] | OneAttachment x \<Rightarrow> [Some x] | Attachments xs \<Rightarrow> map Some xs)"

fun getAttachmentData :: "tools \<Rightarrow> (string \<times> string) option list \<Rightarrow> exn + (string \<times> string) list" where
  "getAttachmentData T [] = Inr []"
| "getAttachmentData T (None # ds) =
     Inl (type_error (''Cannot read properties of undefined (reading '' @ [CHR 0x27] @ ''path'' @ [CHR 0x27] @ '')''))"
| "getAttachmentData T (Some (filename, path) # ds) =
     (case read_base64 T path of
        Inl e \<Rightarrow> Inl e
      | Inr content \<Rightarrow> map_sum id ((#) (filename, content)) (getAttachmentData T ds))"

definition setAPIKey :: "tools \<Rightarrow> report_transport" where
  "setAPIKey T = SendGrid (tl_env T ''SENDGRID_API_KEY'')"

definition sendMail_sendGrid ::
    "tools \<Rightarrow> addressee \<Rightarrow> attachment \<Rightarrow> string list js \<Rightarrow> (string \<times> json) list \<Rightarrow> unit work" where
  "sendMail_sendGrid T to attachment cc templateData =
     andThen (mail_html T templateData) (\<lambda>html.
     andThen (report_subject T templateData) (\<lambda>subject.
     andThen (of_sum (getAttachmentData T (attachment_list attachment))) (\<lambda>attachments.
     send_report T (setAPIKey T) \<lparr>rm_from = ''PropaneBros <'' @ interp (tl_env T ''GMAIL_USER'') @ ''>'', rm_to = to,
       rm_cc = cc, rm_subject = subject, rm_html = html, rm_attachments = Some attachments\<rparr>)))"

section \<open>worker/generateReport.mjs\<close>

record worker_data =
  wd_templateName :: "string js"
  wd_templateData :: "(string \<times> json) list"
  wd_pdfName :: "string js"
  wd_user :: "string js option"
  wd_emailTemplateData :: "(string \<times> json) list"
  wd_recipients :: "string list js"
  wd_language :: "string js"
  wd_additionalEmails :: "string list js"

text \<open>\<open>user\<close> is \<open>undefined\<close> or has an e-mail address, which can be \<open>undefined\<close> itself.\<close>

definition items :: "string list js \<Rightarrow> string list" where
  "items v = (case v of Val xs \<Rightarrow> xs | _ \<Rightarrow> [])"

definition user_email :: "worker_data \<Rightarrow> string js work" where
  "user_email W =
     (case wd_user W of
        None \<Rightarrow> throw (type_error (''Cannot read properties of undefined (reading '' @ [CHR 0x27] @ ''email'' @ [CHR 0x27] @ '')''))
      | Some e \<Rightarrow> ret e)"

definition isAttachmentRequired :: "string \<Rightarrow> bool work" where
  "isAttachmentRequired filePath s =
     (Inr (case wk_files s filePath of Some bytes \<Rightarrow> bytes div (1024 * 1024) < 25 | None \<Rightarrow> False), s)"

definition wants_mail :: "worker_data \<Rightarrow> bool" where
  "wants_mail W \<longleftrightarrow> (case wd_user W of Some e \<Rightarrow> truthy e | None \<Rightarrow> False) \<or> items (wd_recipients W) \<noteq> []"

definition send_to :: "worker_data \<Rightarrow> addressee work" where
  "send_to W = (if items (wd_recipients W) \<noteq> [] then ret (Recipients (items (wd_recipients W)))
                else andThen (user_email W) (\<lambda>e. ret (UserEmail e)))"

definition mail_report :: "tools \<Rightarrow> worker_data \<Rightarrow> string \<Rightarrow> bool \<Rightarrow> unit work" where
  "mail_report T W filePath attached =
     (if wants_mail W
      then andThen (send_to W) (\<lambda>to.
           sendMail T to (if attached then Some (interp (wd_pdfName W), filePath) else None)
             (wd_additionalEmails W) ((''isFileAttached'', JBool attached) # wd_emailTemplateData W))
      else ret ())"

definition announce :: "tools \<Rightarrow> worker_data \<Rightarrow> unit work" where
  "announce T W =
     (if tl_parent T
      then andThen (if items (wd_recipients W) \<noteq> [] then ret (js_join '','' (items (wd_recipients W)))
                    else andThen (user_email W) (\<lambda>e. ret (interp e))) (\<lambda>names.
           post T (''Mail sent on: ['' @ names
             @ (if items (wd_additionalEmails W) \<noteq> [] then '', '' @ js_join '','' (items (wd_additionalEmails W))
                else []) @ '']''))
      else ret ())"

text \<open>
  \<open>between\<close> is what the stream has done when the file is looked at; since only promises are awaited
  in between, it is nothing with a Node that opens files on the next tick.
\<close>

definition report_steps :: "tools \<Rightarrow> (worker \<Rightarrow> worker) \<Rightarrow> worker_data \<Rightarrow> unit work" where
  "report_steps T between W =
     andThen (createPdf_worker T (wd_templateName W) (wd_templateData W) (wd_pdfName W) (wd_language W))
       (\<lambda>filePath.
     andThen (\<lambda>s. (Inr (), between s)) (\<lambda>_.
     andThen (isAttachmentRequired filePath) (\<lambda>attached.
     andThen (mail_report T W filePath attached) (\<lambda>_.
     announce T W))))"

definition generateReport :: "tools \<Rightarrow> (worker \<Rightarrow> worker) \<Rightarrow> worker_data \<Rightarrow> unit work" where
  "generateReport T between W = catch (report_steps T between W) (\<lambda>_. ret ())"

section \<open>What the two functions leave behind\<close>

definition report_path :: "tools \<Rightarrow> string js \<Rightarrow> string" where
  "report_path T pdfName =
     path_join [path_join [tl_dirname T, ''..'', ''..'', interp (tl_env T ''REPORT_FOLDER'')], interp pdfName]"

lemma strings_Inr: "strings vs = Inr ss \<Longrightarrow> ss = map interp vs"
proof (induction vs arbitrary: ss)
  case (Cons v vs)
  then show ?case by (cases v; cases "strings vs") auto
qed simp

lemma join_Inr: "join vs s = (Inr p, t) \<Longrightarrow> t = s \<and> p = path_join (map interp vs)"
  using strings_Inr [of vs] by (cases "strings vs") (auto simp: join_def)

lemma info_eq: "info m s = (r, t) \<longleftrightarrow> r = Inr () \<and> t = s\<lparr>wk_log := wk_log s @ [m]\<rparr>"
  by (auto simp: info_def)

lemma post_eq:
  "post T m s = (r, t) \<longleftrightarrow> r = Inr () \<and> t = (if tl_parent T then s\<lparr>wk_messages := wk_messages s @ [m]\<rparr> else s)"
  by (auto simp: post_def)

lemma getReportPath_Inr:
  assumes "getReportPath T pdfName s = (Inr p, t)"
  shows "p = report_path T pdfName \<and> (\<exists>ds. t = s\<lparr>wk_dirs := ds\<rparr>)"
proof -
  from assms obtain folder u where f: "getReportFolderPath T s = (Inr folder, u)"
    and j: "join [Val folder, pdfName] u = (Inr p, t)"
    by (auto simp: getReportPath_def andThen_eq_Inr)
  from join_Inr [OF j] have p: "t = u" "p = path_join [folder, interp pdfName]" by simp_all
  from f obtain dir v where
    "join [Val (tl_dirname T), Val ''..'', Val ''..'', tl_env T ''REPORT_FOLDER''] s = (Inr dir, v)"
    and c: "createDirIfNotExist T dir v = (Inr folder, u)"
    by (auto simp: getReportFolderPath_def andThen_eq_Inr)
  from join_Inr [OF this(1)] c
  have "folder = path_join [tl_dirname T, ''..'', ''..'', interp (tl_env T ''REPORT_FOLDER'')]"
      "\<exists>ds. u = s\<lparr>wk_dirs := ds\<rparr>"
    by (auto simp: createDirIfNotExist_def split: if_split_asm sum.splits intro: exI [of _ "wk_dirs s"])
  with p show ?thesis by (auto simp: report_path_def)
qed


lemma post_Inr:
  assumes "post T m s = (r, t)"
  shows "r = Inr () \<and> (\<exists>ms. t = s\<lparr>wk_messages := ms\<rparr>)"
proof (cases "tl_parent T")
  case True
  with assms show ?thesis by (auto simp: post_def)
next
  case False
  with assms have "r = Inr ()" "t = s\<lparr>wk_messages := wk_messages s\<rparr>" by (simp_all add: post_def)
  then show ?thesis by blast
qed

lemma open_page_Inr:
  "open_page T s = (Inr u, t) \<Longrightarrow> t = s\<lparr>wk_browsers := Suc (wk_browsers s)\<rparr>"
  by (auto simp: open_page_def open_browser_def andThen_eq_Inr of_sum_def)

lemma createPdf_worker_Inr:
  assumes "createPdf_worker T templateName templateData pdfName language s = (Inr p, t)"
  shows "p = report_path T pdfName \<and> wk_files t = wk_files s \<and> wk_mails t = wk_mails s
    \<and> wk_streams t = wk_streams s @ [p] \<and> wk_browsers t = Suc (wk_browsers s) \<and> wk_died t = wk_died s"
  using assms unfolding createPdf_worker_def start_stream_def andThen_eq_Inr of_sum_def
  by (elim exE conjE) (auto dest!: join_Inr getReportPath_Inr open_page_Inr post_Inr)

lemma createPdf_Inr:
  assumes "createPdf T templateName templateData pdfName s = (Inr p, t)"
  shows "p = report_path T pdfName \<and> wk_files t p \<noteq> None \<and> wk_browsers t = wk_browsers s
    \<and> wk_streams t = wk_streams s"
  using assms unfolding createPdf_def write_pdf_def close_browser_def andThen_eq_Inr of_sum_def info_eq
  by (elim exE conjE) (auto dest!: join_Inr getReportPath_Inr open_page_Inr)



section \<open>What is mailed\<close>

lemma sendMail_mails:
  assumes "sendMail T to a cc d s = (r, t)"
  shows "wk_mails t = wk_mails s
     \<or> (\<exists>m. wk_mails t = wk_mails s @ [m] \<and> rm_attachments m = map_option (\<lambda>a. [a]) a)"
  using assms
  by (auto simp: sendMail_def mail_html_def report_subject_def send_report_def join_def andThen_def of_sum_def
      ret_def throw_def split: prod.splits sum.splits js.splits)

lemma send_to_state: "send_to W s = (r, t) \<Longrightarrow> t = s"
  by (auto simp: send_to_def user_email_def andThen_def ret_def throw_def split: if_split_asm option.splits)

lemma mail_report_mails:
  assumes "mail_report T W filePath attached s = (r, t)"
  shows "wk_mails t = wk_mails s
     \<or> (\<exists>m. wk_mails t = wk_mails s @ [m]
          \<and> rm_attachments m = (if attached then Some [(interp (wd_pdfName W), filePath)] else None))"
  using assms unfolding mail_report_def
  by (auto elim!: andThen_cases dest!: send_to_state sendMail_mails split: if_split_asm)

lemma announce_mails: "announce T W s = (r, t) \<Longrightarrow> wk_mails t = wk_mails s"
  unfolding announce_def user_email_def
  by (auto elim!: andThen_cases dest!: post_Inr split: if_split_asm option.splits)

lemma keeps_mails:
  "keeps (\<lambda>s t. wk_mails t = wk_mails s) (createPdf_worker T templateName templateData pdfName language)"
proof -
  let ?R = "\<lambda>s t. wk_mails t = wk_mails s"
  have t: "transp ?R" by (auto intro: transpI)
  have base: "keeps ?R (join vs)" "keeps ?R (of_sum x)" "keeps ?R (post T m)" "keeps ?R (ret p)"
    "keeps ?R (\<lambda>s. (Inr (), s\<lparr>wk_browsers := f s\<rparr>))" "keeps ?R (\<lambda>s. (Inr (), s\<lparr>wk_streams := g s\<rparr>))"
    "keeps ?R (createDirIfNotExist T dir)" for vs x m p f g dir
    by (auto simp: keeps_def join_def post_def createDirIfNotExist_def split: sum.splits)
  show ?thesis
    unfolding createPdf_worker_def start_stream_def getReportPath_def getReportFolderPath_def
      open_page_def open_browser_def
    by (intro keeps_andThen t base)
qed

text \<open>The attachment a report gets: none, unless a file of its name was there before.\<close>

definition earlier_report :: "tools \<Rightarrow> worker_data \<Rightarrow> worker \<Rightarrow> (string \<times> string) list option" where
  "earlier_report T W s =
     (let path = report_path T (wd_pdfName W) in
      case wk_files s path of
        Some bytes \<Rightarrow> if bytes div (1024 * 1024) < 25 then Some [(interp (wd_pdfName W), path)] else None
      | None \<Rightarrow> None)"

lemma report_steps_mails:
  assumes "report_steps T id W s = (r, t)"
  shows "wk_mails t = wk_mails s
     \<or> (\<exists>m. wk_mails t = wk_mails s @ [m] \<and> rm_attachments m = earlier_report T W s)"
proof -
  let ?pdf = "createPdf_worker T (wd_templateName W) (wd_templateData W) (wd_pdfName W) (wd_language W)"
  from assms show ?thesis unfolding report_steps_def
  proof (cases rule: andThen_cases)
    case throws
    with keepsD [OF keeps_mails] show ?thesis by blast
  next
    case (returns path u)
    note pdf = createPdf_worker_Inr [OF returns(1)]
    let ?a = "case wk_files u path of Some bytes \<Rightarrow> bytes div (1024 * 1024) < 25 | None \<Rightarrow> False"
    have a: "earlier_report T W s = (if ?a then Some [(interp (wd_pdfName W), path)] else None)"
      using pdf by (simp add: earlier_report_def Let_def split: option.split)
    from returns(2) have "andThen (mail_report T W path ?a) (\<lambda>_. announce T W) u = (r, t)"
      by (simp add: andThen_def isAttachmentRequired_def)
    then show ?thesis
    proof (cases rule: andThen_cases)
      case throws
      from mail_report_mails [OF throws(1)] pdf a show ?thesis by auto
    next
      case (returns x v)
      from mail_report_mails [OF returns(1)] announce_mails [OF returns(2)] pdf a show ?thesis by auto
    qed
  qed
qed

section \<open>Properties\<close>

text \<open>
  C37. The worker never rejects, whatever fails, and sends at most one mail. Since it looks at the file
  before the stream has opened it, the new report plays no part in the decision to attach it: a mail
  has an attachment exactly when a file of that name and below 25 megabytes was there before.
\<close>

theorem reports_attach_earlier_files:
  "case generateReport T id W s of
     (r, t) \<Rightarrow> r = Inr () \<and> (\<exists>ms. wk_mails t = wk_mails s @ ms \<and> length ms \<le> 1
        \<and> list_all (\<lambda>m. rm_attachments m = earlier_report T W s) ms)"
proof -
  obtain r t where g: "report_steps T id W s = (r, t)" by fastforce
  then have "generateReport T id W s = (Inr (), t)"
    by (cases r) (auto simp: generateReport_def catch_def)
  with report_steps_mails [OF g] show ?thesis by fastforce
qed

definition demo_tools :: tools where
  "demo_tools = \<lparr>tl_dirname = ''/srv/worker/helper'', tl_env = (\<lambda>_. Val ''reports''), tl_parent = True,
     renderFile = (\<lambda>_ _. Inr ''html''), mkdir = (\<lambda>_. Inr ()), launch = (\<lambda>_. Inr ()), newPage = Inr (),
     setDefaultNavigationTimeout = (\<lambda>_. Inr ()), setViewport = (\<lambda>_ _. Inr ()), setContent = (\<lambda>_. Inr ()),
     page_pdf = (\<lambda>_. Inr 7), createPDFStream = (\<lambda>_. Inr ()), browser_close = Inr (), seconds = (\<lambda>_. 1),
     deliver = (\<lambda>_ _. Inr ()), read_base64 = (\<lambda>_. Inr []), to_text = (\<lambda>_. [])\<rparr>"

definition idle_worker :: worker where
  "idle_worker = \<lparr>wk_messages = [], wk_log = [], wk_dirs = {}, wk_files = Map.empty, wk_browsers = 0,
     wk_streams = [], wk_mails = [], wk_died = None\<rparr>"



text \<open>
  What goes wrong: a page that fails leaves its browser open, SendGrid's variant cannot do without
  an attachment, and a user without an address is announced as mailed.
\<close>

definition demo_data :: worker_data where
  "demo_data = \<lparr>wd_templateName = Val ''a.ejs'', wd_templateData = [], wd_pdfName = Val ''r.pdf'',
     wd_user = Some Undef, wd_emailTemplateData = [], wd_recipients = Undef, wd_language = Val ''english'',
     wd_additionalEmails = Undef\<rparr>"

lemma failed_page_leaks:
  "let (r, t) = createPdf (demo_tools\<lparr>setContent := \<lambda>_. Inl NullExn\<rparr>) (Val ''a.ejs'') [] (Val ''r.pdf'') idle_worker
   in r = Inl NullExn \<and> wk_browsers t = 1"
  by code_simp

lemma sendGrid_needs_attachment:
  "let (r, t) = sendMail_sendGrid demo_tools (UserEmail (Val ''a@b.c'')) NoAttachment Undef [] idle_worker
   in isl r \<and> wk_mails t = []"
  by code_simp

lemma unmailed_announced:
  "let (r, t) = generateReport demo_tools id demo_data idle_worker
   in wk_mails t = [] \<and> last (wk_messages t) = ''Mail sent on: [undefined]''"
  by code_simp



end
