(* ===== verification/TestDatabase.thy ===== *)
theory TestDatabase
  imports ConnectionString Paths
begin

text \<open>
  The test set-up: jest/helper.mjs, jest/setup.mjs and jest/teardown.mjs. PostgreSQL with TypeORM's
  connections to it is a parameter on a state of its own; the console is part of the state.
\<close>

section \<open>The server of databases\<close>


text \<open>An error of the server has a code, one of the code itself has none.\<close>

datatype db_error = ServerError string | PlainError string







section \<open>jest/helper.mjs\<close>

text \<open>\<open>parse\<close> is a copy of the one in src/utils; \<open>getEnv\<close> has one variable, with a default.\<close>

definition helper_parse :: "string \<Rightarrow> db_error + database_config" where
  "helper_parse connectionStr = map_sum PlainError id (parse connectionStr)"

definition getEnv :: "(string \<Rightarrow> bool) \<Rightarrow> string option \<Rightarrow> string option" where
  "getEnv is_url raw =
     (case raw of None \<Rightarrow> Some ''test'' | Some url \<Rightarrow> if is_url url then Some url else None)"

definition buildTestDbUrl :: "string \<Rightarrow> string \<Rightarrow> db_error + string" where
  "buildTestDbUrl dbUrl dbName =
     map_sum id (\<lambda>d. interp (d_dialect d) @ ''://'' @ dbName @ '':'' @ interp (d_password d) @ ''@''
        @ interp (d_host d) @ '':'' @ interp (d_port d) @ ''/'' @ dbName) (helper_parse dbUrl)"

section \<open>jest/setup.mjs\<close>









section \<open>jest/teardown.mjs\<close>





section \<open>What the scripts rely on\<close>




section \<open>A server in the small\<close>

















section \<open>The test database comes and goes\<close>











end
