(* ===== verification/Spec2Isabelle.thy ===== *)
theory Spec2Isabelle
  imports AuthProps ServerProps UserProps Templates Cache ConnectionString Environment Upload
    Response Startup Services Enums Application Reports TestDatabase
begin

text \<open>
  A model of the TypeScript server under src/ (Express, TypeORM on MySQL, JSON web tokens), with the
  theorems that say what it does.

  \<^bold>\<open>The program.\<close> src/server.ts connects the database and listens; src/app.ts sends a request through
  the routers of src/route to a chain of middleware (src/middleware) and then to a handler
  (src/controller), which uses the repositories, the entities and the services (src/repository,
  src/model, src/service). An error travels by \<open>next\<close> to the error handler at the end of src/app.ts.
  Around this stand the configuration (src/config.ts, src/config), the mail templates
  (src/database/seed) and helpers (src/utils). Beside it stand a worker that makes reports (worker) and
  the scripts that set up a test database (jest).

  \<^bold>\<open>How it is modelled.\<close> An async function is a state transformer on \<open>world\<close> (the database, the clock,
  the supply of random values, the log and the mails under way) that throws or returns
  (\<open>Prelude.io\<close>, \<open>Model.async\<close>); \<open>await\<close> is \<open>andThen\<close>, \<open>try\<close> is \<open>catch\<close>. \<open>undefined\<close>, \<open>null\<close> and
  values are told apart (\<open>'a js\<close>). Packages are parameters: the records \<open>orm\<close> and \<open>env\<close> hold the
  operations of TypeORM, bcryptjs, jsonwebtoken, cookie, rand-token, Joi and express-rate-limit that
  the code calls. What a theorem needs of them it names as a locale: \<open>user_store\<close> (TypeORM over rows),
  \<open>jsonwebtoken\<close>, \<open>bcryptjs\<close>, \<open>joi_validation\<close>, \<open>envalid\<close>, \<open>lodash\<close>, \<open>body_packages\<close>,
  \<open>postgres_server\<close>. Reference interprets them on an
  executable instance, so that the witnesses evaluate whole handlers.

  \<^bold>\<open>Theories.\<close>
  \<^item> Prelude: JavaScript values, strings and async functions. Strings: replacing and cutting. Paths: node's
    join and resolve.
  \<^item> Errors: src/error/index.ts and the error handler. Constants, Enums: src/constants.ts,
    src/api-message-constants.ts, src/utils/queryBuilderConstants.ts.
  \<^item> Model: src/model, src/repository and the interface of the packages. Store: the laws of TypeORM.
  \<^item> TokenService: src/service/token.ts, password.ts. Validation: every validation schema, and Joi's laws.
  \<^item> Middleware, Access: src/middleware and src/utils/cookie.ts; the contract \<open>guard\<close> that the deciding
    middlewares share, interpreted on all four.
  \<^item> AuthController, UsersController, ContactController, PasswordServices: src/controller,
    src/service/ForgetPasswordService.ts and UpdatePasswordService.ts, one definition per handler, with
    named parts where a handler is long.
  \<^item> Routes: src/route, src/middleware/limit-api-call.ts and the routing part of src/app.ts;
    \<open>serve\<close> is a whole request. Application: all layers of src/app.ts around it.
  \<^item> Mail, Templates: src/service/Mail.ts and src/database/seed/table/htmlTemplate.
  \<^item> Environment: src/config.ts. Startup: the connections, src/database/index.ts and src/server.ts.
  \<^item> Upload: src/config/upload.ts, src/middleware/upload.ts, random names. Cache, ConnectionString,
    Response: the modules of src/utils of these purposes. Services: logging, push messages, the cron
    job, files, object stores and the seed.
  \<^item> Reports: src/utils/createPdf.ts and the scripts in worker, with the events of the streams that go on
    after the code has returned. TestDatabase: the scripts in jest over a server of databases.
  \<^item> AuthFacts, AccountFacts, RouteFacts, ServerFacts, UserFacts: the lemmas that carry the properties.

  \<^bold>\<open>What is shown.\<close> AuthProps: who passes \<open>authenticate\<close>; what sign-up, login and refresh have done
  when they answer. ServerProps: over whole requests and sequences of them, accounts stay unique and
  every request refines an abstract step on the accounts; effects need an accepted token except on six
  public paths; the routers, which are mounted inside themselves, against a first-match search; which
  requests are not answered. UserProps: passwords, profiles, new accounts, pages and contact requests,
  with several theorems that show what the code must not do but does. The other theories close
  with their own: mails against their templates, the enumeration of cache keys, the regular expression
  of connection strings against a direct reading, the round trip of URLs, the types and bounds of the
  configuration, contained upload keys, conserved sums, the life of the process, the end of the loop over
  combinations, the scrubbing of log lines, which reports are attached and which browsers are closed,
  the uploads that are refused, the round trip of the test database.

  \<^bold>\<open>Bounds.\<close> \<open>depth\<close> in \<open>run_router\<close> is how often a router mounted inside itself is entered before the
  stack overflows; the theorems hold for every depth, so no value has to be enough. The matcher of
  ConnectionString backtracks on a list of possible rests and needs no fuel. Shifts in Cache are on
  32-bit words. Numbers of requests and of the configuration are integers; strings hold code units up
  to U+00FF.

  \<^bold>\<open>Not modelled.\<close> src/utils/crypto.ts and compare-dates.ts (one call of a package each, with
  its arguments passed through), src/@types (no code). What the middlewares of packages in src/app.ts
  (helmet, compression, cors, body parsing, static files) do to a request is a parameter of
  Application; Sentry, which only reports errors, is left out. Time inside a request does not pass, so the
  timeout of src/app.ts acts only on requests that nothing answers. Requests run one after another;
  ServerProps interleaves two sign-ups explicitly. The literal credentials in src/config/upload.ts are
  not repeated.
\<close>

end
